(* ===== verification/Prelude.thy ===== *)
theory Prelude
  imports Complex_Main "HOL-Library.AList"
begin

text \<open>
  The vocabulary every other theory uses.  An asynchronous method of the TypeScript code is
  modelled as an \<^emph>\<open>action\<close>: a function from the state to a result (\<open>Inl\<close> of the exception the
  promise rejects with, or \<open>Inr\<close> of the value it resolves to) and the new state.  The
  combinators below are the statements of the source: \<open>ret\<close> is \<open>return x\<close>, \<open>raise\<close> is
  \<open>throw e\<close>, \<open>andThen\<close> is \<open>await\<close> followed by the rest of the method, \<open>tryElse m h k\<close> is
  \<open>try { x = await m } catch (e) { h e; return; } k x\<close> (the early-return idiom of every handler
  of the aggregate), \<open>forEach\<close> is a \<open>for ... of\<close> loop that a throw leaves.

  \<open>wp m Q s\<close> says that running \<open>m\<close> in \<open>s\<close> ends with a result and a state satisfying \<open>Q\<close>.
  The equations \<open>wp_simps\<close> compute it; \<open>keeps I m\<close> (\<open>m\<close> preserves the state predicate \<open>I\<close>,
  whether it returns or throws) has the introduction rules \<open>keeps_intros\<close>, one per combinator,
  so that preservation by a handler is a syntax-directed proof.
\<close>

named_theorems wp_simps \<open>equations that compute weakest preconditions of actions\<close>
named_theorems keeps_intros \<open>rules that decompose the preservation of a state predicate\<close>

type_synonym ('e, 's, 'a) action = "'s \<Rightarrow> ('e + 'a) \<times> 's"

section \<open>Statements\<close>

definition ret :: "'a \<Rightarrow> ('e, 's, 'a) action" where
  "ret x = (\<lambda>s. (Inr x, s))"

definition raise :: "'e \<Rightarrow> ('e, 's, 'a) action" where
  "raise e = (\<lambda>s. (Inl e, s))"

definition andThen :: "('e, 's, 'a) action \<Rightarrow> ('a \<Rightarrow> ('e, 's, 'b) action) \<Rightarrow> ('e, 's, 'b) action" where
  "andThen m k = (\<lambda>s. case m s of (Inl e, s') \<Rightarrow> (Inl e, s') | (Inr x, s') \<Rightarrow> k x s')"

definition tryElse :: "('e, 's, 'a) action \<Rightarrow> ('e \<Rightarrow> ('e, 's, 'b) action) \<Rightarrow>
    ('a \<Rightarrow> ('e, 's, 'b) action) \<Rightarrow> ('e, 's, 'b) action" where
  "tryElse m h k = (\<lambda>s. case m s of (Inl e, s') \<Rightarrow> h e s' | (Inr x, s') \<Rightarrow> k x s')"

definition reads :: "('s \<Rightarrow> 'a) \<Rightarrow> ('e, 's, 'a) action" where
  "reads f = (\<lambda>s. (Inr (f s), s))"

definition modify :: "('s \<Rightarrow> 's) \<Rightarrow> ('e, 's, unit) action" where
  "modify f = (\<lambda>s. (Inr (), f s))"

primrec forEach :: "'a list \<Rightarrow> ('a \<Rightarrow> ('e, 's, unit) action) \<Rightarrow> ('e, 's, unit) action" where
  "forEach [] f = ret ()"
| "forEach (x # xs) f = andThen (f x) (\<lambda>_. forEach xs f)"

text \<open>Running a closed sequence of statements.\<close>

lemmas run_simps = ret_def raise_def andThen_def tryElse_def reads_def modify_def

section \<open>Weakest preconditions\<close>

definition wp :: "('e, 's, 'a) action \<Rightarrow> ('e + 'a \<Rightarrow> 's \<Rightarrow> bool) \<Rightarrow> 's \<Rightarrow> bool" where
  "wp m Q s = (case m s of (r, s') \<Rightarrow> Q r s')"

lemma wp_ret [wp_simps]: "wp (ret x) Q s = Q (Inr x) s"
  by (simp add: wp_def ret_def)

lemma wp_raise [wp_simps]: "wp (raise e) Q s = Q (Inl e) s"
  by (simp add: wp_def raise_def)

lemma wp_reads [wp_simps]: "wp (reads f) Q s = Q (Inr (f s)) s"
  by (simp add: wp_def reads_def)

lemma wp_modify [wp_simps]: "wp (modify f) Q s = Q (Inr ()) (f s)"
  by (simp add: wp_def modify_def)

lemma wp_andThen [wp_simps]:
  "wp (andThen m k) Q s =
     wp m (\<lambda>r s'. case r of Inl e \<Rightarrow> Q (Inl e) s' | Inr x \<Rightarrow> wp (k x) Q s') s"
  by (auto simp: wp_def andThen_def split: prod.splits sum.splits)

lemma wp_tryElse [wp_simps]:
  "wp (tryElse m h k) Q s =
     wp m (\<lambda>r s'. case r of Inl e \<Rightarrow> wp (h e) Q s' | Inr x \<Rightarrow> wp (k x) Q s') s"
  by (auto simp: wp_def tryElse_def split: prod.splits sum.splits)

lemma wp_if [wp_simps]: "wp (if b then m else n) Q s = (if b then wp m Q s else wp n Q s)"
  by simp

lemma wp_mono:
  assumes "wp m Q s" and "\<And>r s'. Q r s' \<Longrightarrow> R r s'"
  shows "wp m R s"
  using assms by (auto simp: wp_def split: prod.splits)

lemma wp_conj: "wp m Q s \<Longrightarrow> wp m R s \<Longrightarrow> wp m (\<lambda>r s'. Q r s' \<and> R r s') s"
  by (auto simp: wp_def split: prod.splits)

lemma wp_run: "wp m Q s \<Longrightarrow> m s = (r, s') \<Longrightarrow> Q r s'"
  by (simp add: wp_def)

lemma wp_snd: "wp m (\<lambda>_ s'. P s') s \<longleftrightarrow> P (snd (m s))"
  by (simp add: wp_def split: prod.splits)

lemma wp_unfold: "wp m Q s \<longleftrightarrow> Q (fst (m s)) (snd (m s))"
  by (simp add: wp_def split: prod.splits)

lemma wp_andThen_I:
  assumes "wp m R s"
    and "\<And>e s'. R (Inl e) s' \<Longrightarrow> Q (Inl e) s'"
    and "\<And>x s'. R (Inr x) s' \<Longrightarrow> wp (k x) Q s'"
  shows "wp (andThen m k) Q s"
  unfolding wp_andThen
proof (rule wp_mono [OF assms(1)])
  fix r s' assume "R r s'"
  then show "case r of Inl e \<Rightarrow> Q (Inl e) s' | Inr x \<Rightarrow> wp (k x) Q s'"
    using assms(2,3) by (cases r) simp_all
qed

lemma wp_tryElse_I:
  assumes "wp m R s"
    and "\<And>e s'. R (Inl e) s' \<Longrightarrow> wp (h e) Q s'"
    and "\<And>x s'. R (Inr x) s' \<Longrightarrow> wp (k x) Q s'"
  shows "wp (tryElse m h k) Q s"
  unfolding wp_tryElse
proof (rule wp_mono [OF assms(1)])
  fix r s' assume "R r s'"
  then show "case r of Inl e \<Rightarrow> wp (h e) Q s' | Inr x \<Rightarrow> wp (k x) Q s'"
    using assms(2,3) by (cases r) simp_all
qed

section \<open>Preservation of a state predicate\<close>

definition keeps :: "('s \<Rightarrow> bool) \<Rightarrow> ('e, 's, 'a) action \<Rightarrow> bool" where
  "keeps I m \<longleftrightarrow> (\<forall>s. I s \<longrightarrow> wp m (\<lambda>_ s'. I s') s)"

lemma keepsI: "(\<And>s. I s \<Longrightarrow> wp m (\<lambda>_ s'. I s') s) \<Longrightarrow> keeps I m"
  by (simp add: keeps_def)

lemma keepsD: "keeps I m \<Longrightarrow> I s \<Longrightarrow> wp m (\<lambda>_ s'. I s') s"
  by (simp add: keeps_def)

lemma keeps_run: "keeps I m \<Longrightarrow> I s \<Longrightarrow> m s = (r, s') \<Longrightarrow> I s'"
  by (auto simp: keeps_def wp_def)

lemma keeps_snd: "keeps I m \<Longrightarrow> I s \<Longrightarrow> I (snd (m s))"
  by (rule keeps_run [of I m s "fst (m s)"]) simp_all

lemma keeps_ret [keeps_intros]: "keeps I (ret x)"
  by (simp add: keeps_def wp_simps)

lemma keeps_raise [keeps_intros]: "keeps I (raise e)"
  by (simp add: keeps_def wp_simps)

lemma keeps_reads [keeps_intros]: "keeps I (reads f)"
  by (simp add: keeps_def wp_simps)

lemma keeps_modify: "(\<And>s. I s \<Longrightarrow> I (f s)) \<Longrightarrow> keeps I (modify f)"
  by (simp add: keeps_def wp_simps)

lemma keeps_andThen [keeps_intros]:
  assumes "keeps I m" and "\<And>x. keeps I (k x)"
  shows "keeps I (andThen m k)"
proof (rule keepsI, rule wp_andThen_I)
  fix s assume "I s"
  then show "wp m (\<lambda>_ s'. I s') s" by (rule keepsD [OF assms(1)])
qed (auto dest: keepsD [OF assms(2)])

lemma keeps_tryElse [keeps_intros]:
  assumes "keeps I m" and "\<And>e. keeps I (h e)" and "\<And>x. keeps I (k x)"
  shows "keeps I (tryElse m h k)"
proof (rule keepsI, rule wp_tryElse_I)
  fix s assume "I s"
  then show "wp m (\<lambda>_ s'. I s') s" by (rule keepsD [OF assms(1)])
qed (auto dest: keepsD [OF assms(2)] keepsD [OF assms(3)])

lemma keeps_if [keeps_intros]: "(b \<Longrightarrow> keeps I m) \<Longrightarrow> (\<not> b \<Longrightarrow> keeps I n) \<Longrightarrow> keeps I (if b then m else n)"
  by simp

lemma keeps_option [keeps_intros]:
  "(v = None \<Longrightarrow> keeps I m) \<Longrightarrow> (\<And>x. v = Some x \<Longrightarrow> keeps I (k x)) \<Longrightarrow>
   keeps I (case v of None \<Rightarrow> m | Some x \<Rightarrow> k x)"
  by (cases v) auto

lemma keeps_prod [keeps_intros]:
  "(\<And>x y. keeps I (k x y)) \<Longrightarrow> keeps I (case v of (x, y) \<Rightarrow> k x y)"
  by (cases v) auto

lemma keeps_sum [keeps_intros]:
  "(\<And>x. keeps I (h x)) \<Longrightarrow> (\<And>y. keeps I (k y)) \<Longrightarrow> keeps I (case v of Inl x \<Rightarrow> h x | Inr y \<Rightarrow> k y)"
  by (cases v) auto

lemma keeps_forEach [keeps_intros]:
  assumes "\<And>x. x \<in> set xs \<Longrightarrow> keeps I (f x)"
  shows "keeps I (forEach xs f)"
  using assms by (induction xs) (simp_all add: keeps_ret keeps_andThen)

lemma keeps_conj: "keeps I m \<Longrightarrow> keeps J m \<Longrightarrow> keeps (\<lambda>s. I s \<and> J s) m"
  by (auto simp: keeps_def intro!: wp_conj)

section \<open>JavaScript maps\<close>

text \<open>
  A \<open>Map\<close> of the code iterates in insertion order; overwriting a key keeps its place.  It is
  an association list; \<open>map_of\<close> is \<open>get\<close> and \<open>AList.update\<close> is \<open>set\<close> (which replaces in place
  or appends).  The contract the caches rely on is stated once as a locale.
\<close>

locale keyed_map =
  fixes get :: "'m \<Rightarrow> 'k \<Rightarrow> 'v option"
    and put :: "'k \<Rightarrow> 'v \<Rightarrow> 'm \<Rightarrow> 'm"
    and entries :: "'m \<Rightarrow> ('k \<times> 'v) list"
    and empty :: 'm
  assumes get_put: "get (put k v m) k' = (if k' = k then Some v else get m k')"
    and get_entries: "get m k = map_of (entries m) k"
    and distinct_put: "distinct (map fst (entries m)) \<Longrightarrow> distinct (map fst (entries (put k v m)))"
    and entries_put_new: "get m k = None \<Longrightarrow> entries (put k v m) = entries m @ [(k, v)]"
    and entries_empty: "entries empty = []"
begin

lemma get_empty: "get empty k = None"
  by (simp add: get_entries entries_empty)

lemma get_put_same [simp]: "get (put k v m) k = Some v"
  by (simp add: get_put)

lemma get_put_other: "k' \<noteq> k \<Longrightarrow> get (put k v m) k' = get m k'"
  by (simp add: get_put)

lemma put_preserves_pred:
  assumes "\<And>k v. get m k = Some v \<Longrightarrow> P k v" and "P k0 v0"
    and "get (put k0 v0 m) k = Some v"
  shows "P k v"
  using assms by (auto simp: get_put split: if_splits)

end

interpretation js_map: keyed_map map_of AList.update "\<lambda>m. m" "[]"
proof (unfold_locales, goal_cases)
  case (1 k v m k')
  show ?case by (simp add: update_conv')
next
  case 2
  show ?case ..
next
  case (3 m k v)
  then show ?case by (rule distinct_update)
next
  case (4 m k v)
  then show ?case by (induction m) (auto split: if_splits)
next
  case 5
  show ?case ..
qed

text \<open>The truthiness of a string that may be \<open>null\<close> or \<open>undefined\<close>.\<close>

definition truthy :: "string option \<Rightarrow> bool" where
  "truthy s \<longleftrightarrow> s \<noteq> None \<and> s \<noteq> Some ''''"

lemma truthy_simps [simp]:
  "\<not> truthy None"
  "truthy (Some s) \<longleftrightarrow> s \<noteq> ''''"
  by (simp_all add: truthy_def)

end
