(* ===== verification/Json.thy ===== *)
theory Json
  imports Prelude
begin

text \<open>
  The protocol-specific opaque state that messages and transfers carry (\<open>any | null\<close> in the
  types, a parsed JSON value in practice), and \<open>deepMerge\<close> of \<open>packages/domain-lib/src/utils.ts\<close>,
  which folds the payee's opaque state into the one stored with the transfer.

  A plain object is the list of its own properties in insertion order; an array is the list of
  its index properties (\<open>''0''\<close>, \<open>''1''\<close>, ...), which is how \<open>Object.keys\<close> and \<open>target[key]\<close> see
  it (the code assigns no \<open>length\<close>).  \<open>undefined\<close> is a value of its own because a command built
  by the bulk handlers leaves the field unset.
\<close>

datatype json =
    JUndefined
  | JNull
  | JBool bool
  | JNum rat
  | JStr string
  | JArr "(string \<times> json) list"
  | JObj "(string \<times> json) list"

text \<open>JavaScript truthiness.\<close>

fun json_truthy :: "json \<Rightarrow> bool" where
  "json_truthy JUndefined = False"
| "json_truthy JNull = False"
| "json_truthy (JBool b) = b"
| "json_truthy (JNum q) = (q \<noteq> 0)"
| "json_truthy (JStr s) = (s \<noteq> '''')"
| "json_truthy (JArr _) = True"
| "json_truthy (JObj _) = True"

text \<open>\<open>v instanceof Object\<close> for a parsed value.\<close>

fun is_object :: "json \<Rightarrow> bool" where
  "is_object (JArr _) = True"
| "is_object (JObj _) = True"
| "is_object _ = False"

fun props :: "json \<Rightarrow> (string \<times> json) list" where
  "props (JArr ps) = ps"
| "props (JObj ps) = ps"
| "props _ = []"

fun set_props :: "json \<Rightarrow> (string \<times> json) list \<Rightarrow> json" where
  "set_props (JArr _) ps = JArr ps"
| "set_props (JObj _) ps = JObj ps"
| "set_props v _ = v"

text \<open>
  \<open>target[key] = v\<close>.  On a primitive, \<open>null\<close> or \<open>undefined\<close> the assignment throws a
  \<open>TypeError\<close> (the modules are compiled in strict mode), so it is only used on objects.
\<close>

definition assign :: "json \<Rightarrow> string \<Rightarrow> json \<Rightarrow> json" where
  "assign t k v = set_props t (AList.update k v (props t))"

text \<open>The two keys \<open>deepMerge\<close> never copies (prototype pollution guard).\<close>

definition blocked_key :: "string \<Rightarrow> bool" where
  "blocked_key k \<longleftrightarrow> k = ''__proto__'' \<or> k = ''constructor''"

text \<open>The decimal text of a number.\<close>

fun decimal_rev :: "nat \<Rightarrow> string" where
  "decimal_rev n = (if n < 10 then [char_of (48 + n)] else char_of (48 + n mod 10) # decimal_rev (n div 10))"

declare decimal_rev.simps [simp del]

definition decimal :: "nat \<Rightarrow> string" where
  "decimal n = rev (decimal_rev n)"

definition int_string :: "int \<Rightarrow> string" where
  "int_string i = (if i < 0 then CHR ''-'' # decimal (nat (- i)) else decimal (nat i))"

text \<open>
  \<open>JSON.stringify\<close> of an object whose values are strings and (integer) numbers: property names
  and strings are quoted, with the escapes of the JSON grammar.
\<close>

definition hex_digit :: "nat \<Rightarrow> char" where
  "hex_digit n = (if n < 10 then char_of (48 + n) else char_of (87 + n))"

definition json_escape :: "char \<Rightarrow> string" where
  "json_escape c =
     (let n = (of_char c :: nat); bs = CHR 0x5C in
      if n = 0x22 then [bs, CHR 0x22]
      else if n = 0x5C then [bs, bs]
      else if n = 0x08 then [bs, CHR ''b'']
      else if n = 0x09 then [bs, CHR ''t'']
      else if n = 0x0A then [bs, CHR ''n'']
      else if n = 0x0C then [bs, CHR ''f'']
      else if n = 0x0D then [bs, CHR ''r'']
      else if n < 0x20 then [bs, CHR ''u'', CHR ''0'', CHR ''0'', hex_digit (n div 16), hex_digit (n mod 16)]
      else [c])"

definition json_quote :: "string \<Rightarrow> string" where
  "json_quote s = CHR 0x22 # concat (map json_escape s) @ [CHR 0x22]"

fun stringify_value :: "string + int \<Rightarrow> string" where
  "stringify_value (Inl s) = json_quote s"
| "stringify_value (Inr i) = int_string i"

fun stringify_props :: "(string \<times> (string + int)) list \<Rightarrow> string" where
  "stringify_props [] = ''''"
| "stringify_props [(k, v)] = json_quote k @ '':'' @ stringify_value v"
| "stringify_props ((k, v) # p # ps) = json_quote k @ '':'' @ stringify_value v @ '','' @ stringify_props (p # ps)"

definition stringify_flat :: "(string \<times> (string + int)) list \<Rightarrow> string" where
  "stringify_flat ps = ''{'' @ stringify_props ps @ ''}''"

text \<open>The own properties of a string: one per character, keyed by its index.\<close>

definition string_props :: "string \<Rightarrow> (string \<times> json) list" where
  "string_props s = map (\<lambda>(i, c). (decimal i, JStr [c])) (enumerate 0 s)"

fun assign_all :: "json \<Rightarrow> (string \<times> json) list \<Rightarrow> json + json" where
  "assign_all t [] = Inr t"
| "assign_all t ((k, v) # ps) = (if is_object t then assign_all (assign t k v) ps else Inl t)"

text \<open>
  \<open>deepMerge(target, source)\<close> mutates \<open>target\<close> and returns it: \<open>Inr t\<close> is the merged target, \<open>Inl t\<close>
  a thrown \<open>TypeError\<close> together with the target as far as it had been mutated.  \<open>merge_props\<close> is
  the \<open>forEach\<close> over \<open>Object.keys(source)\<close>: \<open>Object.keys\<close> of \<open>null\<close> or \<open>undefined\<close> throws, of a
  number or boolean is empty, of a string gives its indices.
\<close>

function (sequential) deepMerge :: "json \<Rightarrow> json \<Rightarrow> json + json"
  and merge_props :: "json \<Rightarrow> (string \<times> json) list \<Rightarrow> json + json" where
  "deepMerge t (JObj ps) = merge_props t ps"
| "deepMerge t (JArr ps) = merge_props t ps"
| "deepMerge t (JStr s) = assign_all t (string_props s)"
| "deepMerge t (JBool _) = Inr t"
| "deepMerge t (JNum _) = Inr t"
| "deepMerge t JNull = Inl t"
| "deepMerge t JUndefined = Inl t"
| "merge_props t [] = Inr t"
| "merge_props t ((k, v) # ps) =
     (if blocked_key k then merge_props t ps
      else if \<not> is_object t then Inl t
      else case map_of (props t) k of
          Some tv \<Rightarrow>
            if is_object v
            then (case deepMerge tv v of
                    Inl v' \<Rightarrow> Inl (assign t k v')
                  | Inr v' \<Rightarrow> merge_props (assign t k v') ps)
            else merge_props (assign t k v) ps
        | None \<Rightarrow> merge_props (assign t k v) ps)"
  by pat_completeness auto
termination
  by (relation "measure (case_sum (\<lambda>(t, v). 2 * size v) (\<lambda>(t, ps). Suc (2 * size_list (size_prod (\<lambda>_. 0) size) ps)))")
     auto

end
