(* ===== verification/Types.thy ===== *)
theory Types
  imports Json
begin

text \<open>
  The data of the program: the enums and interfaces of \<open>packages/public-types-lib\<close>, the
  entities, errors and commands of \<open>packages/domain-lib\<close>, and the shapes of the messages the
  aggregate exchanges with other services (the events it constructs, the high-level requests it
  sends to Accounts & Balances, the participants it reads).  Field names are the source's, with a
  short prefix where two interfaces share a name.  \<open>null\<close> and \<open>undefined\<close> are \<open>None\<close>; JavaScript
  numbers that hold timestamps are \<open>int\<close>.
\<close>

section \<open>Enums\<close>

datatype TransferState = RECEIVED | RESERVED | COMMITTED | ABORTED

datatype BulkTransferState =
  BULK_RECEIVED | BULK_PENDING | BULK_ACCEPTED | BULK_PROCESSING | BULK_COMPLETED | BULK_REJECTED

datatype AccountType = HUB | POSITION | SETTLEMENT

fun accountTypeValue :: "AccountType \<Rightarrow> string" where
  "accountTypeValue HUB = ''HUB_RECONCILIATION''"
| "accountTypeValue POSITION = ''POSITION''"
| "accountTypeValue SETTLEMENT = ''SETTLEMENT''"

datatype error_code =
    COMMAND_TYPE_UNKNOWN
  | UNABLE_TO_GET_TRANSFER
  | UNABLE_TO_ADD_TRANSFER
  | UNABLE_TO_UPDATE_TRANSFER
  | UNABLE_TO_CANCEL_TRANSFER_RESERVATION
  | UNABLE_TO_CANCEL_TRANSFER_RESERVATION_AND_COMMIT
  | TRANSFER_NOT_FOUND
  | TRANSFER_EXPIRED
  | TRANSFER_LIQUIDITY_CHECK_FAILED
  | TRANSFER_REJECTED_BY_PAYEE
  | UNABLE_TO_GET_TRANSFER_SETTLEMENT_MODEL
  | UNABLE_TO_CREATE_TRANSFER_REMINDER
  | HUB_NOT_FOUND
  | HUB_PARTICIPANT_ID_MISMATCH
  | HUB_PARTICIPANT_NOT_APPROVED
  | HUB_PARTICIPANT_NOT_ACTIVE
  | PAYER_PARTICIPANT_NOT_FOUND
  | PAYER_PARTICIPANT_ID_MISMATCH
  | PAYER_PARTICIPANT_NOT_APPROVED
  | PAYER_PARTICIPANT_NOT_ACTIVE
  | PAYEE_PARTICIPANT_NOT_FOUND
  | PAYEE_PARTICIPANT_ID_MISMATCH
  | PAYEE_PARTICIPANT_NOT_APPROVED
  | PAYEE_PARTICIPANT_NOT_ACTIVE
  | HUB_ACCOUNT_NOT_FOUND
  | PAYER_POSITION_ACCOUNT_NOT_FOUND
  | PAYER_LIQUIDITY_ACCOUNT_NOT_FOUND
  | PAYEE_POSITION_ACCOUNT_NOT_FOUND
  | PAYEE_LIQUIDITY_ACCOUNT_NOT_FOUND
  | BULK_TRANSFERS_NO_ITEMS
  | UNABLE_TO_GET_BULK_TRANSFER
  | BULK_TRANSFER_NOT_FOUND
  | UNABLE_TO_GET_TRANSFERS_FROM_BULK_TRANSFER
  | UNABLE_TO_ADD_BULK_TRANSFER
  | UNABLE_TO_DELETE_TRANSFER_REMINDER
  | UNABLE_TO_VALIDATE_TRANSFER_FULFILMENT

section \<open>Errors\<close>

text \<open>
  The error classes of \<open>packages/domain-lib/src/errors.ts\<close> (the message is only logged, so it is
  left out), a JavaScript \<open>TypeError\<close>, and any other error an adapter rejects with.
\<close>

datatype exn =
    TransferNotFoundError
  | CheckLiquidityAndReserveFailedError
  | UnableToCancelTransferError
  | HubAccountNotFoundError
  | PayerPositionAccountNotFoundError
  | PayerLiquidityAccountNotFoundError
  | PayeePositionAccountNotFoundError
  | PayeeLiquidityAccountNotFoundError
  | InvalidMessagePayloadError
  | InvalidMessageTypeError
  | HubNotFoundError
  | HubParticipantIdMismatchError
  | HubParticipantNotApprovedError
  | HubParticipantNotActiveError
  | PayerParticipantNotFoundError
  | PayerParticipantIdMismatchError
  | PayerParticipantNotApprovedError
  | PayerParticipantNotActiveError
  | PayeeParticipantNotFoundError
  | PayeeParticipantIdMismatchError
  | PayeeParticipantNotApprovedError
  | PayeeParticipantNotActiveError
  | RequiredParticipantIsNotActive
  | TypeError
  | OtherError string

section \<open>Transfers\<close>

type_synonym extensions = "(string \<times> string) list"

record error_information =
  ei_errorCode :: string
  ei_errorDescription :: string
  ei_extensions :: extensions

text \<open>
  The code stores an error code name in \<open>Transfer.errorCode\<close>, but \<open>MongoTransfersRepo\<close> reads
  the \<open>errorInformation\<close> object back into it, and \<open>_rejectBulkTransfer\<close> passes it on as an
  \<open>IErrorInformation\<close>: the field holds either.
\<close>

datatype error_value = ErrName error_code | ErrInfo error_information

record transfer =
  createdAt :: int
  updatedAt :: int
  transferId :: string
  bulkTransferId :: "string option"
  payeeFspId :: string
  payerFspId :: string
  amount :: string
  currencyCode :: string
  expirationTimestamp :: int
  transferState :: TransferState
  completedTimestamp :: "int option"
  errorCode :: "error_value option"
  errorInformation :: "error_information option"
  settlementModel :: string
  hash :: string
  payerIdType :: string
  payeeIdType :: string
  transferType :: string
  transferExtensions :: extensions
  transferProtocolType :: "string option"
  transferOpaqueState :: json

record individual_transfer =
  it_transferId :: string
  it_currency :: string
  it_amount :: string
  it_payerIdType :: string
  it_payeeIdType :: string
  it_transferType :: string
  it_extensions :: extensions

record bulk_transfer =
  bt_createdAt :: int
  bt_updatedAt :: int
  bt_bulkTransferId :: string
  bt_bulkQuoteId :: string
  bt_payeeFsp :: string
  bt_payerFsp :: string
  bt_completedTimestamp :: "int option"
  bt_individualTransfers :: "individual_transfer list"
  bt_expiration :: int
  bt_transfersPreparedProcessedIds :: "string list"
  bt_transfersNotProcessedIds :: "string list"
  bt_transfersFulfiledProcessedIds :: "string list"
  bt_status :: BulkTransferState
  bt_errorCode :: "error_value option"
  bt_protocolType :: "string option"
  bt_opaqueState :: json

section \<open>Commands\<close>

record prepare_payload =
  prep_bulkTransferId :: "string option"
  prep_transferId :: string
  prep_amount :: string
  prep_currencyCode :: string
  prep_payerFsp :: string
  prep_payeeFsp :: string
  prep_expiration :: int
  prep_payerIdType :: string
  prep_payeeIdType :: string
  prep_transferType :: string
  prep_extensions :: extensions

record fulfil_payload =
  ful_transferId :: string
  ful_transferState :: string
  ful_completedTimestamp :: "int option"
  ful_notifyPayee :: bool
  ful_extensions :: extensions

record reject_payload =
  rej_transferId :: string
  rej_errorInformation :: "error_value option"

record query_payload =
  qry_transferId :: string
  qry_requesterFspId :: string
  qry_destinationFspId :: string

record timeout_payload =
  tmo_transferId :: string
  tmo_timeout :: json

record prepare_bulk_payload =
  bprep_bulkTransferId :: string
  bprep_bulkQuoteId :: string
  bprep_payeeFsp :: string
  bprep_payerFsp :: string
  bprep_individualTransfers :: "individual_transfer list"
  bprep_expiration :: int
  bprep_extensions :: extensions

record individual_result =
  ir_transferId :: string
  ir_fulfilment :: "string option"
  ir_extensions :: extensions
  ir_errorInformation :: "error_information option"

record fulfil_bulk_payload =
  bful_bulkTransferId :: string
  bful_completedTimestamp :: int
  bful_bulkTransferState :: string
  bful_individualTransferResults :: "individual_result list"
  bful_extensions :: extensions

record reject_bulk_payload =
  brej_bulkTransferId :: string
  brej_errorInformation :: "error_value option"

record query_bulk_payload =
  bqry_bulkTransferId :: string
  bqry_requesterFspId :: string
  bqry_destinationFspId :: string

text \<open>
  The dispatch of \<open>_processCommand\<close> goes by \<open>msgName\<close> and then casts the payload, so a command is
  its class with that class's payload.  \<open>UnknownCmd\<close> is any other name, with the only payload
  fields the code reads of it; \<open>NoPayloadCmd\<close> is a message whose payload is missing.
\<close>

datatype command_body =
    PrepareTransferCmd prepare_payload
  | CommitTransferFulfilCmd fulfil_payload
  | RejectTransferCmd reject_payload
  | QueryTransferCmd query_payload
  | TimeoutTransferCmd timeout_payload
  | PrepareBulkTransferCmd prepare_bulk_payload
  | CommitBulkTransferFulfilCmd fulfil_bulk_payload
  | RejectBulkTransferCmd reject_bulk_payload
  | QueryBulkTransferCmd query_bulk_payload
  | UnknownCmd (unknown_msgName: string) (unknown_transferId: "string option")
      (unknown_bulkTransferId: "string option") (unknown_requesterFspId: "string option")
  | NoPayloadCmd string

datatype message_type = COMMAND | DOMAIN_EVENT | OTHER_MESSAGE

record command =
  cmd_msgType :: message_type
  cmd_body :: command_body
  cmd_protocolType :: "string option"
  cmd_opaqueState :: json

fun msgName :: "command_body \<Rightarrow> string" where
  "msgName (PrepareTransferCmd _) = ''PrepareTransferCmd''"
| "msgName (CommitTransferFulfilCmd _) = ''CommitTransferFulfilCmd''"
| "msgName (RejectTransferCmd _) = ''RejectTransferCmd''"
| "msgName (QueryTransferCmd _) = ''QueryTransferCmd''"
| "msgName (TimeoutTransferCmd _) = ''TimeoutTransferCmd''"
| "msgName (PrepareBulkTransferCmd _) = ''PrepareBulkTransferCmd''"
| "msgName (CommitBulkTransferFulfilCmd _) = ''CommitBulkTransferFulfilCmd''"
| "msgName (RejectBulkTransferCmd _) = ''RejectBulkTransferCmd''"
| "msgName (QueryBulkTransferCmd _) = ''QueryBulkTransferCmd''"
| "msgName (UnknownCmd n _ _ _) = n"
| "msgName (NoPayloadCmd n) = n"

text \<open>
  The payload fields the code reads without knowing the class of the command: \<open>None\<close> is
  \<open>undefined\<close>, which is what reading an absent field gives.
\<close>

fun payload_transferId :: "command_body \<Rightarrow> string option" where
  "payload_transferId (PrepareTransferCmd p) = Some (prep_transferId p)"
| "payload_transferId (CommitTransferFulfilCmd p) = Some (ful_transferId p)"
| "payload_transferId (RejectTransferCmd p) = Some (rej_transferId p)"
| "payload_transferId (QueryTransferCmd p) = Some (qry_transferId p)"
| "payload_transferId (TimeoutTransferCmd p) = Some (tmo_transferId p)"
| "payload_transferId (UnknownCmd _ t _ _) = t"
| "payload_transferId _ = None"

fun payload_bulkTransferId :: "command_body \<Rightarrow> string option" where
  "payload_bulkTransferId (PrepareTransferCmd p) = prep_bulkTransferId p"
| "payload_bulkTransferId (PrepareBulkTransferCmd p) = Some (bprep_bulkTransferId p)"
| "payload_bulkTransferId (CommitBulkTransferFulfilCmd p) = Some (bful_bulkTransferId p)"
| "payload_bulkTransferId (RejectBulkTransferCmd p) = Some (brej_bulkTransferId p)"
| "payload_bulkTransferId (QueryBulkTransferCmd p) = Some (bqry_bulkTransferId p)"
| "payload_bulkTransferId (UnknownCmd _ _ b _) = b"
| "payload_bulkTransferId _ = None"

fun payload_bulkQuoteId :: "command_body \<Rightarrow> string option" where
  "payload_bulkQuoteId (PrepareBulkTransferCmd p) = Some (bprep_bulkQuoteId p)"
| "payload_bulkQuoteId _ = None"

fun payload_payerFsp :: "command_body \<Rightarrow> string option" where
  "payload_payerFsp (PrepareTransferCmd p) = Some (prep_payerFsp p)"
| "payload_payerFsp (PrepareBulkTransferCmd p) = Some (bprep_payerFsp p)"
| "payload_payerFsp _ = None"

fun payload_payeeFsp :: "command_body \<Rightarrow> string option" where
  "payload_payeeFsp (PrepareTransferCmd p) = Some (prep_payeeFsp p)"
| "payload_payeeFsp (PrepareBulkTransferCmd p) = Some (bprep_payeeFsp p)"
| "payload_payeeFsp _ = None"

fun payload_amount :: "command_body \<Rightarrow> string option" where
  "payload_amount (PrepareTransferCmd p) = Some (prep_amount p)"
| "payload_amount _ = None"

fun payload_currencyCode :: "command_body \<Rightarrow> string option" where
  "payload_currencyCode (PrepareTransferCmd p) = Some (prep_currencyCode p)"
| "payload_currencyCode _ = None"

fun payload_expiration :: "command_body \<Rightarrow> int option" where
  "payload_expiration (PrepareTransferCmd p) = Some (prep_expiration p)"
| "payload_expiration (PrepareBulkTransferCmd p) = Some (bprep_expiration p)"
| "payload_expiration _ = None"

fun payload_completedTimestamp :: "command_body \<Rightarrow> int option" where
  "payload_completedTimestamp (CommitTransferFulfilCmd p) = ful_completedTimestamp p"
| "payload_completedTimestamp (CommitBulkTransferFulfilCmd p) = Some (bful_completedTimestamp p)"
| "payload_completedTimestamp _ = None"

fun payload_bulkTransferState :: "command_body \<Rightarrow> string option" where
  "payload_bulkTransferState (CommitBulkTransferFulfilCmd p) = Some (bful_bulkTransferState p)"
| "payload_bulkTransferState _ = None"

fun payload_individualTransferResults :: "command_body \<Rightarrow> individual_result list option" where
  "payload_individualTransferResults (CommitBulkTransferFulfilCmd p) =
     Some (bful_individualTransferResults p)"
| "payload_individualTransferResults _ = None"

fun payload_extensions :: "command_body \<Rightarrow> extensions option" where
  "payload_extensions (PrepareTransferCmd p) = Some (prep_extensions p)"
| "payload_extensions (CommitTransferFulfilCmd p) = Some (ful_extensions p)"
| "payload_extensions (PrepareBulkTransferCmd p) = Some (bprep_extensions p)"
| "payload_extensions (CommitBulkTransferFulfilCmd p) = Some (bful_extensions p)"
| "payload_extensions _ = None"

section \<open>Events\<close>

record prepared_payload =
  pe_transferId :: "string option"
  pe_payeeFsp :: "string option"
  pe_payerFsp :: "string option"
  pe_amount :: "string option"
  pe_currencyCode :: "string option"
  pe_expiration :: "int option"
  pe_settlementModel :: string
  pe_preparedAt :: int
  pe_extensions :: extensions

record fulfiled_payload =
  fe_transferId :: "string option"
  fe_completedTimestamp :: "int option"
  fe_payerFspId :: string
  fe_payeeFspId :: string
  fe_amount :: string
  fe_currencyCode :: string
  fe_settlementModel :: string
  fe_notifyPayee :: bool
  fe_fulfiledAt :: int
  fe_extensions :: extensions

record bulk_prepared_payload =
  bpe_bulkTransferId :: "string option"
  bpe_bulkQuoteId :: "string option"
  bpe_payeeFsp :: "string option"
  bpe_payerFsp :: "string option"
  bpe_expiration :: "int option"
  bpe_individualTransfers :: "(string \<times> string \<times> string) list"
  bpe_extensions :: "extensions option"

record bulk_fulfiled_payload =
  bfe_bulkTransferId :: "string option"
  bfe_bulkTransferState :: "string option"
  bfe_completedTimestamp :: "int option"
  bfe_individualTransferResults :: "individual_result list option"
  bfe_extensions :: "extensions option"

text \<open>
  The event classes the aggregate constructs, with the fields it gives them in the order of the
  object literals.  \<open>error_code\<close> is always last.
\<close>

datatype event =
    TransferInvalidMessageTypeEvt "string option" "string option" error_code
  | TransferUnableToGetTransferByIdEvt string error_code
  | TransferUnableToUpdateEvt string string error_code
  | TransferPrepareRequestTimedoutEvt string string error_code
  | TransferFulfilCommittedRequestedTimedoutEvt string string string error_code
  | TransferCancelReservationFailedEvt "string option" error_code
  | TransferNotFoundEvt "string option" error_code
  | TransferQueryResponseEvt string TransferState "int option" extensions
  | TransferUnableToGetSettlementModelEvt string string string string error_code
  | TransferHubNotFoundFailedEvt string error_code
  | TransferHubIdMismatchEvt string string error_code
  | TransferHubNotApprovedEvt string string error_code
  | TransferHubNotActiveEvt string string error_code
  | TransferPayerNotFoundFailedEvt string string error_code
  | TransferPayerIdMismatchEvt string string error_code
  | TransferPayerNotApprovedEvt string string error_code
  | TransferPayerNotActiveEvt string string error_code
  | TransferPayeeNotFoundFailedEvt string string error_code
  | TransferPayeeIdMismatchEvt string string error_code
  | TransferPayeeNotApprovedEvt string string error_code
  | TransferPayeeNotActiveEvt string string error_code
  | TransferHubAccountNotFoundFailedEvt string error_code
  | TransferPayerPositionAccountNotFoundFailedEvt string string error_code
  | TransferPayerLiquidityAccountNotFoundFailedEvt string string error_code
  | TransferPayeePositionAccountNotFoundFailedEvt string string error_code
  | TransferPayeeLiquidityAccountNotFoundFailedEvt string string error_code
  | TransferUnableCreateReminderEvt string error_code
  | TransferPrepareLiquidityCheckFailedEvt string string string string error_code
  | TransferPreparedEvt prepared_payload
  | TransferFulfilmentValidationFailedEvt string string error_code
  | TransferCancelReservationAndCommitFailedEvt string error_code
  | TransferFulfiledEvt fulfiled_payload
  | TransferRejectRequestProcessedEvt string "error_value option"
  | TransferBCUnableToAddBulkTransferToDatabaseEvt string error_code
  | TransferUnableToGetBulkTransferByIdEvt "string option" error_code
  | BulkTransferNotFoundEvt "string option" error_code
  | BulkTransferPreparedEvt bulk_prepared_payload
  | BulkTransferFulfiledEvt bulk_fulfiled_payload
  | BulkTransferRejectRequestProcessedEvt string "error_value option"
  | BulkTransferQueryResponseEvt string "int option" "(string \<times> error_information option) list"
      BulkTransferState

record event_msg =
  evt_body :: event
  evt_protocolType :: "string option"
  evt_opaqueState :: json

section \<open>Participants and accounts\<close>

record participant_account =
  acc_id :: string
  acc_type :: string
  acc_currencyCode :: string

record net_debit_cap =
  ndc_currencyCode :: string
  ndc_currentValue :: rat

record participant =
  part_id :: string
  part_approved :: bool
  part_isActive :: bool
  part_participantAccounts :: "participant_account list"
  part_netDebitCaps :: "net_debit_cap list option"

record transfer_participants =
  tp_hub :: participant
  tp_payer :: participant
  tp_payee :: participant

record transfer_accounts =
  ta_hubAccount :: participant_account
  ta_payerPosAccount :: participant_account
  ta_payerLiqAccount :: participant_account
  ta_payeePosAccount :: participant_account
  ta_payeeLiqAccount :: participant_account

section \<open>Accounts & Balances\<close>

datatype ab_request_type =
  checkLiquidAndReserve | cancelReservationAndCommit | cancelReservation | otherRequestType

record ab_request =
  req_requestType :: ab_request_type
  req_requestId :: string
  req_payerPositionAccountId :: string
  req_payerLiquidityAccountId :: "string option"
  req_hubJokeAccountId :: string
  req_transferId :: string
  req_transferAmount :: string
  req_currencyCode :: string
  req_payerNetDebitCap :: "string option"
  req_payeePositionAccountId :: "string option"

record ab_response =
  rsp_requestType :: ab_request_type
  rsp_requestId :: string
  rsp_success :: bool
  rsp_errorMessage :: "string option"

end
