(* ===== verification/Agg_State.thy ===== *)
theory Agg_State
  imports Types
begin

text \<open>
  The state of \<open>TransfersAggregate\<close> (\<open>packages/domain-lib/src/aggregate.ts\<close>), the adapters it
  calls (\<open>packages/domain-lib/src/interfaces/infrastructure.ts\<close>), and the private helpers every
  handler uses: reading a transfer through the cache, pushing an output event, flushing.

  The rest of the platform is a \<^emph>\<open>world\<close> of an arbitrary type \<open>'w\<close>; an adapter call is a function
  of the world that may reject.  The record \<open>env\<close> holds one function per call the aggregate makes,
  so that a statement about \<open>processCommandBatch\<close> for every \<open>env\<close> holds whatever the other services
  answer, including failures, and differently at every call.

  Transfers and bulk transfers are objects the code shares between a cache and local variables and
  mutates in place; they live in explicit stores (\<open>theap\<close>, \<open>bheap\<close>) and the caches hold
  references, so a mutation through a local variable is seen by the flush exactly when the object
  is cached.
\<close>

section \<open>The adapters\<close>

type_synonym ('w, 'a) call = "(exn, 'w, 'a) action"

record reminder_payload =
  rem_transfer :: transfer
  rem_protocolType :: "string option"
  rem_opaqueState :: json

record 'w env =
  dateNow :: "'w \<Rightarrow> int \<times> 'w"
  randomUUID :: "'w \<Rightarrow> string \<times> 'w"
  numberToString :: "rat \<Rightarrow> string"
  sha256_base64 :: "string \<Rightarrow> string"
  repo_getTransferById :: "string option \<Rightarrow> ('w, transfer option) call"
  repo_updateTransfer :: "transfer \<Rightarrow> ('w, unit) call"
  repo_storeTransfers :: "transfer list \<Rightarrow> ('w, unit) call"
  repo_getTransfersByBulkId :: "string \<Rightarrow> ('w, transfer list) call"
  bulkRepo_addBulkTransfer :: "bulk_transfer \<Rightarrow> ('w, exn + string) call"
  bulkRepo_updateBulkTransfer :: "bulk_transfer \<Rightarrow> ('w, unit) call"
  bulkRepo_getBulkTransferById :: "string option \<Rightarrow> ('w, bulk_transfer option) call"
  participants_getParticipantInfo :: "string \<Rightarrow> ('w, participant option) call"
  settlements_getSettlementModelId :: "string \<Rightarrow> string \<Rightarrow> string \<Rightarrow> extensions \<Rightarrow> ('w, string) call"
  scheduling_createSingleReminder :: "string \<Rightarrow> int \<Rightarrow> reminder_payload \<Rightarrow> ('w, unit) call"
  validator_validateFulfilment :: "json \<Rightarrow> json \<Rightarrow> ('w, bool) call"
  ab_processHighLevelBatch :: "ab_request list \<Rightarrow> ('w, ab_response list) call"
  producer_send :: "event_msg list \<Rightarrow> ('w, unit) call"

section \<open>The state of the aggregate\<close>

text \<open>
  \<open>unhandled\<close> records the promises that were neither awaited nor caught and rejected: the process
  sees them as unhandled rejections.
\<close>

record 'w agg =
  world :: 'w
  theap :: "nat \<Rightarrow> transfer"
  tnext :: nat
  bheap :: "nat \<Rightarrow> bulk_transfer"
  bnext :: nat
  transfersCache :: "(string option \<times> nat) list"
  bulkTransfersCache :: "(string option \<times> nat) list"
  batchCommands :: "(string option \<times> command) list"
  abBatchRequests :: "ab_request list"
  abCancelationBatchRequests :: "ab_request list"
  abBatchResponses :: "ab_response list"
  outputEvents :: "event_msg list"
  unhandled :: "exn list"

type_synonym ('w, 'a) act = "(exn, 'w agg, 'a) action"

text \<open>An adapter call made by the aggregate: it runs on the world and leaves the rest alone.\<close>

definition call :: "('w, 'a) call \<Rightarrow> ('w, 'a) act" where
  "call m = (\<lambda>s. case m (world s) of (r, w) \<Rightarrow> (r, s\<lparr>world := w\<rparr>))"

definition now :: "'w env \<Rightarrow> ('w, int) act" where
  "now E = (\<lambda>s. case dateNow E (world s) of (t, w) \<Rightarrow> (Inr t, s\<lparr>world := w\<rparr>))"

definition uuid :: "'w env \<Rightarrow> ('w, string) act" where
  "uuid E = (\<lambda>s. case randomUUID E (world s) of (u, w) \<Rightarrow> (Inr u, s\<lparr>world := w\<rparr>))"

section \<open>Objects\<close>

definition newTransfer :: "transfer \<Rightarrow> ('w, nat) act" where
  "newTransfer t = (\<lambda>s. (Inr (tnext s), s\<lparr>theap := (theap s)(tnext s := t), tnext := Suc (tnext s)\<rparr>))"

definition getT :: "nat \<Rightarrow> ('w, transfer) act" where
  "getT r = reads (\<lambda>s. theap s r)"

definition setT :: "nat \<Rightarrow> (transfer \<Rightarrow> transfer) \<Rightarrow> ('w, unit) act" where
  "setT r f = modify (\<lambda>s. s\<lparr>theap := (theap s)(r := f (theap s r))\<rparr>)"

definition cacheT :: "nat \<Rightarrow> ('w, unit) act" where
  "cacheT r = modify (\<lambda>s. s\<lparr>transfersCache := AList.update (Some (transferId (theap s r))) r (transfersCache s)\<rparr>)"

definition newBulk :: "bulk_transfer \<Rightarrow> ('w, nat) act" where
  "newBulk b = (\<lambda>s. (Inr (bnext s), s\<lparr>bheap := (bheap s)(bnext s := b), bnext := Suc (bnext s)\<rparr>))"

definition getB :: "nat \<Rightarrow> ('w, bulk_transfer) act" where
  "getB r = reads (\<lambda>s. bheap s r)"

definition setB :: "nat \<Rightarrow> (bulk_transfer \<Rightarrow> bulk_transfer) \<Rightarrow> ('w, unit) act" where
  "setB r f = modify (\<lambda>s. s\<lparr>bheap := (bheap s)(r := f (bheap s r))\<rparr>)"

definition cacheB :: "nat \<Rightarrow> ('w, unit) act" where
  "cacheB r = modify (\<lambda>s. s\<lparr>bulkTransfersCache :=
      AList.update (Some (bt_bulkTransferId (bheap s r))) r (bulkTransfersCache s)\<rparr>)"

section \<open>Reading through the caches\<close>

text \<open>
  A key is \<open>None\<close> when the code looks up \<open>undefined\<close>, which the continue handlers do with the
  payload of a bulk command.
\<close>

definition getTransfer :: "'w env \<Rightarrow> string option \<Rightarrow> ('w, nat option) act" where
  "getTransfer E tid =
     andThen (reads (\<lambda>s. map_of (transfersCache s) tid)) (\<lambda>cached.
       case cached of
         Some r \<Rightarrow> ret (Some r)
       | None \<Rightarrow>
           andThen (call (repo_getTransferById E tid)) (\<lambda>found.
             case found of
               None \<Rightarrow> ret None
             | Some t \<Rightarrow>
                 andThen (newTransfer t) (\<lambda>r.
                   andThen (modify (\<lambda>s. s\<lparr>transfersCache := AList.update tid r (transfersCache s)\<rparr>))
                     (\<lambda>_. ret (Some r)))))"

definition getBulkTransfer :: "'w env \<Rightarrow> string option \<Rightarrow> ('w, nat option) act" where
  "getBulkTransfer E bid =
     andThen (reads (\<lambda>s. map_of (bulkTransfersCache s) bid)) (\<lambda>cached.
       case cached of
         Some r \<Rightarrow> ret (Some r)
       | None \<Rightarrow>
           andThen (call (bulkRepo_getBulkTransferById E bid)) (\<lambda>found.
             case found of
               None \<Rightarrow> ret None
             | Some b \<Rightarrow>
                 andThen (newBulk b) (\<lambda>r.
                   andThen (modify (\<lambda>s. s\<lparr>bulkTransfersCache := AList.update bid r (bulkTransfersCache s)\<rparr>))
                     (\<lambda>_. ret (Some r)))))"

lemmas primitive_defs = call_def now_def uuid_def newTransfer_def getT_def setT_def cacheT_def
  newBulk_def getB_def setB_def cacheB_def

section \<open>Events and requests\<close>

text \<open>
  Every event takes the protocol type and opaque state of the message that caused it.
\<close>

definition tagged :: "command \<Rightarrow> event \<Rightarrow> event_msg" where
  "tagged msg e =
     \<lparr>evt_body = e, evt_protocolType = cmd_protocolType msg, evt_opaqueState = cmd_opaqueState msg\<rparr>"

definition emit :: "command \<Rightarrow> event \<Rightarrow> ('w, unit) act" where
  "emit msg e = modify (\<lambda>s. s\<lparr>outputEvents := outputEvents s @ [tagged msg e]\<rparr>)"

definition pushAbRequest :: "ab_request \<Rightarrow> ('w, unit) act" where
  "pushAbRequest q = modify (\<lambda>s. s\<lparr>abBatchRequests := abBatchRequests s @ [q]\<rparr>)"

definition pushCancelation :: "ab_request \<Rightarrow> ('w, unit) act" where
  "pushCancelation q = modify (\<lambda>s. s\<lparr>abCancelationBatchRequests := abCancelationBatchRequests s @ [q]\<rparr>)"

text \<open>
  \<open>_flush\<close>: the cached objects, in the order of the cache, are handed to the repository and the
  cache is emptied; when the repository rejects, the cache keeps its entries.
\<close>

definition flush :: "'w env \<Rightarrow> ('w, unit) act" where
  "flush E =
     andThen (reads (\<lambda>s. map (\<lambda>(_, r). theap s r) (transfersCache s))) (\<lambda>entries.
       if entries \<noteq> [] then
         andThen (call (repo_storeTransfers E entries)) (\<lambda>_.
           modify (\<lambda>s. s\<lparr>transfersCache := []\<rparr>))
       else ret ())"

text \<open>
  \<open>new Date(x).getTime()\<close> is \<open>x\<close> for a time value in range and \<open>NaN\<close> otherwise; a comparison with
  \<open>NaN\<close> is false.
\<close>

definition date_getTime :: "int \<Rightarrow> int option" where
  "date_getTime x = (if \<bar>x\<bar> \<le> 8640000000000000 then Some x else None)"

definition js_less :: "int option \<Rightarrow> int option \<Rightarrow> bool" where
  "js_less a b = (case (a, b) of (Some x, Some y) \<Rightarrow> x < y | _ \<Rightarrow> False)"

text \<open>
  \<open>_generateSha256\<close>: the digest of the JSON text of a flat object, less its last character.  The
  hash function itself (SHA-256 in base64) is a parameter.
\<close>

definition generateSha256 :: "'w env \<Rightarrow> (string \<times> (string + int)) list \<Rightarrow> string" where
  "generateSha256 E obj = butlast (sha256_base64 E (stringify_flat obj))"

end
