(* ===== verification/Agg_Reasoning.thy ===== *)
theory Agg_Reasoning
  imports Agg_State
begin

text \<open>
  Two ways of reasoning about the handlers, each developed once for the helpers of \<open>Agg_State\<close> and
  then extended handler by handler in the component theories.

  \<^item> The locale \<open>agg_invariant\<close>: a predicate on the objects and the transfer cache that is closed
    under the primitive updates is preserved by every handler.  It is interpreted on cache
    coherence, on the immutability of a transfer's terms and on the states a command may set.
  \<^item> \<open>yields P m s\<close>: running \<open>m\<close> in \<open>s\<close> appends to the three output buffers (events, requests,
    cancellations) lists that satisfy \<open>P\<close>.  A \<open>silent\<close> action appends nothing; a \<open>probe\<close> changes
    the world only (an adapter call, a check).
\<close>

named_theorems probe_intros \<open>actions that change the world only\<close>
named_theorems silent_intros \<open>actions that add nothing to the output buffers\<close>
named_theorems yields_intros \<open>what an action adds to the output buffers\<close>

section \<open>Weakest preconditions of the helpers\<close>

lemma wp_call [wp_simps]:
  "wp (call m) Q s = (case m (world s) of (r, w) \<Rightarrow> Q r (s\<lparr>world := w\<rparr>))"
  by (simp add: wp_def call_def split: prod.splits)

lemma wp_now [wp_simps]:
  "wp (now E) Q s = (case dateNow E (world s) of (t, w) \<Rightarrow> Q (Inr t) (s\<lparr>world := w\<rparr>))"
  by (simp add: wp_def now_def split: prod.splits)

lemma wp_uuid [wp_simps]:
  "wp (uuid E) Q s = (case randomUUID E (world s) of (u, w) \<Rightarrow> Q (Inr u) (s\<lparr>world := w\<rparr>))"
  by (simp add: wp_def uuid_def split: prod.splits)

lemma wp_newTransfer [wp_simps]:
  "wp (newTransfer t) Q s =
     Q (Inr (tnext s)) (s\<lparr>theap := (theap s)(tnext s := t), tnext := Suc (tnext s)\<rparr>)"
  by (simp add: wp_def newTransfer_def)

lemma wp_newBulk [wp_simps]:
  "wp (newBulk b) Q s =
     Q (Inr (bnext s)) (s\<lparr>bheap := (bheap s)(bnext s := b), bnext := Suc (bnext s)\<rparr>)"
  by (simp add: wp_def newBulk_def)

lemma wp_getT [wp_simps]: "wp (getT r) Q s = Q (Inr (theap s r)) s"
  by (simp add: getT_def wp_simps)

lemma wp_setT [wp_simps]:
  "wp (setT r f) Q s = Q (Inr ()) (s\<lparr>theap := (theap s)(r := f (theap s r))\<rparr>)"
  by (simp add: setT_def wp_simps)

lemma wp_cacheT [wp_simps]:
  "wp (cacheT r) Q s =
     Q (Inr ()) (s\<lparr>transfersCache := AList.update (Some (transferId (theap s r))) r (transfersCache s)\<rparr>)"
  by (simp add: cacheT_def wp_simps)

lemma wp_getB [wp_simps]: "wp (getB r) Q s = Q (Inr (bheap s r)) s"
  by (simp add: getB_def wp_simps)

lemma wp_setB [wp_simps]:
  "wp (setB r f) Q s = Q (Inr ()) (s\<lparr>bheap := (bheap s)(r := f (bheap s r))\<rparr>)"
  by (simp add: setB_def wp_simps)

lemma wp_cacheB [wp_simps]:
  "wp (cacheB r) Q s = Q (Inr ()) (s\<lparr>bulkTransfersCache :=
      AList.update (Some (bt_bulkTransferId (bheap s r))) r (bulkTransfersCache s)\<rparr>)"
  by (simp add: cacheB_def wp_simps)

lemma wp_emit [wp_simps]:
  "wp (emit msg e) Q s = Q (Inr ()) (s\<lparr>outputEvents := outputEvents s @ [tagged msg e]\<rparr>)"
  by (simp add: emit_def wp_simps)

lemma wp_pushAbRequest [wp_simps]:
  "wp (pushAbRequest q) Q s = Q (Inr ()) (s\<lparr>abBatchRequests := abBatchRequests s @ [q]\<rparr>)"
  by (simp add: pushAbRequest_def wp_simps)

lemma wp_pushCancelation [wp_simps]:
  "wp (pushCancelation q) Q s =
     Q (Inr ()) (s\<lparr>abCancelationBatchRequests := abCancelationBatchRequests s @ [q]\<rparr>)"
  by (simp add: pushCancelation_def wp_simps)

section \<open>Probes\<close>

text \<open>\<open>R\<close> is what is known of a returned value, \<open>F\<close> of an error.\<close>

definition probe :: "('w, 'a) act \<Rightarrow> ('a \<Rightarrow> bool) \<Rightarrow> (exn \<Rightarrow> bool) \<Rightarrow> bool" where
  "probe m R F \<longleftrightarrow> (\<forall>s. (\<exists>w. snd (m s) = s\<lparr>world := w\<rparr>) \<and>
      (\<forall>x. fst (m s) = Inr x \<longrightarrow> R x) \<and> (\<forall>e. fst (m s) = Inl e \<longrightarrow> F e))"

lemma wp_probe:
  assumes "probe m R F"
    and "\<And>e w. F e \<Longrightarrow> Q (Inl e) (s\<lparr>world := w\<rparr>)"
    and "\<And>x w. R x \<Longrightarrow> Q (Inr x) (s\<lparr>world := w\<rparr>)"
  shows "wp m Q s"
proof -
  from assms(1) obtain w where w: "snd (m s) = s\<lparr>world := w\<rparr>"
    and R: "\<And>x. fst (m s) = Inr x \<Longrightarrow> R x" "\<And>e. fst (m s) = Inl e \<Longrightarrow> F e"
    unfolding probe_def by blast
  then show ?thesis
    by (cases "fst (m s)") (auto simp: wp_unfold intro: assms(2,3))
qed

lemma probe_mono:
  "probe m R F \<Longrightarrow> (\<And>x. R x \<Longrightarrow> R' x) \<Longrightarrow> (\<And>e. F e \<Longrightarrow> F' e) \<Longrightarrow> probe m R' F'"
  by (auto simp: probe_def)

lemma world_self: "\<exists>w. s = s\<lparr>world := w\<rparr>"
  by (rule exI [of _ "world s"]) simp

lemma probe_ret: "R x \<Longrightarrow> probe (ret x) R F"
  by (simp add: probe_def ret_def world_self)

lemma probe_raise: "F e \<Longrightarrow> probe (raise e) R F"
  by (simp add: probe_def raise_def world_self)

lemma probe_reads: "(\<And>s. R (f s)) \<Longrightarrow> probe (reads f) R F"
  by (simp add: probe_def reads_def world_self)

lemma probe_call: "(\<And>w x w'. m w = (Inr x, w') \<Longrightarrow> R x) \<Longrightarrow> (\<And>w e w'. m w = (Inl e, w') \<Longrightarrow> F e) \<Longrightarrow>
    probe (call m) R F"
  by (auto simp: probe_def call_def split: prod.splits)

lemma probe_call_any [probe_intros]: "probe (call m) (\<lambda>_. True) (\<lambda>_. True)"
  by (rule probe_call) simp_all

lemma probe_now [probe_intros]: "probe (now E) (\<lambda>_. True) (\<lambda>_. False)"
  by (auto simp: probe_def now_def split: prod.splits)

lemma probe_uuid [probe_intros]: "probe (uuid E) (\<lambda>_. True) (\<lambda>_. False)"
  by (auto simp: probe_def uuid_def split: prod.splits)

lemma probe_andThen:
  assumes m: "probe m R F" and k: "\<And>x. R x \<Longrightarrow> probe (k x) S F"
  shows "probe (andThen m k) S F"
  unfolding probe_def
proof
  fix s
  from m obtain w where w: "snd (m s) = s\<lparr>world := w\<rparr>" and R: "\<And>x. fst (m s) = Inr x \<Longrightarrow> R x"
    and F: "\<And>e. fst (m s) = Inl e \<Longrightarrow> F e"
    unfolding probe_def by blast
  show "(\<exists>w. snd (andThen m k s) = s\<lparr>world := w\<rparr>) \<and> (\<forall>x. fst (andThen m k s) = Inr x \<longrightarrow> S x)
      \<and> (\<forall>e. fst (andThen m k s) = Inl e \<longrightarrow> F e)"
  proof (cases "fst (m s)")
    case (Inl e)
    with w F show ?thesis by (auto simp: andThen_def split: prod.splits)
  next
    case (Inr x)
    with k R have "probe (k x) S F" by blast
    then obtain w' where "snd (k x (s\<lparr>world := w\<rparr>)) = (s\<lparr>world := w\<rparr>)\<lparr>world := w'\<rparr>"
      and "\<And>y. fst (k x (s\<lparr>world := w\<rparr>)) = Inr y \<Longrightarrow> S y"
      and "\<And>e. fst (k x (s\<lparr>world := w\<rparr>)) = Inl e \<Longrightarrow> F e"
      unfolding probe_def by blast
    with w Inr show ?thesis by (cases "m s") (auto simp: andThen_def)
  qed
qed

lemma probe_bind:
  assumes "probe m R F" and "\<And>x. R x \<Longrightarrow> probe (k x) S G" and "\<And>e. F e \<Longrightarrow> G e"
  shows "probe (andThen m k) S G"
  by (rule probe_andThen [OF probe_mono [OF assms(1)] assms(2)]) (auto intro: assms(3))

section \<open>Additions to the output buffers\<close>

definition outs :: "'w agg \<Rightarrow> event_msg list \<times> ab_request list \<times> ab_request list" where
  "outs s = (outputEvents s, abBatchRequests s, abCancelationBatchRequests s)"

type_synonym 'a outputs = "exn + 'a \<Rightarrow> event_msg list \<Rightarrow> ab_request list \<Rightarrow> ab_request list \<Rightarrow> bool"

definition added :: "'w agg \<Rightarrow> 'a outputs \<Rightarrow> exn + 'a \<Rightarrow> 'w agg \<Rightarrow> bool" where
  "added s0 P r s \<longleftrightarrow>
     (\<exists>es qs cs. outputEvents s = outputEvents s0 @ es \<and> abBatchRequests s = abBatchRequests s0 @ qs \<and>
        abCancelationBatchRequests s = abCancelationBatchRequests s0 @ cs \<and> P r es qs cs)"

text \<open>\<open>yields P m s\<close>: running \<open>m\<close> in \<open>s\<close> appends events, requests and cancellations satisfying \<open>P\<close>.\<close>

definition yields :: "'a outputs \<Rightarrow> ('w, 'a) act \<Rightarrow> 'w agg \<Rightarrow> bool" where
  "yields P m s \<longleftrightarrow> wp m (added s P) s"

definition silent :: "('w, 'a) act \<Rightarrow> bool" where
  "silent m \<longleftrightarrow> (\<forall>s. outs (snd (m s)) = outs s)"

lemma added_none: "outs s = outs s0 \<Longrightarrow> P r [] [] [] \<Longrightarrow> added s0 P r s"
  by (auto simp: added_def outs_def)

lemma added_start: "outs s1 = outs s0 \<Longrightarrow> added s1 P = added s0 P"
  by (auto simp: added_def outs_def fun_eq_iff)

lemma yields_wp: "yields P m s1 \<Longrightarrow> outs s1 = outs s \<Longrightarrow> wp m (added s P) s1"
  by (simp add: yields_def added_start [of s1 s])

lemma yieldsD:
  assumes "yields P m s" and "m s = (r, s')"
  obtains es qs cs where "outputEvents s' = outputEvents s @ es"
    and "abBatchRequests s' = abBatchRequests s @ qs"
    and "abCancelationBatchRequests s' = abCancelationBatchRequests s @ cs" and "P r es qs cs"
  using assms by (auto simp: yields_def wp_def added_def)

lemma yields_mono:
  "yields P m s \<Longrightarrow> (\<And>r es qs cs. P r es qs cs \<Longrightarrow> P' r es qs cs) \<Longrightarrow> yields P' m s"
  unfolding yields_def by (erule wp_mono) (auto simp: added_def)

lemma outs_simps [simp]:
  "outs (s\<lparr>world := w\<rparr>) = outs s"
  "outs (s\<lparr>theap := h\<rparr>) = outs s"
  "outs (s\<lparr>tnext := n\<rparr>) = outs s"
  "outs (s\<lparr>bheap := bh\<rparr>) = outs s"
  "outs (s\<lparr>bnext := n\<rparr>) = outs s"
  "outs (s\<lparr>transfersCache := c\<rparr>) = outs s"
  "outs (s\<lparr>bulkTransfersCache := bc\<rparr>) = outs s"
  "outs (s\<lparr>batchCommands := b\<rparr>) = outs s"
  "outs (s\<lparr>abBatchResponses := rs\<rparr>) = outs s"
  "outs (s\<lparr>unhandled := u\<rparr>) = outs s"
  by (simp_all add: outs_def)

subsection \<open>Silent actions\<close>

lemma silent_wp: "silent m \<Longrightarrow> wp m (\<lambda>r s'. outs s' = outs s) s"
  by (simp add: silent_def wp_unfold)

lemma silentI: "(\<And>s. wp m (\<lambda>r s'. outs s' = outs s) s) \<Longrightarrow> silent m"
  by (simp add: silent_def wp_unfold)

lemma silent_probe: "probe m R F \<Longrightarrow> silent m"
  by (auto simp: silent_def probe_def) (metis outs_simps(1))

lemma silent_primitives [silent_intros]:
  "silent (ret x)" "silent (raise e)" "silent (reads f)" "silent (call c)" "silent (now E)"
  "silent (uuid E)" "silent (newTransfer t)" "silent (getT r)" "silent (setT r g)" "silent (cacheT r)"
  "silent (newBulk b)" "silent (getB r)" "silent (setB r h)" "silent (cacheB r)"
  by (rule silentI; simp add: wp_simps split: prod.splits)+

text \<open>A silent action that never throws.\<close>

definition quiet :: "('w, 'a) act \<Rightarrow> bool" where
  "quiet m \<longleftrightarrow> (\<forall>s. outs (snd (m s)) = outs s \<and> (\<exists>x. fst (m s) = Inr x))"

lemma quietI: "(\<And>s. wp m (\<lambda>r s'. outs s' = outs s \<and> (\<exists>x. r = Inr x)) s) \<Longrightarrow> quiet m"
  by (simp add: quiet_def wp_unfold)

lemma quiet_wp: "quiet m \<Longrightarrow> wp m (\<lambda>r s'. outs s' = outs s \<and> (\<exists>x. r = Inr x)) s"
  by (simp add: quiet_def wp_unfold)

lemma quiet_primitives [silent_intros]:
  "quiet (ret x)" "quiet (reads f)" "quiet (now E)"
  "quiet (uuid E)" "quiet (newTransfer t)" "quiet (getT r)" "quiet (setT r g)" "quiet (cacheT r)"
  "quiet (newBulk b)" "quiet (getB r)" "quiet (setB r h)" "quiet (cacheB r)"
  by (rule quietI; simp add: wp_simps split: prod.splits)+

lemma quiet_modify: "(\<And>s. outs (f s) = outs s) \<Longrightarrow> quiet (modify f)"
  by (rule quietI) (simp add: wp_simps)

lemma silent_modify: "(\<And>s. outs (f s) = outs s) \<Longrightarrow> silent (modify f)"
  by (rule silentI) (simp add: wp_simps)

lemma silent_keeps: "silent m \<longleftrightarrow> (\<forall>o'. keeps (\<lambda>s. outs s = o') m)"
  unfolding silent_def keeps_def wp_unfold by blast

lemma silent_andThen [silent_intros]: "silent m \<Longrightarrow> (\<And>x. silent (k x)) \<Longrightarrow> silent (andThen m k)"
  by (simp add: silent_keeps keeps_andThen)

lemma silent_tryElse [silent_intros]:
  "silent m \<Longrightarrow> (\<And>e. silent (h e)) \<Longrightarrow> (\<And>x. silent (k x)) \<Longrightarrow> silent (tryElse m h k)"
  by (simp add: silent_keeps keeps_tryElse)

lemma silent_if [silent_intros]: "silent m \<Longrightarrow> silent n \<Longrightarrow> silent (if b then m else n)"
  by simp

lemma silent_option [silent_intros]:
  "silent m \<Longrightarrow> (\<And>x. silent (k x)) \<Longrightarrow> silent (case v of None \<Rightarrow> m | Some x \<Rightarrow> k x)"
  by (cases v) auto

lemma silent_getTransfer [silent_intros]: "silent (getTransfer E tid)"
  unfolding getTransfer_def by (intro silent_intros silent_modify) simp

lemma silent_getBulkTransfer [silent_intros]: "silent (getBulkTransfer E bid)"
  unfolding getBulkTransfer_def by (intro silent_intros silent_modify) simp

subsection \<open>Rules for what an action yields\<close>

lemma yields_ret [yields_intros]: "P (Inr x) [] [] [] \<Longrightarrow> yields P (ret x) s"
  by (simp add: yields_def wp_simps added_none)

lemma yields_raise [yields_intros]: "P (Inl e) [] [] [] \<Longrightarrow> yields P (raise e) s"
  by (simp add: yields_def wp_simps added_none)

lemma yields_emit [yields_intros]: "P (Inr ()) [tagged msg e] [] [] \<Longrightarrow> yields P (emit msg e) s"
  by (simp add: yields_def wp_simps added_def)

lemma yields_pushAbRequest [yields_intros]: "P (Inr ()) [] [q] [] \<Longrightarrow> yields P (pushAbRequest q) s"
  by (simp add: yields_def wp_simps added_def)

lemma yields_pushCancelation [yields_intros]: "P (Inr ()) [] [] [q] \<Longrightarrow> yields P (pushCancelation q) s"
  by (simp add: yields_def wp_simps added_def)

lemma yields_silent: "silent m \<Longrightarrow> (\<And>r. P r [] [] []) \<Longrightarrow> yields P m s"
  unfolding yields_def by (rule wp_mono [OF silent_wp]) (auto intro: added_none)

lemma yields_andThen_silent:
  assumes "silent m" and "\<And>e. P (Inl e) [] [] []" and "\<And>x s'. yields P (k x) s'"
  shows "yields P (andThen m k) s"
  unfolding yields_def
  by (rule wp_andThen_I [OF silent_wp [OF assms(1)]])
     (auto intro: added_none assms(2) yields_wp [OF assms(3)])

lemma yields_tryElse_silent:
  assumes "silent m" and "\<And>e s'. yields P (h e) s'" and "\<And>x s'. yields P (k x) s'"
  shows "yields P (tryElse m h k) s"
  unfolding yields_def
  by (rule wp_tryElse_I [OF silent_wp [OF assms(1)]])
     (auto intro: yields_wp [OF assms(2)] yields_wp [OF assms(3)])

lemma yields_andThen_quiet:
  assumes "quiet m" and "\<And>x s'. yields P (k x) s'"
  shows "yields P (andThen m k) s"
  unfolding yields_def
  by (rule wp_andThen_I [OF quiet_wp [OF assms(1)]]) (auto intro: yields_wp [OF assms(2)])

text \<open>The same with the state: what is read, what a probe establishes, the object just created.\<close>

lemma yields_getT: "yields P (k (theap s r)) s \<Longrightarrow> yields P (andThen (getT r) k) s"
  by (simp add: yields_def wp_simps)

lemma yields_getB: "yields P (k (bheap s r)) s \<Longrightarrow> yields P (andThen (getB r) k) s"
  by (simp add: yields_def wp_simps)

lemma yields_reads: "yields P (k (f s)) s \<Longrightarrow> yields P (andThen (reads f) k) s"
  by (simp add: yields_def wp_simps)

lemma yields_newTransfer:
  assumes "\<And>s'. outs s' = outs s \<Longrightarrow> theap s' (tnext s) = t \<Longrightarrow> yields P (k (tnext s)) s'"
  shows "yields P (andThen (newTransfer t) k) s"
proof -
  let ?s = "s\<lparr>theap := (theap s)(tnext s := t), tnext := Suc (tnext s)\<rparr>"
  have "wp (k (tnext s)) (added s P) ?s"
    by (rule yields_wp [OF assms]) simp_all
  then show ?thesis by (simp add: yields_def wp_simps)
qed

lemma yields_andThen_probe:
  assumes "probe m R F" and "\<And>e. F e \<Longrightarrow> P (Inl e) [] [] []"
    and "\<And>x w. R x \<Longrightarrow> yields P (k x) (s\<lparr>world := w\<rparr>)"
  shows "yields P (andThen m k) s"
  unfolding yields_def wp_andThen
  by (rule wp_probe [OF assms(1)]) (auto intro: added_none assms(2) yields_wp [OF assms(3)])

lemma yields_tryElse_probe:
  assumes "probe m R F" and "\<And>e w. F e \<Longrightarrow> yields P (h e) (s\<lparr>world := w\<rparr>)"
    and "\<And>x w. R x \<Longrightarrow> yields P (k x) (s\<lparr>world := w\<rparr>)"
  shows "yields P (tryElse m h k) s"
  unfolding yields_def wp_tryElse
  by (rule wp_probe [OF assms(1)]) (auto intro: yields_wp [OF assms(2)] yields_wp [OF assms(3)])

text \<open>After a part that has outputs of its own.\<close>

definition after :: "event_msg list \<Rightarrow> ab_request list \<Rightarrow> ab_request list \<Rightarrow> 'a outputs \<Rightarrow> 'a outputs" where
  "after es qs cs P = (\<lambda>r es' qs' cs'. P r (es @ es') (qs @ qs') (cs @ cs'))"

lemma after_apply [simp]: "after es qs cs P r es' qs' cs' = P r (es @ es') (qs @ qs') (cs @ cs')"
  by (simp add: after_def)

lemma added_after: "yields (after es qs cs P) m s1 \<Longrightarrow>
    outputEvents s1 = outputEvents s @ es \<Longrightarrow> abBatchRequests s1 = abBatchRequests s @ qs \<Longrightarrow>
    abCancelationBatchRequests s1 = abCancelationBatchRequests s @ cs \<Longrightarrow> wp m (added s P) s1"
  unfolding yields_def by (erule wp_mono) (auto simp: added_def)

lemma yields_andThen:
  assumes "yields P1 m s" and "\<And>e es qs cs. P1 (Inl e) es qs cs \<Longrightarrow> P (Inl e) es qs cs"
    and "\<And>x es qs cs s'. P1 (Inr x) es qs cs \<Longrightarrow> yields (after es qs cs P) (k x) s'"
  shows "yields P (andThen m k) s"
  unfolding yields_def
proof (rule wp_andThen_I)
  show "wp m (added s P1) s" using assms(1) by (simp add: yields_def)
next
  fix e s' assume "added s P1 (Inl e) s'"
  then show "added s P (Inl e) s'" using assms(2) unfolding added_def by blast
next
  fix x s' assume "added s P1 (Inr x) s'"
  then show "wp (k x) (added s P) s'" unfolding added_def [of s P1]
    by (auto intro: added_after assms(3))
qed

lemma yields_tryElse:
  assumes "yields P1 m s" and "\<And>e es qs cs s'. P1 (Inl e) es qs cs \<Longrightarrow> yields (after es qs cs P) (h e) s'"
    and "\<And>x es qs cs s'. P1 (Inr x) es qs cs \<Longrightarrow> yields (after es qs cs P) (k x) s'"
  shows "yields P (tryElse m h k) s"
  unfolding yields_def
proof (rule wp_tryElse_I)
  show "wp m (added s P1) s" using assms(1) by (simp add: yields_def)
next
  fix e s' assume "added s P1 (Inl e) s'"
  then show "wp (h e) (added s P) s'" unfolding added_def [of s P1]
    by (auto intro: added_after assms(2))
next
  fix x s' assume "added s P1 (Inr x) s'"
  then show "wp (k x) (added s P) s'" unfolding added_def [of s P1]
    by (auto intro: added_after assms(3))
qed

lemma yields_if [yields_intros]:
  "(b \<Longrightarrow> yields P m s) \<Longrightarrow> (\<not> b \<Longrightarrow> yields P n s) \<Longrightarrow> yields P (if b then m else n) s"
  by simp

lemma yields_option [yields_intros]:
  "(v = None \<Longrightarrow> yields P m s) \<Longrightarrow> (\<And>x. v = Some x \<Longrightarrow> yields P (k x) s) \<Longrightarrow>
   yields P (case v of None \<Rightarrow> m | Some x \<Rightarrow> k x) s"
  by (cases v) auto

lemma yields_prod [yields_intros]:
  "(\<And>x y. v = (x, y) \<Longrightarrow> yields P (k x y) s) \<Longrightarrow> yields P (case v of (x, y) \<Rightarrow> k x y) s"
  by (cases v) auto

lemma yields_sum [yields_intros]:
  "(\<And>x. v = Inl x \<Longrightarrow> yields P (h x) s) \<Longrightarrow> (\<And>y. v = Inr y \<Longrightarrow> yields P (k y) s) \<Longrightarrow>
   yields P (case v of Inl x \<Rightarrow> h x | Inr y \<Rightarrow> k y) s"
  by (cases v) auto

lemma yields_TransferState [yields_intros]:
  "(st = RECEIVED \<Longrightarrow> yields P a s) \<Longrightarrow> (st = RESERVED \<Longrightarrow> yields P b s) \<Longrightarrow>
   (st = COMMITTED \<Longrightarrow> yields P c s) \<Longrightarrow> (st = ABORTED \<Longrightarrow> yields P d s) \<Longrightarrow>
   yields P (case st of RECEIVED \<Rightarrow> a | RESERVED \<Rightarrow> b | COMMITTED \<Rightarrow> c | ABORTED \<Rightarrow> d) s"
  by (cases st) auto

text \<open>A loop: the outputs of the rounds, one after the other.\<close>

lemma yields_forEach:
  assumes "\<And>x s'. x \<in> set xs \<Longrightarrow> yields P (f x) s'"
    and "P (Inr ()) [] [] []"
    and "\<And>r es qs cs es' qs' cs'. P (Inr ()) es qs cs \<Longrightarrow> P r es' qs' cs' \<Longrightarrow> P r (es @ es') (qs @ qs') (cs @ cs')"
  shows "yields P (forEach xs f) s"
  using assms(1)
proof (induction xs arbitrary: s)
  case Nil
  show ?case by (simp add: yields_ret assms(2))
next
  case (Cons a xs s)
  show ?case
    unfolding forEach.simps
  proof (rule yields_andThen [where ?P1.0 = P])
    show "yields P (f a) s" by (rule Cons.prems) simp
  next
    fix x :: unit and es qs cs s' assume "P (Inr x) es qs cs"
    moreover have "yields P (forEach xs f) s'" by (rule Cons.IH) (simp add: Cons.prems)
    ultimately show "yields (after es qs cs P) (forEach xs f) s'"
      by (elim yields_mono) (simp add: assms(3))
  qed simp
qed

section \<open>Lookups through the caches\<close>

lemma getTransfer_cached:
  "map_of (transfersCache s) tid = Some r \<Longrightarrow> getTransfer E tid s = (Inr (Some r), s)"
  by (simp add: getTransfer_def andThen_def reads_def ret_def)

lemma getBulkTransfer_cached:
  "map_of (bulkTransfersCache s) bid = Some r \<Longrightarrow> getBulkTransfer E bid s = (Inr (Some r), s)"
  by (simp add: getBulkTransfer_def andThen_def reads_def ret_def)

text \<open>
  What a lookup may leave behind when it is not answered by the cache: the world has moved, and a
  transfer that was found is a fresh object under the requested key.
\<close>

lemma wp_getTransfer_I:
  assumes "\<And>r. map_of (transfersCache s) tid = Some r \<Longrightarrow> Q (Inr (Some r)) s"
    and "\<And>e w. map_of (transfersCache s) tid = None \<Longrightarrow> Q (Inl e) (s\<lparr>world := w\<rparr>)"
    and "\<And>w. map_of (transfersCache s) tid = None \<Longrightarrow> Q (Inr None) (s\<lparr>world := w\<rparr>)"
    and "\<And>w t. map_of (transfersCache s) tid = None \<Longrightarrow>
           repo_getTransferById E tid (world s) = (Inr (Some t), w) \<Longrightarrow>
           Q (Inr (Some (tnext s))) (s\<lparr>world := w, theap := (theap s)(tnext s := t), tnext := Suc (tnext s),
             transfersCache := AList.update tid (tnext s) (transfersCache s)\<rparr>)"
  shows "wp (getTransfer E tid) Q s"
proof (cases "map_of (transfersCache s) tid")
  case (Some r)
  with assms(1) show ?thesis by (simp add: wp_unfold getTransfer_cached)
next
  case None
  with assms(2-4) show ?thesis
    by (auto simp: getTransfer_def wp_simps split: prod.splits sum.splits option.splits)
qed

lemma wp_getTransfer_found:
  assumes "\<And>e s'. outs s' = outs s \<Longrightarrow> Q (Inl e) s'"
    and "\<And>s'. outs s' = outs s \<Longrightarrow> Q (Inr None) s'"
    and "\<And>r s'. outs s' = outs s \<Longrightarrow> map_of (transfersCache s') tid = Some r \<Longrightarrow> Q (Inr (Some r)) s'"
  shows "wp (getTransfer E tid) Q s"
  by (rule wp_getTransfer_I) (auto intro!: assms simp: update_conv')

lemma wp_getBulkTransfer_I:
  assumes "\<And>e s'. outs s' = outs s \<Longrightarrow> theap s' = theap s \<Longrightarrow> Q (Inl e) s'"
    and "\<And>r s'. outs s' = outs s \<Longrightarrow> theap s' = theap s \<Longrightarrow> Q (Inr r) s'"
  shows "wp (getBulkTransfer E bid) Q s"
  by (auto simp: getBulkTransfer_def wp_simps intro: assms split: prod.splits sum.splits option.splits)

section \<open>Invariants of the objects and the cache\<close>

locale agg_invariant =
  fixes E :: "'w env"
    and I :: "'w agg \<Rightarrow> bool"
    and upd_ok :: "(transfer \<Rightarrow> transfer) \<Rightarrow> bool"
  assumes I_frame: "\<lbrakk>I s; theap s' = theap s; tnext s' = tnext s; transfersCache s' = transfersCache s\<rbrakk>
      \<Longrightarrow> I s'"
    and I_ref: "\<lbrakk>I s; map_of (transfersCache s) k = Some r\<rbrakk> \<Longrightarrow> r < tnext s"
    and I_new: "\<lbrakk>I s; transferState t = RECEIVED\<rbrakk> \<Longrightarrow> I (s\<lparr>theap := (theap s)(tnext s := t), tnext := Suc (tnext s)\<rparr>)"
    and I_fetch: "\<lbrakk>I s; map_of (transfersCache s) tid = None;
        repo_getTransferById E tid w = (Inr (Some t), w')\<rbrakk>
      \<Longrightarrow> I (s\<lparr>theap := (theap s)(tnext s := t), tnext := Suc (tnext s),
               transfersCache := AList.update tid (tnext s) (transfersCache s)\<rparr>)"
    and I_update: "\<lbrakk>I s; upd_ok f\<rbrakk> \<Longrightarrow> I (s\<lparr>theap := (theap s)(r := f (theap s r))\<rparr>)"
    and I_cache: "\<lbrakk>I s; r < tnext s\<rbrakk>
      \<Longrightarrow> I (s\<lparr>transfersCache := AList.update (Some (transferId (theap s r))) r (transfersCache s)\<rparr>)"
    and I_clear: "I s \<Longrightarrow> I (s\<lparr>transfersCache := []\<rparr>)"
    and upd_error: "upd_ok (\<lambda>t. t\<lparr>errorCode := c\<rparr>)"
    and upd_opaque: "upd_ok (\<lambda>t. t\<lparr>transferOpaqueState := v\<rparr>)"
    and upd_abort: "upd_ok (\<lambda>t. t\<lparr>updatedAt := n, transferState := ABORTED\<rparr>)"
    and upd_abort_code: "upd_ok (\<lambda>t. t\<lparr>updatedAt := n, transferState := ABORTED, errorCode := c\<rparr>)"
begin

text \<open>References that a handler holds stay valid: \<open>inv n\<close> adds that the first \<open>n\<close> are allocated.\<close>

definition inv :: "nat \<Rightarrow> 'w agg \<Rightarrow> bool" where
  "inv n s \<longleftrightarrow> I s \<and> n \<le> tnext s"

lemma inv_frame:
  "\<lbrakk>inv n s; theap s' = theap s; tnext s' = tnext s; transfersCache s' = transfersCache s\<rbrakk> \<Longrightarrow> inv n s'"
  by (auto simp: inv_def intro: I_frame)

lemma keeps_frame:
  assumes "\<And>s. theap (snd (m s)) = theap s \<and> tnext (snd (m s)) = tnext s
                \<and> transfersCache (snd (m s)) = transfersCache s"
  shows "keeps (inv n) m"
  by (rule keepsI) (use assms in \<open>auto simp: wp_unfold intro: inv_frame\<close>)

lemma keeps_call [keeps_intros]: "keeps (inv n) (call m)"
  by (rule keeps_frame) (simp add: call_def split: prod.splits)

lemma keeps_now [keeps_intros]: "keeps (inv n) (now E')"
  by (rule keeps_frame) (simp add: now_def split: prod.splits)

lemma keeps_uuid [keeps_intros]: "keeps (inv n) (uuid E')"
  by (rule keeps_frame) (simp add: uuid_def split: prod.splits)

lemma keeps_getT [keeps_intros]: "keeps (inv n) (getT r)"
  by (rule keeps_frame) (simp add: getT_def reads_def)

lemma keeps_getB [keeps_intros]: "keeps (inv n) (getB r)"
  by (rule keeps_frame) (simp add: getB_def reads_def)

lemma keeps_setB [keeps_intros]: "keeps (inv n) (setB r f)"
  by (rule keeps_frame) (simp add: setB_def modify_def)

lemma keeps_cacheB [keeps_intros]: "keeps (inv n) (cacheB r)"
  by (rule keeps_frame) (simp add: cacheB_def modify_def)

lemma keeps_newBulk [keeps_intros]: "keeps (inv n) (newBulk b)"
  by (rule keeps_frame) (simp add: newBulk_def)

lemma keeps_emit [keeps_intros]: "keeps (inv n) (emit msg e)"
  by (rule keeps_frame) (simp add: emit_def modify_def)

lemma keeps_pushAbRequest [keeps_intros]: "keeps (inv n) (pushAbRequest q)"
  by (rule keeps_frame) (simp add: pushAbRequest_def modify_def)

lemma keeps_pushCancelation [keeps_intros]: "keeps (inv n) (pushCancelation q)"
  by (rule keeps_frame) (simp add: pushCancelation_def modify_def)

lemma keeps_setT: "upd_ok f \<Longrightarrow> keeps (inv n) (setT r f)"
  by (rule keepsI) (auto simp: wp_simps inv_def intro: I_update)

lemmas keeps_setT_upd [keeps_intros] =
  keeps_setT [OF upd_error] keeps_setT [OF upd_opaque] keeps_setT [OF upd_abort]
  keeps_setT [OF upd_abort_code]

lemma keeps_cacheT [keeps_intros]: "Suc r \<le> n \<Longrightarrow> keeps (inv n) (cacheT r)"
  by (rule keepsI) (auto simp: wp_simps inv_def intro: I_cache)

text \<open>A new or fetched object is a valid reference for the rest of the handler.\<close>

lemma keeps_newTransfer [keeps_intros]:
  assumes "transferState t = RECEIVED" and "\<And>r. keeps (inv (max n (Suc r))) (k r)"
  shows "keeps (inv n) (andThen (newTransfer t) k)"
proof (rule keepsI)
  fix s assume s: "inv n s"
  let ?s = "s\<lparr>theap := (theap s)(tnext s := t), tnext := Suc (tnext s)\<rparr>"
  have "inv (max n (Suc (tnext s))) ?s"
    using s assms(1) by (auto simp: inv_def intro: I_new)
  then have "wp (k (tnext s)) (\<lambda>_ s'. inv (max n (Suc (tnext s))) s') ?s"
    by (rule keepsD [OF assms(2)])
  then show "wp (andThen (newTransfer t) k) (\<lambda>_ s'. inv n s') s"
    by (auto simp: wp_simps inv_def elim: wp_mono)
qed

lemma getTransfer_inv:
  assumes s: "inv n s"
  shows "wp (getTransfer E tid) (\<lambda>res s'. inv n s' \<and> (\<forall>r. res = Inr (Some r) \<longrightarrow> r < tnext s')) s"
proof (cases "map_of (transfersCache s) tid")
  case (Some r)
  with s show ?thesis by (auto simp: wp_unfold getTransfer_cached inv_def dest: I_ref)
next
  case None
  obtain res w where res: "repo_getTransferById E tid (world s) = (res, w)"
    by (cases "repo_getTransferById E tid (world s)")
  have s': "inv n (s\<lparr>world := w\<rparr>)"
    by (rule inv_frame [OF s]) simp_all
  show ?thesis
  proof (cases res)
    case (Inl e)
    with s' None res show ?thesis by (simp add: getTransfer_def wp_simps)
  next
    case (Inr found)
    show ?thesis
    proof (cases found)
      case None': None
      with s' None res Inr show ?thesis by (simp add: getTransfer_def wp_simps)
    next
      case (Some t)
      let ?s = "s\<lparr>world := w\<rparr>"
      have "inv n (?s\<lparr>theap := (theap ?s)(tnext ?s := t), tnext := Suc (tnext ?s),
               transfersCache := AList.update tid (tnext ?s) (transfersCache ?s)\<rparr>)"
        using s' I_fetch [of ?s tid "world s" t w] None res Inr Some unfolding inv_def by simp
      with None res Inr Some show ?thesis by (simp add: getTransfer_def wp_simps)
    qed
  qed
qed

lemma keeps_getTransfer [keeps_intros]: "keeps (inv n) (getTransfer E tid)"
  by (rule keepsI, rule wp_mono, erule getTransfer_inv) simp

lemma keeps_found_tryElse [keeps_intros]:
  assumes "\<And>e. keeps (inv n) (h e)" and "keeps (inv n) (k None)"
    and k: "\<And>r. keeps (inv (max n (Suc r))) (k (Some r))"
  shows "keeps (inv n) (tryElse (getTransfer E tid) h k)"
proof (rule keepsI, rule wp_tryElse_I, erule getTransfer_inv)
  fix e :: exn and s' assume "inv n s' \<and> (\<forall>r. Inl e = Inr (Some r) \<longrightarrow> r < tnext s')"
  then show "wp (h e) (\<lambda>_ s'. inv n s') s'" by (auto intro: keepsD [OF assms(1)])
next
  fix x s' assume x: "inv n s' \<and> (\<forall>r. Inr x = Inr (Some r) \<longrightarrow> r < tnext s')"
  show "wp (k x) (\<lambda>_ s'. inv n s') s'"
  proof (cases x)
    case None
    with x show ?thesis by (auto intro: keepsD [OF assms(2)])
  next
    case (Some r)
    with x have "inv (max n (Suc r)) s'" by (auto simp: inv_def)
    then have "wp (k (Some r)) (\<lambda>_ s'. inv (max n (Suc r)) s') s'" by (rule keepsD [OF k])
    with Some show ?thesis by (auto simp: inv_def elim: wp_mono)
  qed
qed

lemma keeps_found [keeps_intros]:
  assumes "keeps (inv n) (k None)" and "\<And>r. keeps (inv (max n (Suc r))) (k (Some r))"
  shows "keeps (inv n) (andThen (getTransfer E tid) k)"
proof -
  have "andThen (getTransfer E tid) k = tryElse (getTransfer E tid) raise k"
    by (rule ext) (simp add: andThen_def tryElse_def raise_def split: prod.splits sum.splits)
  with assms show ?thesis by (auto intro!: keeps_found_tryElse keeps_raise)
qed

lemma keeps_getBulkTransfer [keeps_intros]: "keeps (inv n) (getBulkTransfer E' bid)"
  unfolding getBulkTransfer_def
  by (intro keeps_intros keeps_modify) (erule inv_frame; simp)+

lemma keeps_flush [keeps_intros]: "keeps (inv n) (flush E')"
  unfolding flush_def
  by (intro keeps_intros keeps_modify) (auto simp: inv_def intro: I_clear)

end

text \<open>
  The continue handler of a prepare also reserves, that of a fulfil also commits.  Their lemmas come in
  two forms: \<open>keeps_..._if\<close>, in \<open>agg_invariant\<close>, asks that the invariant is kept by the one update the
  handler makes; \<open>agg_invariant_continue\<close> is for invariants that allow both updates anywhere.
\<close>

abbreviation reserved_at :: "int \<Rightarrow> transfer \<Rightarrow> transfer" where
  "reserved_at k \<equiv> \<lambda>t. t\<lparr>updatedAt := k, transferState := RESERVED\<rparr>"

abbreviation committed_at :: "int \<Rightarrow> int option \<Rightarrow> transfer \<Rightarrow> transfer" where
  "committed_at k ts \<equiv> \<lambda>t. t\<lparr>updatedAt := k, transferState := COMMITTED, completedTimestamp := ts\<rparr>"

locale agg_invariant_continue = agg_invariant +
  assumes upd_reserve: "upd_ok (reserved_at k)"
    and upd_commit: "upd_ok (committed_at k ts)"
begin

lemmas keeps_setT_continue = keeps_setT [OF upd_reserve] keeps_setT [OF upd_commit]

end

end
