(* ===== verification/Participants.thy ===== *)
theory Participants
  imports Agg_Reasoning
begin

text \<open>
  \<open>_getParticipantsInfo\<close> and \<open>_getTransferParticipantsAccounts\<close> of \<open>TransfersAggregate\<close>: the
  checks every transfer passes before Accounts & Balances is asked to move anything, and the
  tables that turn each of their errors into an output event and an error code.
\<close>

definition HUB_ID :: string where
  "HUB_ID = ''hub''"

section \<open>Participants\<close>

text \<open>The checks on one participant, in the order of the code; the four errors are its own.\<close>

definition checkParticipant ::
  "exn \<Rightarrow> exn \<Rightarrow> exn \<Rightarrow> exn \<Rightarrow> string \<Rightarrow> participant option \<Rightarrow> exn + participant" where
  "checkParticipant notFound idMismatch notApproved notActive fspId found =
     (case found of
        None \<Rightarrow> Inl notFound
      | Some p \<Rightarrow>
          if part_id p \<noteq> fspId then Inl idMismatch
          else if \<not> part_approved p then Inl notApproved
          else if \<not> part_isActive p then Inl notActive
          else Inr p)"

definition checkHub :: "participant option \<Rightarrow> exn + participant" where
  "checkHub = checkParticipant HubNotFoundError HubParticipantIdMismatchError
     HubParticipantNotApprovedError HubParticipantNotActiveError HUB_ID"

definition checkPayer :: "string \<Rightarrow> participant option \<Rightarrow> exn + participant" where
  "checkPayer = checkParticipant PayerParticipantNotFoundError PayerParticipantIdMismatchError
     PayerParticipantNotApprovedError PayerParticipantNotActiveError"

definition checkPayee :: "string \<Rightarrow> participant option \<Rightarrow> exn + participant" where
  "checkPayee = checkParticipant PayeeParticipantNotFoundError PayeeParticipantIdMismatchError
     PayeeParticipantNotApprovedError PayeeParticipantNotActiveError"

definition lift_sum :: "exn + 'a \<Rightarrow> ('w, 'a) act" where
  "lift_sum r = (case r of Inl e \<Rightarrow> raise e | Inr x \<Rightarrow> ret x)"

definition getParticipantsInfo :: "'w env \<Rightarrow> string \<Rightarrow> string \<Rightarrow> ('w, transfer_participants) act" where
  "getParticipantsInfo E payerId payeeId =
     andThen (call (participants_getParticipantInfo E HUB_ID)) (\<lambda>foundHub.
     andThen (lift_sum (checkHub foundHub)) (\<lambda>hub.
     andThen (call (participants_getParticipantInfo E payerId)) (\<lambda>foundPayer.
     andThen (lift_sum (checkPayer payerId foundPayer)) (\<lambda>payer.
     andThen (call (participants_getParticipantInfo E payeeId)) (\<lambda>foundPayee.
     andThen (lift_sum (checkPayee payeeId foundPayee)) (\<lambda>payee.
       ret \<lparr>tp_hub = hub, tp_payer = payer, tp_payee = payee\<rparr>))))))"

section \<open>Accounts\<close>

definition findAccount :: "participant \<Rightarrow> AccountType \<Rightarrow> string \<Rightarrow> participant_account option" where
  "findAccount p ty cur =
     find (\<lambda>a. acc_type a = accountTypeValue ty \<and> acc_currencyCode a = cur) (part_participantAccounts p)"

definition getTransferParticipantsAccounts ::
  "transfer_participants \<Rightarrow> transfer \<Rightarrow> exn + transfer_accounts" where
  "getTransferParticipantsAccounts ps t =
     (let cur = currencyCode t in
      case findAccount (tp_hub ps) HUB cur of
        None \<Rightarrow> Inl HubAccountNotFoundError
      | Some hubAccount \<Rightarrow>
      (case findAccount (tp_payer ps) POSITION cur of
        None \<Rightarrow> Inl PayerPositionAccountNotFoundError
      | Some payerPosAccount \<Rightarrow>
      (case findAccount (tp_payer ps) SETTLEMENT cur of
        None \<Rightarrow> Inl PayerLiquidityAccountNotFoundError
      | Some payerLiqAccount \<Rightarrow>
      (case findAccount (tp_payee ps) POSITION cur of
        None \<Rightarrow> Inl PayeePositionAccountNotFoundError
      | Some payeePosAccount \<Rightarrow>
      (case findAccount (tp_payee ps) SETTLEMENT cur of
        None \<Rightarrow> Inl PayeeLiquidityAccountNotFoundError
      | Some payeeLiqAccount \<Rightarrow>
          Inr \<lparr>ta_hubAccount = hubAccount, ta_payerPosAccount = payerPosAccount,
               ta_payerLiqAccount = payerLiqAccount, ta_payeePosAccount = payeePosAccount,
               ta_payeeLiqAccount = payeeLiqAccount\<rparr>)))))"

section \<open>Errors to events\<close>

text \<open>
  The chain of \<open>instanceof\<close> tests after \<open>_getParticipantsInfo\<close>: the event to push and the error
  code, or \<open>None\<close> for an error none of the tests knows.  \<open>_prepareTransferStart\<close>,
  \<open>_fulfilTransferStart\<close> and \<open>_rejectTransfer\<close> name the payer and payee of the transfer;
  \<open>_queryTransfer\<close> and \<open>_queryBulkTransfer\<close> the requester and the destination.
\<close>

definition participantsFailure :: "string \<Rightarrow> string \<Rightarrow> string \<Rightarrow> exn \<Rightarrow> (event \<times> error_code) option" where
  "participantsFailure tid payer payee e =
     (case e of
        HubNotFoundError \<Rightarrow> Some (TransferHubNotFoundFailedEvt tid HUB_NOT_FOUND, HUB_NOT_FOUND)
      | HubParticipantIdMismatchError \<Rightarrow>
          Some (TransferHubIdMismatchEvt tid HUB_ID HUB_PARTICIPANT_ID_MISMATCH, HUB_PARTICIPANT_ID_MISMATCH)
      | HubParticipantNotApprovedError \<Rightarrow>
          Some (TransferHubNotApprovedEvt tid HUB_ID HUB_PARTICIPANT_NOT_APPROVED, HUB_PARTICIPANT_NOT_APPROVED)
      | HubParticipantNotActiveError \<Rightarrow>
          Some (TransferHubNotActiveEvt tid HUB_ID HUB_PARTICIPANT_NOT_ACTIVE, HUB_PARTICIPANT_NOT_ACTIVE)
      | PayerParticipantNotFoundError \<Rightarrow>
          Some (TransferPayerNotFoundFailedEvt tid payer PAYER_PARTICIPANT_NOT_FOUND, PAYER_PARTICIPANT_NOT_FOUND)
      | PayerParticipantIdMismatchError \<Rightarrow>
          Some (TransferPayerIdMismatchEvt tid payer PAYER_PARTICIPANT_ID_MISMATCH, PAYER_PARTICIPANT_ID_MISMATCH)
      | PayerParticipantNotApprovedError \<Rightarrow>
          Some (TransferPayerNotApprovedEvt tid payer PAYER_PARTICIPANT_NOT_APPROVED, PAYER_PARTICIPANT_NOT_APPROVED)
      | PayerParticipantNotActiveError \<Rightarrow>
          Some (TransferPayerNotActiveEvt tid payer PAYER_PARTICIPANT_NOT_ACTIVE, PAYER_PARTICIPANT_NOT_ACTIVE)
      | PayeeParticipantNotFoundError \<Rightarrow>
          Some (TransferPayeeNotFoundFailedEvt tid payee PAYEE_PARTICIPANT_NOT_FOUND, PAYEE_PARTICIPANT_NOT_FOUND)
      | PayeeParticipantIdMismatchError \<Rightarrow>
          Some (TransferPayeeIdMismatchEvt tid payee PAYEE_PARTICIPANT_ID_MISMATCH, PAYEE_PARTICIPANT_ID_MISMATCH)
      | PayeeParticipantNotApprovedError \<Rightarrow>
          Some (TransferPayeeNotApprovedEvt tid payee PAYEE_PARTICIPANT_NOT_APPROVED, PAYEE_PARTICIPANT_NOT_APPROVED)
      | PayeeParticipantNotActiveError \<Rightarrow>
          Some (TransferPayeeNotActiveEvt tid payee PAYEE_PARTICIPANT_NOT_ACTIVE, PAYEE_PARTICIPANT_NOT_ACTIVE)
      | _ \<Rightarrow> None)"

text \<open>
  The same chain after \<open>_getTransferParticipantsAccounts\<close>; a missing hub account is reported with
  the code \<open>HUB_NOT_FOUND\<close>, as in the source, although \<open>HUB_ACCOUNT_NOT_FOUND\<close> exists.
\<close>

definition accountsFailure :: "string \<Rightarrow> string \<Rightarrow> string \<Rightarrow> exn \<Rightarrow> (event \<times> error_code) option" where
  "accountsFailure tid payer payee e =
     (case e of
        HubAccountNotFoundError \<Rightarrow> Some (TransferHubAccountNotFoundFailedEvt tid HUB_NOT_FOUND, HUB_NOT_FOUND)
      | PayerPositionAccountNotFoundError \<Rightarrow>
          Some (TransferPayerPositionAccountNotFoundFailedEvt tid payer PAYER_POSITION_ACCOUNT_NOT_FOUND,
                PAYER_POSITION_ACCOUNT_NOT_FOUND)
      | PayerLiquidityAccountNotFoundError \<Rightarrow>
          Some (TransferPayerLiquidityAccountNotFoundFailedEvt tid payer PAYER_LIQUIDITY_ACCOUNT_NOT_FOUND,
                PAYER_LIQUIDITY_ACCOUNT_NOT_FOUND)
      | PayeePositionAccountNotFoundError \<Rightarrow>
          Some (TransferPayeePositionAccountNotFoundFailedEvt tid payee PAYEE_POSITION_ACCOUNT_NOT_FOUND,
                PAYEE_POSITION_ACCOUNT_NOT_FOUND)
      | PayeeLiquidityAccountNotFoundError \<Rightarrow>
          Some (TransferPayeeLiquidityAccountNotFoundFailedEvt tid payee PAYEE_LIQUIDITY_ACCOUNT_NOT_FOUND,
                PAYEE_LIQUIDITY_ACCOUNT_NOT_FOUND)
      | _ \<Rightarrow> None)"

section \<open>What the checks establish\<close>

lemma checkParticipant_Inr:
  "checkParticipant e1 e2 e3 e4 i found = Inr p \<longleftrightarrow>
     found = Some p \<and> part_id p = i \<and> part_approved p \<and> part_isActive p"
  by (auto simp: checkParticipant_def split: option.splits)

lemma probe_lift_sum [probe_intros]: "probe (lift_sum r) (\<lambda>x. r = Inr x) (\<lambda>e. r = Inl e)"
  by (cases r) (auto simp: lift_sum_def intro: probe_ret probe_raise)

lemma wp_lift_sum [wp_simps]: "wp (lift_sum r) Q s = Q r s"
  by (cases r) (simp_all add: lift_sum_def wp_simps)

definition valid_participant :: "string \<Rightarrow> participant \<Rightarrow> bool" where
  "valid_participant i p \<longleftrightarrow> part_id p = i \<and> part_approved p \<and> part_isActive p"

definition valid_participants :: "string \<Rightarrow> string \<Rightarrow> transfer_participants \<Rightarrow> bool" where
  "valid_participants payer payee ps \<longleftrightarrow> valid_participant HUB_ID (tp_hub ps) \<and>
     valid_participant payer (tp_payer ps) \<and> valid_participant payee (tp_payee ps)"

lemmas check_defs = checkHub_def checkPayer_def checkPayee_def checkParticipant_Inr

lemma probe_getParticipantsInfo [probe_intros]:
  "probe (getParticipantsInfo E payer payee) (valid_participants payer payee) (\<lambda>_. True)"
  unfolding getParticipantsInfo_def
  by (rule probe_bind [OF probe_call_any] probe_bind [OF probe_lift_sum] probe_ret)+
     (auto simp: valid_participants_def valid_participant_def check_defs)

lemma silent_getParticipantsInfo [silent_intros]: "silent (getParticipantsInfo E payer payee)"
  by (rule silent_probe [OF probe_getParticipantsInfo])

lemma silent_lift_sum [silent_intros]: "silent (lift_sum r)"
  by (rule silent_probe [OF probe_lift_sum])

text \<open>
  A participants service that always answers, the same way within a run: then the check is a
  function of the directory.
\<close>

definition stable_directory :: "'w env \<Rightarrow> (string \<Rightarrow> participant option) \<Rightarrow> bool" where
  "stable_directory E dir \<longleftrightarrow> (\<forall>i w. fst (participants_getParticipantInfo E i w) = Inr (dir i))"

definition participantsOf ::
  "(string \<Rightarrow> participant option) \<Rightarrow> string \<Rightarrow> string \<Rightarrow> exn + transfer_participants" where
  "participantsOf dir payerId payeeId =
     (case checkHub (dir HUB_ID) of Inl e \<Rightarrow> Inl e | Inr hub \<Rightarrow>
     (case checkPayer payerId (dir payerId) of Inl e \<Rightarrow> Inl e | Inr payer \<Rightarrow>
     (case checkPayee payeeId (dir payeeId) of Inl e \<Rightarrow> Inl e | Inr payee \<Rightarrow>
       Inr \<lparr>tp_hub = hub, tp_payer = payer, tp_payee = payee\<rparr>)))"

lemma probe_directory:
  assumes "stable_directory E dir"
  shows "probe (getParticipantsInfo E payer payee)
     (\<lambda>ps. participantsOf dir payer payee = Inr ps) (\<lambda>e. participantsOf dir payer payee = Inl e)"
proof -
  have dir: "probe (call (participants_getParticipantInfo E i)) (\<lambda>x. x = dir i) (\<lambda>_. False)" for i
  proof (rule probe_call)
    fix w x w' assume "participants_getParticipantInfo E i w = (Inr x, w')"
    with assms show "x = dir i" unfolding stable_directory_def by (metis fst_conv sum.inject(2))
  next
    fix w e w' assume "participants_getParticipantInfo E i w = (Inl e, w')"
    with assms show False unfolding stable_directory_def by (metis fst_conv sum.simps(4))
  qed
  show ?thesis
    unfolding getParticipantsInfo_def
    by (rule probe_bind [OF dir] probe_bind [OF probe_lift_sum] probe_ret)+
       (auto simp: participantsOf_def)
qed

subsection \<open>The gate\<close>

text \<open>When \<open>_getParticipantsInfo\<close> returns, the hub, the payer and the payee it returns are the ones
  asked for, approved and active; whether it returns or throws, it changes nothing of the aggregate.\<close>

theorem getParticipantsInfo_gate:
  assumes "getParticipantsInfo E payer payee s = (r, s')"
  shows "(\<exists>w. s' = s\<lparr>world := w\<rparr>) \<and> (\<forall>ps. r = Inr ps \<longrightarrow> valid_participants payer payee ps)"
  using probe_getParticipantsInfo [of E payer payee] assms
  unfolding probe_def by (metis fst_conv snd_conv)

text \<open>The conditions of the code with the error code each stands for, in the order of the checks.\<close>

definition violations :: "(string \<Rightarrow> participant option) \<Rightarrow> string \<Rightarrow> string \<Rightarrow> (bool \<times> error_code) list" where
  "violations dir payer payee =
     [(dir HUB_ID = None, HUB_NOT_FOUND),
      (part_id (the (dir HUB_ID)) \<noteq> HUB_ID, HUB_PARTICIPANT_ID_MISMATCH),
      (\<not> part_approved (the (dir HUB_ID)), HUB_PARTICIPANT_NOT_APPROVED),
      (\<not> part_isActive (the (dir HUB_ID)), HUB_PARTICIPANT_NOT_ACTIVE),
      (dir payer = None, PAYER_PARTICIPANT_NOT_FOUND),
      (part_id (the (dir payer)) \<noteq> payer, PAYER_PARTICIPANT_ID_MISMATCH),
      (\<not> part_approved (the (dir payer)), PAYER_PARTICIPANT_NOT_APPROVED),
      (\<not> part_isActive (the (dir payer)), PAYER_PARTICIPANT_NOT_ACTIVE),
      (dir payee = None, PAYEE_PARTICIPANT_NOT_FOUND),
      (part_id (the (dir payee)) \<noteq> payee, PAYEE_PARTICIPANT_ID_MISMATCH),
      (\<not> part_approved (the (dir payee)), PAYEE_PARTICIPANT_NOT_APPROVED),
      (\<not> part_isActive (the (dir payee)), PAYEE_PARTICIPANT_NOT_ACTIVE)]"

lemma participantsOf_violations:
  "(case participantsOf dir payer payee of
      Inr _ \<Rightarrow> None
    | Inl e \<Rightarrow> map_option snd (participantsFailure tid payer payee e))
   = map_option snd (find fst (violations dir payer payee))"
  by (cases "dir HUB_ID"; cases "dir payer"; cases "dir payee")
     (simp_all add: participantsOf_def violations_def checkHub_def checkPayer_def checkPayee_def
        checkParticipant_def participantsFailure_def)

lemma participantsOf_classified:
  assumes "participantsOf dir payer payee = Inl e"
  obtains ev code where "participantsFailure tid payer' payee' e = Some (ev, code)"
  using assms
  by (auto simp: participantsOf_def checkHub_def checkPayer_def checkPayee_def checkParticipant_def
      participantsFailure_def split: option.splits if_splits sum.splits)

text \<open>C24: with a participants service that answers, \<open>_getParticipantsInfo\<close> returns exactly when none of
  the twelve conditions is violated, and otherwise throws an error that the handlers' \<open>instanceof\<close>
  chain maps to the error code of the first violated condition: no failed check goes unreported.\<close>

theorem getParticipantsInfo_first_violation:
  assumes "stable_directory E dir"
  shows "(case fst (getParticipantsInfo E payer payee s) of
            Inr _ \<Rightarrow> None
          | Inl e \<Rightarrow> map_option snd (participantsFailure tid payer payee e))
         = map_option snd (find fst (violations dir payer payee))"
proof -
  have "fst (getParticipantsInfo E payer payee s) = participantsOf dir payer payee"
    using probe_directory [OF assms, of payer payee] unfolding probe_def
    by (cases "fst (getParticipantsInfo E payer payee s)") auto
  then show ?thesis by (simp only: participantsOf_violations)
qed

subsection \<open>The accounts\<close>

lemma findAccount_Some:
  "findAccount p ty cur = Some a \<Longrightarrow>
     a \<in> set (part_participantAccounts p) \<and> acc_type a = accountTypeValue ty \<and> acc_currencyCode a = cur"
  by (auto simp: findAccount_def find_Some_iff)

lemma findAccount_None:
  "findAccount p ty cur = None \<longleftrightarrow>
     (\<forall>a \<in> set (part_participantAccounts p). acc_type a = accountTypeValue ty \<longrightarrow> acc_currencyCode a \<noteq> cur)"
  by (auto simp: findAccount_def find_None_iff)

definition has_account :: "participant \<Rightarrow> AccountType \<Rightarrow> string \<Rightarrow> bool" where
  "has_account p ty cur \<longleftrightarrow>
     (\<exists>a \<in> set (part_participantAccounts p). acc_type a = accountTypeValue ty \<and> acc_currencyCode a = cur)"

definition is_account :: "participant \<Rightarrow> AccountType \<Rightarrow> string \<Rightarrow> participant_account \<Rightarrow> bool" where
  "is_account p ty cur a \<longleftrightarrow>
     a \<in> set (part_participantAccounts p) \<and> acc_type a = accountTypeValue ty \<and> acc_currencyCode a = cur"

definition missing_accounts :: "transfer_participants \<Rightarrow> string \<Rightarrow> (bool \<times> error_code) list" where
  "missing_accounts ps cur =
     [(\<not> has_account (tp_hub ps) HUB cur, HUB_NOT_FOUND),
      (\<not> has_account (tp_payer ps) POSITION cur, PAYER_POSITION_ACCOUNT_NOT_FOUND),
      (\<not> has_account (tp_payer ps) SETTLEMENT cur, PAYER_LIQUIDITY_ACCOUNT_NOT_FOUND),
      (\<not> has_account (tp_payee ps) POSITION cur, PAYEE_POSITION_ACCOUNT_NOT_FOUND),
      (\<not> has_account (tp_payee ps) SETTLEMENT cur, PAYEE_LIQUIDITY_ACCOUNT_NOT_FOUND)]"

lemma has_account_find: "has_account p ty cur \<longleftrightarrow> findAccount p ty cur \<noteq> None"
  by (auto simp: has_account_def findAccount_None)

text \<open>\<open>_getTransferParticipantsAccounts\<close> either finds, for the transfer's currency, the hub's
  reconciliation account and the position and settlement accounts of both participants, each in the
  account list of its own participant, or reports the first account that is missing.\<close>

theorem accounts_found_or_first_missing:
  "case getTransferParticipantsAccounts ps t of
     Inr a \<Rightarrow>
       find fst (missing_accounts ps (currencyCode t)) = None \<and>
       is_account (tp_hub ps) HUB (currencyCode t) (ta_hubAccount a) \<and>
       is_account (tp_payer ps) POSITION (currencyCode t) (ta_payerPosAccount a) \<and>
       is_account (tp_payer ps) SETTLEMENT (currencyCode t) (ta_payerLiqAccount a) \<and>
       is_account (tp_payee ps) POSITION (currencyCode t) (ta_payeePosAccount a) \<and>
       is_account (tp_payee ps) SETTLEMENT (currencyCode t) (ta_payeeLiqAccount a)
   | Inl e \<Rightarrow>
       map_option snd (accountsFailure tid payer payee e)
         = map_option snd (find fst (missing_accounts ps (currencyCode t)))
       \<and> accountsFailure tid payer payee e \<noteq> None"
  by (auto simp: getTransferParticipantsAccounts_def missing_accounts_def has_account_find Let_def
      accountsFailure_def is_account_def dest!: findAccount_Some split: option.splits)

lemma accounts_classified:
  assumes "getTransferParticipantsAccounts ps t = Inl e"
  obtains ev code where "accountsFailure tid payer payee e = Some (ev, code)"
  using assms
  by (auto simp: getTransferParticipantsAccounts_def Let_def accountsFailure_def split: option.splits)

section \<open>Preservation\<close>

context agg_invariant
begin

lemma keeps_probe: "probe m R F \<Longrightarrow> keeps (inv n) m"
  by (rule keepsI, erule wp_probe) (erule inv_frame; simp)+

lemma keeps_lift_sum [keeps_intros]: "keeps (inv n) (lift_sum r)"
  by (rule keeps_probe [OF probe_lift_sum])

lemma keeps_getParticipantsInfo [keeps_intros]: "keeps (inv n) (getParticipantsInfo E' payer payee)"
  by (rule keeps_probe [OF probe_getParticipantsInfo])

end

end
