(* ===== verification/Prepare.thy ===== *)
theory Prepare
  imports Participants
begin

text \<open>
  Cancelling a reservation (\<open>_cancelTransfer\<close>) and the two halves of a prepare: \<open>_prepareTransferStart\<close>,
  which validates the command and queues a \<open>checkLiquidAndReserve\<close> request, and
  \<open>_prepareTransferContinue\<close>, which acts on the answer of Accounts & Balances.
\<close>

section \<open>Cancelling a reservation\<close>

definition cancelRequest :: "transfer \<Rightarrow> transfer_accounts \<Rightarrow> string \<Rightarrow> ab_request" where
  "cancelRequest t acc requestId =
     \<lparr>req_requestType = cancelReservation,
      req_requestId = requestId,
      req_payerPositionAccountId = acc_id (ta_payerPosAccount acc),
      req_payerLiquidityAccountId = Some (acc_id (ta_payerLiqAccount acc)),
      req_hubJokeAccountId = acc_id (ta_hubAccount acc),
      req_transferId = transferId t,
      req_transferAmount = amount t,
      req_currencyCode = currencyCode t,
      req_payerNetDebitCap = None,
      req_payeePositionAccountId = None\<rparr>"

definition cancelTransferBody :: "'w env \<Rightarrow> string option \<Rightarrow> error_code \<Rightarrow> ('w, unit) act" where
  "cancelTransferBody E tid code =
     andThen (getTransfer E tid) (\<lambda>found.
       case found of
         None \<Rightarrow> raise TransferNotFoundError
       | Some r \<Rightarrow>
           andThen (getT r) (\<lambda>t.
           andThen (getParticipantsInfo E (payerFspId t) (payeeFspId t)) (\<lambda>participants.
           andThen (lift_sum (getTransferParticipantsAccounts participants t)) (\<lambda>accounts.
           andThen (uuid E) (\<lambda>u.
           andThen (pushCancelation (cancelRequest t accounts u)) (\<lambda>_.
           andThen (now E) (\<lambda>n.
           andThen (setT r (\<lambda>t. t\<lparr>updatedAt := n, transferState := ABORTED,
                                  errorCode := Some (ErrName code)\<rparr>)) (\<lambda>_.
           andThen (getT r) (\<lambda>t'.
             call (repo_updateTransfer E t'))))))))))"

definition cancelTransfer :: "'w env \<Rightarrow> string option \<Rightarrow> error_code \<Rightarrow> ('w, unit) act" where
  "cancelTransfer E tid code =
     tryElse (cancelTransferBody E tid code) (\<lambda>_. raise UnableToCancelTransferError) ret"

section \<open>Prepare: start\<close>

definition prepareHash :: "'w env \<Rightarrow> prepare_payload \<Rightarrow> string" where
  "prepareHash E p = generateSha256 E
     [(''transferId'', Inl (prep_transferId p)),
      (''payeeFspId'', Inl (prep_payeeFsp p)),
      (''payerFspId'', Inl (prep_payerFsp p)),
      (''amount'', Inl (prep_amount p)),
      (''expirationTimestamp'', Inr (prep_expiration p))]"

text \<open>A command for a transfer that exists: resend the outcome, or ignore it while in progress.\<close>

definition prepareExisting :: "command \<Rightarrow> nat \<Rightarrow> ('w, unit) act" where
  "prepareExisting msg r =
     andThen (getT r) (\<lambda>t.
       case transferState t of
         RECEIVED \<Rightarrow> ret ()
       | RESERVED \<Rightarrow> ret ()
       | COMMITTED \<Rightarrow>
           emit msg (TransferQueryResponseEvt (transferId t) COMMITTED (completedTimestamp t) (transferExtensions t))
       | ABORTED \<Rightarrow>
           emit msg (TransferQueryResponseEvt (transferId t) ABORTED (completedTimestamp t) (transferExtensions t)))"

definition newTransferOf :: "command \<Rightarrow> prepare_payload \<Rightarrow> string \<Rightarrow> string \<Rightarrow> int \<Rightarrow> transfer" where
  "newTransferOf msg p hsh model n =
     \<lparr>createdAt = n,
      updatedAt = n,
      transferId = prep_transferId p,
      bulkTransferId = prep_bulkTransferId p,
      payeeFspId = prep_payeeFsp p,
      payerFspId = prep_payerFsp p,
      amount = prep_amount p,
      currencyCode = prep_currencyCode p,
      expirationTimestamp = prep_expiration p,
      transferState = RECEIVED,
      completedTimestamp = None,
      errorCode = None,
      errorInformation = None,
      settlementModel = model,
      hash = hsh,
      payerIdType = prep_payerIdType p,
      payeeIdType = prep_payeeIdType p,
      transferType = prep_transferType p,
      transferExtensions = prep_extensions p,
      transferProtocolType = cmd_protocolType msg,
      transferOpaqueState = cmd_opaqueState msg\<rparr>"

lemma newTransferOf_received [simp]: "transferState (newTransferOf msg p hsh model n) = RECEIVED"
  by (simp add: newTransferOf_def)

definition payerNetDebitCap :: "'w env \<Rightarrow> participant \<Rightarrow> string \<Rightarrow> string" where
  "payerNetDebitCap E payer cur =
     (case part_netDebitCaps payer of
        None \<Rightarrow> ''0''
      | Some caps \<Rightarrow>
          (case find (\<lambda>c. ndc_currencyCode c = cur) caps of
             None \<Rightarrow> ''0''
           | Some c \<Rightarrow> numberToString E (ndc_currentValue c)))"

definition reserveRequest :: "transfer \<Rightarrow> transfer_accounts \<Rightarrow> string \<Rightarrow> string \<Rightarrow> ab_request" where
  "reserveRequest t acc ndc requestId =
     \<lparr>req_requestType = checkLiquidAndReserve,
      req_requestId = requestId,
      req_payerPositionAccountId = acc_id (ta_payerPosAccount acc),
      req_payerLiquidityAccountId = Some (acc_id (ta_payerLiqAccount acc)),
      req_hubJokeAccountId = acc_id (ta_hubAccount acc),
      req_transferId = transferId t,
      req_transferAmount = amount t,
      req_currencyCode = currencyCode t,
      req_payerNetDebitCap = Some ndc,
      req_payeePositionAccountId = None\<rparr>"

text \<open>The catch after \<open>_getParticipantsInfo\<close>: the failed transfer is cached (so it is stored).\<close>

definition prepareParticipantsError :: "command \<Rightarrow> nat \<Rightarrow> exn \<Rightarrow> ('w, unit) act" where
  "prepareParticipantsError msg r e =
     andThen (getT r) (\<lambda>t.
       case participantsFailure (transferId t) (payerFspId t) (payeeFspId t) e of
         None \<Rightarrow> ret ()
       | Some (ev, code) \<Rightarrow>
           andThen (setT r (\<lambda>t. t\<lparr>errorCode := Some (ErrName code)\<rparr>)) (\<lambda>_.
           andThen (cacheT r) (\<lambda>_.
             emit msg ev)))"

text \<open>The catch after \<open>_getTransferParticipantsAccounts\<close>: here the transfer is not cached.\<close>

definition prepareAccountsError :: "command \<Rightarrow> nat \<Rightarrow> exn \<Rightarrow> ('w, unit) act" where
  "prepareAccountsError msg r e =
     andThen (getT r) (\<lambda>t.
       case accountsFailure (transferId t) (payerFspId t) (payeeFspId t) e of
         None \<Rightarrow> ret ()
       | Some (ev, code) \<Rightarrow>
           andThen (setT r (\<lambda>t. t\<lparr>errorCode := Some (ErrName code)\<rparr>)) (\<lambda>_.
             emit msg ev))"

text \<open>From the transfer and its accounts to the reminder and the queued request.\<close>

definition prepareReserve :: "'w env \<Rightarrow> command \<Rightarrow> prepare_payload \<Rightarrow> nat \<Rightarrow> transfer_participants \<Rightarrow>
    transfer_accounts \<Rightarrow> ('w, unit) act" where
  "prepareReserve E msg p r participants accounts =
     andThen (getT r) (\<lambda>t.
       let ndc = payerNetDebitCap E (tp_payer participants) (currencyCode t) in
       andThen (cacheT r) (\<lambda>_.
         tryElse (call (scheduling_createSingleReminder E (transferId t) (expirationTimestamp t)
                    \<lparr>rem_transfer = t, rem_protocolType = cmd_protocolType msg,
                     rem_opaqueState = cmd_opaqueState msg\<rparr>))
           (\<lambda>_. emit msg (TransferUnableCreateReminderEvt (prep_transferId p) UNABLE_TO_CREATE_TRANSFER_REMINDER))
           (\<lambda>_. andThen (uuid E) (\<lambda>u.
                  pushAbRequest (reserveRequest t accounts ndc u)))))"

definition getSettlementModel :: "'w env \<Rightarrow> prepare_payload \<Rightarrow> ('w, string) act" where
  "getSettlementModel E p =
     andThen (call (settlements_getSettlementModelId E (prep_amount p) (prep_currencyCode p)
                (prep_currencyCode p) (prep_extensions p))) (\<lambda>model.
       if model = '''' then raise (OtherError ''Invalid settlementModelId'') else ret model)"

definition prepareNew :: "'w env \<Rightarrow> command \<Rightarrow> prepare_payload \<Rightarrow> string \<Rightarrow> ('w, unit) act" where
  "prepareNew E msg p hsh =
     tryElse (getSettlementModel E p)
       (\<lambda>_. emit msg (TransferUnableToGetSettlementModelEvt (prep_transferId p) (prep_amount p)
              (prep_currencyCode p) (prep_currencyCode p) UNABLE_TO_GET_TRANSFER_SETTLEMENT_MODEL))
       (\<lambda>model.
          andThen (now E) (\<lambda>n.
          andThen (newTransfer (newTransferOf msg p hsh model n)) (\<lambda>r.
          andThen (getT r) (\<lambda>t.
            tryElse (getParticipantsInfo E (payerFspId t) (payeeFspId t))
              (prepareParticipantsError msg r)
              (\<lambda>participants.
                 tryElse (lift_sum (getTransferParticipantsAccounts participants t))
                   (prepareAccountsError msg r)
                   (prepareReserve E msg p r participants))))))"

definition prepareTransferStart :: "'w env \<Rightarrow> command \<Rightarrow> prepare_payload \<Rightarrow> ('w, unit) act" where
  "prepareTransferStart E msg p =
     (let hsh = prepareHash E p in
      tryElse (getTransfer E (Some (prep_transferId p)))
        (\<lambda>_. emit msg (TransferUnableToGetTransferByIdEvt (prep_transferId p) UNABLE_TO_GET_TRANSFER))
        (\<lambda>found.
           case found of
             None \<Rightarrow> prepareNew E msg p hsh
           | Some r \<Rightarrow> prepareExisting msg r))"

section \<open>Prepare: continue\<close>

text \<open>
  What every continue handler does when the transfer is gone: try to cancel, and report either the
  missing transfer or the failed cancellation.
\<close>

definition missingTransfer :: "'w env \<Rightarrow> command \<Rightarrow> string option \<Rightarrow> ('w, unit) act" where
  "missingTransfer E msg tid =
     tryElse (cancelTransfer E tid TRANSFER_NOT_FOUND)
       (\<lambda>_. emit msg (TransferCancelReservationFailedEvt tid UNABLE_TO_CANCEL_TRANSFER_RESERVATION))
       (\<lambda>_. emit msg (TransferNotFoundEvt tid TRANSFER_NOT_FOUND))"

definition preparedPayload :: "command_body \<Rightarrow> transfer \<Rightarrow> int \<Rightarrow> prepared_payload" where
  "preparedPayload b t preparedAt =
     \<lparr>pe_transferId = payload_transferId b,
      pe_payeeFsp = payload_payeeFsp b,
      pe_payerFsp = payload_payerFsp b,
      pe_amount = payload_amount b,
      pe_currencyCode = payload_currencyCode b,
      pe_expiration = payload_expiration b,
      pe_settlementModel = settlementModel t,
      pe_preparedAt = preparedAt,
      pe_extensions = transferExtensions t\<rparr>"

definition prepareTransferContinue ::
  "'w env \<Rightarrow> ab_response \<Rightarrow> ab_request \<Rightarrow> command \<Rightarrow> nat option \<Rightarrow> ('w, unit) act" where
  "prepareTransferContinue E rsp req orig tr =
     andThen (now E) (\<lambda>preparedAt.
       case tr of
         None \<Rightarrow> missingTransfer E orig (payload_transferId (cmd_body orig))
       | Some r \<Rightarrow>
           if \<not> rsp_success rsp then
             andThen (getT r) (\<lambda>t.
             andThen (now E) (\<lambda>n.
             andThen (setT r (\<lambda>t. t\<lparr>updatedAt := n, transferState := ABORTED,
                                    errorCode := Some (ErrName TRANSFER_LIQUIDITY_CHECK_FAILED)\<rparr>)) (\<lambda>_.
             andThen (cacheT r) (\<lambda>_.
               emit orig (TransferPrepareLiquidityCheckFailedEvt (transferId t) (payerFspId t)
                 (amount t) (currencyCode t) TRANSFER_LIQUIDITY_CHECK_FAILED)))))
           else
             andThen (now E) (\<lambda>n.
             andThen (setT r (\<lambda>t. t\<lparr>updatedAt := n, transferState := RESERVED\<rparr>)) (\<lambda>_.
             andThen (cacheT r) (\<lambda>_.
             andThen (getT r) (\<lambda>t.
               if \<not> truthy (bulkTransferId t) then
                 emit orig (TransferPreparedEvt (preparedPayload (cmd_body orig) t preparedAt))
               else ret ())))))"

section \<open>Cancelling: what it does\<close>

lemma accounts_update [simp]:
  "getTransferParticipantsAccounts ps (t\<lparr>updatedAt := n\<rparr>) = getTransferParticipantsAccounts ps t"
  "getTransferParticipantsAccounts ps (t\<lparr>transferState := st\<rparr>) = getTransferParticipantsAccounts ps t"
  "getTransferParticipantsAccounts ps (t\<lparr>errorCode := c\<rparr>) = getTransferParticipantsAccounts ps t"
  "getTransferParticipantsAccounts ps (t\<lparr>transferOpaqueState := v\<rparr>) = getTransferParticipantsAccounts ps t"
  by (simp_all add: getTransferParticipantsAccounts_def)

lemma cancelRequest_update [simp]:
  "cancelRequest (t\<lparr>updatedAt := n\<rparr>) a u = cancelRequest t a u"
  "cancelRequest (t\<lparr>transferState := st\<rparr>) a u = cancelRequest t a u"
  "cancelRequest (t\<lparr>errorCode := c\<rparr>) a u = cancelRequest t a u"
  by (simp_all add: cancelRequest_def)

lemma yields_cancelTransfer:
  "yields (\<lambda>r es qs cs. es = [] \<and> qs = [] \<and> length cs \<le> 1 \<and>
       (r = Inr () \<longrightarrow> length cs = 1) \<and> (\<forall>e. r = Inl e \<longrightarrow> e = UnableToCancelTransferError))
     (cancelTransfer E tid code) s"
proof -
  have "yields (\<lambda>r es qs cs. es = [] \<and> qs = [] \<and> length cs \<le> 1 \<and> (r = Inr () \<longrightarrow> length cs = 1))
      (cancelTransferBody E tid code) s"
    unfolding cancelTransferBody_def
    by (intro yields_andThen_silent yields_andThen [OF yields_pushCancelation [where P = "\<lambda>r es qs cs. es = [] \<and> qs = [] \<and> length cs = 1"]]
        yields_option yields_raise yields_silent silent_intros) auto
  then show ?thesis
    unfolding cancelTransfer_def
    by (rule yields_tryElse) (auto intro: yields_raise yields_ret)
qed

text \<open>A cancellation in the middle of a handler: at most one request is added to the cancellations.\<close>

lemma yields_afterCancel:
  assumes "\<And>cs s'. length cs \<le> 1 \<Longrightarrow> yields (after [] [] cs P) (h UnableToCancelTransferError) s'"
    and "\<And>c s'. yields (after [] [] [c] P) (k ()) s'"
  shows "yields P (tryElse (cancelTransfer E tid code) h k) s"
proof (rule yields_tryElse [OF yields_cancelTransfer], goal_cases)
  case (1 e es qs cs s')
  then show ?case using assms(1) by simp
next
  case (2 x es qs cs s')
  then show ?case using assms(2) by (cases cs) auto
qed

text \<open>When \<open>_cancelTransfer\<close> succeeds, one \<open>cancelReservation\<close> request has been queued, for the
  transfer's own amount and currency and for accounts found among those of its valid participants,
  and the cached transfer is \<open>ABORTED\<close> with the error code given.\<close>

theorem cancelTransfer_success:
  fixes s s' :: "'a agg"
  assumes "cancelTransfer E tid code s = (Inr (), s')"
  shows "\<exists>r ps a u. map_of (transfersCache s') tid = Some r \<and>
     transferState (theap s' r) = ABORTED \<and> errorCode (theap s' r) = Some (ErrName code) \<and>
     valid_participants (payerFspId (theap s' r)) (payeeFspId (theap s' r)) ps \<and>
     getTransferParticipantsAccounts ps (theap s' r) = Inr a \<and>
     abCancelationBatchRequests s' = abCancelationBatchRequests s @ [cancelRequest (theap s' r) a u] \<and>
     outputEvents s' = outputEvents s \<and> abBatchRequests s' = abBatchRequests s"
proof -
  define Q where "Q = (\<lambda>(res :: exn + unit) (s' :: 'a agg). res = Inr () \<longrightarrow>
     (\<exists>r ps a u. map_of (transfersCache s') tid = Some r \<and>
     transferState (theap s' r) = ABORTED \<and> errorCode (theap s' r) = Some (ErrName code) \<and>
     valid_participants (payerFspId (theap s' r)) (payeeFspId (theap s' r)) ps \<and>
     getTransferParticipantsAccounts ps (theap s' r) = Inr a \<and>
     abCancelationBatchRequests s' = abCancelationBatchRequests s @ [cancelRequest (theap s' r) a u] \<and>
     outputEvents s' = outputEvents s \<and> abBatchRequests s' = abBatchRequests s))"
  have "wp (cancelTransfer E tid code) Q s"
    unfolding cancelTransfer_def cancelTransferBody_def wp_tryElse wp_andThen
  proof (rule wp_getTransfer_found, goal_cases)
    case (1 e s1)
    show ?case by (simp add: wp_simps Q_def)
  next
    case (2 s1)
    show ?case by (simp add: wp_simps Q_def)
  next
    case (3 r s1)
    then have s1: "abCancelationBatchRequests s1 = abCancelationBatchRequests s"
        "outputEvents s1 = outputEvents s" "abBatchRequests s1 = abBatchRequests s"
      by (simp_all add: outs_def)
    note probe = wp_probe [OF probe_getParticipantsInfo]
    show ?case
      unfolding wp_getT sum.case option.case wp_andThen
    proof (rule probe, goal_cases)
      case (1 e w)
      show ?case by (simp add: wp_simps Q_def)
    next
      case (2 ps w)
      then show ?case using 3 s1
        by (auto simp: wp_simps Q_def split: sum.splits prod.splits)
    qed
  qed
  with assms show ?thesis by (simp add: wp_def Q_def)
qed

text \<open>\<open>_cancelTransfer\<close> reports every failure as the same error; a failure may leave one queued
  cancellation behind (when only the write of the aborted transfer failed), and never an event.\<close>

theorem cancelTransfer_failure:
  assumes "cancelTransfer E tid code s = (Inl e, s')"
  shows "e = UnableToCancelTransferError \<and> outputEvents s' = outputEvents s \<and>
     abBatchRequests s' = abBatchRequests s \<and>
     (\<exists>cs. abCancelationBatchRequests s' = abCancelationBatchRequests s @ cs \<and> length cs \<le> 1)"
  by (rule yieldsD [OF yields_cancelTransfer assms]) simp

text \<open>
  \<open>_cancelTransfer\<close> repeats the participant and account checks on the stored transfer: when they fail,
  so does the cancellation, and nothing is queued or changed.
\<close>

definition checksOf :: "(string \<Rightarrow> participant option) \<Rightarrow> transfer \<Rightarrow> exn + transfer_accounts" where
  "checksOf dir t =
     (case participantsOf dir (payerFspId t) (payeeFspId t) of
        Inl e \<Rightarrow> Inl e
      | Inr ps \<Rightarrow> getTransferParticipantsAccounts ps t)"

lemma getParticipantsInfo_stable:
  assumes "stable_directory E dir"
  shows "\<exists>w. getParticipantsInfo E payer payee s = (participantsOf dir payer payee, s\<lparr>world := w\<rparr>)"
proof -
  have "\<exists>w. snd (getParticipantsInfo E payer payee s) = s\<lparr>world := w\<rparr>"
    and "fst (getParticipantsInfo E payer payee s) = participantsOf dir payer payee"
    using probe_directory [OF assms, of payer payee] unfolding probe_def
    by (blast, cases "fst (getParticipantsInfo E payer payee s)") auto
  then show ?thesis by (metis prod.collapse)
qed

lemma cancelTransfer_checks_fail:
  assumes "stable_directory E dir" and "map_of (transfersCache s) tid = Some r"
    and "checksOf dir (theap s r) = Inl e"
  shows "\<exists>w. cancelTransfer E tid code s = (Inl UnableToCancelTransferError, s\<lparr>world := w\<rparr>)"
proof -
  obtain w where w: "getParticipantsInfo E (payerFspId (theap s r)) (payeeFspId (theap s r)) s =
      (participantsOf dir (payerFspId (theap s r)) (payeeFspId (theap s r)), s\<lparr>world := w\<rparr>)"
    using getParticipantsInfo_stable [OF assms(1)] by blast
  have "cancelTransfer E tid code s = (Inl UnableToCancelTransferError, s\<lparr>world := w\<rparr>)"
    using assms(2,3)
    by (auto simp: cancelTransfer_def cancelTransferBody_def run_simps getTransfer_cached getT_def w
        lift_sum_def checksOf_def split: sum.splits)
  then show ?thesis ..
qed

lemma cancelTransfer_keeps_aborted:
  assumes "map_of (transfersCache s) tid = Some r" and "transferState (theap s r) = ABORTED"
  shows "wp (cancelTransfer E tid code) (\<lambda>_ s'. transferState (theap s' r) = ABORTED) s"
proof -
  note probe = wp_probe [OF probe_getParticipantsInfo]
  have "wp (andThen (getParticipantsInfo E payer payee) k) (\<lambda>_ s'. transferState (theap s' r) = ABORTED) s"
    if "\<And>ps w. wp (k ps) (\<lambda>_ s'. transferState (theap s' r) = ABORTED) (s\<lparr>world := w\<rparr>)" for payer payee and k :: "_ \<Rightarrow> ('a, unit) act"
    unfolding wp_andThen by (rule probe) (simp_all add: assms(2) that)
  then have "wp (cancelTransferBody E tid code) (\<lambda>_ s'. transferState (theap s' r) = ABORTED) s"
    using assms unfolding cancelTransferBody_def
    by (simp add: wp_unfold [of "getTransfer E tid"] wp_andThen [of "getTransfer E tid"] getTransfer_cached wp_getT
        wp_andThen [of "getT r"])
       (auto simp: wp_simps assms(2) split: prod.splits sum.splits)
  then show ?thesis
    unfolding cancelTransfer_def wp_tryElse
    by (rule wp_mono) (auto simp: wp_simps split: sum.splits)
qed

section \<open>Prepare: what it does\<close>

text \<open>
  One command is answered at most once: by an event, which carries the protocol data of the command,
  or by a request to Accounts & Balances; it may queue up to \<open>c\<close> cancellations.
\<close>

definition carries :: "command \<Rightarrow> event_msg \<Rightarrow> bool" where
  "carries msg e \<longleftrightarrow> evt_protocolType e = cmd_protocolType msg \<and> evt_opaqueState e = cmd_opaqueState msg"

lemma carries_tagged [simp]: "carries msg (tagged msg e)"
  by (simp add: carries_def tagged_def)

definition one_answer :: "command \<Rightarrow> nat \<Rightarrow> unit outputs" where
  "one_answer msg c r es qs cs \<longleftrightarrow>
     r = Inr () \<and> (\<forall>e \<in> set es. carries msg e) \<and> length es + length qs \<le> 1 \<and> length cs \<le> c"

lemma one_answer_simps [simp]:
  "one_answer msg c (Inr ()) [] [] cs \<longleftrightarrow> length cs \<le> c"
  "one_answer msg c (Inr ()) [tagged msg e] [] cs \<longleftrightarrow> length cs \<le> c"
  "one_answer msg c (Inr ()) [] [q] cs \<longleftrightarrow> length cs \<le> c"
  by (simp_all add: one_answer_def)

lemma yields_missingTransfer:
  "yields (one_answer msg 1) (missingTransfer E msg tid) s"
  unfolding missingTransfer_def
  by (rule yields_afterCancel) (auto intro!: yields_emit)

lemma yields_prepareTransferStart:
  "yields (one_answer msg 0) (prepareTransferStart E msg p) s"
  unfolding prepareTransferStart_def prepareExisting_def prepareNew_def getSettlementModel_def
    prepareParticipantsError_def prepareAccountsError_def prepareReserve_def Let_def
  by (intro yields_tryElse_silent yields_andThen_quiet yields_intros silent_intros; simp)

text \<open>A prepare command never throws, is answered at most once (by one event carrying its protocol
  data, or by one request) and queues no cancellation.\<close>

theorem prepare_answers_once:
  assumes "prepareTransferStart E msg p s = (r, s')"
  shows "\<exists>es qs. r = Inr () \<and> outputEvents s' = outputEvents s @ es \<and>
     abBatchRequests s' = abBatchRequests s @ qs \<and>
     abCancelationBatchRequests s' = abCancelationBatchRequests s \<and>
     length es + length qs \<le> 1 \<and> (\<forall>e \<in> set es. carries msg e)"
  by (rule yieldsD [OF yields_prepareTransferStart assms]) (auto simp: one_answer_def)

text \<open>A prepare command for a transfer already in the cache is idempotent whatever its other fields
  say: while the transfer is in progress it is ignored, and once it is final its state is reported
  again; nothing else changes.\<close>

theorem prepare_duplicate:
  assumes "map_of (transfersCache s) (Some (prep_transferId p)) = Some r" and "t = theap s r"
  shows "prepareTransferStart E msg p s =
     (Inr (), if transferState t = RECEIVED \<or> transferState t = RESERVED then s
              else s\<lparr>outputEvents := outputEvents s @ [tagged msg (TransferQueryResponseEvt
                     (transferId t) (transferState t) (completedTimestamp t) (transferExtensions t))]\<rparr>)"
  using assms
  by (cases "transferState t")
     (simp_all add: prepareTransferStart_def prepareExisting_def tryElse_def andThen_def getTransfer_cached
        getT_def reads_def ret_def emit_def modify_def)

subsection \<open>A new transfer\<close>

text \<open>
  The answer to a prepare command for an unknown transfer, as a function of the directory: the
  settlement model, the participants, the accounts and the reminder are checked in this order and
  the first failure is reported; otherwise Accounts & Balances is asked to reserve.
\<close>

definition prepareAnswer :: "'w env \<Rightarrow> (string \<Rightarrow> participant option) \<Rightarrow> command \<Rightarrow> prepare_payload \<Rightarrow> transfer \<Rightarrow>
    event_msg list \<Rightarrow> ab_request list \<Rightarrow> bool" where
  "prepareAnswer E dir msg p t es qs \<longleftrightarrow>
     (case participantsOf dir (payerFspId t) (payeeFspId t) of
        Inl e \<Rightarrow> qs = [] \<and> (\<exists>ev code. participantsFailure (transferId t) (payerFspId t) (payeeFspId t) e = Some (ev, code)
                    \<and> es = [tagged msg ev])
      | Inr ps \<Rightarrow>
          (case getTransferParticipantsAccounts ps t of
             Inl e \<Rightarrow> qs = [] \<and> (\<exists>ev code. accountsFailure (transferId t) (payerFspId t) (payeeFspId t) e = Some (ev, code)
                         \<and> es = [tagged msg ev])
           | Inr a \<Rightarrow>
               (qs = [] \<and> es = [tagged msg (TransferUnableCreateReminderEvt (prep_transferId p) UNABLE_TO_CREATE_TRANSFER_REMINDER)])
               \<or> (es = [] \<and> (\<exists>u. qs = [reserveRequest t a (payerNetDebitCap E (tp_payer ps) (currencyCode t)) u]))))"

lemma yields_prepareReserve:
  assumes "theap s r = t" and "participantsOf dir (payerFspId t) (payeeFspId t) = Inr ps"
    and "getTransferParticipantsAccounts ps t = Inr a"
  shows "yields (\<lambda>res es qs cs. res = Inr () \<and> cs = [] \<and> prepareAnswer E dir msg p t es qs)
     (prepareReserve E msg p r ps a) s"
  unfolding prepareReserve_def Let_def
  by (rule yields_getT, intro yields_tryElse_silent yields_andThen_quiet yields_intros silent_intros)
     (use assms in \<open>auto simp: prepareAnswer_def\<close>)

lemma yields_prepareChecks:
  assumes dir: "stable_directory E dir" and t: "theap s r = t"
  shows "yields (\<lambda>res es qs cs. res = Inr () \<and> cs = [] \<and> prepareAnswer E dir msg p t es qs)
     (tryElse (getParticipantsInfo E (payerFspId t) (payeeFspId t))
        (prepareParticipantsError msg r)
        (\<lambda>participants.
           tryElse (lift_sum (getTransferParticipantsAccounts participants t))
             (prepareAccountsError msg r)
             (prepareReserve E msg p r participants))) s"
    (is "yields ?P _ _")
proof (rule yields_tryElse_probe [OF probe_directory [OF dir]], goal_cases)
  case (1 e w)
  then obtain ev code where f: "participantsFailure (transferId t) (payerFspId t) (payeeFspId t) e = Some (ev, code)"
    by (rule participantsOf_classified)
  have "yields ?P (andThen (cacheT r) (\<lambda>_. emit msg ev)) s'" for s'
    using 1 f by (intro yields_andThen_quiet silent_intros yields_intros) (simp add: prepareAnswer_def)
  with f t show ?case
    unfolding prepareParticipantsError_def
    by (intro yields_getT) (auto intro!: yields_andThen_quiet [OF quiet_primitives(7)])
next
  case (2 ps w)
  note ps = this
  show ?case
  proof (rule yields_tryElse_probe [OF probe_lift_sum], goal_cases)
    case (1 e w')
    then obtain ev code where f: "accountsFailure (transferId t) (payerFspId t) (payeeFspId t) e = Some (ev, code)"
      by (rule accounts_classified)
    have "yields ?P (emit msg ev) s'" for s'
      using 1 f ps by (intro yields_intros) (simp add: prepareAnswer_def)
    with f t show ?case
      unfolding prepareAccountsError_def
      by (intro yields_getT) (auto intro!: yields_andThen_quiet [OF quiet_primitives(7)])
  next
    case (2 a w')
    with ps t show ?case by (intro yields_prepareReserve) simp_all
  qed
qed


subsection \<open>The answer of Accounts & Balances\<close>

definition afterReserve :: "bool \<Rightarrow> int \<Rightarrow> transfer \<Rightarrow> transfer" where
  "afterReserve ok n t =
     (if ok then t\<lparr>updatedAt := n, transferState := RESERVED\<rparr>
      else t\<lparr>updatedAt := n, transferState := ABORTED,
             errorCode := Some (ErrName TRANSFER_LIQUIDITY_CHECK_FAILED)\<rparr>)"

text \<open>On the answer to its reservation a transfer is moved to \<open>RESERVED\<close> (success) or \<open>ABORTED\<close>
  (failure), is put in the cache, and nothing else of it changes but the error code of a failure; one
  event reports it, except that a successful item of a bulk transfer is reported with the bulk.\<close>

theorem prepareContinue_outcome:
  assumes "prepareTransferContinue E rsp req orig (Some r) s = (res, s')" and "t = theap s r"
  shows "(res = Inr () \<and> transfersCache s' = AList.update (Some (transferId t)) r (transfersCache s) \<and>
     abBatchRequests s' = abBatchRequests s \<and> abCancelationBatchRequests s' = abCancelationBatchRequests s) \<and>
     (\<exists>n preparedAt. theap s' = (theap s)(r := afterReserve (rsp_success rsp) n t) \<and>
        outputEvents s' = outputEvents s @
          (if \<not> rsp_success rsp then
             [tagged orig (TransferPrepareLiquidityCheckFailedEvt (transferId t) (payerFspId t) (amount t)
                (currencyCode t) TRANSFER_LIQUIDITY_CHECK_FAILED)]
           else if truthy (bulkTransferId t) then []
           else [tagged orig (TransferPreparedEvt (preparedPayload (cmd_body orig) t preparedAt))]))"
    (is "?A \<and> (\<exists>n preparedAt. ?B n preparedAt)")
proof -
  obtain p0 w0 where d0: "dateNow E (world s) = (p0, w0)" by fastforce
  obtain n w1 where d1: "dateNow E w0 = (n, w1)" by fastforce
  have "?A \<and> ?B n p0"
    using assms d0 d1
    by (cases "rsp_success rsp"; cases "truthy (bulkTransferId t)")
       (auto simp: prepareTransferContinue_def run_simps primitive_defs emit_def preparedPayload_def afterReserve_def)
  then show ?thesis by blast
qed

section \<open>The handlers preserve every invariant of the objects\<close>

context agg_invariant
begin

lemma keeps_cancelTransfer [keeps_intros]: "keeps (inv n) (cancelTransfer E tid code)"
  unfolding cancelTransfer_def cancelTransferBody_def
  by (intro keeps_intros)

lemma keeps_TransferState [keeps_intros]:
  "keeps (inv n) a \<Longrightarrow> keeps (inv n) b \<Longrightarrow> keeps (inv n) c \<Longrightarrow> keeps (inv n) d \<Longrightarrow>
   keeps (inv n) (case st of RECEIVED \<Rightarrow> a | RESERVED \<Rightarrow> b | COMMITTED \<Rightarrow> c | ABORTED \<Rightarrow> d)"
  by (cases st) auto

lemma keeps_prepareTransferStart [keeps_intros]: "keeps (inv n) (prepareTransferStart E msg p)"
  unfolding prepareTransferStart_def prepareExisting_def prepareNew_def getSettlementModel_def
    prepareParticipantsError_def prepareAccountsError_def prepareReserve_def Let_def
  by (intro keeps_intros; simp)

lemma keeps_missingTransfer [keeps_intros]: "keeps (inv n) (missingTransfer E msg tid)"
  unfolding missingTransfer_def
  by (intro keeps_intros)

lemma keeps_prepareTransferContinue_if:
  assumes "\<And>r. tr = Some r \<Longrightarrow> Suc r \<le> n"
    and "\<And>r k. \<lbrakk>tr = Some r; rsp_success rsp\<rbrakk> \<Longrightarrow> keeps (inv n) (setT r (reserved_at k))"
  shows "keeps (inv n) (prepareTransferContinue E rsp req orig tr)"
  using assms unfolding prepareTransferContinue_def
  by (cases tr) (simp_all, (intro keeps_intros; simp)+)

end

end
