(* ===== verification/Fulfil.thy ===== *)
theory Fulfil
  imports Prepare
begin

text \<open>
  The two halves of a fulfil: \<open>_fulfilTransferStart\<close>, which merges the payee's opaque state into the
  transfer, validates the fulfilment and queues a \<open>cancelReservationAndCommit\<close> request, and
  \<open>_fulfilTTransferContinue\<close>, which commits or aborts the transfer on the answer.
\<close>

section \<open>Fulfil: start\<close>

definition commitRequest :: "transfer \<Rightarrow> transfer_accounts \<Rightarrow> string \<Rightarrow> ab_request" where
  "commitRequest t acc requestId =
     \<lparr>req_requestType = cancelReservationAndCommit,
      req_requestId = requestId,
      req_payerPositionAccountId = acc_id (ta_payerPosAccount acc),
      req_payerLiquidityAccountId = None,
      req_hubJokeAccountId = acc_id (ta_hubAccount acc),
      req_transferId = transferId t,
      req_transferAmount = amount t,
      req_currencyCode = currencyCode t,
      req_payerNetDebitCap = None,
      req_payeePositionAccountId = Some (acc_id (ta_payeePosAccount acc))\<rparr>"

text \<open>
  The error branches after the participant and account checks: record the code, try to cancel the
  reservation, and report the error, or the failed cancellation in its place.
\<close>

definition fulfilAbort :: "'w env \<Rightarrow> command \<Rightarrow> nat \<Rightarrow> (event \<times> error_code) option \<Rightarrow> ('w, unit) act" where
  "fulfilAbort E msg r failure =
     (case failure of
        None \<Rightarrow> ret ()
      | Some (ev, code) \<Rightarrow>
          andThen (setT r (\<lambda>t. t\<lparr>errorCode := Some (ErrName code)\<rparr>)) (\<lambda>_.
          andThen (getT r) (\<lambda>t.
            tryElse (cancelTransfer E (Some (transferId t)) code)
              (\<lambda>_. emit msg (TransferCancelReservationFailedEvt (Some (transferId t))
                     UNABLE_TO_CANCEL_TRANSFER_RESERVATION))
              (\<lambda>_. emit msg ev))))"

definition fulfilParticipantsError :: "'w env \<Rightarrow> command \<Rightarrow> nat \<Rightarrow> exn \<Rightarrow> ('w, unit) act" where
  "fulfilParticipantsError E msg r e =
     andThen (getT r) (\<lambda>t.
       fulfilAbort E msg r (participantsFailure (transferId t) (payerFspId t) (payeeFspId t) e))"

definition fulfilAccountsError :: "'w env \<Rightarrow> command \<Rightarrow> nat \<Rightarrow> exn \<Rightarrow> ('w, unit) act" where
  "fulfilAccountsError E msg r e =
     andThen (getT r) (\<lambda>t.
       fulfilAbort E msg r (accountsFailure (transferId t) (payerFspId t) (payeeFspId t) e))"

definition fulfilReserve :: "'w env \<Rightarrow> command \<Rightarrow> nat \<Rightarrow> ('w, unit) act" where
  "fulfilReserve E msg r =
     andThen (getT r) (\<lambda>t.
       tryElse (getParticipantsInfo E (payerFspId t) (payeeFspId t))
         (fulfilParticipantsError E msg r)
         (\<lambda>participants.
            tryElse (lift_sum (getTransferParticipantsAccounts participants t))
              (fulfilAccountsError E msg r)
              (\<lambda>accounts.
                 andThen (uuid E) (\<lambda>u.
                   pushAbRequest (commitRequest t accounts u)))))"

text \<open>The merge of the opaque states; a \<open>TypeError\<close> of \<open>deepMerge\<close> is not caught here.\<close>

definition mergeOpaqueState :: "command \<Rightarrow> nat \<Rightarrow> ('w, unit) act" where
  "mergeOpaqueState msg r =
     (if json_truthy (cmd_opaqueState msg) then
        andThen (getT r) (\<lambda>t.
          case deepMerge (transferOpaqueState t) (cmd_opaqueState msg) of
            Inl partial \<Rightarrow>
              andThen (setT r (\<lambda>t. t\<lparr>transferOpaqueState := partial\<rparr>)) (\<lambda>_. raise TypeError)
          | Inr merged \<Rightarrow> setT r (\<lambda>t. t\<lparr>transferOpaqueState := merged\<rparr>))
      else ret ())"

text \<open>The validation of the fulfilment, for the FSPIOP protocol only.\<close>

definition fulfilValidate :: "'w env \<Rightarrow> command \<Rightarrow> fulfil_payload \<Rightarrow> nat \<Rightarrow> ('w, unit) act" where
  "fulfilValidate E msg p r =
     (if cmd_protocolType msg = Some ''FSPIOP_v1_1'' then
        andThen (getT r) (\<lambda>t.
          let failed = TransferFulfilmentValidationFailedEvt (payerFspId t) (ful_transferId p)
                         UNABLE_TO_VALIDATE_TRANSFER_FULFILMENT in
          tryElse (call (validator_validateFulfilment E (cmd_opaqueState msg) (transferOpaqueState t)))
            (\<lambda>_. emit msg failed)
            (\<lambda>isValid.
               if \<not> isValid then
                 tryElse (cancelTransfer E (Some (ful_transferId p)) UNABLE_TO_VALIDATE_TRANSFER_FULFILMENT)
                   (\<lambda>_. emit msg (TransferCancelReservationFailedEvt (Some (ful_transferId p))
                          UNABLE_TO_CANCEL_TRANSFER_RESERVATION))
                   (\<lambda>_. emit msg failed)
               else fulfilReserve E msg r))
      else fulfilReserve E msg r)"

definition fulfilTransferStart :: "'w env \<Rightarrow> command \<Rightarrow> fulfil_payload \<Rightarrow> ('w, unit) act" where
  "fulfilTransferStart E msg p =
     tryElse (getTransfer E (Some (ful_transferId p)))
       (\<lambda>_. emit msg (TransferUnableToGetTransferByIdEvt (ful_transferId p) UNABLE_TO_GET_TRANSFER))
       (\<lambda>found.
          case found of
            None \<Rightarrow> missingTransfer E msg (Some (ful_transferId p))
          | Some r \<Rightarrow>
              andThen (mergeOpaqueState msg r) (\<lambda>_.
                fulfilValidate E msg p r))"

section \<open>Fulfil: continue\<close>

definition fulfiledPayload :: "command_body \<Rightarrow> transfer \<Rightarrow> int \<Rightarrow> fulfiled_payload" where
  "fulfiledPayload b t fulfiledAt =
     \<lparr>fe_transferId = payload_transferId b,
      fe_completedTimestamp = payload_completedTimestamp b,
      fe_payerFspId = payerFspId t,
      fe_payeeFspId = payeeFspId t,
      fe_amount = amount t,
      fe_currencyCode = currencyCode t,
      fe_settlementModel = settlementModel t,
      fe_notifyPayee = True,
      fe_fulfiledAt = fulfiledAt,
      fe_extensions = transferExtensions t\<rparr>"

definition fulfilTransferContinue ::
  "'w env \<Rightarrow> ab_response \<Rightarrow> ab_request \<Rightarrow> command \<Rightarrow> nat option \<Rightarrow> ('w, unit) act" where
  "fulfilTransferContinue E rsp req orig tr =
     andThen (now E) (\<lambda>fulfiledAt.
       case tr of
         None \<Rightarrow> missingTransfer E orig (payload_transferId (cmd_body orig))
       | Some r \<Rightarrow>
           if \<not> rsp_success rsp then
             andThen (now E) (\<lambda>n.
             andThen (setT r (\<lambda>t. t\<lparr>updatedAt := n, transferState := ABORTED,
                        errorCode := Some (ErrName UNABLE_TO_CANCEL_TRANSFER_RESERVATION_AND_COMMIT)\<rparr>)) (\<lambda>_.
             andThen (cacheT r) (\<lambda>_.
             andThen (getT r) (\<lambda>t.
               tryElse (cancelTransfer E (Some (transferId t)) UNABLE_TO_CANCEL_TRANSFER_RESERVATION_AND_COMMIT)
                 (\<lambda>_. emit orig (TransferCancelReservationFailedEvt (Some (transferId t))
                        UNABLE_TO_CANCEL_TRANSFER_RESERVATION))
                 (\<lambda>_. emit orig (TransferCancelReservationAndCommitFailedEvt (req_transferId req)
                        UNABLE_TO_CANCEL_TRANSFER_RESERVATION_AND_COMMIT))))))
           else
             andThen (now E) (\<lambda>n.
             andThen (setT r (\<lambda>t. t\<lparr>updatedAt := n, transferState := COMMITTED,
                        completedTimestamp := payload_completedTimestamp (cmd_body orig)\<rparr>)) (\<lambda>_.
             andThen (cacheT r) (\<lambda>_.
             andThen (getT r) (\<lambda>t.
               if \<not> truthy (bulkTransferId t) then
                 emit orig (TransferFulfiledEvt (fulfiledPayload (cmd_body orig) t fulfiledAt))
               else ret ())))))"

section \<open>Fulfil: what it does\<close>

lemma commitRequest_update [simp]:
  "commitRequest (t\<lparr>transferOpaqueState := v\<rparr>) a u = commitRequest t a u"
  by (simp add: commitRequest_def)

definition fulfilOutputs :: "command \<Rightarrow> unit outputs" where
  "fulfilOutputs msg r es qs cs \<longleftrightarrow>
     one_answer msg 1 r es qs cs \<or> (r = Inl TypeError \<and> es = [] \<and> qs = [] \<and> cs = [])"

lemma yields_fulfilAbort:
  "yields (one_answer msg 1) (fulfilAbort E msg r failure) s"
  unfolding fulfilAbort_def
  by (intro yields_intros yields_andThen_quiet silent_intros yields_afterCancel) simp_all

lemma yields_fulfilReserve:
  "yields (one_answer msg 1) (fulfilReserve E msg r) s"
  unfolding fulfilReserve_def fulfilParticipantsError_def fulfilAccountsError_def
  by (intro yields_andThen_quiet yields_tryElse_silent yields_fulfilAbort yields_intros silent_intros) simp_all

lemma yields_fulfilValidate:
  "yields (one_answer msg 1) (fulfilValidate E msg p r) s"
  unfolding fulfilValidate_def Let_def
proof (intro yields_if yields_andThen_quiet silent_intros yields_fulfilReserve,
    rule yields_tryElse_silent, goal_cases)
  case 1
  show ?case by (rule silent_intros)
next
  case (2 t s' e s'')
  show ?case by (intro yields_intros) simp
next
  case (3 t s' valid s'')
  show ?case by (intro yields_if yields_fulfilReserve yields_afterCancel yields_intros) simp_all
qed

lemma mergeOpaqueState_run:
  "\<exists>v. (mergeOpaqueState msg r s = (Inr (), s\<lparr>theap := (theap s)(r := (theap s r)\<lparr>transferOpaqueState := v\<rparr>)\<rparr>)) \<or>
       (mergeOpaqueState msg r s = (Inl TypeError, s\<lparr>theap := (theap s)(r := (theap s r)\<lparr>transferOpaqueState := v\<rparr>)\<rparr>))"
proof (cases "json_truthy (cmd_opaqueState msg)")
  case True
  then show ?thesis
    by (cases "deepMerge (transferOpaqueState (theap s r)) (cmd_opaqueState msg)")
       (auto simp: mergeOpaqueState_def run_simps getT_def setT_def)
next
  case False
  then have "mergeOpaqueState msg r s =
      (Inr (), s\<lparr>theap := (theap s)(r := (theap s r)\<lparr>transferOpaqueState := transferOpaqueState (theap s r)\<rparr>)\<rparr>)"
    by (simp add: mergeOpaqueState_def run_simps)
  then show ?thesis by blast
qed

lemma yields_mergeOpaqueState:
  assumes "\<And>v s'. theap s' r = (theap s r)\<lparr>transferOpaqueState := v\<rparr> \<Longrightarrow>
      transfersCache s' = transfersCache s \<Longrightarrow> yields P (k ()) s'"
    and "P (Inl TypeError) [] [] []"
  shows "yields P (andThen (mergeOpaqueState msg r) k) s"
proof -
  obtain v where v: "(mergeOpaqueState msg r s = (Inr (), s\<lparr>theap := (theap s)(r := (theap s r)\<lparr>transferOpaqueState := v\<rparr>)\<rparr>)) \<or>
       (mergeOpaqueState msg r s = (Inl TypeError, s\<lparr>theap := (theap s)(r := (theap s r)\<lparr>transferOpaqueState := v\<rparr>)\<rparr>))"
    (is "_ = (_, ?s) \<or> _")
    using mergeOpaqueState_run by blast
  have "wp (k ()) (added s P) ?s"
    by (rule yields_wp [OF assms(1)]) simp_all
  moreover have "added s P (Inl TypeError) ?s"
    by (rule added_none) (simp_all add: assms(2))
  ultimately show ?thesis
    using v by (auto simp: yields_def wp_def andThen_def)
qed

lemma yields_fulfilTransferStart:
  "yields (fulfilOutputs msg) (fulfilTransferStart E msg p) s"
  unfolding fulfilTransferStart_def
  by (intro yields_tryElse_silent yields_option silent_intros yields_mergeOpaqueState
        yields_mono [OF yields_missingTransfer] yields_mono [OF yields_fulfilValidate])
     (auto simp: fulfilOutputs_def intro: yields_intros)

text \<open>A fulfil command is answered at most once, by an event carrying its protocol data or by one
  request, and queues at most one cancellation; the only error it can throw is the \<open>TypeError\<close> of the
  merge of the opaque states, and then it adds nothing.\<close>

theorem fulfil_answers_once:
  assumes "fulfilTransferStart E msg p s = (r, s')"
  shows "\<exists>es qs cs. outputEvents s' = outputEvents s @ es \<and> abBatchRequests s' = abBatchRequests s @ qs \<and>
     abCancelationBatchRequests s' = abCancelationBatchRequests s @ cs \<and> (\<forall>e \<in> set es. carries msg e) \<and>
     ((r = Inr () \<and> length es + length qs \<le> 1 \<and> length cs \<le> 1) \<or>
      (r = Inl TypeError \<and> es = [] \<and> qs = [] \<and> cs = []))"
  by (rule yieldsD [OF yields_fulfilTransferStart assms]) (auto simp: fulfilOutputs_def one_answer_def)

subsection \<open>The request to commit\<close>

lemma getTransfer_yields:
  assumes "\<And>e s'. outs s' = outs s \<Longrightarrow> yields P (h e) s'"
    and "\<And>s'. outs s' = outs s \<Longrightarrow> yields P (k None) s'"
    and "\<And>r s'. outs s' = outs s \<Longrightarrow> map_of (transfersCache s') tid = Some r \<Longrightarrow> yields P (k (Some r)) s'"
  shows "yields P (tryElse (getTransfer E tid) h k) s"
  unfolding yields_def wp_tryElse
  by (rule wp_getTransfer_found) (auto intro: yields_wp assms)

text \<open>The request, if any, is the one for the transfer \<open>t\<close> as it is stored.\<close>

definition commitsFor :: "transfer \<Rightarrow> unit outputs" where
  "commitsFor t r es qs cs \<longleftrightarrow>
     (\<forall>q \<in> set qs. \<exists>ps a u. valid_participants (payerFspId t) (payeeFspId t) ps \<and>
        getTransferParticipantsAccounts ps t = Inr a \<and> q = commitRequest t a u)"

lemma yields_fulfilAbort_requests:
  "yields (\<lambda>r es qs cs. qs = []) (fulfilAbort E msg r failure) s"
  unfolding fulfilAbort_def
  by (intro yields_intros yields_andThen_quiet silent_intros yields_afterCancel) simp_all

lemma yields_fulfilReserve_commits:
  assumes "theap s r = t"
  shows "yields (commitsFor t) (fulfilReserve E msg r) s"
proof -
  have abort: "yields (commitsFor t) (fulfilAbort E msg r failure) s'" for failure s'
    by (rule yields_mono [OF yields_fulfilAbort_requests]) (simp add: commitsFor_def)
  show ?thesis
    unfolding fulfilReserve_def
  proof (rule yields_getT, rule yields_tryElse_probe [OF probe_getParticipantsInfo], goal_cases)
    case (1 e w)
    show ?case
      unfolding fulfilParticipantsError_def by (intro yields_andThen_quiet silent_intros abort)
  next
    case (2 ps w)
    show ?case
    proof (rule yields_tryElse_probe [OF probe_lift_sum], goal_cases)
      case (1 e w')
      show ?case
        unfolding fulfilAccountsError_def by (intro yields_andThen_quiet silent_intros abort)
    next
      case (2 a w')
      with \<open>valid_participants _ _ ps\<close> assms show ?case
        by (intro yields_andThen_quiet yields_intros silent_intros) (auto simp: commitsFor_def)
    qed
  qed
qed

lemma yields_fulfil_found:
  assumes "t = theap s r"
  shows "yields (commitsFor t) (andThen (mergeOpaqueState msg r) (\<lambda>_. fulfilValidate E msg p r)) s"
proof -
  have reserve: "yields (commitsFor t) (fulfilReserve E msg r) s1"
    if s1: "theap s1 r = t\<lparr>transferOpaqueState := v\<rparr>" for s1 v
    by (rule yields_mono [OF yields_fulfilReserve_commits [OF s1]]) (simp add: commitsFor_def)
  have validate: "yields (commitsFor t) (fulfilValidate E msg p r) s1"
    if s1: "theap s1 r = t\<lparr>transferOpaqueState := v\<rparr>" for s1 v
    unfolding fulfilValidate_def Let_def
  proof (intro yields_if yields_getT, rule yields_tryElse_probe [OF probe_call_any], goal_cases)
    case (2 valid w)
    with s1 show ?case
      by (intro yields_if yields_afterCancel yields_intros reserve) (auto simp: commitsFor_def)
  qed (use s1 in \<open>auto intro!: yields_intros reserve simp: commitsFor_def\<close>)
  show ?thesis
    using assms by (intro yields_mergeOpaqueState validate) (auto simp: commitsFor_def)
qed



text \<open>A fulfil asks for the commit whatever the state of the transfer is, a committed or aborted one
  included: with participants and accounts that pass the checks and no protocol validation, exactly
  one request to commit the stored amount is queued, and no event.\<close>

theorem fulfil_requests_any_state:
  assumes "stable_directory E dir" and "map_of (transfersCache s) (Some (ful_transferId p)) = Some r"
    and "checksOf dir (theap s r) = Inr a" and "cmd_protocolType msg \<noteq> Some ''FSPIOP_v1_1''"
    and "\<not> json_truthy (cmd_opaqueState msg)" and "fulfilTransferStart E msg p s = (res, s')"
  shows "(\<exists>u. abBatchRequests s' = abBatchRequests s @ [commitRequest (theap s r) a u]) \<and>
     outputEvents s' = outputEvents s \<and> abCancelationBatchRequests s' = abCancelationBatchRequests s \<and>
     theap s' = theap s"
proof -
  obtain w where w: "getParticipantsInfo E (payerFspId (theap s r)) (payeeFspId (theap s r)) s =
      (participantsOf dir (payerFspId (theap s r)) (payeeFspId (theap s r)), s\<lparr>world := w\<rparr>)"
    using getParticipantsInfo_stable [OF assms(1)] by blast
  from assms(3) obtain ps where ps: "participantsOf dir (payerFspId (theap s r)) (payeeFspId (theap s r)) = Inr ps"
    and a: "getTransferParticipantsAccounts ps (theap s r) = Inr a"
    by (auto simp: checksOf_def split: sum.splits)
  from assms(6) show ?thesis
    using assms(2,4,5) w ps a
    by (auto simp: fulfilTransferStart_def mergeOpaqueState_def fulfilValidate_def fulfilReserve_def run_simps
        getTransfer_cached getT_def lift_sum_def uuid_def pushAbRequest_def split: prod.splits) blast
qed

subsection \<open>When the checks fail\<close>


subsection \<open>The answer of Accounts & Balances\<close>

text \<open>On a successful answer to its commit request a transfer becomes \<open>COMMITTED\<close>, with the completion
  time of the command, and nothing else of it changes; it is put in the cache, and one event reports
  it unless it is part of a bulk transfer.\<close>

theorem fulfilContinue_success:
  assumes "fulfilTransferContinue E rsp req orig (Some r) s = (res, s')" and "rsp_success rsp" and "t = theap s r"
  shows "(res = Inr () \<and> transfersCache s' = AList.update (Some (transferId t)) r (transfersCache s) \<and>
     abBatchRequests s' = abBatchRequests s \<and> abCancelationBatchRequests s' = abCancelationBatchRequests s) \<and>
     (\<exists>n fulfiledAt. theap s' = (theap s)(r := t\<lparr>updatedAt := n, transferState := COMMITTED,
            completedTimestamp := payload_completedTimestamp (cmd_body orig)\<rparr>) \<and>
        outputEvents s' = outputEvents s @
          (if truthy (bulkTransferId t) then []
           else [tagged orig (TransferFulfiledEvt (fulfiledPayload (cmd_body orig) t fulfiledAt))]))"
    (is "?A \<and> (\<exists>n fulfiledAt. ?B n fulfiledAt)")
proof -
  obtain p0 w0 where d0: "dateNow E (world s) = (p0, w0)" by fastforce
  obtain n w1 where d1: "dateNow E w0 = (n, w1)" by fastforce
  have "?A \<and> ?B n p0"
    using assms d0 d1
    by (cases "truthy (bulkTransferId t)")
       (auto simp: fulfilTransferContinue_def run_simps primitive_defs emit_def fulfiledPayload_def)
  then show ?thesis by blast
qed

lemma yields_fulfilContinue_failure:
  assumes "\<not> rsp_success rsp"
  shows "yields (\<lambda>res es qs cs. res = Inr () \<and> qs = [] \<and> length cs \<le> 1 \<and>
      (\<exists>tid. es = [tagged orig (TransferCancelReservationFailedEvt (Some tid) UNABLE_TO_CANCEL_TRANSFER_RESERVATION)] \<or>
       cs \<noteq> [] \<and> es = [tagged orig (TransferCancelReservationAndCommitFailedEvt (req_transferId req)
                 UNABLE_TO_CANCEL_TRANSFER_RESERVATION_AND_COMMIT)]))
    (fulfilTransferContinue E rsp req orig (Some r)) s"
  using assms unfolding fulfilTransferContinue_def
  by (simp, intro yields_andThen_quiet silent_intros yields_afterCancel yields_intros) auto


section \<open>The handlers preserve every invariant of the objects\<close>

context agg_invariant
begin

lemma keeps_fulfilAbort [keeps_intros]: "keeps (inv n) (fulfilAbort E msg r failure)"
  unfolding fulfilAbort_def
  by (intro keeps_intros)

lemma keeps_mergeOpaqueState [keeps_intros]: "keeps (inv n) (mergeOpaqueState msg r)"
  unfolding mergeOpaqueState_def
  by (intro keeps_intros)

lemma keeps_fulfilTransferStart [keeps_intros]: "keeps (inv n) (fulfilTransferStart E msg p)"
  unfolding fulfilTransferStart_def fulfilValidate_def fulfilReserve_def fulfilParticipantsError_def
    fulfilAccountsError_def Let_def
  by (intro keeps_intros)

lemma keeps_fulfilTransferContinue_if:
  assumes "\<And>r. tr = Some r \<Longrightarrow> Suc r \<le> n"
    and "\<And>r k ts. \<lbrakk>tr = Some r; rsp_success rsp\<rbrakk> \<Longrightarrow> keeps (inv n) (setT r (committed_at k ts))"
  shows "keeps (inv n) (fulfilTransferContinue E rsp req orig tr)"
  using assms unfolding fulfilTransferContinue_def
  by (cases tr) (simp_all, (intro keeps_intros; simp)+)

end

end
