(* ===== verification/Reject_Query.thy ===== *)
theory Reject_Query
  imports Prepare
begin

text \<open>
  The commands that finish in one step: \<open>_rejectTransfer\<close>, \<open>_queryTransfer\<close> and \<open>_timeoutTransfer\<close>.
\<close>

section \<open>Reject\<close>

definition rejectParticipantsError :: "command \<Rightarrow> nat \<Rightarrow> exn \<Rightarrow> ('w, unit) act" where
  "rejectParticipantsError msg r e =
     andThen (getT r) (\<lambda>t.
       case participantsFailure (transferId t) (payerFspId t) (payeeFspId t) e of
         None \<Rightarrow> ret ()
       | Some (ev, code) \<Rightarrow>
           andThen (setT r (\<lambda>t. t\<lparr>errorCode := Some (ErrName code)\<rparr>)) (\<lambda>_.
           andThen (cacheT r) (\<lambda>_.
             emit msg ev)))"

text \<open>The mutation and write after a successful cancellation.\<close>

definition rejectUpdate :: "'w env \<Rightarrow> nat \<Rightarrow> ('w, unit) act" where
  "rejectUpdate E r =
     andThen (now E) (\<lambda>n.
     andThen (setT r (\<lambda>t. t\<lparr>updatedAt := n, transferState := ABORTED,
                            errorCode := Some (ErrName TRANSFER_REJECTED_BY_PAYEE)\<rparr>)) (\<lambda>_.
     andThen (getT r) (\<lambda>t.
       call (repo_updateTransfer E t))))"

definition rejectCancel :: "'w env \<Rightarrow> command \<Rightarrow> reject_payload \<Rightarrow> nat \<Rightarrow> ('w, unit) act" where
  "rejectCancel E msg p r =
     tryElse (cancelTransfer E (Some (rej_transferId p)) TRANSFER_REJECTED_BY_PAYEE)
       (\<lambda>_. emit msg (TransferCancelReservationFailedEvt (Some (rej_transferId p))
              UNABLE_TO_CANCEL_TRANSFER_RESERVATION))
       (\<lambda>_. tryElse (rejectUpdate E r)
          (\<lambda>_. andThen (getT r) (\<lambda>t.
             emit msg (TransferUnableToUpdateEvt (transferId t) (payerFspId t) UNABLE_TO_UPDATE_TRANSFER)))
          (\<lambda>_. andThen (getT r) (\<lambda>t.
             if \<not> truthy (bulkTransferId t) then
               emit msg (TransferRejectRequestProcessedEvt (rej_transferId p) (rej_errorInformation p))
             else ret ())))"

definition rejectTransfer :: "'w env \<Rightarrow> command \<Rightarrow> reject_payload \<Rightarrow> ('w, unit) act" where
  "rejectTransfer E msg p =
     tryElse (getTransfer E (Some (rej_transferId p)))
       (\<lambda>_. emit msg (TransferUnableToGetTransferByIdEvt (rej_transferId p) UNABLE_TO_GET_TRANSFER))
       (\<lambda>found.
          case found of
            None \<Rightarrow> emit msg (TransferNotFoundEvt (Some (rej_transferId p)) TRANSFER_NOT_FOUND)
          | Some r \<Rightarrow>
              andThen (getT r) (\<lambda>t.
                tryElse (getParticipantsInfo E (payerFspId t) (payeeFspId t))
                  (rejectParticipantsError msg r)
                  (\<lambda>_. rejectCancel E msg p r)))"

section \<open>Query\<close>

definition queryParticipantsError :: "command \<Rightarrow> query_payload \<Rightarrow> exn \<Rightarrow> ('w, unit) act" where
  "queryParticipantsError msg p e =
     (case participantsFailure (qry_transferId p) (qry_requesterFspId p) (qry_destinationFspId p) e of
        None \<Rightarrow> ret ()
      | Some (ev, _) \<Rightarrow> emit msg ev)"

text \<open>The query reads the repository directly, not the cache.\<close>

definition queryTransfer :: "'w env \<Rightarrow> command \<Rightarrow> query_payload \<Rightarrow> ('w, unit) act" where
  "queryTransfer E msg p =
     tryElse (getParticipantsInfo E (qry_requesterFspId p) (qry_destinationFspId p))
       (queryParticipantsError msg p)
       (\<lambda>_. tryElse (call (repo_getTransferById E (Some (qry_transferId p))))
          (\<lambda>_. emit msg (TransferUnableToGetTransferByIdEvt (qry_transferId p) UNABLE_TO_GET_TRANSFER))
          (\<lambda>found.
             case found of
               None \<Rightarrow> emit msg (TransferNotFoundEvt (Some (qry_transferId p)) TRANSFER_NOT_FOUND)
             | Some t \<Rightarrow>
                 emit msg (TransferQueryResponseEvt (transferId t) (transferState t)
                   (completedTimestamp t) (transferExtensions t))))"

section \<open>Timeout\<close>

text \<open>
  A \<open>RECEIVED\<close> transfer: the source compares \<open>now < expirationTime\<close>, so it is aborted when the
  reminder fires before the expiration and left alone after it.
\<close>

definition timeoutReceivedUpdate :: "'w env \<Rightarrow> nat \<Rightarrow> ('w, unit) act" where
  "timeoutReceivedUpdate E r =
     andThen (now E) (\<lambda>n.
     andThen (setT r (\<lambda>t. t\<lparr>updatedAt := n, transferState := ABORTED,
                            errorCode := Some (ErrName TRANSFER_EXPIRED)\<rparr>)) (\<lambda>_.
     andThen (cacheT r) (\<lambda>_.
     andThen (getT r) (\<lambda>t.
       call (repo_updateTransfer E t)))))"

definition timeoutReceived :: "'w env \<Rightarrow> command \<Rightarrow> nat \<Rightarrow> ('w, unit) act" where
  "timeoutReceived E msg r =
     andThen (getT r) (\<lambda>t.
     andThen (now E) (\<lambda>n.
       if js_less (Some n) (date_getTime (expirationTimestamp t)) then
         tryElse (timeoutReceivedUpdate E r)
           (\<lambda>_. emit msg (TransferUnableToUpdateEvt (transferId t) (payerFspId t) UNABLE_TO_UPDATE_TRANSFER))
           (\<lambda>_. emit msg (TransferPrepareRequestTimedoutEvt (transferId t) (payerFspId t) TRANSFER_EXPIRED))
       else ret ()))"

definition timeoutReservedUpdate :: "'w env \<Rightarrow> nat \<Rightarrow> ('w, unit) act" where
  "timeoutReservedUpdate E r =
     andThen (now E) (\<lambda>n.
     andThen (setT r (\<lambda>t. t\<lparr>updatedAt := n, transferState := ABORTED\<rparr>)) (\<lambda>_.
     andThen (cacheT r) (\<lambda>_.
     andThen (getT r) (\<lambda>t.
       call (repo_updateTransfer E t)))))"

definition timeoutReserved :: "'w env \<Rightarrow> command \<Rightarrow> timeout_payload \<Rightarrow> nat \<Rightarrow> ('w, unit) act" where
  "timeoutReserved E msg p r =
     andThen (getT r) (\<lambda>t.
     andThen (now E) (\<lambda>n.
       if js_less (date_getTime (expirationTimestamp t)) (Some n) then
         tryElse (cancelTransfer E (Some (tmo_transferId p)) TRANSFER_EXPIRED)
           (\<lambda>_. emit msg (TransferCancelReservationFailedEvt (Some (tmo_transferId p))
                  UNABLE_TO_CANCEL_TRANSFER_RESERVATION))
           (\<lambda>_. tryElse (timeoutReservedUpdate E r)
              (\<lambda>_. emit msg (TransferUnableToUpdateEvt (transferId t) (payerFspId t) UNABLE_TO_UPDATE_TRANSFER))
              (\<lambda>_. emit msg (TransferFulfilCommittedRequestedTimedoutEvt (transferId t) (payerFspId t)
                     (payeeFspId t) TRANSFER_EXPIRED)))
       else ret ()))"

definition timeoutTransfer :: "'w env \<Rightarrow> command \<Rightarrow> timeout_payload \<Rightarrow> ('w, unit) act" where
  "timeoutTransfer E msg p =
     tryElse (getTransfer E (Some (tmo_transferId p)))
       (\<lambda>_. emit msg (TransferUnableToGetTransferByIdEvt (tmo_transferId p) UNABLE_TO_GET_TRANSFER))
       (\<lambda>found.
          case found of
            None \<Rightarrow> ret ()
          | Some r \<Rightarrow>
              andThen (getT r) (\<lambda>t.
                case transferState t of
                  RECEIVED \<Rightarrow> timeoutReceived E msg r
                | RESERVED \<Rightarrow> timeoutReserved E msg p r
                | COMMITTED \<Rightarrow> ret ()
                | ABORTED \<Rightarrow> ret ()))"

section \<open>What they do\<close>

lemma yields_rejectTransfer: "yields (one_answer msg 1) (rejectTransfer E msg p) s"
proof -
  have update: "silent (rejectUpdate E r)" for r
    unfolding rejectUpdate_def by (intro silent_intros)
  have cancel: "yields (one_answer msg 1) (rejectCancel E msg p r) s'" for r s'
    unfolding rejectCancel_def
    by (intro yields_afterCancel yields_tryElse_silent yields_andThen_quiet yields_if yields_emit yields_ret
          silent_intros update) simp_all
  show ?thesis
    unfolding rejectTransfer_def rejectParticipantsError_def
    by (intro yields_tryElse_silent yields_andThen_quiet yields_intros silent_intros cancel) simp_all
qed

lemma silent_timeoutUpdate [silent_intros]:
  "silent (timeoutReceivedUpdate E r)" "silent (timeoutReservedUpdate E r)"
  unfolding timeoutReceivedUpdate_def timeoutReservedUpdate_def by (intro silent_intros)+

lemma yields_timeoutTransfer: "yields (one_answer msg 1) (timeoutTransfer E msg p) s"
proof -
  have received: "yields (one_answer msg 1) (timeoutReceived E msg r) s'" for r s'
    unfolding timeoutReceived_def
    by (intro yields_tryElse_silent yields_andThen_quiet yields_intros silent_intros) simp_all
  have reserved: "yields (one_answer msg 1) (timeoutReserved E msg p r) s'" for r s'
    unfolding timeoutReserved_def
    by (intro yields_andThen_quiet yields_if yields_afterCancel yields_tryElse_silent yields_emit yields_ret
          silent_intros) simp_all
  show ?thesis
    unfolding timeoutTransfer_def
    by (intro yields_tryElse_silent yields_andThen_quiet yields_intros silent_intros received reserved) simp_all
qed

text \<open>A reject or timeout command never throws, asks Accounts & Balances for nothing but at most one
  cancellation, and is reported by at most one event, which carries its protocol data.\<close>

theorem reject_and_timeout_answer_once:
  assumes "rejectTransfer E msg rp s = (r, s') \<or> timeoutTransfer E msg tp s = (r, s')"
  shows "\<exists>es qs cs. r = Inr () \<and> outputEvents s' = outputEvents s @ es \<and> abBatchRequests s' = abBatchRequests s @ qs \<and>
     abCancelationBatchRequests s' = abCancelationBatchRequests s @ cs \<and>
     length es + length qs \<le> 1 \<and> length cs \<le> 1 \<and> (\<forall>e \<in> set es. carries msg e)"
  using assms
  by (elim disjE; elim yieldsD [OF yields_rejectTransfer] yieldsD [OF yields_timeoutTransfer])
     (auto simp: one_answer_def)

subsection \<open>Reject\<close>

text \<open>A reject aborts the transfer whatever its state is, a committed one included: with participants
  and accounts that pass the checks and a repository that accepts the writes, it queues one
  cancellation and leaves the transfer \<open>ABORTED\<close> as rejected by the payee.\<close>

theorem reject_aborts_any_state:
  assumes "stable_directory E dir" and "map_of (transfersCache s) (Some (rej_transferId p)) = Some r"
    and "checksOf dir (theap s r) = Inr a" and "\<And>t w. fst (repo_updateTransfer E t w) = Inr ()"
    and "rejectTransfer E msg p s = (res, s')"
  shows "transferState (theap s' r) = ABORTED \<and>
     errorCode (theap s' r) = Some (ErrName TRANSFER_REJECTED_BY_PAYEE) \<and>
     (\<exists>u. abCancelationBatchRequests s' = abCancelationBatchRequests s @ [cancelRequest (theap s r) a u]) \<and>
     outputEvents s' = outputEvents s @ (if truthy (bulkTransferId (theap s r)) then []
       else [tagged msg (TransferRejectRequestProcessedEvt (rej_transferId p) (rej_errorInformation p))])"
proof -
  let ?t = "theap s r"
  have stable: "\<exists>w'. getParticipantsInfo E (payerFspId ?t) (payeeFspId ?t) (s\<lparr>world := w\<rparr>)
      = (participantsOf dir (payerFspId ?t) (payeeFspId ?t), s\<lparr>world := w'\<rparr>)" for w
    using getParticipantsInfo_stable [OF assms(1), of "payerFspId ?t" "payeeFspId ?t" "s\<lparr>world := w\<rparr>"] by simp
  from assms(3) obtain ps where ps: "participantsOf dir (payerFspId ?t) (payeeFspId ?t) = Inr ps"
    and a: "getTransferParticipantsAccounts ps ?t = Inr a"
    by (auto simp: checksOf_def split: sum.splits)
  obtain w1 where w1: "getParticipantsInfo E (payerFspId ?t) (payeeFspId ?t) s = (Inr ps, s\<lparr>world := w1\<rparr>)"
    using stable [of "world s"] ps by auto
  obtain w2 where w2: "getParticipantsInfo E (payerFspId ?t) (payeeFspId ?t) (s\<lparr>world := w1\<rparr>) = (Inr ps, s\<lparr>world := w2\<rparr>)"
    using stable [of w1] ps by auto
  have upd: "x = Inr ()" if "repo_updateTransfer E t w = (x, w')" for t w x w'
    using assms(4) [of t w] that by simp
  have "wp (rejectTransfer E msg p) (\<lambda>_ s'. transferState (theap s' r) = ABORTED \<and>
     errorCode (theap s' r) = Some (ErrName TRANSFER_REJECTED_BY_PAYEE) \<and>
     (\<exists>u. abCancelationBatchRequests s' = abCancelationBatchRequests s @ [cancelRequest (theap s r) a u]) \<and>
     outputEvents s' = outputEvents s @ (if truthy (bulkTransferId (theap s r)) then []
       else [tagged msg (TransferRejectRequestProcessedEvt (rej_transferId p) (rej_errorInformation p))])) s"
    using assms(2) a
    by (auto dest!: upd simp: rejectTransfer_def rejectCancel_def rejectUpdate_def cancelTransfer_def cancelTransferBody_def
        wp_def run_simps primitive_defs getTransfer_cached w1 w2 lift_sum_def pushCancelation_def emit_def
        split: prod.splits sum.splits)
  with assms(5) show ?thesis by (simp add: wp_def)
qed

subsection \<open>Query\<close>

lemma wp_queryTransfer:
  assumes "\<And>w. Q (s\<lparr>world := w\<rparr>)"
    and "\<And>w e. Q (s\<lparr>world := w, outputEvents := outputEvents s @ [tagged msg e]\<rparr>)"
  shows "wp (queryTransfer E msg p) (\<lambda>r s'. r = Inr () \<and> Q s') s"
  unfolding queryTransfer_def queryParticipantsError_def wp_tryElse
  by (rule wp_probe [OF probe_getParticipantsInfo])
     (auto simp: wp_simps intro: assms split: option.splits prod.splits sum.splits)

text \<open>A query is read-only: it adds at most one event, carrying its protocol data, and changes no
  transfer, no cache and no request.\<close>

theorem query_read_only:
  assumes "queryTransfer E msg p s = (r, s')"
  shows "r = Inr () \<and> (\<exists>w es. s' = s\<lparr>world := w, outputEvents := outputEvents s @ es\<rparr> \<and>
     length es \<le> 1 \<and> (\<forall>e \<in> set es. carries msg e))"
proof -
  have "wp (queryTransfer E msg p) (\<lambda>r s'. r = Inr () \<and>
      (\<exists>w es. s' = s\<lparr>world := w, outputEvents := outputEvents s @ es\<rparr> \<and>
         length es \<le> 1 \<and> (\<forall>e \<in> set es. carries msg e))) s"
  proof (rule wp_queryTransfer, goal_cases)
    case (1 w)
    show ?case by (rule exI [of _ w], rule exI [of _ "[]"]) simp
  next
    case (2 w e)
    show ?case by (intro exI conjI, rule refl) simp_all
  qed
  with assms show ?thesis by (simp add: wp_def)
qed

text \<open>With a participants service that answers, a query gets exactly one event: the error of the first
  failed participant check, or what the repository says of the transfer.\<close>

theorem query_answer:
  assumes "stable_directory E dir" and "queryTransfer E msg p s = (r, s')"
  shows "\<exists>ev. outputEvents s' = outputEvents s @ [tagged msg ev] \<and>
     (case participantsOf dir (qry_requesterFspId p) (qry_destinationFspId p) of
        Inl e \<Rightarrow> \<exists>code. participantsFailure (qry_transferId p) (qry_requesterFspId p) (qry_destinationFspId p) e
                   = Some (ev, code)
      | Inr _ \<Rightarrow> \<exists>w. case fst (repo_getTransferById E (Some (qry_transferId p)) w) of
            Inl _ \<Rightarrow> ev = TransferUnableToGetTransferByIdEvt (qry_transferId p) UNABLE_TO_GET_TRANSFER
          | Inr None \<Rightarrow> ev = TransferNotFoundEvt (Some (qry_transferId p)) TRANSFER_NOT_FOUND
          | Inr (Some t) \<Rightarrow> ev = TransferQueryResponseEvt (transferId t) (transferState t)
                                (completedTimestamp t) (transferExtensions t))"
proof -
  obtain w where w: "getParticipantsInfo E (qry_requesterFspId p) (qry_destinationFspId p) s =
      (participantsOf dir (qry_requesterFspId p) (qry_destinationFspId p), s\<lparr>world := w\<rparr>)"
    using getParticipantsInfo_stable [OF assms(1)] by blast
  show ?thesis
  proof (cases "participantsOf dir (qry_requesterFspId p) (qry_destinationFspId p)")
    case (Inl e)
    then obtain ev code where "participantsFailure (qry_transferId p) (qry_requesterFspId p)
        (qry_destinationFspId p) e = Some (ev, code)"
      by (rule participantsOf_classified)
    with Inl w assms(2) show ?thesis
      by (auto simp: queryTransfer_def queryParticipantsError_def run_simps emit_def)
  next
    case (Inr ps)
    obtain x w' where x: "repo_getTransferById E (Some (qry_transferId p)) w = (x, w')" by fastforce
    with Inr w assms(2) show ?thesis
      by (cases x) (auto simp: queryTransfer_def run_simps emit_def call_def intro!: exI [of _ w]
          split: option.splits)
  qed
qed

subsection \<open>Timeout\<close>

text \<open>A timeout leaves a transfer that is \<open>COMMITTED\<close> or \<open>ABORTED\<close> alone.\<close>

theorem timeout_final_untouched:
  assumes "map_of (transfersCache s) (Some (tmo_transferId p)) = Some r"
    and "transferState (theap s r) = COMMITTED \<or> transferState (theap s r) = ABORTED"
  shows "timeoutTransfer E msg p s = (Inr (), s)"
  using assms by (auto simp: timeoutTransfer_def run_simps getTransfer_cached getT_def)

text \<open>C30: a timeout of a \<open>RECEIVED\<close> transfer aborts it, and reports the prepare request as timed out, exactly
  when the reminder fires before the expiration; a transfer that has expired is left alone.\<close>

theorem timeout_received:
  assumes "map_of (transfersCache s) (Some (tmo_transferId p)) = Some r" and "t = theap s r"
    and "transferState t = RECEIVED" and "date_getTime (expirationTimestamp t) = Some x"
    and "dateNow E (world s) = (n, w)" and "\<And>t w. fst (repo_updateTransfer E t w) = Inr ()"
    and "timeoutTransfer E msg p s = (res, s')"
  shows "if x \<le> n then s' = s\<lparr>world := w\<rparr>
     else transferState (theap s' r) = ABORTED \<and> errorCode (theap s' r) = Some (ErrName TRANSFER_EXPIRED) \<and>
       outputEvents s' = outputEvents s @
         [tagged msg (TransferPrepareRequestTimedoutEvt (transferId t) (payerFspId t) TRANSFER_EXPIRED)]"
proof -
  have upd: "x = Inr ()" if "repo_updateTransfer E t w = (x, w')" for t w x w'
    using assms(6) [of t w] that by simp
  have "wp (timeoutTransfer E msg p) (\<lambda>_ s'. if x \<le> n then s' = s\<lparr>world := w\<rparr>
     else transferState (theap s' r) = ABORTED \<and> errorCode (theap s' r) = Some (ErrName TRANSFER_EXPIRED) \<and>
       outputEvents s' = outputEvents s @
         [tagged msg (TransferPrepareRequestTimedoutEvt (transferId t) (payerFspId t) TRANSFER_EXPIRED)]) s"
    using assms(1-5)
    by (auto dest!: upd simp: timeoutTransfer_def timeoutReceived_def timeoutReceivedUpdate_def wp_def run_simps
        primitive_defs getTransfer_cached emit_def js_less_def split: prod.splits sum.splits)
  with assms(7) show ?thesis by (simp add: wp_def)
qed

text \<open>A timeout of a \<open>RESERVED\<close> transfer does nothing until the expiration has passed; then, with checks
  that pass and a repository that accepts the writes, it queues the cancellation of the reservation,
  aborts the transfer and reports that its fulfilment timed out.\<close>

theorem timeout_reserved:
  assumes "stable_directory E dir" and "map_of (transfersCache s) (Some (tmo_transferId p)) = Some r"
    and "t = theap s r" and "transferState t = RESERVED" and "date_getTime (expirationTimestamp t) = Some x"
    and "checksOf dir t = Inr a" and "dateNow E (world s) = (n, w)"
    and "\<And>t w. fst (repo_updateTransfer E t w) = Inr ()" and "timeoutTransfer E msg p s = (res, s')"
  shows "if n \<le> x then s' = s\<lparr>world := w\<rparr>
     else transferState (theap s' r) = ABORTED \<and> errorCode (theap s' r) = Some (ErrName TRANSFER_EXPIRED) \<and>
       (\<exists>u. abCancelationBatchRequests s' = abCancelationBatchRequests s @ [cancelRequest t a u]) \<and>
       outputEvents s' = outputEvents s @ [tagged msg (TransferFulfilCommittedRequestedTimedoutEvt
          (transferId t) (payerFspId t) (payeeFspId t) TRANSFER_EXPIRED)]"
proof -
  have upd: "x = Inr ()" if "repo_updateTransfer E t w = (x, w')" for t w x w'
    using assms(8) [of t w] that by simp
  from assms(6) obtain ps where ps: "participantsOf dir (payerFspId t) (payeeFspId t) = Inr ps"
    and a: "getTransferParticipantsAccounts ps t = Inr a"
    by (auto simp: checksOf_def split: sum.splits)
  obtain w1 where w1: "getParticipantsInfo E (payerFspId t) (payeeFspId t) (s\<lparr>world := w\<rparr>) = (Inr ps, s\<lparr>world := w1\<rparr>)"
    using getParticipantsInfo_stable [OF assms(1), of "payerFspId t" "payeeFspId t" "s\<lparr>world := w\<rparr>"] ps by auto
  have "wp (timeoutTransfer E msg p) (\<lambda>_ s'. if n \<le> x then s' = s\<lparr>world := w\<rparr>
     else transferState (theap s' r) = ABORTED \<and> errorCode (theap s' r) = Some (ErrName TRANSFER_EXPIRED) \<and>
       (\<exists>u. abCancelationBatchRequests s' = abCancelationBatchRequests s @ [cancelRequest t a u]) \<and>
       outputEvents s' = outputEvents s @ [tagged msg (TransferFulfilCommittedRequestedTimedoutEvt
          (transferId t) (payerFspId t) (payeeFspId t) TRANSFER_EXPIRED)]) s"
    using assms(2-5,7) a w1
    by (auto dest!: upd simp: timeoutTransfer_def timeoutReserved_def timeoutReservedUpdate_def cancelTransfer_def
        cancelTransferBody_def wp_def run_simps primitive_defs getTransfer_cached emit_def js_less_def lift_sum_def
        pushCancelation_def split: prod.splits sum.splits)
  with assms(9) show ?thesis by (simp add: wp_def)
qed

section \<open>The handlers preserve every invariant of the objects\<close>

context agg_invariant
begin

lemma keeps_rejectTransfer [keeps_intros]: "keeps (inv n) (rejectTransfer E msg p)"
  unfolding rejectTransfer_def rejectParticipantsError_def rejectCancel_def rejectUpdate_def
  by (intro keeps_intros; simp)

lemma keeps_queryTransfer [keeps_intros]: "keeps (inv n) (queryTransfer E msg p)"
  unfolding queryTransfer_def queryParticipantsError_def
  by (intro keeps_intros)

lemma keeps_timeoutTransfer [keeps_intros]: "keeps (inv n) (timeoutTransfer E msg p)"
  unfolding timeoutTransfer_def timeoutReceived_def timeoutReceivedUpdate_def timeoutReserved_def
    timeoutReservedUpdate_def
  by (intro keeps_intros; simp)

end

end
