(* ===== verification/Bulk.thy ===== *)
theory Bulk
  imports Fulfil Reject_Query
begin

text \<open>
  The bulk commands.  A bulk prepare or fulfil runs the single-transfer handler once per item, with
  a command the handler builds itself: that command has no protocol type and no opaque state, since
  the constructor copies only the payload.
\<close>

definition itemCommand :: "command_body \<Rightarrow> command" where
  "itemCommand b = \<lparr>cmd_msgType = COMMAND, cmd_body = b, cmd_protocolType = None, cmd_opaqueState = JUndefined\<rparr>"

section \<open>Prepare\<close>

definition newBulkOf :: "command \<Rightarrow> prepare_bulk_payload \<Rightarrow> int \<Rightarrow> bulk_transfer" where
  "newBulkOf msg p n =
     \<lparr>bt_createdAt = n,
      bt_updatedAt = n,
      bt_bulkTransferId = bprep_bulkTransferId p,
      bt_bulkQuoteId = bprep_bulkQuoteId p,
      bt_payeeFsp = bprep_payeeFsp p,
      bt_payerFsp = bprep_payerFsp p,
      bt_completedTimestamp = None,
      bt_individualTransfers = bprep_individualTransfers p,
      bt_expiration = bprep_expiration p,
      bt_transfersPreparedProcessedIds = [],
      bt_transfersNotProcessedIds = [],
      bt_transfersFulfiledProcessedIds = [],
      bt_status = BULK_RECEIVED,
      bt_errorCode = None,
      bt_protocolType = cmd_protocolType msg,
      bt_opaqueState = cmd_opaqueState msg\<rparr>"

definition itemPrepare :: "prepare_bulk_payload \<Rightarrow> individual_transfer \<Rightarrow> prepare_payload" where
  "itemPrepare p it =
     \<lparr>prep_bulkTransferId = Some (bprep_bulkTransferId p),
      prep_transferId = it_transferId it,
      prep_amount = it_amount it,
      prep_currencyCode = it_currency it,
      prep_payerFsp = bprep_payerFsp p,
      prep_payeeFsp = bprep_payeeFsp p,
      prep_expiration = bprep_expiration p,
      prep_payerIdType = it_payerIdType it,
      prep_payeeIdType = it_payeeIdType it,
      prep_transferType = it_transferType it,
      prep_extensions = it_extensions it\<rparr>"

text \<open>
  \<open>addBulkTransfer\<close> is called without \<open>await\<close>: only a synchronous throw reaches the catch; a
  rejection of the promise it returns is unhandled.
\<close>

definition addBulkTransfer :: "'w env \<Rightarrow> bulk_transfer \<Rightarrow> ('w, unit) act" where
  "addBulkTransfer E b =
     andThen (call (bulkRepo_addBulkTransfer E b)) (\<lambda>promise.
       case promise of
         Inl e \<Rightarrow> modify (\<lambda>s. s\<lparr>unhandled := unhandled s @ [e]\<rparr>)
       | Inr _ \<Rightarrow> ret ())"

definition prepareBulkTransferStart :: "'w env \<Rightarrow> command \<Rightarrow> prepare_bulk_payload \<Rightarrow> ('w, unit) act" where
  "prepareBulkTransferStart E msg p =
     andThen (now E) (\<lambda>n.
       tryElse (addBulkTransfer E (newBulkOf msg p n))
         (\<lambda>_. emit msg (TransferBCUnableToAddBulkTransferToDatabaseEvt (bprep_bulkTransferId p)
                UNABLE_TO_ADD_BULK_TRANSFER))
         (\<lambda>_. forEach (bprep_individualTransfers p) (\<lambda>it.
                let ip = itemPrepare p it in
                prepareTransferStart E (itemCommand (PrepareTransferCmd ip)) ip)))"

definition bulkPreparedPayload :: "command_body \<Rightarrow> transfer list \<Rightarrow> bulk_prepared_payload" where
  "bulkPreparedPayload b ts =
     \<lparr>bpe_bulkTransferId = payload_bulkTransferId b,
      bpe_bulkQuoteId = payload_bulkQuoteId b,
      bpe_payeeFsp = payload_payeeFsp b,
      bpe_payerFsp = payload_payerFsp b,
      bpe_expiration = payload_expiration b,
      bpe_individualTransfers = map (\<lambda>t. (transferId t, amount t, currencyCode t)) ts,
      bpe_extensions = payload_extensions b\<rparr>"

definition cachedTransfersOfBulk :: "'w agg \<Rightarrow> string \<Rightarrow> transfer list" where
  "cachedTransfersOfBulk s bid =
     filter (\<lambda>t. bulkTransferId t = Some bid) (map (\<lambda>(_, r). theap s r) (transfersCache s))"

text \<open>When every item has been processed: the bulk is pending and one event lists its transfers.\<close>

definition prepareBulkComplete :: "'w env \<Rightarrow> command \<Rightarrow> nat \<Rightarrow> ('w, unit) act" where
  "prepareBulkComplete E orig br =
     andThen (now E) (\<lambda>n.
     andThen (setB br (\<lambda>b. b\<lparr>bt_updatedAt := n, bt_status := BULK_PENDING\<rparr>)) (\<lambda>_.
     andThen (cacheB br) (\<lambda>_.
     andThen (getB br) (\<lambda>b.
     andThen (reads (\<lambda>s. cachedTransfersOfBulk s (bt_bulkTransferId b))) (\<lambda>transfers.
       if transfers = [] then
         emit orig (TransferNotFoundEvt (Some (bt_bulkTransferId b)) UNABLE_TO_GET_TRANSFERS_FROM_BULK_TRANSFER)
       else
         emit orig (BulkTransferPreparedEvt (bulkPreparedPayload (cmd_body orig) transfers)))))))"

definition prepareBulkTransferContinue ::
  "'w env \<Rightarrow> ab_response \<Rightarrow> ab_request \<Rightarrow> command \<Rightarrow> nat option \<Rightarrow> ('w, unit) act" where
  "prepareBulkTransferContinue E rsp req orig tr =
     andThen (prepareTransferContinue E rsp req orig tr) (\<lambda>_.
       case tr of
         None \<Rightarrow> raise TypeError
       | Some r \<Rightarrow>
           andThen (getT r) (\<lambda>t.
             tryElse (getBulkTransfer E (bulkTransferId t))
               (\<lambda>_. emit orig (TransferUnableToGetBulkTransferByIdEvt (bulkTransferId t) UNABLE_TO_GET_BULK_TRANSFER))
               (\<lambda>found.
                  case found of
                    None \<Rightarrow> emit orig (BulkTransferNotFoundEvt (bulkTransferId t) BULK_TRANSFER_NOT_FOUND)
                  | Some br \<Rightarrow>
                      andThen (setB br (\<lambda>b. b\<lparr>bt_transfersPreparedProcessedIds :=
                                 bt_transfersPreparedProcessedIds b @ [transferId t]\<rparr>)) (\<lambda>_.
                      andThen (cacheB br) (\<lambda>_.
                      andThen (getB br) (\<lambda>b.
                        if length (bt_transfersPreparedProcessedIds b) + length (bt_transfersNotProcessedIds b)
                             = length (bt_individualTransfers b)
                        then prepareBulkComplete E orig br
                        else ret ()))))))"

section \<open>Fulfil\<close>

definition itemFulfil :: "fulfil_bulk_payload \<Rightarrow> individual_result \<Rightarrow> fulfil_payload" where
  "itemFulfil p ir =
     \<lparr>ful_transferId = ir_transferId ir,
      ful_transferState = bful_bulkTransferState p,
      ful_completedTimestamp = Some (bful_completedTimestamp p),
      ful_notifyPayee = False,
      ful_extensions = bful_extensions p\<rparr>"

definition fulfilBulkTransferStart :: "'w env \<Rightarrow> command \<Rightarrow> fulfil_bulk_payload \<Rightarrow> ('w, unit) act" where
  "fulfilBulkTransferStart E msg p =
     (let bid = Some (bful_bulkTransferId p) in
      tryElse (getBulkTransfer E bid)
        (\<lambda>_. emit msg (TransferUnableToGetBulkTransferByIdEvt bid UNABLE_TO_GET_BULK_TRANSFER))
        (\<lambda>found.
           case found of
             None \<Rightarrow> emit msg (BulkTransferNotFoundEvt bid BULK_TRANSFER_NOT_FOUND)
           | Some br \<Rightarrow>
               andThen (now E) (\<lambda>n.
               andThen (setB br (\<lambda>b. b\<lparr>bt_updatedAt := n, bt_status := BULK_ACCEPTED\<rparr>)) (\<lambda>_.
               andThen (cacheB br) (\<lambda>_.
                 forEach (bful_individualTransferResults p) (\<lambda>ir.
                   let ip = itemFulfil p ir in
                   fulfilTransferStart E (itemCommand (CommitTransferFulfilCmd ip)) ip))))))"

definition bulkFulfiledPayload :: "command_body \<Rightarrow> bulk_fulfiled_payload" where
  "bulkFulfiledPayload b =
     \<lparr>bfe_bulkTransferId = payload_bulkTransferId b,
      bfe_bulkTransferState = payload_bulkTransferState b,
      bfe_completedTimestamp = payload_completedTimestamp b,
      bfe_individualTransferResults = payload_individualTransferResults b,
      bfe_extensions = payload_extensions b\<rparr>"

definition fulfilBulkComplete :: "'w env \<Rightarrow> command \<Rightarrow> nat \<Rightarrow> ('w, unit) act" where
  "fulfilBulkComplete E orig br =
     andThen (now E) (\<lambda>n.
     andThen (setB br (\<lambda>b. b\<lparr>bt_updatedAt := n, bt_status := BULK_COMPLETED\<rparr>)) (\<lambda>_.
     andThen (cacheB br) (\<lambda>_.
     andThen (emit orig (BulkTransferFulfiledEvt (bulkFulfiledPayload (cmd_body orig)))) (\<lambda>_.
     andThen (getB br) (\<lambda>b.
     andThen (call (bulkRepo_updateBulkTransfer E b)) (\<lambda>_.
       modify (\<lambda>s. s\<lparr>bulkTransfersCache := []\<rparr>)))))))"

definition fulfilBulkTransferContinue ::
  "'w env \<Rightarrow> ab_response \<Rightarrow> ab_request \<Rightarrow> command \<Rightarrow> nat option \<Rightarrow> ('w, unit) act" where
  "fulfilBulkTransferContinue E rsp req orig tr =
     (case tr of
        None \<Rightarrow> raise TypeError
      | Some r \<Rightarrow>
          andThen (getT r) (\<lambda>t.
            tryElse (getBulkTransfer E (bulkTransferId t))
              (\<lambda>_. emit orig (TransferUnableToGetBulkTransferByIdEvt (bulkTransferId t) UNABLE_TO_GET_BULK_TRANSFER))
              (\<lambda>found.
                 case found of
                   None \<Rightarrow> emit orig (BulkTransferNotFoundEvt (bulkTransferId t) BULK_TRANSFER_NOT_FOUND)
                 | Some br \<Rightarrow>
                     andThen (now E) (\<lambda>n.
                     andThen (setB br (\<lambda>b. b\<lparr>bt_updatedAt := n, bt_status := BULK_PROCESSING\<rparr>)) (\<lambda>_.
                     andThen (cacheB br) (\<lambda>_.
                     andThen (fulfilTransferContinue E rsp req orig tr) (\<lambda>_.
                     andThen (setB br (\<lambda>b. b\<lparr>bt_transfersFulfiledProcessedIds :=
                                bt_transfersFulfiledProcessedIds b @ [transferId t]\<rparr>)) (\<lambda>_.
                     andThen (cacheB br) (\<lambda>_.
                     andThen (getB br) (\<lambda>b.
                       if length (bt_transfersFulfiledProcessedIds b) + length (bt_transfersNotProcessedIds b)
                            = length (bt_individualTransfers b)
                       then fulfilBulkComplete E orig br
                       else ret ()))))))))))"

section \<open>Reject\<close>

definition itemReject :: "transfer \<Rightarrow> reject_payload" where
  "itemReject t = \<lparr>rej_transferId = transferId t, rej_errorInformation = errorCode t\<rparr>"

definition rejectBulkTransfer :: "'w env \<Rightarrow> command \<Rightarrow> reject_bulk_payload \<Rightarrow> ('w, unit) act" where
  "rejectBulkTransfer E msg p =
     (let bid = Some (brej_bulkTransferId p) in
      tryElse (getBulkTransfer E bid)
        (\<lambda>_. emit msg (TransferUnableToGetBulkTransferByIdEvt bid UNABLE_TO_GET_BULK_TRANSFER))
        (\<lambda>found.
           case found of
             None \<Rightarrow> emit msg (BulkTransferNotFoundEvt bid BULK_TRANSFER_NOT_FOUND)
           | Some br \<Rightarrow>
               tryElse (call (repo_getTransfersByBulkId E (brej_bulkTransferId p)))
                 (\<lambda>_. emit msg (TransferUnableToGetBulkTransferByIdEvt bid UNABLE_TO_GET_TRANSFERS_FROM_BULK_TRANSFER))
                 (\<lambda>transfers.
                    andThen (forEach transfers (\<lambda>t.
                      let ip = itemReject t in
                      rejectTransfer E (itemCommand (RejectTransferCmd ip)) ip)) (\<lambda>_.
                    andThen (now E) (\<lambda>n.
                    andThen (setB br (\<lambda>b. b\<lparr>bt_updatedAt := n, bt_status := BULK_REJECTED\<rparr>)) (\<lambda>_.
                    andThen (getB br) (\<lambda>b.
                    andThen (call (bulkRepo_updateBulkTransfer E b)) (\<lambda>_.
                      emit msg (BulkTransferRejectRequestProcessedEvt (brej_bulkTransferId p)
                        (brej_errorInformation p))))))))))"

section \<open>Query\<close>

text \<open>
  The same error table as the other handlers, but for one branch: a payer that is not approved is
  reported under the destination's identifier.
\<close>

definition queryBulkParticipantsError :: "command \<Rightarrow> query_bulk_payload \<Rightarrow> exn \<Rightarrow> ('w, unit) act" where
  "queryBulkParticipantsError msg p e =
     (if e = PayerParticipantNotApprovedError then
        emit msg (TransferPayerNotApprovedEvt (bqry_bulkTransferId p) (bqry_destinationFspId p)
          PAYER_PARTICIPANT_NOT_APPROVED)
      else
        (case participantsFailure (bqry_bulkTransferId p) (bqry_requesterFspId p) (bqry_destinationFspId p) e of
           None \<Rightarrow> ret ()
         | Some (ev, _) \<Rightarrow> emit msg ev))"

definition queryBulkRespond :: "'w env \<Rightarrow> command \<Rightarrow> query_bulk_payload \<Rightarrow> nat \<Rightarrow> ('w, unit) act" where
  "queryBulkRespond E msg p br =
     tryElse (call (repo_getTransfersByBulkId E (bqry_bulkTransferId p)))
       (\<lambda>_. emit msg (TransferUnableToGetBulkTransferByIdEvt (Some (bqry_bulkTransferId p)) UNABLE_TO_GET_BULK_TRANSFER))
       (\<lambda>transfers.
          if transfers = [] then
            emit msg (TransferNotFoundEvt (Some (bqry_bulkTransferId p)) BULK_TRANSFERS_NO_ITEMS)
          else
            andThen (getB br) (\<lambda>b.
              emit msg (BulkTransferQueryResponseEvt (bt_bulkTransferId b) (bt_completedTimestamp b)
                (map (\<lambda>t. (transferId t, errorInformation t)) transfers) (bt_status b))))"

definition queryBulkTransfer :: "'w env \<Rightarrow> command \<Rightarrow> query_bulk_payload \<Rightarrow> ('w, unit) act" where
  "queryBulkTransfer E msg p =
     (let bid = Some (bqry_bulkTransferId p) in
      tryElse (getBulkTransfer E bid)
        (\<lambda>_. emit msg (TransferUnableToGetBulkTransferByIdEvt bid UNABLE_TO_GET_BULK_TRANSFER))
        (\<lambda>found.
           case found of
             None \<Rightarrow> emit msg (BulkTransferNotFoundEvt bid BULK_TRANSFER_NOT_FOUND)
           | Some br \<Rightarrow>
               tryElse (getParticipantsInfo E (bqry_requesterFspId p) (bqry_destinationFspId p))
                 (queryBulkParticipantsError msg p)
                 (\<lambda>_. queryBulkRespond E msg p br)))"

section \<open>The handlers preserve every invariant of the objects\<close>

context agg_invariant
begin

lemma keeps_outside [keeps_intros]:
  "keeps (inv n) (modify (\<lambda>s. s\<lparr>bulkTransfersCache := c\<rparr>))"
  "keeps (inv n) (modify (\<lambda>s. s\<lparr>unhandled := unhandled s @ [e]\<rparr>))"
  by (rule keeps_modify, erule inv_frame; simp)+

lemma keeps_addBulkTransfer [keeps_intros]: "keeps (inv n) (addBulkTransfer E b)"
  unfolding addBulkTransfer_def
  by (intro keeps_intros)

lemma keeps_prepareBulkTransferStart [keeps_intros]: "keeps (inv n) (prepareBulkTransferStart E msg p)"
  unfolding prepareBulkTransferStart_def Let_def
  by (intro keeps_intros)

lemma keeps_fulfilBulkTransferStart [keeps_intros]: "keeps (inv n) (fulfilBulkTransferStart E msg p)"
  unfolding fulfilBulkTransferStart_def Let_def
  by (intro keeps_intros)

lemma keeps_rejectBulkTransfer [keeps_intros]: "keeps (inv n) (rejectBulkTransfer E msg p)"
  unfolding rejectBulkTransfer_def Let_def
  by (intro keeps_intros)

lemma keeps_queryBulkTransfer [keeps_intros]: "keeps (inv n) (queryBulkTransfer E msg p)"
  unfolding queryBulkTransfer_def queryBulkRespond_def queryBulkParticipantsError_def Let_def
  by (intro keeps_intros)

lemma keeps_prepareBulkTransferContinue_if:
  assumes "\<And>r. tr = Some r \<Longrightarrow> Suc r \<le> n"
    and "\<And>r k. \<lbrakk>tr = Some r; rsp_success rsp\<rbrakk> \<Longrightarrow> keeps (inv n) (setT r (reserved_at k))"
  shows "keeps (inv n) (prepareBulkTransferContinue E rsp req orig tr)"
  using assms unfolding prepareBulkTransferContinue_def prepareBulkComplete_def
  by (cases tr) (simp_all, (intro keeps_intros keeps_prepareTransferContinue_if; simp)+)

lemma keeps_fulfilBulkTransferContinue_if:
  assumes "\<And>r. tr = Some r \<Longrightarrow> Suc r \<le> n"
    and "\<And>r k ts. \<lbrakk>tr = Some r; rsp_success rsp\<rbrakk> \<Longrightarrow> keeps (inv n) (setT r (committed_at k ts))"
  shows "keeps (inv n) (fulfilBulkTransferContinue E rsp req orig tr)"
  using assms unfolding fulfilBulkTransferContinue_def fulfilBulkComplete_def
  by (cases tr) (simp_all, (intro keeps_intros keeps_fulfilTransferContinue_if; simp)+)

end

end
