(* ===== verification/Batch.thy ===== *)
theory Batch
  imports Bulk
begin

text \<open>
  The entry point \<open>processCommandBatch\<close>: it clears the per-batch buffers, runs every command
  (\<open>_processCommand\<close>), sends the queued requests to Accounts & Balances in one call, runs the
  continue handler of every response (\<open>_processAccountsAndBalancesResponse\<close>), sends the queued
  cancellations, and in a \<open>finally\<close> flushes the transfer cache and publishes the output events.
\<close>

section \<open>One command\<close>

definition ensureValidMessage :: "command \<Rightarrow> ('w, unit) act" where
  "ensureValidMessage msg =
     (case cmd_body msg of
        NoPayloadCmd _ \<Rightarrow> raise InvalidMessagePayloadError
      | _ \<Rightarrow>
          if msgName (cmd_body msg) = '''' then raise InvalidMessageTypeError
          else if cmd_msgType msg \<noteq> COMMAND then raise InvalidMessageTypeError
          else ret ())"

text \<open>The transfer identifiers under which a bulk command is remembered.\<close>

fun individualIds :: "command_body \<Rightarrow> string list" where
  "individualIds (PrepareBulkTransferCmd p) = map it_transferId (bprep_individualTransfers p)"
| "individualIds (CommitBulkTransferFulfilCmd p) = map ir_transferId (bful_individualTransferResults p)"
| "individualIds _ = []"

text \<open>
  The command is remembered for the continue handlers.  For a bulk command the code stores
  \<open>{ ...cmd, ...individualTransfer }\<close>; the continue handlers read only the payload and the protocol
  fields of it, which are the command's.
\<close>

definition rememberCommand :: "command \<Rightarrow> ('w, unit) act" where
  "rememberCommand msg =
     (if truthy (payload_bulkTransferId (cmd_body msg)) then
        forEach (individualIds (cmd_body msg)) (\<lambda>tid.
          modify (\<lambda>s. s\<lparr>batchCommands := AList.update (Some tid) msg (batchCommands s)\<rparr>))
      else
        modify (\<lambda>s. s\<lparr>batchCommands :=
          AList.update (payload_transferId (cmd_body msg)) msg (batchCommands s)\<rparr>))"

definition dispatchCommand :: "'w env \<Rightarrow> command \<Rightarrow> ('w, unit) act" where
  "dispatchCommand E msg =
     (case cmd_body msg of
        PrepareTransferCmd p \<Rightarrow> prepareTransferStart E msg p
      | CommitTransferFulfilCmd p \<Rightarrow> fulfilTransferStart E msg p
      | RejectTransferCmd p \<Rightarrow> rejectTransfer E msg p
      | QueryTransferCmd p \<Rightarrow> queryTransfer E msg p
      | TimeoutTransferCmd p \<Rightarrow> timeoutTransfer E msg p
      | PrepareBulkTransferCmd p \<Rightarrow> prepareBulkTransferStart E msg p
      | CommitBulkTransferFulfilCmd p \<Rightarrow> fulfilBulkTransferStart E msg p
      | RejectBulkTransferCmd p \<Rightarrow> rejectBulkTransfer E msg p
      | QueryBulkTransferCmd p \<Rightarrow> queryBulkTransfer E msg p
      | UnknownCmd _ tid _ requester \<Rightarrow>
          emit msg (TransferInvalidMessageTypeEvt tid requester COMMAND_TYPE_UNKNOWN)
      | NoPayloadCmd _ \<Rightarrow> ret ())"

definition processCommand :: "'w env \<Rightarrow> command \<Rightarrow> ('w, unit) act" where
  "processCommand E msg =
     andThen (ensureValidMessage msg) (\<lambda>_.
     andThen (rememberCommand msg) (\<lambda>_.
       dispatchCommand E msg))"

section \<open>One response of Accounts & Balances\<close>

definition lookupTransfer :: "'w env \<Rightarrow> command \<Rightarrow> string \<Rightarrow> ('w, nat option) act" where
  "lookupTransfer E orig tid =
     tryElse (getTransfer E (Some tid))
       (\<lambda>_. andThen (emit orig (TransferUnableToGetTransferByIdEvt tid UNABLE_TO_GET_TRANSFER))
              (\<lambda>_. ret None))
       ret"

definition continueRequest ::
  "'w env \<Rightarrow> ab_response \<Rightarrow> ab_request \<Rightarrow> command \<Rightarrow> nat option \<Rightarrow> ('w, unit) act" where
  "continueRequest E rsp req orig tr =
     (case rsp_requestType rsp of
        checkLiquidAndReserve \<Rightarrow>
          if truthy (payload_bulkTransferId (cmd_body orig))
          then prepareBulkTransferContinue E rsp req orig tr
          else prepareTransferContinue E rsp req orig tr
      | cancelReservationAndCommit \<Rightarrow>
          if truthy (payload_bulkTransferId (cmd_body orig))
          then fulfilBulkTransferContinue E rsp req orig tr
          else fulfilTransferContinue E rsp req orig tr
      | cancelReservation \<Rightarrow> raise (OtherError ''not implemented'')
      | otherRequestType \<Rightarrow> ret ())"

definition processAccountsAndBalancesResponse :: "'w env \<Rightarrow> ab_response \<Rightarrow> ('w, unit) act" where
  "processAccountsAndBalancesResponse E rsp =
     andThen (reads (\<lambda>s. find (\<lambda>q. req_requestId q = rsp_requestId rsp) (abBatchRequests s))) (\<lambda>request.
       case request of
         None \<Rightarrow> raise CheckLiquidityAndReserveFailedError
       | Some req \<Rightarrow>
           andThen (reads (\<lambda>s. map_of (batchCommands s) (Some (req_transferId req)))) (\<lambda>original.
             case original of
               None \<Rightarrow> raise (OtherError ''Original command not found'')
             | Some orig \<Rightarrow>
                 andThen (lookupTransfer E orig (req_transferId req)) (\<lambda>tr.
                   continueRequest E rsp req orig tr)))"

section \<open>The batch\<close>

definition resetBatch :: "'w agg \<Rightarrow> 'w agg" where
  "resetBatch s = s\<lparr>abBatchRequests := [], abCancelationBatchRequests := [], abBatchResponses := [],
                   outputEvents := [], batchCommands := []\<rparr>"

definition runCommands :: "'w env \<Rightarrow> command list \<Rightarrow> ('w, unit) act" where
  "runCommands E cmds =
     forEach cmds (\<lambda>cmd. if cmd_msgType cmd \<noteq> COMMAND then ret () else processCommand E cmd)"

definition setResponses :: "ab_response list \<Rightarrow> ('w, unit) act" where
  "setResponses rs = modify (\<lambda>s. s\<lparr>abBatchResponses := rs\<rparr>)"

definition runRequests :: "'w env \<Rightarrow> ('w, unit) act" where
  "runRequests E =
     andThen (reads abBatchRequests) (\<lambda>reqs.
       if reqs \<noteq> [] then
         andThen (call (ab_processHighLevelBatch E reqs)) (\<lambda>responses.
         andThen (setResponses responses) (\<lambda>_.
           forEach responses (processAccountsAndBalancesResponse E)))
       else ret ())"

definition runCancelations :: "'w env \<Rightarrow> ('w, unit) act" where
  "runCancelations E =
     andThen (reads abCancelationBatchRequests) (\<lambda>reqs.
       if reqs \<noteq> [] then
         andThen (call (ab_processHighLevelBatch E reqs)) setResponses
       else ret ())"

definition batchBody :: "'w env \<Rightarrow> command list \<Rightarrow> ('w, unit) act" where
  "batchBody E cmds =
     andThen (runCommands E cmds) (\<lambda>_.
     andThen (runRequests E) (\<lambda>_.
       runCancelations E))"

definition batchFinally :: "'w env \<Rightarrow> ('w, unit) act" where
  "batchFinally E =
     andThen (flush E) (\<lambda>_.
     andThen (reads outputEvents) (\<lambda>events.
       call (producer_send E events)))"

text \<open>
  What happens to the promise that \<open>processCommandBatch\<close> returns.  The body runs in an \<open>async\<close>
  executor of \<open>new Promise\<close>: an error of the body rejects the promise, but an error of the
  \<open>finally\<close> block only rejects the executor's own promise, which nobody awaits, so the returned
  promise stays pending unless the body had already rejected it.
\<close>

datatype outcome = Resolved | Rejected exn | Pending

definition processCommandBatch :: "'w env \<Rightarrow> command list \<Rightarrow> 'w agg \<Rightarrow> outcome \<times> 'w agg" where
  "processCommandBatch E cmds s =
     (case batchBody E cmds (resetBatch s) of (r, s1) \<Rightarrow>
      (case batchFinally E s1 of (f, s2) \<Rightarrow>
        (case f of
           Inr _ \<Rightarrow> ((case r of Inr _ \<Rightarrow> Resolved | Inl e \<Rightarrow> Rejected e), s2)
         | Inl e' \<Rightarrow> ((case r of Inr _ \<Rightarrow> Pending | Inl e \<Rightarrow> Rejected e),
                     s2\<lparr>unhandled := unhandled s2 @ [e']\<rparr>))))"

definition initAgg :: "'w \<Rightarrow> 'w agg" where
  "initAgg w =
     \<lparr>world = w, theap = (\<lambda>_. undefined), tnext = 0, bheap = (\<lambda>_. undefined), bnext = 0,
      transfersCache = [], bulkTransfersCache = [], batchCommands = [],
      abBatchRequests = [], abCancelationBatchRequests = [], abBatchResponses = [],
      outputEvents = [], unhandled = []\<rparr>"

section \<open>The batch preserves every invariant of the objects\<close>

context agg_invariant
begin

lemma keeps_batchCommands [keeps_intros]:
  "keeps (inv n) (modify (\<lambda>s. s\<lparr>batchCommands := f s\<rparr>))"
  by (rule keeps_modify, erule inv_frame; simp)

lemma keeps_processCommand [keeps_intros]: "keeps (inv n) (processCommand E msg)"
proof -
  have "keeps (inv n) (ensureValidMessage msg)"
    unfolding ensureValidMessage_def by (cases "cmd_body msg") (auto intro: keeps_intros)
  moreover have "keeps (inv n) (dispatchCommand E msg)"
    unfolding dispatchCommand_def by (cases "cmd_body msg") (auto intro: keeps_intros)
  ultimately show ?thesis
    unfolding processCommand_def rememberCommand_def
    by (intro keeps_intros)
qed

lemma keeps_runCommands [keeps_intros]: "keeps (inv n) (runCommands E cmds)"
  unfolding runCommands_def
  by (intro keeps_intros)

lemma keeps_setResponses [keeps_intros]: "keeps (inv n) (setResponses rs)"
  unfolding setResponses_def by (rule keeps_modify, erule inv_frame; simp)

lemma keeps_runCancelations [keeps_intros]: "keeps (inv n) (runCancelations E)"
  unfolding runCancelations_def by (intro keeps_intros)

lemma keeps_batchFinally [keeps_intros]: "keeps (inv n) (batchFinally E)"
  unfolding batchFinally_def
  by (intro keeps_intros)

lemma keeps_continueRequest_if:
  assumes "\<And>r. tr = Some r \<Longrightarrow> Suc r \<le> n"
    and "\<And>r k. \<lbrakk>tr = Some r; rsp_success rsp; rsp_requestType rsp = checkLiquidAndReserve\<rbrakk>
           \<Longrightarrow> keeps (inv n) (setT r (reserved_at k))"
    and "\<And>r k ts. \<lbrakk>tr = Some r; rsp_success rsp; rsp_requestType rsp = cancelReservationAndCommit\<rbrakk>
           \<Longrightarrow> keeps (inv n) (setT r (committed_at k ts))"
  shows "keeps (inv n) (continueRequest E rsp req orig tr)"
  using assms unfolding continueRequest_def
  by (cases "rsp_requestType rsp")
     (auto intro: keeps_intros keeps_prepareTransferContinue_if keeps_prepareBulkTransferContinue_if
        keeps_fulfilTransferContinue_if keeps_fulfilBulkTransferContinue_if)

lemma keeps_lookupTransfer:
  assumes "keeps (inv n) (k None)" and "\<And>r. keeps (inv (max n (Suc r))) (k (Some r))"
  shows "keeps (inv n) (andThen (lookupTransfer E orig tid) k)"
proof -
  have "andThen (lookupTransfer E orig tid) k =
      tryElse (getTransfer E (Some tid))
       (\<lambda>_. andThen (emit orig (TransferUnableToGetTransferByIdEvt tid UNABLE_TO_GET_TRANSFER)) (\<lambda>_. k None)) k"
    by (rule ext) (simp add: lookupTransfer_def andThen_def tryElse_def ret_def emit_def modify_def
        split: prod.splits sum.splits)
  with assms show ?thesis by (auto intro!: keeps_intros)
qed

end

context agg_invariant_continue
begin

lemma keeps_continueRequest [keeps_intros]:
  "(\<And>r. tr = Some r \<Longrightarrow> Suc r \<le> n) \<Longrightarrow> keeps (inv n) (continueRequest E rsp req orig tr)"
  by (rule keeps_continueRequest_if) (auto intro: keeps_setT_continue)

lemma keeps_processResponse [keeps_intros]:
  "keeps (inv n) (processAccountsAndBalancesResponse E rsp)"
  unfolding processAccountsAndBalancesResponse_def
  by (intro keeps_intros keeps_lookupTransfer; simp)

lemma keeps_runRequests [keeps_intros]: "keeps (inv n) (runRequests E)"
  unfolding runRequests_def by (intro keeps_intros)

lemma keeps_batchBody [keeps_intros]: "keeps (inv n) (batchBody E cmds)"
  unfolding batchBody_def
  by (intro keeps_intros)

lemma inv_processCommandBatch:
  assumes "I s"
  shows "I (snd (processCommandBatch E cmds s))"
proof -
  have s0: "inv 0 (resetBatch s)"
    using assms by (auto simp: inv_def resetBatch_def intro: I_frame)
  obtain r s1 where body: "batchBody E cmds (resetBatch s) = (r, s1)" by fastforce
  obtain f s2 where fin: "batchFinally E s1 = (f, s2)" by fastforce
  have "inv 0 s1" by (rule keeps_run [OF keeps_batchBody s0 body])
  then have s2: "inv 0 s2" by (rule keeps_run [OF keeps_batchFinally _ fin])
  then have "inv 0 (s2\<lparr>unhandled := u\<rparr>)" for u by (rule inv_frame) simp_all
  with s2 body fin show ?thesis
    by (simp add: processCommandBatch_def inv_def split: sum.split)
qed

end

end
