(* ===== verification/Invariants.thy ===== *)
theory Invariants
  imports Batch
begin

text \<open>
  The invariants of the transfer objects over a whole batch, each an interpretation of
  \<open>agg_invariant\<close> or \<open>agg_invariant_continue\<close> on the handlers' own updates: the cache is coherent, the
  terms of a transfer never change, a transfer never goes back to \<open>RECEIVED\<close>, and a command by
  itself (without an answer of Accounts & Balances) can only abort.
\<close>

section \<open>Coherence of the cache\<close>

text \<open>What the repository promises of a lookup: the transfer found has the identifier asked for.\<close>

definition repo_returns_requested :: "'w env \<Rightarrow> bool" where
  "repo_returns_requested E \<longleftrightarrow>
     (\<forall>tid w t w'. repo_getTransferById E tid w = (Inr (Some t), w') \<longrightarrow> tid = Some (transferId t))"

lemma repo_returns_requested_iff:
  "repo_returns_requested E \<Longrightarrow> repo_getTransferById E tid w = (Inr (Some t), w') \<Longrightarrow> tid = Some (transferId t)"
  by (auto simp: repo_returns_requested_def)

definition cache_refs :: "'w agg \<Rightarrow> bool" where
  "cache_refs s \<longleftrightarrow> distinct (map fst (transfersCache s)) \<and> (\<forall>k r. (k, r) \<in> set (transfersCache s) \<longrightarrow> r < tnext s)"

definition cache_keys :: "'w agg \<Rightarrow> bool" where
  "cache_keys s \<longleftrightarrow> (\<forall>k r. (k, r) \<in> set (transfersCache s) \<longrightarrow> k = Some (transferId (theap s r)))"

definition keepsId :: "(transfer \<Rightarrow> transfer) \<Rightarrow> bool" where
  "keepsId f \<longleftrightarrow> (\<forall>t. transferId (f t) = transferId t)"

lemma set_update_distinct:
  assumes "distinct (map fst m)" and "(k', v') \<in> set (AList.update k v m)"
  shows "(k' = k \<and> v' = v) \<or> (k' \<noteq> k \<and> (k', v') \<in> set m)"
proof -
  from assms have "map_of (AList.update k v m) k' = Some v'"
    by (simp add: js_map.distinct_put)
  then have "(if k' = k then Some v else map_of m k') = Some v'"
    by (simp add: update_conv')
  then show ?thesis by (auto split: if_splits dest: map_of_SomeD)
qed

lemma cache_refs_map_of: "cache_refs s \<Longrightarrow> map_of (transfersCache s) k = Some r \<Longrightarrow> r < tnext s"
  by (auto simp: cache_refs_def dest: map_of_SomeD)

lemma cache_refs_update:
  assumes "cache_refs s" and "transfersCache s' = AList.update k r (transfersCache s)"
    and "r < tnext s'" and "tnext s \<le> tnext s'"
  shows "cache_refs s'"
  unfolding cache_refs_def
proof (intro conjI allI impI)
  have d: "distinct (map fst (transfersCache s))"
    and refs: "\<And>k r. (k, r) \<in> set (transfersCache s) \<Longrightarrow> r < tnext s"
    using assms(1) by (auto simp: cache_refs_def)
  show "distinct (map fst (transfersCache s'))"
    unfolding assms(2) by (rule distinct_update [OF d])
  fix k' r' assume "(k', r') \<in> set (transfersCache s')"
  then have "r' = r \<or> (k', r') \<in> set (transfersCache s)"
    using set_update_distinct [OF d] unfolding assms(2) by blast
  then show "r' < tnext s'"
    using refs assms(3,4) by (auto intro: less_le_trans)
qed

lemma cache_keys_update:
  assumes "cache_refs s" and "cache_keys s" and "transfersCache s' = AList.update k r (transfersCache s)"
    and "k = Some (transferId (theap s' r))"
    and "\<And>r'. r' < tnext s \<Longrightarrow> transferId (theap s' r') = transferId (theap s r')"
  shows "cache_keys s'"
  unfolding cache_keys_def
proof (intro allI impI)
  fix k' r' assume "(k', r') \<in> set (transfersCache s')"
  then have "(k' = k \<and> r' = r) \<or> (k', r') \<in> set (transfersCache s)"
    using set_update_distinct assms(1,3) unfolding cache_refs_def by metis
  then show "k' = Some (transferId (theap s' r'))"
    using assms(1,2,4,5) unfolding cache_refs_def cache_keys_def by auto
qed

definition coherent :: "'w env \<Rightarrow> 'w agg \<Rightarrow> bool" where
  "coherent E s \<longleftrightarrow> cache_refs s \<and> (repo_returns_requested E \<longrightarrow> cache_keys s)"

interpretation cache: agg_invariant_continue E "coherent E" keepsId for E :: "'w env"
proof (unfold_locales, goal_cases)
  case (1 s s')
  then show ?case by (simp add: coherent_def cache_refs_def cache_keys_def)
next
  case (2 s k r)
  then show ?case by (auto simp: coherent_def intro: cache_refs_map_of)
next
  case (3 s t)
  then show ?case
    unfolding coherent_def cache_refs_def cache_keys_def by (fastforce simp: less_Suc_eq)
next
  case (4 s tid w t w')
  then show ?case
    unfolding coherent_def
    by (auto elim!: cache_refs_update cache_keys_update simp: repo_returns_requested_iff)
next
  case (5 s f r)
  then show ?case
    unfolding coherent_def cache_refs_def cache_keys_def keepsId_def by auto
next
  case (6 s r)
  then show ?case
    unfolding coherent_def by (auto elim!: cache_refs_update cache_keys_update)
next
  case (7 s)
  then show ?case by (simp add: coherent_def cache_refs_def cache_keys_def)
qed (simp_all add: keepsId_def)

text \<open>Whatever the adapters answer, a batch keeps the transfer cache coherent: its keys are
  distinct, its references are allocated objects and, when the repository answers a lookup with the
  transfer asked for, every object is cached under its own identifier.\<close>

theorem batch_keeps_cache_coherent:
  assumes "coherent E s"
  shows "coherent E (snd (processCommandBatch E cmds s))"
  by (rule cache.inv_processCommandBatch [OF assms])

lemma coherent_init: "coherent E (initAgg w)"
  by (simp add: coherent_def initAgg_def cache_refs_def cache_keys_def)

section \<open>The terms of a transfer\<close>

text \<open>Everything that is agreed when the transfer is created.\<close>

definition terms :: "transfer \<Rightarrow> transfer" where
  "terms t = t\<lparr>updatedAt := 0, transferState := RECEIVED, completedTimestamp := None, errorCode := None,
               transferOpaqueState := JNull\<rparr>"

definition same_terms_since :: "'w agg \<Rightarrow> 'w agg \<Rightarrow> bool" where
  "same_terms_since s0 s \<longleftrightarrow> cache_refs s \<and> tnext s0 \<le> tnext s \<and>
     (\<forall>r < tnext s0. terms (theap s r) = terms (theap s0 r))"

definition keepsTerms :: "(transfer \<Rightarrow> transfer) \<Rightarrow> bool" where
  "keepsTerms f \<longleftrightarrow> (\<forall>t. terms (f t) = terms t)"

interpretation agreed: agg_invariant_continue E "same_terms_since s0" keepsTerms
  for E :: "'w env" and s0 :: "'w agg"
proof (unfold_locales, goal_cases)
  case (1 s s')
  then show ?case by (simp add: same_terms_since_def cache_refs_def)
next
  case (2 s k r)
  then show ?case by (auto simp: same_terms_since_def intro: cache_refs_map_of)
next
  case (3 s t)
  then show ?case
    unfolding same_terms_since_def cache_refs_def by (fastforce simp: less_Suc_eq)
next
  case (4 s tid w t w')
  then show ?case
    unfolding same_terms_since_def by (auto elim!: cache_refs_update)
next
  case (5 s f r)
  then show ?case
    unfolding same_terms_since_def cache_refs_def keepsTerms_def by auto
next
  case (6 s r)
  then show ?case
    unfolding same_terms_since_def by (auto elim!: cache_refs_update)
next
  case (7 s)
  then show ?case by (simp add: same_terms_since_def cache_refs_def)
qed (simp_all add: keepsTerms_def terms_def)

text \<open>No batch changes the terms of a transfer that exists when it starts: identifiers, payer,
  payee, amount, currency, expiration, settlement model, hash and extensions stay as they are.\<close>

theorem batch_preserves_terms:
  assumes "cache_refs s" and "r < tnext s"
  shows "terms (theap (snd (processCommandBatch E cmds s)) r) = terms (theap s r)"
proof -
  have "same_terms_since s s" using assms(1) by (simp add: same_terms_since_def)
  then have "same_terms_since s (snd (processCommandBatch E cmds s))"
    by (rule agreed.inv_processCommandBatch)
  with assms(2) show ?thesis by (simp add: same_terms_since_def)
qed

section \<open>The states of a transfer\<close>

definition moves_by :: "(TransferState \<Rightarrow> TransferState \<Rightarrow> bool) \<Rightarrow> 'w agg \<Rightarrow> 'w agg \<Rightarrow> bool" where
  "moves_by R s0 s \<longleftrightarrow> cache_refs s \<and> tnext s0 \<le> tnext s \<and>
     (\<forall>r < tnext s0. R (transferState (theap s0 r)) (transferState (theap s r)))"

definition updates_by :: "(TransferState \<Rightarrow> TransferState \<Rightarrow> bool) \<Rightarrow> (transfer \<Rightarrow> transfer) \<Rightarrow> bool" where
  "updates_by R f \<longleftrightarrow> (\<forall>t x. R x (transferState t) \<longrightarrow> R x (transferState (f t)))"

text \<open>What a command may do by itself, and what a batch with its answers may do.\<close>

fun abort_only :: "TransferState \<Rightarrow> TransferState \<Rightarrow> bool" where
  "abort_only x y = (y = x \<or> y = ABORTED)"

fun never_back :: "TransferState \<Rightarrow> TransferState \<Rightarrow> bool" where
  "never_back x y = (y = RECEIVED \<longrightarrow> x = RECEIVED)"

lemma moves_by_invariant:
  assumes "updates_by R (\<lambda>t. t)" and "\<And>x y. R x y \<Longrightarrow> R x ABORTED"
  shows "agg_invariant E (moves_by R s0) (updates_by R)"
proof (unfold_locales, goal_cases)
  case (1 s s')
  then show ?case by (simp add: moves_by_def cache_refs_def)
next
  case (2 s k r)
  then show ?case by (auto simp: moves_by_def intro: cache_refs_map_of)
next
  case (3 s t)
  then show ?case
    unfolding moves_by_def cache_refs_def by (fastforce simp: less_Suc_eq)
next
  case (4 s tid w t w')
  then show ?case
    unfolding moves_by_def by (auto elim!: cache_refs_update)
next
  case (5 s f r)
  then show ?case
    unfolding moves_by_def cache_refs_def updates_by_def by auto
next
  case (6 s r)
  then show ?case
    unfolding moves_by_def by (auto elim!: cache_refs_update)
next
  case (7 s)
  then show ?case by (simp add: moves_by_def cache_refs_def)
qed (use assms(2) in \<open>auto simp: updates_by_def\<close>)

interpretation commands: agg_invariant E "moves_by abort_only s0" "updates_by abort_only"
  for E :: "'w env" and s0 :: "'w agg"
  by (rule moves_by_invariant) (auto simp: updates_by_def)

interpretation forward: agg_invariant E "moves_by never_back s0" "updates_by never_back"
  for E :: "'w env" and s0 :: "'w agg"
  by (rule moves_by_invariant) (auto simp: updates_by_def)

interpretation forward: agg_invariant_continue E "moves_by never_back s0" "updates_by never_back"
  for E :: "'w env" and s0 :: "'w agg"
  by unfold_locales (auto simp: updates_by_def)

text \<open>The commands of a batch, before Accounts & Balances has answered, leave the state of every
  existing transfer as it is or abort it: none is reserved or committed by a command alone.\<close>

theorem commands_only_abort:
  assumes "cache_refs s" and "r < tnext s" and "s' = snd (runCommands E cmds s)"
  shows "transferState (theap s' r) = transferState (theap s r) \<or> transferState (theap s' r) = ABORTED"
proof -
  have "commands.inv s 0 s" using assms(1) by (simp add: commands.inv_def moves_by_def)
  then have "commands.inv s 0 s'"
    unfolding assms(3) by (rule keeps_snd [OF commands.keeps_runCommands])
  with assms(2) show ?thesis by (simp add: commands.inv_def moves_by_def)
qed

text \<open>A transfer that has left \<open>RECEIVED\<close> never returns to it, whatever a batch contains.\<close>

theorem batch_never_back_to_received:
  assumes "cache_refs s" and "r < tnext s" and "transferState (theap s r) \<noteq> RECEIVED"
  shows "transferState (theap (snd (processCommandBatch E cmds s)) r) \<noteq> RECEIVED"
proof -
  have "moves_by never_back s s" using assms(1) by (simp add: moves_by_def)
  then have "moves_by never_back s (snd (processCommandBatch E cmds s))"
    by (rule forward.inv_processCommandBatch)
  with assms(2,3) show ?thesis by (auto simp: moves_by_def)
qed

end
