(* ===== verification/Batch_Properties.thy ===== *)
theory Batch_Properties
  imports Invariants
begin

text \<open>
  What \<open>processCommandBatch\<close> does as a whole: which commands it runs, what it keeps from one batch to
  the next, when its promise settles, what is stored and published, and which command a response of
  Accounts & Balances is continued with.
\<close>

section \<open>Which commands run\<close>

text \<open>Messages that are not commands are skipped: a batch is processed as if they were not in it.\<close>

theorem batch_skips_non_commands:
  "processCommandBatch E cmds s = processCommandBatch E (filter (\<lambda>c. cmd_msgType c = COMMAND) cmds) s"
proof -
  have "runCommands E cmds s' = runCommands E (filter (\<lambda>c. cmd_msgType c = COMMAND) cmds) s'" for s'
    unfolding runCommands_def
  proof (induction cmds arbitrary: s')
    case (Cons c cmds)
    then show ?case by (auto simp: andThen_def ret_def split: prod.split sum.split)
  qed simp
  then have "runCommands E cmds = runCommands E (filter (\<lambda>c. cmd_msgType c = COMMAND) cmds)" by (rule ext)
  then show ?thesis by (simp add: processCommandBatch_def batchBody_def)
qed

text \<open>A command the validation refuses: no payload, or an empty name.\<close>

definition invalid_command :: "command \<Rightarrow> bool" where
  "invalid_command c \<longleftrightarrow> cmd_msgType c = COMMAND \<and> ((\<exists>n. cmd_body c = NoPayloadCmd n) \<or> msgName (cmd_body c) = '''')"

lemma processCommand_invalid:
  assumes "invalid_command c"
  obtains e where "\<And>s. processCommand E c s = (Inl e, s)" and "e = InvalidMessagePayloadError \<or> e = InvalidMessageTypeError"
proof -
  have "(\<forall>s. processCommand E c s = (Inl InvalidMessagePayloadError, s)) \<or>
        (\<forall>s. processCommand E c s = (Inl InvalidMessageTypeError, s))"
    using assms
    by (cases "cmd_body c") (auto simp: invalid_command_def processCommand_def ensureValidMessage_def run_simps)
  then show thesis using that by blast
qed

lemma runCommands_append:
  "runCommands E (xs @ ys) = andThen (runCommands E xs) (\<lambda>_. runCommands E ys)"
  unfolding runCommands_def
  by (induction xs) (auto simp: andThen_def ret_def fun_eq_iff split: prod.split sum.split)

text \<open>An invalid command stops its batch: the promise never resolves, no command after it is run, and
  nothing is sent to Accounts & Balances; what the commands before it did is stored and published.\<close>

theorem batch_stops_at_invalid_command:
  assumes "invalid_command c"
  shows "fst (processCommandBatch E (xs @ c # ys) s) \<noteq> Resolved \<and>
     snd (processCommandBatch E (xs @ c # ys) s)
       = (case runCommands E xs (resetBatch s) of (r, s1) \<Rightarrow>
           (case batchFinally E s1 of
              (Inr _, s2) \<Rightarrow> s2
            | (Inl e, s2) \<Rightarrow> s2\<lparr>unhandled := unhandled s2 @ [e]\<rparr>))"
proof -
  obtain e where e: "processCommand E c s' = (Inl e, s')" for s'
    by (rule processCommand_invalid [OF assms]) blast
  have c: "cmd_msgType c = COMMAND" using assms by (simp add: invalid_command_def)
  obtain r s1 where s1: "runCommands E xs (resetBatch s) = (r, s1)" by fastforce
  have "\<exists>e. batchBody E (xs @ c # ys) (resetBatch s) = (Inl e, s1)"
    using s1 c e
    by (cases r) (auto simp: batchBody_def andThen_def [of "runCommands E (xs @ c # ys)"] runCommands_append
        runCommands_def [of E "c # ys"] andThen_def)
  then show ?thesis
    using s1 by (auto simp: processCommandBatch_def split: prod.split sum.split)
qed

section \<open>From one batch to the next\<close>

text \<open>Nothing of the buffers of a batch reaches the next one: the requests, cancellations, responses,
  output events and remembered commands left behind have no influence.\<close>

theorem batch_starts_clean:
  "processCommandBatch E cmds (s\<lparr>abBatchRequests := qs, abCancelationBatchRequests := cs,
      abBatchResponses := rs, outputEvents := es, batchCommands := bc\<rparr>) = processCommandBatch E cmds s"
  by (simp add: processCommandBatch_def resetBatch_def)

section \<open>Settling, storing and publishing\<close>

lemma resolved_batch:
  assumes "processCommandBatch E cmds s = (Resolved, s')"
  obtains s1 w where "batchBody E cmds (resetBatch s) = (Inr (), s1)" and "transfersCache s' = []"
    and "unhandled s' = unhandled s1"
    and "transfersCache s1 = [] \<or> (\<exists>w'. repo_storeTransfers E (map (\<lambda>(_, r). theap s1 r) (transfersCache s1)) (world s1) = (Inr (), w'))"
    and "producer_send E (outputEvents s1) w = (Inr (), world s')"
proof -
  obtain r s1 where body: "batchBody E cmds (resetBatch s) = (r, s1)" by fastforce
  obtain f s2 where fin: "batchFinally E s1 = (f, s2)" by fastforce
  from assms have r: "r = Inr ()" and f: "f = Inr ()" and s2: "s2 = s'"
    by (auto simp: processCommandBatch_def body fin split: sum.splits)
  from fin [unfolded f s2] obtain s3 where s3: "flush E s1 = (Inr (), s3)"
    and send: "call (producer_send E (outputEvents s3)) s3 = (Inr (), s')"
    by (auto simp: batchFinally_def run_simps split: prod.splits sum.splits)
  from s3 have "transfersCache s3 = [] \<and> unhandled s3 = unhandled s1 \<and> outputEvents s3 = outputEvents s1 \<and>
     (transfersCache s1 = [] \<or>
      (\<exists>w'. repo_storeTransfers E (map (\<lambda>(_, r). theap s1 r) (transfersCache s1)) (world s1) = (Inr (), w')))"
    by (auto simp: flush_def run_simps call_def split: prod.splits sum.splits if_splits)
  with send body r that [of s1 "world s3"] show thesis
    by (auto simp: call_def split: prod.splits)
qed

text \<open>When the promise resolves, no error occurred, the transfer cache is empty, because its objects
  were accepted by the repository or there were none, and the producer accepted the output events.\<close>

theorem batch_resolved:
  assumes "processCommandBatch E cmds s = (Resolved, s')"
  shows "transfersCache s' = [] \<and> unhandled s' = unhandled (snd (batchBody E cmds (resetBatch s))) \<and>
     (\<exists>s1. batchBody E cmds (resetBatch s) = (Inr (), s1) \<and>
        (transfersCache s1 = [] \<or>
         (\<exists>w. repo_storeTransfers E (map (\<lambda>(_, r). theap s1 r) (transfersCache s1)) (world s1) = (Inr (), w))) \<and>
        (\<exists>w. producer_send E (outputEvents s1) w = (Inr (), world s')))"
  using assms by (rule resolved_batch) (auto intro!: exI)

text \<open>When the repository refuses the transfers of a batch whose commands went through, the promise
  stays pending and the output events are lost: the error becomes an unhandled rejection, which ends
  the process, the producer is not called, and the transfers stay in the cache.\<close>

theorem batch_flush_failure:
  assumes "batchBody E cmds (resetBatch s) = (Inr (), s1)" and "transfersCache s1 \<noteq> []"
    and "repo_storeTransfers E (map (\<lambda>(_, r). theap s1 r) (transfersCache s1)) (world s1) = (Inl e, w)"
  shows "processCommandBatch E cmds s = (Pending, s1\<lparr>world := w, unhandled := unhandled s1 @ [e]\<rparr>)"
  using assms
  by (simp add: processCommandBatch_def batchFinally_def flush_def run_simps call_def)

section \<open>The continuation of a request\<close>

text \<open>A response whose request identifier was not sent rejects with
  \<open>CheckLiquidityAndReserveFailedError\<close> and changes nothing.\<close>

theorem response_unknown_request:
  assumes "rsp_requestId rsp \<notin> req_requestId ` set (abBatchRequests s)"
  shows "processAccountsAndBalancesResponse E rsp s = (Inl CheckLiquidityAndReserveFailedError, s)"
proof -
  have "find (\<lambda>q. req_requestId q = rsp_requestId rsp) (abBatchRequests s) = None"
    unfolding find_None_iff using assms by (metis image_eqI)
  then show ?thesis by (simp add: processAccountsAndBalancesResponse_def run_simps)
qed

end
