(* ===== verification/Frames.thy ===== *)
theory Frames
  imports Batch
begin

text \<open>
  What the handlers do not do: predicates on the remembered commands and on the bulk transfers that
  every handler preserves.  The locale \<open>continue_frame\<close> holds the handlers that ask Accounts & Balances
  for nothing, \<open>handler_frame\<close> all of them.  No handler touches the map of remembered commands, so after
  the commands have run it is a function of their list in which the last command of a transfer wins;
  no handler records an item of a bulk transfer as not processed; and the requests of a batch stay as
  they are while the responses are processed.
\<close>

section \<open>Frame predicates\<close>

locale continue_frame =
  fixes I :: "'w agg \<Rightarrow> bool" and upd_ok :: "(bulk_transfer \<Rightarrow> bulk_transfer) \<Rightarrow> bool"
  assumes frame: "\<lbrakk>I s; batchCommands s' = batchCommands s; bheap s' = bheap s; bnext s' = bnext s;
      abBatchRequests s' = abBatchRequests s; unhandled s' = unhandled s\<rbrakk> \<Longrightarrow> I s'"
    and new_bulk: "I s \<Longrightarrow> I (s\<lparr>bheap := (bheap s)(bnext s := b), bnext := Suc (bnext s)\<rparr>)"
    and update: "I s \<Longrightarrow> upd_ok g \<Longrightarrow> I (s\<lparr>bheap := (bheap s)(br := g (bheap s br))\<rparr>)"
    and upd_status: "upd_ok (\<lambda>b. b\<lparr>bt_updatedAt := n, bt_status := st\<rparr>)"
    and upd_prepared: "upd_ok (\<lambda>b. b\<lparr>bt_transfersPreparedProcessedIds := bt_transfersPreparedProcessedIds b @ [i]\<rparr>)"
    and upd_fulfiled: "upd_ok (\<lambda>b. b\<lparr>bt_transfersFulfiledProcessedIds := bt_transfersFulfiledProcessedIds b @ [i]\<rparr>)"
begin

lemma keeps_untouched:
  assumes "\<And>s. batchCommands (snd (m s)) = batchCommands s \<and> bheap (snd (m s)) = bheap s \<and>
      bnext (snd (m s)) = bnext s \<and> abBatchRequests (snd (m s)) = abBatchRequests s \<and>
      unhandled (snd (m s)) = unhandled s"
  shows "keeps I m"
  by (rule keepsI) (use assms in \<open>auto simp: wp_unfold intro: frame\<close>)

lemma frame_primitives [keeps_intros]:
  "keeps I (call m)" "keeps I (now E)" "keeps I (uuid E)" "keeps I (newTransfer t)" "keeps I (getT r)"
  "keeps I (setT r f)" "keeps I (cacheT r)" "keeps I (getB br)" "keeps I (cacheB br)" "keeps I (emit msg e)"
  "keeps I (pushCancelation q)"
  by (rule keeps_untouched; simp add: primitive_defs reads_def modify_def emit_def pushCancelation_def
      split: prod.splits)+

lemma frame_newBulk [keeps_intros]: "keeps I (newBulk b)"
  by (rule keepsI) (simp add: wp_simps new_bulk)

lemma frame_setB: "upd_ok g \<Longrightarrow> keeps I (setB br g)"
  by (rule keepsI) (simp add: wp_simps update)

lemmas frame_setB_upd [keeps_intros] = frame_setB [OF upd_status] frame_setB [OF upd_prepared] frame_setB [OF upd_fulfiled]

lemma frame_fields [keeps_intros]:
  "keeps I (modify (\<lambda>s. s\<lparr>transfersCache := f1 s\<rparr>))"
  "keeps I (modify (\<lambda>s. s\<lparr>bulkTransfersCache := f2 s\<rparr>))"
  "keeps I (modify (\<lambda>s. s\<lparr>abBatchResponses := f4 s\<rparr>))"
  by (rule keeps_untouched; simp add: modify_def)+

lemma frame_lookups [keeps_intros]:
  "keeps I (getTransfer E tid)" "keeps I (getBulkTransfer E bid)"
  unfolding getTransfer_def getBulkTransfer_def by (intro keeps_intros)+

lemma frame_state [keeps_intros]:
  "keeps I m1 \<Longrightarrow> keeps I m2 \<Longrightarrow> keeps I m3 \<Longrightarrow> keeps I m4 \<Longrightarrow>
   keeps I (case st of RECEIVED \<Rightarrow> m1 | RESERVED \<Rightarrow> m2 | COMMITTED \<Rightarrow> m3 | ABORTED \<Rightarrow> m4)"
  by (cases st) auto

lemma frame_lift_sum [keeps_intros]: "keeps I (lift_sum r)"
  by (cases r) (simp_all add: lift_sum_def keeps_ret keeps_raise)

lemma frame_checks [keeps_intros]:
  "keeps I (getParticipantsInfo E payer payee)" "keeps I (cancelTransfer E tid code)"
  unfolding getParticipantsInfo_def cancelTransfer_def cancelTransferBody_def
  by (intro keeps_intros frame_lift_sum)+

lemma frame_missing [keeps_intros]: "keeps I (missingTransfer E msg tid)"
  unfolding missingTransfer_def by (intro keeps_intros)

lemma frame_answered [keeps_intros]:
  "keeps I (rejectTransfer E msg rp)"
  "keeps I (queryTransfer E msg qp)"
  "keeps I (timeoutTransfer E msg tp)"
  unfolding rejectTransfer_def rejectParticipantsError_def rejectCancel_def rejectUpdate_def queryTransfer_def
    queryParticipantsError_def timeoutTransfer_def timeoutReceived_def timeoutReceivedUpdate_def
    timeoutReserved_def timeoutReservedUpdate_def
  by (intro keeps_intros)+

lemma frame_bulk_answered [keeps_intros]:
  "keeps I (rejectBulkTransfer E msg br)"
  "keeps I (queryBulkTransfer E msg bq)"
  unfolding rejectBulkTransfer_def queryBulkTransfer_def queryBulkRespond_def queryBulkParticipantsError_def Let_def
  by (intro keeps_intros)+

lemma frame_continue [keeps_intros]:
  "keeps I (prepareTransferContinue E rsp req orig tr)"
  "keeps I (fulfilTransferContinue E rsp req orig tr)"
  unfolding prepareTransferContinue_def fulfilTransferContinue_def by (intro keeps_intros)+

lemma frame_bulk_continue [keeps_intros]:
  "keeps I (prepareBulkTransferContinue E rsp req orig tr)"
  "keeps I (fulfilBulkTransferContinue E rsp req orig tr)"
  unfolding prepareBulkTransferContinue_def prepareBulkComplete_def fulfilBulkTransferContinue_def fulfilBulkComplete_def
  by (intro keeps_intros)+

lemma frame_response [keeps_intros]: "keeps I (processAccountsAndBalancesResponse E rsp)"
proof -
  have "keeps I (continueRequest E rsp req orig tr)" for req orig tr
    unfolding continueRequest_def by (cases "rsp_requestType rsp") (auto intro: keeps_intros)
  then show ?thesis
    unfolding processAccountsAndBalancesResponse_def lookupTransfer_def by (intro keeps_intros)
qed

lemma frame_requests: "keeps I (runRequests E)" "keeps I (runCancelations E)" "keeps I (batchFinally E)"
  unfolding runRequests_def runCancelations_def setResponses_def batchFinally_def flush_def
  by (intro keeps_intros)+

end

text \<open>The handlers of a prepare and of a fulfil also queue requests, and a bulk prepare drops a promise.\<close>

locale handler_frame = continue_frame +
  assumes push: "I s \<Longrightarrow> I (s\<lparr>abBatchRequests := abBatchRequests s @ [q]\<rparr>)"
    and drop: "I s \<Longrightarrow> I (s\<lparr>unhandled := unhandled s @ [e]\<rparr>)"
begin

lemma frame_unhandled [keeps_intros]: "keeps I (modify (\<lambda>s. s\<lparr>unhandled := unhandled s @ [e]\<rparr>))"
  by (rule keepsI) (simp add: wp_simps drop)

lemma frame_pushAbRequest [keeps_intros]: "keeps I (pushAbRequest q)"
  by (rule keepsI) (simp add: wp_simps push)

lemma frame_single [keeps_intros]:
  "keeps I (prepareTransferStart E msg p)"
  "keeps I (fulfilTransferStart E msg fp)"
  unfolding prepareTransferStart_def prepareExisting_def prepareNew_def getSettlementModel_def
    prepareParticipantsError_def prepareAccountsError_def prepareReserve_def fulfilTransferStart_def
    mergeOpaqueState_def fulfilValidate_def fulfilReserve_def fulfilParticipantsError_def
    fulfilAccountsError_def fulfilAbort_def Let_def
  by (intro keeps_intros)+

lemma frame_bulk [keeps_intros]:
  "keeps I (prepareBulkTransferStart E msg bp)"
  "keeps I (fulfilBulkTransferStart E msg bf)"
  unfolding prepareBulkTransferStart_def addBulkTransfer_def fulfilBulkTransferStart_def Let_def
  by (intro keeps_intros)+

lemma frame_dispatch [keeps_intros]: "keeps I (dispatchCommand E msg)"
  unfolding dispatchCommand_def by (cases "cmd_body msg") (auto intro: keeps_intros)

end

abbreviation requested :: "ab_request list \<Rightarrow> 'w agg \<Rightarrow> bool" where
  "requested qs \<equiv> \<lambda>s. abBatchRequests s = qs"

interpretation requests: continue_frame "requested qs" "\<lambda>_. True" for qs
  by unfold_locales simp_all

abbreviation remembers :: "(string option \<times> command) list \<Rightarrow> 'w agg \<Rightarrow> bool" where
  "remembers b \<equiv> \<lambda>s. batchCommands s = b"

interpretation remembered: handler_frame "remembers b" "\<lambda>_. True" for b
  by unfold_locales simp_all

text \<open>An unhandled rejection stays one.\<close>

abbreviation failed :: "'w agg \<Rightarrow> bool" where
  "failed \<equiv> \<lambda>s. unhandled s \<noteq> []"

interpretation failing: handler_frame failed "\<lambda>_. True"
  by unfold_locales simp_all

section \<open>The last command of a transfer wins\<close>

text \<open>The keys a command is remembered under.\<close>

definition registers :: "command \<Rightarrow> string option list" where
  "registers c = (if truthy (payload_bulkTransferId (cmd_body c)) then map Some (individualIds (cmd_body c))
                  else [payload_transferId (cmd_body c)])"

definition registerCommand :: "command \<Rightarrow> (string option \<times> command) list \<Rightarrow> (string option \<times> command) list" where
  "registerCommand c m = fold (\<lambda>k. AList.update k c) (registers c) m"

lemma map_of_registerCommand:
  "map_of (registerCommand c m) k = (if k \<in> set (registers c) then Some c else map_of m k)"
proof -
  have "map_of (fold (\<lambda>k. AList.update k c) ks m) k = (if k \<in> set ks then Some c else map_of m k)" for ks
    by (induction ks arbitrary: m) (auto simp: update_conv')
  then show ?thesis by (simp add: registerCommand_def)
qed

lemma rememberCommand_run:
  "rememberCommand c s = (Inr (), s\<lparr>batchCommands := registerCommand c (batchCommands s)\<rparr>)"
proof (cases "truthy (payload_bulkTransferId (cmd_body c))")
  case True
  have "forEach tids (\<lambda>tid. modify (\<lambda>s. s\<lparr>batchCommands := AList.update (Some tid) c (batchCommands s)\<rparr>)) s
      = (Inr (), s\<lparr>batchCommands := fold (\<lambda>k. AList.update k c) (map Some tids) (batchCommands s)\<rparr>)" for tids
    by (induction tids arbitrary: s) (simp_all add: run_simps)
  with True show ?thesis
    by (simp add: rememberCommand_def registerCommand_def registers_def)
next
  case False
  then show ?thesis
    by (simp add: rememberCommand_def registerCommand_def registers_def modify_def)
qed

lemma processCommand_remembers:
  assumes "processCommand E c s = (Inr (), s')"
  shows "batchCommands s' = registerCommand c (batchCommands s)"
proof -
  let ?s = "s\<lparr>batchCommands := registerCommand c (batchCommands s)\<rparr>"
  from assms have "dispatchCommand E c ?s = (Inr (), s')"
    by (auto simp: processCommand_def run_simps rememberCommand_run ensureValidMessage_def
        split: command_body.splits if_splits)
  from keeps_run [OF remembered.frame_dispatch [where b = "batchCommands ?s"] _ this] show ?thesis by simp
qed

text \<open>C31: when the commands of a batch have run, each transfer identifier is remembered with the last
  command of the batch registered for it (bulk commands register their items): whatever request was
  queued for the transfer, its answer will be continued with that command.\<close>

theorem last_command_wins:
  assumes "runCommands E cmds s = (Inr (), s')"
  shows "map_of (batchCommands s') k =
     (case find (\<lambda>c. k \<in> set (registers c)) (rev (filter (\<lambda>c. cmd_msgType c = COMMAND) cmds)) of
        Some c \<Rightarrow> Some c
      | None \<Rightarrow> map_of (batchCommands s) k)"
  using assms
proof (induction cmds arbitrary: s)
  case Nil
  then show ?case by (simp add: runCommands_def ret_def)
next
  case (Cons c cmds s)
  have find_append: "find P (xs @ [x]) = (case find P xs of Some y \<Rightarrow> Some y | None \<Rightarrow> if P x then Some x else None)"
    for P :: "command \<Rightarrow> bool" and xs x
    by (induction xs) auto
  show ?case
  proof (cases "cmd_msgType c = COMMAND")
    case True
    with Cons.prems obtain s1 where s1: "processCommand E c s = (Inr (), s1)" and rest: "runCommands E cmds s1 = (Inr (), s')"
      by (auto simp: runCommands_def andThen_def split: prod.splits sum.splits)
    from True show ?thesis
      by (simp add: Cons.IH [OF rest] find_append processCommand_remembers [OF s1] map_of_registerCommand
          split: option.split)
  next
    case False
    with Cons.prems have "runCommands E cmds s = (Inr (), s')"
      by (simp add: runCommands_def run_simps)
    with False show ?thesis by (simp add: Cons.IH)
  qed
qed

section \<open>Unhandled rejections stay\<close>

lemma failed_runCommands: "keeps failed (runCommands E cmds)"
proof -
  have "keeps failed (ensureValidMessage c)" for c
    unfolding ensureValidMessage_def by (cases "cmd_body c") (auto intro: keeps_intros)
  moreover have "keeps failed (rememberCommand c)" for c
    by (rule keepsI) (simp add: wp_def rememberCommand_run)
  ultimately show ?thesis
    unfolding runCommands_def processCommand_def by (intro keeps_intros failing.frame_dispatch)
qed

lemma failed_batch:
  assumes "failed (snd (runCommands E cmds (resetBatch s)))"
  shows "failed (snd (processCommandBatch E cmds s))"
proof -
  have "failed (snd (batchBody E cmds (resetBatch s)))"
  proof (cases "runCommands E cmds (resetBatch s)")
    case (Pair r s1)
    have "keeps failed (andThen (runRequests E) (\<lambda>_. runCancelations E))"
      by (intro keeps_andThen failing.frame_requests)
    from keeps_snd [OF this] assms Pair show ?thesis
      by (cases r) (auto simp: batchBody_def andThen_def [of "runCommands E cmds"])
  qed
  then have "failed (snd (batchFinally E (snd (batchBody E cmds (resetBatch s)))))"
    by (rule keeps_snd [OF failing.frame_requests(3)])
  then show ?thesis
    by (auto simp: processCommandBatch_def split: prod.splits sum.splits)
qed

section \<open>Items that are not processed\<close>

text \<open>The list of items that were not processed, of a bulk transfer that is loaded.\<close>

definition not_processed :: "nat \<Rightarrow> string list \<Rightarrow> 'w agg \<Rightarrow> bool" where
  "not_processed br ids s \<longleftrightarrow> br < bnext s \<and> bt_transfersNotProcessedIds (bheap s br) = ids"

interpretation bulk_items: handler_frame "not_processed br ids"
  "\<lambda>g. \<forall>b. bt_transfersNotProcessedIds (g b) = bt_transfersNotProcessedIds b" for br ids
  by unfold_locales (auto simp: not_processed_def)

lemma not_processed_remember: "keeps (not_processed br ids) (rememberCommand c)"
  by (rule keepsI) (simp add: wp_def rememberCommand_run not_processed_def)

lemma not_processed_commands: "keeps (not_processed br ids) (runCommands E cmds)"
proof -
  have "keeps (not_processed br ids) (ensureValidMessage c)" for c
    unfolding ensureValidMessage_def by (cases "cmd_body c") (auto intro: keeps_intros)
  then show ?thesis
    unfolding runCommands_def processCommand_def
    by (intro keeps_intros not_processed_remember bulk_items.frame_dispatch)
qed


end
