(* ===== verification/Js_Values.thy ===== *)
theory Js_Values
  imports Json
begin

text \<open>
  What the routes and the searches do with strings and numbers of JavaScript: the \<open>||\<close> of two strings
  that may be absent, \<open>trim\<close>, \<open>split\<close>, \<open>parseInt\<close>, and the arithmetic of paging on numbers that may be
  \<open>NaN\<close> or infinite.  A finite number here is an integer; it is exact, where a JavaScript number is
  rounded beyond \<open>2 ^ 53\<close>.
\<close>

section \<open>Numbers\<close>

datatype js_number = NaN | NegInfinity | Infinity | Num int

text \<open>The truthiness of a number that may be \<open>undefined\<close>: \<open>0\<close> and \<open>NaN\<close> are falsy.\<close>

definition number_truthy :: "js_number option \<Rightarrow> bool" where
  "number_truthy v \<longleftrightarrow> v \<notin> {None, Some NaN, Some (Num 0)}"

text \<open>\<open>Math.min\<close> and \<open>Math.max\<close> with an integer.\<close>

fun js_min :: "js_number \<Rightarrow> int \<Rightarrow> js_number" where
  "js_min NaN _ = NaN"
| "js_min NegInfinity _ = NegInfinity"
| "js_min Infinity m = Num m"
| "js_min (Num n) m = Num (min n m)"

fun js_max :: "js_number \<Rightarrow> int \<Rightarrow> js_number" where
  "js_max NaN _ = NaN"
| "js_max NegInfinity m = Num m"
| "js_max Infinity _ = Infinity"
| "js_max (Num n) m = Num (max n m)"

fun js_sign :: "js_number \<Rightarrow> int" where
  "js_sign (Num n) = sgn n"
| "js_sign Infinity = 1"
| "js_sign NegInfinity = - 1"
| "js_sign NaN = 0"

definition js_mult :: "js_number \<Rightarrow> js_number \<Rightarrow> js_number" where
  "js_mult a b =
     (case (a, b) of
        (Num x, Num y) \<Rightarrow> Num (x * y)
      | _ \<Rightarrow>
          if a = NaN \<or> b = NaN \<or> js_sign a * js_sign b = 0 then NaN
          else if js_sign a * js_sign b > 0 then Infinity else NegInfinity)"

text \<open>\<open>Math.ceil(n / b)\<close> of a count \<open>n\<close>; negative zero is \<open>0\<close>.\<close>

definition js_ceil_div :: "int \<Rightarrow> js_number \<Rightarrow> js_number" where
  "js_ceil_div n b =
     (case b of
        NaN \<Rightarrow> NaN
      | NegInfinity \<Rightarrow> Num 0
      | Infinity \<Rightarrow> Num 0
      | Num m \<Rightarrow>
          if m = 0 then (if n = 0 then NaN else if n > 0 then Infinity else NegInfinity)
          else Num \<lceil>rat_of_int n / rat_of_int m\<rceil>)"

lemma js_ceil_div_bounds:
  assumes "0 < m"
  obtains k where "js_ceil_div n (Num m) = Num k" and "n \<le> k * m" and "(k - 1) * m < n"
proof -
  let ?q = "rat_of_int n / rat_of_int m"
  have m: "0 < rat_of_int m" using assms by simp
  have "?q * rat_of_int m = rat_of_int n" using m by simp
  moreover have "?q * rat_of_int m \<le> rat_of_int \<lceil>?q\<rceil> * rat_of_int m"
    using m by (intro mult_right_mono le_of_int_ceiling) simp
  moreover have "(rat_of_int \<lceil>?q\<rceil> - 1) * rat_of_int m < ?q * rat_of_int m"
    using m ceiling_correct [of ?q] by (intro mult_strict_right_mono) simp_all
  ultimately have "rat_of_int n \<le> rat_of_int (\<lceil>?q\<rceil> * m)" "rat_of_int ((\<lceil>?q\<rceil> - 1) * m) < rat_of_int n"
    by simp_all
  then have "n \<le> \<lceil>?q\<rceil> * m" "(\<lceil>?q\<rceil> - 1) * m < n" by (simp_all only: of_int_le_iff of_int_less_iff)
  with assms show thesis by (intro that [of "\<lceil>?q\<rceil>"]) (simp_all add: js_ceil_div_def)
qed

section \<open>Strings\<close>

text \<open>\<open>a || b\<close>\<close>

definition js_or :: "string option \<Rightarrow> string option \<Rightarrow> string option" where
  "js_or a b = (if truthy a then a else b)"

definition is_space :: "char \<Rightarrow> bool" where
  "is_space c \<longleftrightarrow> (of_char c :: nat) \<in> {9, 10, 11, 12, 13, 32, 160}"

definition trim :: "string \<Rightarrow> string" where
  "trim s = rev (dropWhile is_space (rev (dropWhile is_space s)))"

text \<open>\<open>s.split(sep)\<close> for a separator of one character.\<close>

fun split_on :: "char \<Rightarrow> string \<Rightarrow> string list" where
  "split_on sep [] = [[]]"
| "split_on sep (c # cs) =
     (if c = sep then [] # split_on sep cs
      else case split_on sep cs of [] \<Rightarrow> [[c]] | part # parts \<Rightarrow> (c # part) # parts)"

lemma split_on_ne [simp]: "split_on sep s \<noteq> []"
  by (induction s) (auto split: list.split)

lemma split_on_none: "sep \<notin> set s \<Longrightarrow> split_on sep s = [s]"
  by (induction s) auto

lemma split_on_part: "sep \<notin> set p \<Longrightarrow> split_on sep (p @ sep # s) = p # split_on sep s"
  by (induction p) auto

lemma split_on_two: "sep \<notin> set p \<Longrightarrow> sep \<notin> set q \<Longrightarrow> split_on sep (p @ sep # q) = [p, q]"
  by (simp add: split_on_part split_on_none)

section \<open>Parsing integers\<close>

text \<open>The value of a digit in base 16, also of a decimal one.\<close>

definition digit_value :: "char \<Rightarrow> nat option" where
  "digit_value c =
     (let n = of_char c in
      if 48 \<le> n \<and> n \<le> 57 then Some (n - 48)
      else if 97 \<le> n \<and> n \<le> 102 then Some (n - 87)
      else if 65 \<le> n \<and> n \<le> 70 then Some (n - 55)
      else None)"

definition is_digit :: "nat \<Rightarrow> char \<Rightarrow> bool" where
  "is_digit base c \<longleftrightarrow> (case digit_value c of None \<Rightarrow> False | Some d \<Rightarrow> d < base)"

definition digits_value :: "nat \<Rightarrow> string \<Rightarrow> nat" where
  "digits_value base = foldl (\<lambda>acc c. acc * base + the (digit_value c)) 0"

text \<open>The longest prefix of digits; no digit at all is \<open>NaN\<close>.\<close>

definition parse_digits :: "int \<Rightarrow> nat \<Rightarrow> string \<Rightarrow> js_number" where
  "parse_digits sign base s =
     (case takeWhile (is_digit base) s of
        [] \<Rightarrow> NaN
      | ds \<Rightarrow> Num (sign * int (digits_value base ds)))"

text \<open>\<open>parseInt(s)\<close> without a radix: leading space, a sign, and hexadecimal after \<open>0x\<close>.\<close>

definition parse_unsigned :: "int \<Rightarrow> string \<Rightarrow> js_number" where
  "parse_unsigned sign s =
     (case s of
        z # x # rest \<Rightarrow>
          if z = CHR ''0'' \<and> (x = CHR ''x'' \<or> x = CHR ''X'') then parse_digits sign 16 rest
          else parse_digits sign 10 s
      | _ \<Rightarrow> parse_digits sign 10 s)"

definition parseInt :: "string \<Rightarrow> js_number" where
  "parseInt s =
     (case dropWhile is_space s of
        [] \<Rightarrow> NaN
      | c # rest \<Rightarrow>
          if c = CHR ''-'' then parse_unsigned (- 1) rest
          else if c = CHR ''+'' then parse_unsigned 1 rest
          else parse_unsigned 1 (c # rest))"

lemma parseInt_finite: "parseInt s \<in> {NaN} \<union> range Num"
  by (auto simp: parseInt_def parse_unsigned_def parse_digits_def split: list.split)

subsection \<open>The decimal text of an integer is read back\<close>

lemma digit_of_small: "n < 10 \<Longrightarrow> digit_value (char_of (48 + n)) = Some n"
  by (simp add: digit_value_def)

lemma decimal_rev_digits:
  "(\<forall>c \<in> set (decimal_rev n). is_digit 10 c) \<and> decimal_rev n \<noteq> [] \<and>
   foldr (\<lambda>c acc. acc * 10 + the (digit_value c)) (decimal_rev n) 0 = n"
proof (induction n rule: decimal_rev.induct)
  case (1 n)
  show ?case
  proof (cases "n < 10")
    case True
    then show ?thesis by (simp add: decimal_rev.simps [of n] is_digit_def digit_of_small)
  next
    case False
    with 1 digit_of_small [of "n mod 10"] show ?thesis
      by (simp add: decimal_rev.simps [of n] is_digit_def)
  qed
qed

lemma decimal_digits:
  "(\<forall>c \<in> set (decimal n). is_digit 10 c) \<and> decimal n \<noteq> [] \<and> digits_value 10 (decimal n) = n"
  using decimal_rev_digits [of n] by (simp add: decimal_def digits_value_def foldl_conv_foldr)

lemma decimal_no_x: "decimal n = z # x # rest \<Longrightarrow> x \<noteq> CHR ''x'' \<and> x \<noteq> CHR ''X''"
  using decimal_digits [of n] by (auto simp: is_digit_def digit_value_def split: if_splits)

lemma parse_unsigned_decimal: "parse_unsigned sign (decimal n) = Num (sign * int n)"
proof -
  have all: "takeWhile (is_digit 10) (decimal n) = decimal n"
    using decimal_digits [of n] by (simp add: takeWhile_eq_all_conv)
  have digits: "parse_digits sign 10 (decimal n) = Num (sign * int n)"
    using decimal_digits [of n] unfolding parse_digits_def all by (auto split: list.split)
  have "parse_unsigned sign (decimal n) = parse_digits sign 10 (decimal n)"
    using decimal_no_x [of n] by (auto simp: parse_unsigned_def split: list.split)
  with digits show ?thesis by simp
qed

lemma decimal_head:
  assumes "decimal n = c # rest"
  shows "\<not> is_space c \<and> c \<noteq> CHR ''-'' \<and> c \<noteq> CHR ''+''"
proof -
  have "is_digit 10 c" using decimal_digits [of n] assms by simp
  then show ?thesis by (auto simp: is_digit_def digit_value_def is_space_def Let_def split: if_splits)
qed

lemma parseInt_int_string: "parseInt (int_string i) = Num i"
proof (cases "i < 0")
  case True
  then show ?thesis
    by (simp add: parseInt_def int_string_def is_space_def parse_unsigned_decimal)
next
  case False
  obtain c rest where c: "decimal (nat i) = c # rest"
    using decimal_digits [of "nat i"] by (cases "decimal (nat i)") auto
  with False decimal_head [OF c] parse_unsigned_decimal [of 1 "nat i"] show ?thesis
    by (simp add: parseInt_def int_string_def)
qed

end
