(* ===== verification/Repositories.thy ===== *)
theory Repositories
  imports Agg_State Js_Values
begin

text \<open>
  The two implementations of the repositories.  \<open>MongoTransfersRepo\<close> and \<open>MongoBulkTransfersRepo\<close>
  (\<open>packages/implementations-lib/src/transfers\<close>) are modelled over the operations of the MongoDB
  driver they call, which are parameters; \<open>MemoryTransferRepo\<close> and \<open>MemoryBulkTransferRepo\<close>
  (\<open>packages/shared-mocks-lib/src\<close>) are lists.  Both satisfy one contract, stated as a locale.

  A document is the record that was stored: an absent or \<open>null\<close> field is \<open>None\<close> (\<open>JUndefined\<close> or
  \<open>JNull\<close> for the opaque state).  The errors of \<open>packages/implementations-lib/src/errors.ts\<close> are
  \<open>OtherError\<close> with the name of their class.
\<close>

section \<open>MongoTransfersRepo\<close>

text \<open>
  The operations on the \<open>transfers\<close> collection: \<open>findOne\<close> and \<open>deleteOne\<close> by identifier, \<open>find\<close> by bulk
  identifier, \<open>insertOne\<close>, \<open>updateOne\<close> with \<open>$set\<close>, and \<open>bulkWrite\<close> of \<open>replaceOne\<close> operations with
  \<open>upsert\<close>, which returns how many documents were inserted and how many were modified.
\<close>

record 'c collection =
  coll_findOne :: "string option \<Rightarrow> ('c, transfer option) call"
  coll_findByBulk :: "string \<Rightarrow> ('c, transfer list) call"
  coll_insertOne :: "transfer \<Rightarrow> ('c, unit) call"
  coll_deleteOne :: "string \<Rightarrow> ('c, nat) call"
  coll_updateOne :: "string \<Rightarrow> transfer \<Rightarrow> ('c, unit) call"
  coll_bulkWrite :: "transfer list \<Rightarrow> ('c, nat \<times> nat) call"

text \<open>\<open>promise.catch(e => throw new X())\<close>\<close>

definition catchAs :: "string \<Rightarrow> ('c, 'a) call \<Rightarrow> ('c, 'a) call" where
  "catchAs name m = tryElse m (\<lambda>_. raise (OtherError name)) ret"

text \<open>\<open>_mapToTransfer\<close>: the error code is read from the error information.\<close>

definition mapToTransfer :: "transfer \<Rightarrow> transfer" where
  "mapToTransfer d =
     d\<lparr>errorCode := map_option ErrInfo (errorInformation d),
       transferOpaqueState := (if transferOpaqueState d = JUndefined then JNull else transferOpaqueState d)\<rparr>"

definition mongo_getTransferById :: "'c collection \<Rightarrow> string option \<Rightarrow> ('c, transfer option) call" where
  "mongo_getTransferById C tid =
     andThen (catchAs ''UnableToGetTransferError'' (coll_findOne C tid)) (\<lambda>found.
       ret (map_option mapToTransfer found))"

definition mongo_addTransfer :: "'c collection \<Rightarrow> string \<Rightarrow> transfer \<Rightarrow> ('c, string) call" where
  "mongo_addTransfer C fresh t =
     andThen
       (if transferId t \<noteq> '''' then
          andThen (catchAs ''UnableToGetTransferError'' (coll_findOne C (Some (transferId t)))) (\<lambda>present.
            if present \<noteq> None then raise (OtherError ''TransferAlreadyExistsError'') else ret ())
        else ret ()) (\<lambda>_.
     let t' = (if transferId t \<noteq> '''' then t else t\<lparr>transferId := fresh\<rparr>) in
     andThen (catchAs ''UnableToAddTransferError'' (coll_insertOne C t')) (\<lambda>_.
       ret (transferId t')))"

definition mongo_removeTransfer :: "'c collection \<Rightarrow> string \<Rightarrow> ('c, unit) call" where
  "mongo_removeTransfer C tid =
     andThen (catchAs ''UnableToDeleteTransferError'' (coll_deleteOne C tid)) (\<lambda>deletedCount.
       if deletedCount = 1 then ret () else raise (OtherError ''NoSuchTransferError''))"

text \<open>\<open>{ ...existing, ...transfer }\<close> is \<open>transfer\<close>, which has every field.\<close>

definition mongo_updateTransfer :: "'c collection \<Rightarrow> transfer \<Rightarrow> ('c, unit) call" where
  "mongo_updateTransfer C t =
     andThen (mongo_getTransferById C (Some (transferId t))) (\<lambda>existing.
       case existing of
         None \<Rightarrow> raise (OtherError ''NoSuchTransferError'')
       | Some e \<Rightarrow>
           if transferId e = '''' then raise (OtherError ''NoSuchTransferError'')
           else catchAs ''UnableToUpdateTransferError'' (coll_updateOne C (transferId t) (t\<lparr>transferId := transferId e\<rparr>)))"

definition mongo_storeTransfers :: "'c collection \<Rightarrow> transfer list \<Rightarrow> ('c, unit) call" where
  "mongo_storeTransfers C ts =
     catchAs ''UnableToBulkInsertTransfersError''
       (andThen (coll_bulkWrite C ts) (\<lambda>(upsertedCount, modifiedCount).
          if upsertedCount + modifiedCount \<noteq> length ts
          then raise (OtherError ''Could not storeTransfers - mismatch between requests length and MongoDb response length'')
          else ret ()))"

definition mongo_getTransfersByBulkId :: "'c collection \<Rightarrow> string \<Rightarrow> ('c, transfer list) call" where
  "mongo_getTransfersByBulkId C bid =
     andThen (catchAs ''UnableToGetTransferError'' (coll_findByBulk C bid)) (\<lambda>found.
       ret (map mapToTransfer found))"

subsection \<open>Searching\<close>

datatype search_condition =
    MatchesRegex string string
  | HasValue string string
  | UpdatedFrom js_number
  | UpdatedUntil js_number

record search_args =
  sa_state :: "string option"
  sa_transferType :: "string option"
  sa_payerIdType :: "string option"
  sa_payeeIdType :: "string option"
  sa_currency :: "string option"
  sa_id :: "string option"
  sa_payerId :: "string option"
  sa_payeeId :: "string option"
  sa_bulkTransferId :: "string option"
  sa_amount :: "string option"
  sa_startDate :: "js_number option"
  sa_endDate :: "js_number option"
  sa_pageIndex :: "js_number option"
  sa_pageSize :: "js_number option"

definition MAX_ENTRIES_PER_PAGE :: int where
  "MAX_ENTRIES_PER_PAGE = 100"

definition when_truthy :: "string option \<Rightarrow> (string \<Rightarrow> search_condition) \<Rightarrow> search_condition list" where
  "when_truthy v c = (if truthy v then [c (the v)] else [])"

definition when_number :: "js_number option \<Rightarrow> (js_number \<Rightarrow> search_condition) \<Rightarrow> search_condition list" where
  "when_number v c = (if number_truthy v then [c (the v)] else [])"

text \<open>The conjunction built in \<open>filter.$and\<close>; the empty list is the filter \<open>{}\<close>.\<close>

definition searchFilter :: "search_args \<Rightarrow> search_condition list" where
  "searchFilter a =
     when_truthy (sa_id a) (MatchesRegex ''transferId'') @
     when_truthy (sa_state a) (HasValue ''transferState'') @
     when_truthy (sa_currency a) (HasValue ''currencyCode'') @
     when_number (sa_startDate a) UpdatedFrom @
     when_number (sa_endDate a) UpdatedUntil @
     when_truthy (sa_payerId a) (HasValue ''payerFspId'') @
     when_truthy (sa_payeeId a) (HasValue ''payeeFspId'') @
     when_truthy (sa_transferType a) (HasValue ''transferType'') @
     when_truthy (sa_payerIdType a) (HasValue ''payerIdType'') @
     when_truthy (sa_payeeIdType a) (HasValue ''payeeIdType'') @
     when_truthy (sa_bulkTransferId a) (MatchesRegex ''bulkTransferId'') @
     when_truthy (sa_amount a) (HasValue ''amount'')"

record search_results =
  sr_pageSize :: js_number
  sr_pageIndex :: js_number
  sr_totalPages :: js_number
  sr_items :: "transfer list"

text \<open>\<open>countDocuments\<close> and \<open>findPage\<close> (filter, skip, limit) are the driver's.\<close>

definition mongo_getTransfers ::
  "(search_condition list \<Rightarrow> ('c, int) call) \<Rightarrow>
   (search_condition list \<Rightarrow> js_number \<Rightarrow> js_number \<Rightarrow> ('c, transfer list) call) \<Rightarrow>
   search_args \<Rightarrow> ('c, search_results) call" where
  "mongo_getTransfers countDocuments findPage a =
     (let pageSize = js_min (case sa_pageSize a of None \<Rightarrow> Num MAX_ENTRIES_PER_PAGE | Some n \<Rightarrow> n) MAX_ENTRIES_PER_PAGE;
          pageIndex = js_max (case sa_pageIndex a of None \<Rightarrow> Num 0 | Some n \<Rightarrow> n) 0;
          conds = searchFilter a in
      catchAs ''UnableToSearchTransfers''
        (andThen (countDocuments conds) (\<lambda>total.
         andThen (catchAs ''UnableToGetTransferError'' (findPage conds (js_mult pageIndex pageSize) pageSize)) (\<lambda>items.
           ret \<lparr>sr_pageSize = pageSize, sr_pageIndex = pageIndex,
                sr_totalPages = js_ceil_div total pageSize, sr_items = items\<rparr>))))"

text \<open>
  \<open>getSearchKeywords\<close>: the distinct values of five fields over the groups of the collection, each
  group one combination of them, in order of first occurrence.  An error of the aggregation is logged,
  and the answer is empty.
\<close>

definition addTerm :: "'a \<Rightarrow> 'a list \<Rightarrow> 'a list" where
  "addTerm x xs = (if x \<in> set xs then xs else xs @ [x])"

definition distinctTerms :: "'a list \<Rightarrow> 'a list" where
  "distinctTerms xs = fold addTerm xs []"

record keyword_group =
  kg_transferState :: string
  kg_currencyCode :: string
  kg_transferType :: string
  kg_payerIdType :: string
  kg_payeeIdType :: string

definition keywordsOf :: "keyword_group list \<Rightarrow> (string \<times> string list) list" where
  "keywordsOf groups =
     [(''state'', distinctTerms (map kg_transferState groups)),
      (''currency'', distinctTerms (map kg_currencyCode groups)),
      (''transferType'', distinctTerms (map kg_transferType groups)),
      (''payerIdType'', distinctTerms (map kg_payerIdType groups)),
      (''payeeIdType'', distinctTerms (map kg_payeeIdType groups))]"

definition mongo_getSearchKeywords :: "('c, keyword_group list) call \<Rightarrow> ('c, (string \<times> string list) list) call" where
  "mongo_getSearchKeywords aggregate = tryElse aggregate (\<lambda>_. ret []) (\<lambda>groups. ret (keywordsOf groups))"

text \<open>\<open>init\<close>: connect and create the unique index; \<open>destroy\<close>: close the connection.\<close>

definition mongo_init :: "('c, unit) call \<Rightarrow> ('c, unit) call \<Rightarrow> ('c, unit) call" where
  "mongo_init connect createIndex =
     catchAs ''UnableToInitTransferRegistryError'' (andThen connect (\<lambda>_. createIndex))"

definition mongo_destroy :: "('c, unit) call \<Rightarrow> ('c, unit) call" where
  "mongo_destroy close = catchAs ''UnableToCloseDatabaseConnectionError'' close"

section \<open>MongoBulkTransfersRepo\<close>

text \<open>
  This \<open>init\<close> does not await the connection: it succeeds, and what becomes of the connection is the
  promise it drops.
\<close>

definition mongo_initBulk :: "('c, unit) call \<Rightarrow> ('c, exn + unit) call" where
  "mongo_initBulk connect = (\<lambda>c. case connect c of (promise, c') \<Rightarrow> (Inr promise, c'))"

definition mongo_destroyBulk :: "('c, unit) call \<Rightarrow> ('c, unit) call" where
  "mongo_destroyBulk close = catchAs ''UnableToCloseDatabaseConnectionError'' close"

record 'c bulk_collection =
  bcoll_findOne :: "string option \<Rightarrow> ('c, bulk_transfer option) call"
  bcoll_find :: "('c, bulk_transfer list) call"
  bcoll_insertOne :: "bulk_transfer \<Rightarrow> ('c, unit) call"
  bcoll_updateOne :: "string \<Rightarrow> bulk_transfer \<Rightarrow> ('c, unit) call"

text \<open>
  A bulk document has no error information (the entity has no such field), so the error code is
  always read back as \<open>null\<close>.
\<close>

definition mapToBulkTransfer :: "bulk_transfer \<Rightarrow> bulk_transfer" where
  "mapToBulkTransfer d =
     d\<lparr>bt_errorCode := None,
       bt_opaqueState := (if bt_opaqueState d = JUndefined then JNull else bt_opaqueState d)\<rparr>"

definition mongo_getBulkTransferById :: "'c bulk_collection \<Rightarrow> string option \<Rightarrow> ('c, bulk_transfer option) call" where
  "mongo_getBulkTransferById C bid =
     andThen (catchAs ''UnableToGetBulkTransferError'' (bcoll_findOne C bid)) (\<lambda>found.
       ret (map_option mapToBulkTransfer found))"

definition mongo_getBulkTransfers :: "'c bulk_collection \<Rightarrow> ('c, bulk_transfer list) call" where
  "mongo_getBulkTransfers C =
     andThen (catchAs ''UnableToGetBulkTransferError'' (bcoll_find C)) (\<lambda>found.
       ret (map mapToBulkTransfer found))"

definition mongo_addBulkTransfer :: "'c bulk_collection \<Rightarrow> bulk_transfer \<Rightarrow> ('c, string) call" where
  "mongo_addBulkTransfer C b =
     andThen
       (if bt_bulkTransferId b \<noteq> '''' then
          andThen (catchAs ''UnableToGetBulkTransferError'' (bcoll_findOne C (Some (bt_bulkTransferId b)))) (\<lambda>present.
            if present \<noteq> None then raise (OtherError ''BulkTransferAlreadyExistsError'') else ret ())
        else ret ()) (\<lambda>_.
     andThen (catchAs ''UnableToAddBulkTransferError'' (bcoll_insertOne C b)) (\<lambda>_.
       ret (bt_bulkTransferId b)))"

definition mongo_updateBulkTransfer :: "'c bulk_collection \<Rightarrow> bulk_transfer \<Rightarrow> ('c, unit) call" where
  "mongo_updateBulkTransfer C b =
     andThen (mongo_getBulkTransferById C (Some (bt_bulkTransferId b))) (\<lambda>existing.
       case existing of
         None \<Rightarrow> raise (OtherError ''BulkTransferNotFoundError'')
       | Some e \<Rightarrow>
           if bt_bulkTransferId e = '''' then raise (OtherError ''BulkTransferNotFoundError'')
           else catchAs ''UnableToUpdateBulkTransferError''
             (bcoll_updateOne C (bt_bulkTransferId b) (b\<lparr>bt_bulkTransferId := bt_bulkTransferId e\<rparr>)))"

section \<open>MemoryTransferRepo\<close>

text \<open>The repository of the tests: an array, searched from the front.\<close>

definition mem_addTransfer :: "transfer \<Rightarrow> transfer list \<Rightarrow> (exn + string) \<times> transfer list" where
  "mem_addTransfer t ts = (Inr (transferId t), ts @ [t])"

definition mem_addTransfers :: "transfer list \<Rightarrow> transfer list \<Rightarrow> (exn + unit) \<times> transfer list" where
  "mem_addTransfers new ts = (Inr (), ts @ new)"

definition mem_getTransferById :: "transfer list \<Rightarrow> string \<Rightarrow> transfer option" where
  "mem_getTransferById ts tid = List.find (\<lambda>t. transferId t = tid) ts"

text \<open>\<open>Object.assign\<close> to the first transfer with the identifier.\<close>

fun assignFirst :: "transfer \<Rightarrow> transfer list \<Rightarrow> transfer list" where
  "assignFirst t [] = []"
| "assignFirst t (x # xs) = (if transferId x = transferId t then t # xs else x # assignFirst t xs)"

definition mem_updateTransfer :: "transfer \<Rightarrow> transfer list \<Rightarrow> (exn + unit) \<times> transfer list" where
  "mem_updateTransfer t ts =
     (if mem_getTransferById ts (transferId t) \<noteq> None then (Inr (), assignFirst t ts)
      else (Inl (OtherError ''Transfer not found''), ts))"

fun findIndex :: "('a \<Rightarrow> bool) \<Rightarrow> 'a list \<Rightarrow> nat option" where
  "findIndex P [] = None"
| "findIndex P (x # xs) = (if P x then Some 0 else map_option Suc (findIndex P xs))"

text \<open>
  \<open>splice(findIndex(..), 1)\<close>: when nothing is found the index is \<open>-1\<close>, which counts from the end, and
  the last transfer is removed.
\<close>

definition mem_removeTransfer :: "string \<Rightarrow> transfer list \<Rightarrow> transfer list" where
  "mem_removeTransfer tid ts =
     (case findIndex (\<lambda>t. transferId t = tid) ts of
        None \<Rightarrow> butlast ts
      | Some i \<Rightarrow> take i ts @ drop (Suc i) ts)"

definition mem_getTransfersByBulkId :: "transfer list \<Rightarrow> string \<Rightarrow> transfer list" where
  "mem_getTransfersByBulkId ts bid = filter (\<lambda>t. bulkTransferId t = Some bid) ts"

text \<open>\<open>storeTransfers\<close> of the memory repository does nothing.\<close>

definition mem_storeTransfers :: "transfer list \<Rightarrow> transfer list \<Rightarrow> (exn + unit) \<times> transfer list" where
  "mem_storeTransfers new ts = (Inr (), ts)"

section \<open>MemoryBulkTransferRepo\<close>

definition mem_addBulkTransfer :: "bulk_transfer \<Rightarrow> bulk_transfer list \<Rightarrow> (exn + string) \<times> bulk_transfer list" where
  "mem_addBulkTransfer b bs = (Inr (bt_bulkTransferId b), bs @ [b])"

definition mem_getBulkTransferById :: "bulk_transfer list \<Rightarrow> string \<Rightarrow> bulk_transfer option" where
  "mem_getBulkTransferById bs bid = List.find (\<lambda>b. bt_bulkTransferId b = bid) bs"

fun assignFirstBulk :: "bulk_transfer \<Rightarrow> bulk_transfer list \<Rightarrow> bulk_transfer list" where
  "assignFirstBulk b [] = []"
| "assignFirstBulk b (x # xs) =
     (if bt_bulkTransferId x = bt_bulkTransferId b then b # xs else x # assignFirstBulk b xs)"

definition mem_updateBulkTransfer :: "bulk_transfer \<Rightarrow> bulk_transfer list \<Rightarrow> (exn + unit) \<times> bulk_transfer list" where
  "mem_updateBulkTransfer b bs =
     (if mem_getBulkTransferById bs (bt_bulkTransferId b) \<noteq> None then (Inr (), assignFirstBulk b bs)
      else (Inl (OtherError ''Bulk transfer not found''), bs))"

definition mem_getBulkTransfers :: "bulk_transfer list \<Rightarrow> bulk_transfer list" where
  "mem_getBulkTransfers bs = bs"

section \<open>The contract of a repository\<close>

text \<open>
  What a client of a repository may rely on: an update of a known object replaces it and nothing else,
  an update of an unknown one fails and changes nothing, and an added object can be read back.
\<close>

locale object_repository =
  fixes key :: "'a \<Rightarrow> string"
    and get :: "'s \<Rightarrow> string \<Rightarrow> 'a option"
    and add :: "'a \<Rightarrow> 's \<Rightarrow> (exn + string) \<times> 's"
    and update :: "'a \<Rightarrow> 's \<Rightarrow> (exn + unit) \<times> 's"
  assumes get_key: "get s k = Some x \<Longrightarrow> key x = k"
    and add_get: "get s (key x) = None \<Longrightarrow> get (snd (add x s)) k = (if k = key x then Some x else get s k)"
    and update_known: "get s (key x) \<noteq> None \<Longrightarrow> fst (update x s) = Inr () \<and>
          get (snd (update x s)) k = (if k = key x then Some x else get s k)"
    and update_unknown: "get s (key x) = None \<Longrightarrow> (\<exists>e. fst (update x s) = Inl e) \<and> snd (update x s) = s"
begin

lemma get_after_add: "get s (key x) = None \<Longrightarrow> get (snd (add x s)) (key x) = Some x"
  by (simp add: add_get)

lemma update_after_add:
  assumes "get s (key x) = None" and "key y = key x"
  shows "get (snd (update y (snd (add x s)))) k = (if k = key x then Some y else get s k)"
  using assms update_known [of "snd (add x s)" y k] by (simp add: add_get)

lemma update_last_wins:
  assumes "get s (key x) \<noteq> None" and "key y = key x"
  shows "get (snd (update y (snd (update x s)))) k = get (snd (update y s)) k"
  using assms update_known [of s x] update_known [of "snd (update x s)" y k] update_known [of s y k] by simp

lemma update_result: "fst (update x s) = Inr () \<longleftrightarrow> get s (key x) \<noteq> None"
  using update_known [of s x] update_unknown [of s x] by (cases "get s (key x)") auto

end

lemma get_assignFirst:
  "mem_getTransferById (assignFirst t ts) k =
     (if k = transferId t then (if mem_getTransferById ts k = None then None else Some t)
      else mem_getTransferById ts k)"
  by (induction ts) (auto simp: mem_getTransferById_def)

lemma get_assignFirstBulk:
  "mem_getBulkTransferById (assignFirstBulk b bs) k =
     (if k = bt_bulkTransferId b then (if mem_getBulkTransferById bs k = None then None else Some b)
      else mem_getBulkTransferById bs k)"
  by (induction bs) (auto simp: mem_getBulkTransferById_def)

lemma find_append: "List.find P (xs @ ys) = (case List.find P xs of Some x \<Rightarrow> Some x | None \<Rightarrow> List.find P ys)"
  by (induction xs) auto

lemma mem_key: "mem_getTransferById ts k = Some t \<Longrightarrow> transferId t = k"
  by (auto simp: mem_getTransferById_def find_Some_iff)

lemma mem_bulk_key: "mem_getBulkTransferById bs k = Some b \<Longrightarrow> bt_bulkTransferId b = k"
  by (auto simp: mem_getBulkTransferById_def find_Some_iff)

lemma get_add:
  "mem_getTransferById (ts @ [t]) k =
     (case mem_getTransferById ts k of None \<Rightarrow> (if k = transferId t then Some t else None) | Some x \<Rightarrow> Some x)"
  "mem_getBulkTransferById (bs @ [b]) k =
     (case mem_getBulkTransferById bs k of None \<Rightarrow> (if k = bt_bulkTransferId b then Some b else None) | Some x \<Rightarrow> Some x)"
  by (auto simp: mem_getTransferById_def mem_getBulkTransferById_def find_append split: option.split)

interpretation mem_transfers: object_repository transferId mem_getTransferById mem_addTransfer mem_updateTransfer
  by unfold_locales
     (auto simp: mem_addTransfer_def mem_updateTransfer_def get_assignFirst get_add
        dest: mem_key split: option.split)

interpretation mem_bulks: object_repository bt_bulkTransferId mem_getBulkTransferById mem_addBulkTransfer mem_updateBulkTransfer
  by unfold_locales
     (auto simp: mem_addBulkTransfer_def mem_updateBulkTransfer_def get_assignFirstBulk get_add
        dest: mem_bulk_key split: option.split)

end
