(* ===== verification/Repository_Properties.thy ===== *)
theory Repository_Properties
  imports Repositories
begin

text \<open>
  What the repositories promise and where they do not: the round trip of a transfer through MongoDB, the
  condition under which \<open>storeTransfers\<close> fails, the paging of a search, and updates and removals in
  the memory repository.
\<close>

section \<open>MongoDB\<close>

text \<open>
  The documented behaviour of the driver for \<open>replaceOne\<close> operations with \<open>upsert\<close> on distinct
  identifiers, for a collection whose documents are \<open>docs\<close>: an absent document is inserted and counted
  as upserted, a present one is replaced, and counted as modified only if that changed it.  MongoDB
  compares the order of the fields too, and the records here have none: the law is that of documents
  whose fields have the order of \<open>_mapToTransfer\<close>, as a document has once it was read and stored again
  after its prepare, for example by its fulfil.
\<close>

definition counts_changes :: "'c collection \<Rightarrow> ('c \<Rightarrow> string \<Rightarrow> transfer option) \<Rightarrow> bool" where
  "counts_changes C docs \<longleftrightarrow>
     (\<forall>ts c. distinct (map transferId ts) \<longrightarrow>
        fst (coll_bulkWrite C ts c) =
          Inr (length (filter (\<lambda>t. docs c (transferId t) = None) ts),
               length (filter (\<lambda>t. docs c (transferId t) \<notin> {None, Some t}) ts)))"

lemma filter_count_none:
  "length (filter P xs) + length (filter Q xs) + length (filter R xs) = length xs"
  if "\<And>x. (P x \<and> \<not> Q x \<and> \<not> R x) \<or> (\<not> P x \<and> Q x \<and> \<not> R x) \<or> (\<not> P x \<and> \<not> Q x \<and> R x)"
  using that by (induction xs) auto

lemma storeTransfers_answer:
  assumes "counts_changes C docs" and "distinct (map transferId ts)"
  shows "fst (mongo_storeTransfers C ts c) =
     (if \<exists>t \<in> set ts. docs c (transferId t) = Some t
      then Inl (OtherError ''UnableToBulkInsertTransfersError'') else Inr ())"
proof -
  let ?same = "filter (\<lambda>t. docs c (transferId t) = Some t) ts"
  let ?new = "filter (\<lambda>t. docs c (transferId t) = None) ts"
  let ?changed = "filter (\<lambda>t. docs c (transferId t) \<notin> {None, Some t}) ts"
  have sum: "length ?new + length ?changed + length ?same = length ts"
    by (rule filter_count_none) auto
  have same: "?same = [] \<longleftrightarrow> \<not> (\<exists>t \<in> set ts. docs c (transferId t) = Some t)"
    by (auto simp: filter_empty_conv)
  have count: "length ?new + length ?changed \<noteq> length ts \<longleftrightarrow> (\<exists>t \<in> set ts. docs c (transferId t) = Some t)"
    using sum same by (cases ?same) auto
  have "fst (coll_bulkWrite C ts c) = Inr (length ?new, length ?changed)"
    using assms by (simp only: counts_changes_def)
  then obtain c' where "coll_bulkWrite C ts c = (Inr (length ?new, length ?changed), c')"
    by (cases "coll_bulkWrite C ts c") simp
  then show ?thesis
    using count by (simp add: mongo_storeTransfers_def catchAs_def run_simps)
qed

text \<open>\<open>storeTransfers\<close> succeeds exactly when every transfer it is given is new or differs from the
  document stored under its identifier: a transfer that was loaded and not changed makes the whole
  write fail, although MongoDB has performed it.\<close>

theorem storeTransfers_fails_on_unchanged:
  assumes "counts_changes C docs" and "distinct (map transferId ts)"
  shows "fst (mongo_storeTransfers C ts c) =
     (if \<exists>t \<in> set ts. docs c (transferId t) = Some t
      then Inl (OtherError ''UnableToBulkInsertTransfersError'') else Inr ())"
  by (rule storeTransfers_answer [OF assms])


lemma getTransfers_result:
  assumes "mongo_getTransfers countDocuments findPage a c = (Inr res, c')"
  shows "sr_pageSize res = js_min (case sa_pageSize a of None \<Rightarrow> Num MAX_ENTRIES_PER_PAGE | Some n \<Rightarrow> n) MAX_ENTRIES_PER_PAGE"
    and "sr_pageIndex res = js_max (case sa_pageIndex a of None \<Rightarrow> Num 0 | Some n \<Rightarrow> n) 0"
  using assms unfolding mongo_getTransfers_def catchAs_def Let_def
  by (auto simp: run_simps split: prod.splits sum.splits)

text \<open>A search asks for a page of at most 100 transfers, or of \<open>NaN\<close> when the caller passes that, and never
  for a negative page, and for a positive page size the number of pages is the least that covers every
  match.\<close>

theorem search_paging:
  assumes "mongo_getTransfers countDocuments findPage a c = (Inr res, c')"
  shows "(sr_pageSize res \<in> {NaN, NegInfinity} \<union> Num ` {..100}) \<and> (sr_pageIndex res \<in> {NaN, Infinity} \<union> Num ` {0..}) \<and>
     (\<exists>total c1 c2. countDocuments (searchFilter a) c = (Inr total, c1) \<and>
        findPage (searchFilter a) (js_mult (sr_pageIndex res) (sr_pageSize res)) (sr_pageSize res) c1
          = (Inr (sr_items res), c2) \<and>
        (\<forall>n > 0. sr_pageSize res = Num n \<longrightarrow>
           (\<exists>k. sr_totalPages res = Num k \<and> total \<le> k * n \<and> (k - 1) * n < total)))"
proof -
  have size: "js_min x MAX_ENTRIES_PER_PAGE \<in> {NaN, NegInfinity} \<union> Num ` {..100}" for x
    by (cases x) (auto simp: MAX_ENTRIES_PER_PAGE_def)
  have index: "js_max x 0 \<in> {NaN, Infinity} \<union> Num ` {0..}" for x
    by (cases x) auto
  have pages: "\<forall>n > 0. x = Num n \<longrightarrow> (\<exists>k. js_ceil_div total x = Num k \<and> total \<le> k * n \<and> (k - 1) * n < total)" for x total
    using js_ceil_div_bounds by metis
  define ps where "ps = js_min (case sa_pageSize a of None \<Rightarrow> Num MAX_ENTRIES_PER_PAGE | Some n \<Rightarrow> n) MAX_ENTRIES_PER_PAGE"
  define pidx where "pidx = js_max (case sa_pageIndex a of None \<Rightarrow> Num 0 | Some n \<Rightarrow> n) 0"
  from assms obtain total c1 items where count: "countDocuments (searchFilter a) c = (Inr total, c1)"
    and page: "findPage (searchFilter a) (js_mult pidx ps) ps c1 = (Inr items, c')"
    and res: "res = \<lparr>sr_pageSize = ps, sr_pageIndex = pidx, sr_totalPages = js_ceil_div total ps, sr_items = items\<rparr>"
    unfolding mongo_getTransfers_def catchAs_def Let_def ps_def [symmetric] pidx_def [symmetric]
    by (auto simp: run_simps split: prod.splits sum.splits)
  have "ps \<in> {NaN, NegInfinity} \<union> Num ` {..100}" "pidx \<in> {NaN, Infinity} \<union> Num ` {0..}"
    unfolding ps_def pidx_def by (rule size, rule index)
  with count page pages [of ps total] show ?thesis
    unfolding res search_results.simps by blast
qed

text \<open>The search keywords of a field are exactly the values that occur in the groups, each once, in the
  order of their first occurrence.\<close>

theorem search_keywords_distinct:
  "set (distinctTerms xs) = set xs \<and> distinct (distinctTerms xs) \<and>
   distinctTerms (xs @ ys) = distinctTerms xs @ filter (\<lambda>y. y \<notin> set xs) (distinctTerms ys)"
proof -
  have set: "set (fold addTerm zs acc) = set acc \<union> set zs" for zs acc :: "'a list"
    by (induction zs arbitrary: acc) (auto simp: addTerm_def)
  have dist: "distinct acc \<Longrightarrow> distinct (fold addTerm zs acc)" for zs acc :: "'a list"
    by (induction zs arbitrary: acc) (auto simp: addTerm_def)
  have app: "fold addTerm zs acc = acc @ filter (\<lambda>y. y \<notin> set acc) (fold addTerm zs [])" for zs acc :: "'a list"
  proof (induction zs rule: rev_induct)
    case (snoc z zs)
    then show ?case using set [of zs acc] set [of zs "[]"] by (auto simp: addTerm_def)
  qed simp
  show ?thesis
    using app [of ys "fold addTerm xs []"] set [of xs "[]"] dist [of "[]" xs]
    by (simp add: distinctTerms_def set)
qed

section \<open>The memory repository\<close>

text \<open>In the memory repository a transfer that was added and then updated is read back as updated, and
  every other transfer is untouched.\<close>

theorem memory_repo_update_after_add:
  assumes "mem_getTransferById ts (transferId t) = None" and "transferId t' = transferId t"
  shows "mem_getTransferById (snd (mem_updateTransfer t' (snd (mem_addTransfer t ts)))) k
     = (if k = transferId t then Some t' else mem_getTransferById ts k)"
  by (rule mem_transfers.update_after_add [OF assms])

lemma findIndex_None: "findIndex P xs = None \<longleftrightarrow> List.find P xs = None"
  by (induction xs) auto

lemma remove_found:
  "findIndex (\<lambda>t. transferId t = tid) ts = Some i \<Longrightarrow> distinct (map transferId ts) \<Longrightarrow>
   mem_getTransferById (take i ts @ drop (Suc i) ts) k = (if k = tid then None else mem_getTransferById ts k)"
proof (induction ts arbitrary: i)
  case (Cons t ts)
  show ?case
  proof (cases "transferId t = tid")
    case True
    with Cons.prems show ?thesis
      by (auto simp: mem_getTransferById_def find_None_iff image_iff)
  next
    case False
    with Cons.prems obtain j where "i = Suc j" "findIndex (\<lambda>t. transferId t = tid) ts = Some j"
      by (auto simp: map_option_case split: option.splits)
    with Cons False show ?thesis by (auto simp: mem_getTransferById_def)
  qed
qed simp

text \<open>Removing a transfer of the memory repository removes that transfer only; but removing one that is
  not there removes the last transfer of the repository.\<close>

theorem memory_repo_remove:
  assumes "distinct (map transferId ts)"
  shows "mem_getTransferById (mem_removeTransfer tid ts) k =
     (if mem_getTransferById ts tid = None then mem_getTransferById (butlast ts) k
      else if k = tid then None else mem_getTransferById ts k)"
proof (cases "findIndex (\<lambda>t. transferId t = tid) ts")
  case None
  then have "List.find (\<lambda>t. transferId t = tid) ts = None" by (simp only: findIndex_None)
  with None show ?thesis
    by (simp add: mem_removeTransfer_def mem_getTransferById_def [of ts tid])
next
  case (Some i)
  then have "mem_getTransferById ts tid \<noteq> None"
    using findIndex_None [of "\<lambda>t. transferId t = tid" ts] by (auto simp: mem_getTransferById_def)
  with Some remove_found [OF Some assms] show ?thesis by (auto simp: mem_removeTransfer_def)
qed

section \<open>Connecting\<close>

text \<open>The \<open>init\<close> of the transfers repository reports a refused connection, the one of the bulk transfers
  repository does not: there it is an unhandled rejection.\<close>

theorem refused_connection:
  assumes "connect c = (Inl e, c')"
  shows "mongo_init connect createIndex c = (Inl (OtherError ''UnableToInitTransferRegistryError''), c') \<and>
     mongo_initBulk connect c = (Inr (Inl e), c')"
  using assms by (simp add: mongo_init_def mongo_initBulk_def catchAs_def run_simps)

end
