(* ===== verification/Adapters.thy ===== *)
theory Adapters
  imports Batch_Properties Frames Repository_Properties
begin

text \<open>
  The adapters of \<open>packages/implementations-lib/src/external_adapters\<close> over the clients they wrap (which
  are parameters), and the aggregate as it is deployed, with these adapters and the MongoDB
  repositories.  Most adapters swallow the errors of their client; what that means for the aggregate
  is stated through the locale \<open>answering_participants\<close>.
\<close>

section \<open>The clients\<close>

record reminder_request =
  rr_id :: string
  rr_time :: "string + int"
  rr_payload :: reminder_payload

record ab_account =
  aba_id :: string
  aba_ownerId :: string
  aba_type :: string
  aba_currencyCode :: string

record ab_journal_entry =
  abj_id :: string
  abj_ownerId :: string
  abj_currencyCode :: string
  abj_amount :: string
  abj_pending :: bool
  abj_debitedAccountId :: string
  abj_creditedAccountId :: string

record 'w clients =
  cl_getParticipantById :: "string \<Rightarrow> ('w, participant option) call"
  cl_getParticipantsByIds :: "string list \<Rightarrow> ('w, participant list) call"
  cl_getSettlementModelId :: "string \<Rightarrow> string \<Rightarrow> string \<Rightarrow> extensions \<Rightarrow> ('w, string option) call"
  cl_defaultSettlementModelId :: string
  cl_createReminder :: "reminder_request \<Rightarrow> ('w, string) call"
  cl_createSingleReminder :: "reminder_request \<Rightarrow> ('w, string) call"
  cl_getReminder :: "string \<Rightarrow> ('w, reminder_request option) call"
  cl_deleteReminder :: "string \<Rightarrow> ('w, unit) call"
  cl_validateFulfilment :: "json \<Rightarrow> json \<Rightarrow> ('w, bool) call"
  cl_createAccounts :: "ab_account list \<Rightarrow> ('w, string list) call"
  cl_createJournalEntries :: "ab_journal_entry list \<Rightarrow> ('w, string list) call"
  cl_getAccountsByIds :: "string list \<Rightarrow> ('w, ab_account list) call"
  cl_getAccountsByOwnerId :: "string \<Rightarrow> ('w, ab_account list) call"
  cl_processHighLevelBatch :: "ab_request list \<Rightarrow> ('w, ab_response list) call"

section \<open>The adapters\<close>

text \<open>\<open>try { return await m } catch (e) { log; return d }\<close>\<close>

definition orElse :: "'a \<Rightarrow> ('w, 'a) call \<Rightarrow> ('w, 'a) call" where
  "orElse d m = tryElse m (\<lambda>_. ret d) ret"

definition adapter_getParticipantInfo :: "'w clients \<Rightarrow> string \<Rightarrow> ('w, participant option) call" where
  "adapter_getParticipantInfo K fspId = orElse None (cl_getParticipantById K fspId)"

definition adapter_getParticipantsInfo :: "'w clients \<Rightarrow> string list \<Rightarrow> ('w, participant list option) call" where
  "adapter_getParticipantsInfo K fspIds =
     orElse None (andThen (cl_getParticipantsByIds K fspIds) (\<lambda>ps. ret (Some ps)))"

definition adapter_getSettlementModelId ::
  "'w clients \<Rightarrow> string \<Rightarrow> string \<Rightarrow> string \<Rightarrow> extensions \<Rightarrow> ('w, string) call" where
  "adapter_getSettlementModelId K amt payerCurrency payeeCurrency exts =
     orElse (cl_defaultSettlementModelId K)
       (andThen (cl_getSettlementModelId K amt payerCurrency payeeCurrency exts) (\<lambda>modelId.
          ret (if truthy modelId then the modelId else cl_defaultSettlementModelId K)))"

definition adapter_createReminder :: "'w clients \<Rightarrow> string \<Rightarrow> string \<Rightarrow> reminder_payload \<Rightarrow> ('w, string option) call" where
  "adapter_createReminder K i time payload =
     orElse None
       (andThen (cl_createReminder K \<lparr>rr_id = i, rr_time = Inl time, rr_payload = payload\<rparr>) (\<lambda>x. ret (Some x)))"

definition adapter_createSingleReminder ::
  "'w clients \<Rightarrow> string \<Rightarrow> int \<Rightarrow> reminder_payload \<Rightarrow> ('w, string option) call" where
  "adapter_createSingleReminder K i time payload =
     orElse None
       (andThen (cl_createSingleReminder K \<lparr>rr_id = i, rr_time = Inr time, rr_payload = payload\<rparr>) (\<lambda>x. ret (Some x)))"

definition adapter_getReminder :: "'w clients \<Rightarrow> string \<Rightarrow> ('w, reminder_request option) call" where
  "adapter_getReminder K i = orElse None (cl_getReminder K i)"

definition adapter_deleteReminder :: "'w clients \<Rightarrow> string \<Rightarrow> ('w, unit) call" where
  "adapter_deleteReminder K i = orElse () (cl_deleteReminder K i)"

definition adapter_validateFulfilment :: "'w clients \<Rightarrow> json \<Rightarrow> json \<Rightarrow> ('w, bool) call" where
  "adapter_validateFulfilment K fulfilment condition = orElse False (cl_validateFulfilment K fulfilment condition)"

text \<open>
  The gRPC adapter of Accounts & Balances: a failed creation becomes a new error, unless it is an
  authorisation error; the lookups turn an empty answer into \<open>null\<close>; the high-level batch is passed on.
\<close>

definition adapter_createAccount :: "'w clients \<Rightarrow> string \<Rightarrow> string \<Rightarrow> string \<Rightarrow> string \<Rightarrow> ('w, string) call" where
  "adapter_createAccount K requestedId ownerId ty currency =
     tryElse (cl_createAccounts K [\<lparr>aba_id = requestedId, aba_ownerId = ownerId, aba_type = ty, aba_currencyCode = currency\<rparr>])
       (\<lambda>e. if e = OtherError ''UnauthorizedError'' then raise e
            else raise (OtherError ''Could not create account in remote system''))
       (\<lambda>ids. case ids of [] \<Rightarrow> raise TypeError | i # _ \<Rightarrow> ret i)"

definition adapter_createJournalEntry ::
  "'w clients \<Rightarrow> string \<Rightarrow> string \<Rightarrow> string \<Rightarrow> string \<Rightarrow> bool \<Rightarrow> string \<Rightarrow> string \<Rightarrow> ('w, string) call" where
  "adapter_createJournalEntry K requestedId ownerId currency amt pending debited credited =
     tryElse (cl_createJournalEntries K [\<lparr>abj_id = requestedId, abj_ownerId = ownerId, abj_currencyCode = currency,
         abj_amount = amt, abj_pending = pending, abj_debitedAccountId = debited, abj_creditedAccountId = credited\<rparr>])
       (\<lambda>_. raise (OtherError ''Could not create journalEntry in remote system''))
       (\<lambda>ids. case ids of [] \<Rightarrow> raise TypeError | i # _ \<Rightarrow> ret i)"

text \<open>Not written yet: the entries of an account are always empty.\<close>

definition adapter_getJournalEntriesByAccountId :: "'w clients \<Rightarrow> string \<Rightarrow> ('w, ab_journal_entry list) call" where
  "adapter_getJournalEntriesByAccountId K accountId = ret []"

definition adapter_getAccount :: "'w clients \<Rightarrow> string \<Rightarrow> ('w, ab_account option) call" where
  "adapter_getAccount K i =
     andThen (cl_getAccountsByIds K [i]) (\<lambda>found. ret (case found of [] \<Rightarrow> None | a # _ \<Rightarrow> Some a))"

definition adapter_getAccounts :: "'w clients \<Rightarrow> string list \<Rightarrow> ('w, ab_account list) call" where
  "adapter_getAccounts K is = andThen (cl_getAccountsByIds K is) ret"

definition adapter_getParticipantAccounts :: "'w clients \<Rightarrow> string \<Rightarrow> ('w, ab_account list) call" where
  "adapter_getParticipantAccounts K i = andThen (cl_getAccountsByOwnerId K i) ret"

definition adapter_processHighLevelBatch :: "'w clients \<Rightarrow> ab_request list \<Rightarrow> ('w, ab_response list) call" where
  "adapter_processHighLevelBatch K reqs = andThen (cl_processHighLevelBatch K reqs) ret"

section \<open>The deployed aggregate\<close>

text \<open>
  How the command handler's service wires the aggregate: the repositories over their collections, the
  adapters over their clients; clock, random identifiers, hashing, number formatting and the
  producer are the platform's, from \<open>B\<close>.
\<close>

definition deployedEnv :: "'w env \<Rightarrow> 'w collection \<Rightarrow> 'w bulk_collection \<Rightarrow> 'w clients \<Rightarrow> 'w env" where
  "deployedEnv B C D K =
     \<lparr>dateNow = dateNow B,
      randomUUID = randomUUID B,
      numberToString = numberToString B,
      sha256_base64 = sha256_base64 B,
      repo_getTransferById = mongo_getTransferById C,
      repo_updateTransfer = mongo_updateTransfer C,
      repo_storeTransfers = mongo_storeTransfers C,
      repo_getTransfersByBulkId = mongo_getTransfersByBulkId C,
      bulkRepo_addBulkTransfer = (\<lambda>b w. case mongo_addBulkTransfer D b w of (r, w') \<Rightarrow> (Inr r, w')),
      bulkRepo_updateBulkTransfer = mongo_updateBulkTransfer D,
      bulkRepo_getBulkTransferById = mongo_getBulkTransferById D,
      participants_getParticipantInfo = adapter_getParticipantInfo K,
      settlements_getSettlementModelId = adapter_getSettlementModelId K,
      scheduling_createSingleReminder = (\<lambda>i t p. andThen (adapter_createSingleReminder K i t p) (\<lambda>_. ret ())),
      validator_validateFulfilment = adapter_validateFulfilment K,
      ab_processHighLevelBatch = adapter_processHighLevelBatch K,
      producer_send = producer_send B\<rparr>"

section \<open>A participants service that always answers\<close>

text \<open>The contract the aggregate needs so that no failed check goes unreported.\<close>

locale answering_participants =
  fixes E :: "'w env"
  assumes answers: "\<exists>found w'. participants_getParticipantInfo E i w = (Inr found, w')"
begin

definition known_failure :: "exn \<Rightarrow> bool" where
  "known_failure e \<longleftrightarrow> (\<forall>tid payer payee. participantsFailure tid payer payee e \<noteq> None)"

lemma check_known:
  "checkHub f = Inl e \<Longrightarrow> known_failure e" "checkPayer i f = Inl e \<Longrightarrow> known_failure e"
  "checkPayee i f = Inl e \<Longrightarrow> known_failure e"
  by (auto simp: known_failure_def checkHub_def checkPayer_def checkPayee_def checkParticipant_def
      participantsFailure_def split: option.splits if_splits)

lemma probe_answers: "probe (call (participants_getParticipantInfo E i)) (\<lambda>_. True) (\<lambda>_. False)"
proof (rule probe_call)
  fix w e w' assume "participants_getParticipantInfo E i w = (Inl e, w')"
  with answers [of i w] show False by auto
qed simp

lemma probe_known: "probe (getParticipantsInfo E payer payee) (valid_participants payer payee) known_failure"
  unfolding getParticipantsInfo_def
  by (rule probe_bind [OF probe_answers] probe_bind [OF probe_lift_sum] probe_ret)+
     (auto simp: valid_participants_def valid_participant_def check_defs intro: check_known)

lemma prepareNew_answered:
  "yields (\<lambda>r es qs cs. length es + length qs = 1) (prepareNew E msg p hsh) s"
proof -
  let ?P = "\<lambda>(r :: exn + unit) es qs (cs :: ab_request list). length es + length qs = 1"
  have failure: "yields ?P (prepareParticipantsError msg r e) s'" if "known_failure e" for r e and s' :: "'w agg"
    using that unfolding prepareParticipantsError_def known_failure_def
    by (intro yields_andThen_quiet yields_option silent_intros yields_prod yields_emit) (metis, simp)
  have accounts: "yields ?P (prepareAccountsError msg r e) s'"
    if "getTransferParticipantsAccounts ps t = Inl e" for r e ps t and s' :: "'w agg"
    unfolding prepareAccountsError_def
    using accounts_classified [OF that]
    by (intro yields_andThen_quiet yields_option silent_intros yields_prod yields_emit) (metis option.distinct(1), simp)
  have silent: "silent (getSettlementModel E p)"
    unfolding getSettlementModel_def by (intro silent_intros)
  show ?thesis
    unfolding prepareNew_def
  proof (rule yields_tryElse_silent [OF silent], goal_cases)
    case (1 e s1)
    show ?case by (intro yields_emit) simp
  next
    case (2 m s1)
    show ?case
    proof (intro yields_andThen_quiet silent_intros, rule yields_tryElse_probe [OF probe_known], goal_cases)
      case (1 e w)
      then show ?case by (rule failure)
    next
      case (2 ps w)
      show ?case
      proof (rule yields_tryElse_probe [OF probe_lift_sum], goal_cases)
        case (1 e w')
        then show ?case by (rule accounts)
      next
        case (2 a w')
        show ?case
          unfolding prepareReserve_def Let_def
          by (intro yields_tryElse_silent yields_andThen_quiet yields_intros silent_intros) simp_all
      qed
    qed
  qed
qed

end

interpretation deployed: answering_participants "deployedEnv B C D K"
  for B :: "'w env" and C D K
proof unfold_locales
  fix i w
  show "\<exists>found w'. participants_getParticipantInfo (deployedEnv B C D K) i w = (Inr found, w')"
    by (auto simp: deployedEnv_def adapter_getParticipantInfo_def orElse_def run_simps split: prod.split sum.split)
qed

text \<open>As deployed, every prepare command for a transfer that neither the cache nor the repository knows
  is answered by exactly one event or exactly one reservation request: no failure of the participants
  service leaves it without an answer.\<close>

theorem deployed_prepare_answered:
  assumes "map_of (transfersCache s) (Some (prep_transferId p)) = None"
    and "fst (coll_findOne C (Some (prep_transferId p)) (world s)) = Inr None"
    and "prepareTransferStart (deployedEnv B C D K) msg p s = (r, s')"
  shows "\<exists>es qs. outputEvents s' = outputEvents s @ es \<and> abBatchRequests s' = abBatchRequests s @ qs \<and>
     length es + length qs = 1"
proof -
  let ?E = "deployedEnv B C D K"
  from assms(2) obtain w where "repo_getTransferById ?E (Some (prep_transferId p)) (world s) = (Inr None, w)"
    by (cases "coll_findOne C (Some (prep_transferId p)) (world s)")
       (simp add: deployedEnv_def mongo_getTransferById_def catchAs_def run_simps)
  then have "yields (\<lambda>r es qs cs. length es + length qs = 1) (prepareTransferStart ?E msg p) s"
    using assms(1) yields_wp [OF deployed.prepareNew_answered, of "s\<lparr>world := w\<rparr>" s]
    unfolding prepareTransferStart_def yields_def by (simp add: wp_simps getTransfer_def)
  from this assms(3) show ?thesis by (rule yieldsD) blast
qed

section \<open>A duplicate and the write of the unchanged transfer\<close>

text \<open>As deployed, with MongoDB counting only changed documents as modified, a batch that contains just a
  duplicate of the prepare command of a stored transfer never settles: the lookup puts the stored
  transfer in the cache, the flush writes it unchanged, \<open>storeTransfers\<close> fails, and the promise of the
  batch, on which the consumer waits, stays pending; the error is an unhandled rejection.\<close>

theorem deployed_duplicate_never_settles:
  assumes "counts_changes C docs" and "transfersCache s = []"
    and "cmd_msgType c = COMMAND" and "cmd_body c = PrepareTransferCmd p"
    and "coll_findOne C (Some (prep_transferId p)) (world s) = (Inr (Some t), w)"
    and "mapToTransfer t = t" and "docs w (transferId t) = Some t"
  shows "fst (processCommandBatch (deployedEnv B C D K) [c] s) = Pending \<and>
     unhandled (snd (processCommandBatch (deployedEnv B C D K) [c] s)) =
       unhandled s @ [OtherError ''UnableToBulkInsertTransfersError'']"
proof -
  let ?E = "deployedEnv B C D K"
  have get: "repo_getTransferById ?E (Some (prep_transferId p)) (world s) = (Inr (Some t), w)"
    using assms(5,6) by (simp add: deployedEnv_def mongo_getTransferById_def catchAs_def run_simps)
  have "fst (coll_bulkWrite C [t] w) = Inr (0, 0)"
    using assms(1,7) unfolding counts_changes_def by simp
  then obtain w' where "coll_bulkWrite C [t] w = (Inr (0, 0), w')"
    by (cases "coll_bulkWrite C [t] w") simp
  then have store: "repo_storeTransfers ?E [t] w = (Inl (OtherError ''UnableToBulkInsertTransfersError''), w')"
    by (simp add: deployedEnv_def mongo_storeTransfers_def catchAs_def run_simps)
  define s0 where "s0 = (resetBatch s)\<lparr>batchCommands := registerCommand c []\<rparr>"
  have s0: "transfersCache s0 = []" "world s0 = world s" "abBatchRequests s0 = []" "abCancelationBatchRequests s0 = []"
    "unhandled s0 = unhandled s"
    using assms(2) by (simp_all add: s0_def resetBatch_def)
  obtain s1 where start: "prepareTransferStart ?E c p s0 = (Inr (), s1)"
    and s1: "world s1 = w" "map (\<lambda>(_, r). theap s1 r) (transfersCache s1) = [t]"
      "abBatchRequests s1 = []" "abCancelationBatchRequests s1 = []" "unhandled s1 = unhandled s"
    using s0 get
    by (cases "transferState t")
       (auto simp: prepareTransferStart_def prepareExisting_def getTransfer_def run_simps primitive_defs emit_def)
  have "batchBody ?E [c] (resetBatch s) = (Inr (), s1)"
    using assms(3,4) start s1 rememberCommand_run [of c "resetBatch s"]
    by (auto simp: batchBody_def runCommands_def processCommand_def ensureValidMessage_def dispatchCommand_def
        runRequests_def runCancelations_def run_simps s0_def resetBatch_def)
  moreover have "fst (batchFinally ?E s1) = Inl (OtherError ''UnableToBulkInsertTransfersError'') \<and>
      unhandled (snd (batchFinally ?E s1)) = unhandled s"
    using s1 store by (auto simp: batchFinally_def flush_def run_simps call_def)
  ultimately show ?thesis
    by (auto simp: processCommandBatch_def split: prod.split)
qed

end
