(* ===== verification/Handlers.thy ===== *)
theory Handlers
  imports Batch_Properties
begin

text \<open>
  The two services around the aggregate.  \<open>TransfersEventHandler\<close>
  (\<open>packages/event-handler-svc/src/handler.ts\<close>) turns the domain events of the other contexts into
  commands and publishes them; \<open>TransfersCommandHandler\<close>
  (\<open>packages/command-handler-svc/src/handler.ts\<close>) consumes the commands and hands them to the aggregate.
  The message bus, the metrics and the logger are not modelled beyond the calls that can throw.
\<close>

section \<open>The events consumed\<close>

record prepare_requested =
  pr_transferId :: string
  pr_amount :: string
  pr_currencyCode :: string
  pr_payerFsp :: string
  pr_payeeFsp :: string
  pr_expiration :: int
  pr_payerIdType :: string
  pr_payeeIdType :: string
  pr_transferType :: string
  pr_extensions :: extensions

text \<open>The payloads of the other events have the fields of the commands they become.\<close>

datatype inbound_body =
    TransferPrepareRequestedEvt prepare_requested
  | TransferFulfilRequestedEvt fulfil_payload
  | TransferRejectRequestedEvt reject_payload
  | TransferQueryReceivedEvt query_payload
  | TransferTimeoutEvt string
  | BulkTransferPrepareRequestedEvt prepare_bulk_payload
  | BulkTransferFulfilRequestedEvt fulfil_bulk_payload
  | BulkTransferRejectRequestedEvt reject_bulk_payload
  | BulkTransferQueryReceivedEvt query_bulk_payload
  | UnhandledEvt string

record inbound =
  in_msgType :: message_type
  in_body :: inbound_body
  in_protocolType :: "string option"
  in_opaqueState :: json

text \<open>\<open>v.name\<close>: a \<open>TypeError\<close> on \<open>null\<close> and \<open>undefined\<close>, \<open>undefined\<close> for an absent property.\<close>

definition getProperty :: "json \<Rightarrow> string \<Rightarrow> exn + json" where
  "getProperty v name =
     (case v of
        JUndefined \<Rightarrow> Inl TypeError
      | JNull \<Rightarrow> Inl TypeError
      | _ \<Rightarrow> (case map_of (props v) name of None \<Rightarrow> Inr JUndefined | Some x \<Rightarrow> Inr x))"

section \<open>Events to commands\<close>

definition inboundCommand :: "inbound \<Rightarrow> command_body \<Rightarrow> command" where
  "inboundCommand m b =
     \<lparr>cmd_msgType = COMMAND, cmd_body = b, cmd_protocolType = in_protocolType m, cmd_opaqueState = in_opaqueState m\<rparr>"

definition prepareEventToPrepareCommand :: "prepare_requested \<Rightarrow> command_body" where
  "prepareEventToPrepareCommand e = PrepareTransferCmd
     \<lparr>prep_bulkTransferId = None,
      prep_transferId = pr_transferId e,
      prep_amount = pr_amount e,
      prep_currencyCode = pr_currencyCode e,
      prep_payerFsp = pr_payerFsp e,
      prep_payeeFsp = pr_payeeFsp e,
      prep_expiration = pr_expiration e,
      prep_payerIdType = pr_payerIdType e,
      prep_payeeIdType = pr_payeeIdType e,
      prep_transferType = pr_transferType e,
      prep_extensions = pr_extensions e\<rparr>"

definition prepareEventToFulfilCommand :: "fulfil_payload \<Rightarrow> command_body" where
  "prepareEventToFulfilCommand e = CommitTransferFulfilCmd
     \<lparr>ful_transferId = ful_transferId e, ful_transferState = ful_transferState e,
      ful_completedTimestamp = ful_completedTimestamp e, ful_notifyPayee = ful_notifyPayee e,
      ful_extensions = ful_extensions e\<rparr>"

definition prepareEventToRejectCommand :: "reject_payload \<Rightarrow> command_body" where
  "prepareEventToRejectCommand e = RejectTransferCmd
     \<lparr>rej_transferId = rej_transferId e, rej_errorInformation = rej_errorInformation e\<rparr>"

definition prepareEventToQueryCommand :: "query_payload \<Rightarrow> command_body" where
  "prepareEventToQueryCommand e = QueryTransferCmd
     \<lparr>qry_transferId = qry_transferId e, qry_requesterFspId = qry_requesterFspId e,
      qry_destinationFspId = qry_destinationFspId e\<rparr>"

definition prepareEventToTimeoutCommand :: "inbound \<Rightarrow> string \<Rightarrow> exn + command_body" where
  "prepareEventToTimeoutCommand m tid =
     (case getProperty (in_opaqueState m) ''fspiopOpaqueState'' of
        Inl e \<Rightarrow> Inl e
      | Inr v \<Rightarrow> Inr (TimeoutTransferCmd \<lparr>tmo_transferId = tid, tmo_timeout = v\<rparr>))"

definition prepareEventToPrepareBulkCommand :: "prepare_bulk_payload \<Rightarrow> command_body" where
  "prepareEventToPrepareBulkCommand e = PrepareBulkTransferCmd
     \<lparr>bprep_bulkTransferId = bprep_bulkTransferId e, bprep_bulkQuoteId = bprep_bulkQuoteId e,
      bprep_payeeFsp = bprep_payeeFsp e, bprep_payerFsp = bprep_payerFsp e,
      bprep_individualTransfers = bprep_individualTransfers e, bprep_expiration = bprep_expiration e,
      bprep_extensions = bprep_extensions e\<rparr>"

definition fulfilEventToFulfilBulkCommand :: "fulfil_bulk_payload \<Rightarrow> command_body" where
  "fulfilEventToFulfilBulkCommand e = CommitBulkTransferFulfilCmd
     \<lparr>bful_bulkTransferId = bful_bulkTransferId e, bful_completedTimestamp = bful_completedTimestamp e,
      bful_bulkTransferState = bful_bulkTransferState e,
      bful_individualTransferResults = bful_individualTransferResults e, bful_extensions = bful_extensions e\<rparr>"

definition prepareEventToRejectBulkCommand :: "reject_bulk_payload \<Rightarrow> command_body" where
  "prepareEventToRejectBulkCommand e = RejectBulkTransferCmd
     \<lparr>brej_bulkTransferId = brej_bulkTransferId e, brej_errorInformation = brej_errorInformation e\<rparr>"

definition prepareEventToQueryBulkCommand :: "query_bulk_payload \<Rightarrow> command_body" where
  "prepareEventToQueryBulkCommand e = QueryBulkTransferCmd
     \<lparr>bqry_bulkTransferId = bqry_bulkTransferId e, bqry_requesterFspId = bqry_requesterFspId e,
      bqry_destinationFspId = bqry_destinationFspId e\<rparr>"

definition getCmdFromEvent :: "inbound \<Rightarrow> exn + command option" where
  "getCmdFromEvent m =
     (case in_body m of
        TransferPrepareRequestedEvt e \<Rightarrow> Inr (Some (inboundCommand m (prepareEventToPrepareCommand e)))
      | TransferFulfilRequestedEvt e \<Rightarrow> Inr (Some (inboundCommand m (prepareEventToFulfilCommand e)))
      | TransferRejectRequestedEvt e \<Rightarrow> Inr (Some (inboundCommand m (prepareEventToRejectCommand e)))
      | TransferQueryReceivedEvt e \<Rightarrow> Inr (Some (inboundCommand m (prepareEventToQueryCommand e)))
      | TransferTimeoutEvt tid \<Rightarrow>
          (case prepareEventToTimeoutCommand m tid of
             Inl e \<Rightarrow> Inl e
           | Inr b \<Rightarrow> Inr (Some (inboundCommand m b)))
      | BulkTransferPrepareRequestedEvt e \<Rightarrow> Inr (Some (inboundCommand m (prepareEventToPrepareBulkCommand e)))
      | BulkTransferFulfilRequestedEvt e \<Rightarrow> Inr (Some (inboundCommand m (fulfilEventToFulfilBulkCommand e)))
      | BulkTransferRejectRequestedEvt e \<Rightarrow> Inr (Some (inboundCommand m (prepareEventToRejectBulkCommand e)))
      | BulkTransferQueryReceivedEvt e \<Rightarrow> Inr (Some (inboundCommand m (prepareEventToQueryBulkCommand e)))
      | UnhandledEvt _ \<Rightarrow> Inr None)"

text \<open>
  The duration metrics read timestamps of the FSPIOP opaque state; the reads can throw, the
  observations themselves are not modelled.
\<close>

definition observeDurations :: "inbound \<Rightarrow> exn + unit" where
  "observeDurations m =
     (if in_protocolType m \<noteq> Some ''FSPIOP_v1_1'' then Inr ()
      else
        (case in_body m of
           TransferPrepareRequestedEvt _ \<Rightarrow>
             (case getProperty (in_opaqueState m) ''fspiopOpaqueState'' of
                Inl e \<Rightarrow> Inl e
              | Inr v \<Rightarrow> (case getProperty v ''prepareSendTimestamp'' of Inl e \<Rightarrow> Inl e | Inr _ \<Rightarrow> Inr ()))
         | TransferFulfilRequestedEvt _ \<Rightarrow>
             (case getProperty (in_opaqueState m) ''fspiopOpaqueState'' of
                Inl e \<Rightarrow> Inl e
              | Inr v \<Rightarrow> (case getProperty v ''committedSendTimestamp'' of Inl e \<Rightarrow> Inl e | Inr _ \<Rightarrow> Inr ()))
         | _ \<Rightarrow> Inr ()))"

text \<open>The loop over a batch: the commands of its domain events, or the first error.\<close>

fun commandsOfBatch :: "inbound list \<Rightarrow> exn + command list" where
  "commandsOfBatch [] = Inr []"
| "commandsOfBatch (m # ms) =
     (if in_msgType m \<noteq> DOMAIN_EVENT then commandsOfBatch ms
      else
        (case getCmdFromEvent m of
           Inl e \<Rightarrow> Inl e
         | Inr c \<Rightarrow>
             (case observeDurations m of
                Inl e \<Rightarrow> Inl e
              | Inr _ \<Rightarrow>
                  (case commandsOfBatch ms of
                     Inl e \<Rightarrow> Inl e
                   | Inr cs \<Rightarrow> Inr (case c of None \<Rightarrow> cs | Some cmd \<Rightarrow> cmd # cs)))))"

text \<open>
  The batch callback: errors are logged and swallowed, and the callback resolves in every case, which
  acknowledges the whole batch.
\<close>

definition eventBatchHandler :: "(command list \<Rightarrow> ('w, unit) call) \<Rightarrow> inbound list \<Rightarrow> 'w \<Rightarrow> outcome \<times> 'w" where
  "eventBatchHandler send ms w =
     (case commandsOfBatch ms of
        Inl _ \<Rightarrow> (Resolved, w)
      | Inr cs \<Rightarrow> (Resolved, snd (send cs w)))"

section \<open>The command handler\<close>

text \<open>
  The batch callback of the command handler: non-commands are filtered out, an empty batch resolves at
  once, and the \<open>finally\<close> resolves whether the aggregate resolves or rejects (an error it rejects with
  becomes an unhandled rejection); while the aggregate's promise is pending, so is the callback's.
\<close>

definition commandBatchHandler :: "'w env \<Rightarrow> command list \<Rightarrow> 'w agg \<Rightarrow> outcome \<times> 'w agg" where
  "commandBatchHandler E msgs s =
     (let cmds = filter (\<lambda>m. cmd_msgType m = COMMAND) msgs in
      if cmds = [] then (Resolved, s)
      else
        (case processCommandBatch E cmds s of
           (Resolved, s') \<Rightarrow> (Resolved, s')
         | (Rejected e, s') \<Rightarrow> (Resolved, s'\<lparr>unhandled := unhandled s' @ [e]\<rparr>)
         | (Pending, s') \<Rightarrow> (Pending, s')))"

section \<open>What they do\<close>

lemma getCmdFromEvent_Some:
  assumes "getCmdFromEvent m = Inr (Some c)"
  shows "cmd_msgType c = COMMAND \<and> cmd_protocolType c = in_protocolType m \<and> cmd_opaqueState c = in_opaqueState m \<and>
    (\<nexists>n. cmd_body c = NoPayloadCmd n) \<and> msgName (cmd_body c) \<noteq> ''''"
  using assms
  by (auto simp: getCmdFromEvent_def inboundCommand_def prepareEventToTimeoutCommand_def
      prepareEventToPrepareCommand_def prepareEventToFulfilCommand_def prepareEventToRejectCommand_def
      prepareEventToQueryCommand_def prepareEventToPrepareBulkCommand_def fulfilEventToFulfilBulkCommand_def
      prepareEventToRejectBulkCommand_def prepareEventToQueryBulkCommand_def
      split: inbound_body.splits sum.splits)

text \<open>The specification of the conversion of a batch.\<close>

definition throws :: "inbound \<Rightarrow> bool" where
  "throws m \<longleftrightarrow> in_msgType m = DOMAIN_EVENT \<and> (\<exists>e. getCmdFromEvent m = Inl e \<or> observeDurations m = Inl e)"

definition commandOf :: "inbound \<Rightarrow> command option" where
  "commandOf m = (if in_msgType m = DOMAIN_EVENT then (case getCmdFromEvent m of Inl _ \<Rightarrow> None | Inr c \<Rightarrow> c) else None)"

lemma commandsOfBatch_spec:
  "commandsOfBatch ms = Inr cs \<longleftrightarrow> (\<forall>m \<in> set ms. \<not> throws m) \<and> cs = List.map_filter commandOf ms"
proof (induction ms arbitrary: cs)
  case Nil
  show ?case by (auto simp: map_filter_simps)
next
  case (Cons m ms)
  then show ?case
    by (cases "commandsOfBatch ms")
       (auto simp: throws_def commandOf_def map_filter_simps split: sum.splits option.splits)
qed

lemma eventBatchHandler_spec:
  "eventBatchHandler send ms w =
     (Resolved, if \<exists>m \<in> set ms. throws m then w else snd (send (List.map_filter commandOf ms) w))"
proof (cases "commandsOfBatch ms")
  case (Inl e)
  then have "\<exists>m \<in> set ms. throws m"
    using commandsOfBatch_spec [of ms "List.map_filter commandOf ms"] by auto
  with Inl show ?thesis by (simp add: eventBatchHandler_def)
next
  case (Inr cs)
  then have "(\<forall>m \<in> set ms. \<not> throws m) \<and> cs = List.map_filter commandOf ms"
    by (simp add: commandsOfBatch_spec)
  with Inr show ?thesis by (auto simp: eventBatchHandler_def)
qed


text \<open>C33: every command the event handler publishes is one the aggregate accepts as a valid message, and it
  carries the protocol type and the opaque state of the event it was made from.\<close>

theorem published_commands_valid:
  assumes "commandsOfBatch ms = Inr cs" and "c \<in> set cs"
  shows "ensureValidMessage c s = (Inr (), s) \<and>
     (\<exists>m \<in> set ms. in_msgType m = DOMAIN_EVENT \<and> cmd_protocolType c = in_protocolType m \<and>
        cmd_opaqueState c = in_opaqueState m)"
proof -
  from assms obtain m where m: "m \<in> set ms" "commandOf m = Some c"
    by (auto simp: commandsOfBatch_spec map_filter_def)
  then have "in_msgType m = DOMAIN_EVENT" "getCmdFromEvent m = Inr (Some c)"
    by (auto simp: commandOf_def split: if_splits sum.splits)
  with m(1) getCmdFromEvent_Some show ?thesis
    by (auto simp: ensureValidMessage_def run_simps split: command_body.splits)
qed

text \<open>The command handler acknowledges every batch but one whose storing or publishing failed: its
  callback never rejects, and it stays pending exactly when the commands all went through and the
  flush or the producer then failed.\<close>

theorem commandBatch_acknowledged:
  "fst (commandBatchHandler E msgs s) = Resolved \<or>
   (fst (commandBatchHandler E msgs s) = Pending \<and>
     (\<exists>s1 e. batchBody E (filter (\<lambda>m. cmd_msgType m = COMMAND) msgs) (resetBatch s) = (Inr (), s1) \<and>
        fst (batchFinally E s1) = Inl e))"
  by (auto simp: commandBatchHandler_def processCommandBatch_def Let_def split: prod.splits sum.splits outcome.splits)

end
