(* ===== verification/Bulk_Properties.thy ===== *)
theory Bulk_Properties
  imports Bulk
begin

text \<open>
  What the bulk commands do: how the items of a bulk prepare and fulfil are answered, and when the
  continue handlers complete a bulk transfer.
\<close>

section \<open>Items\<close>

text \<open>Each item is answered at most once, with events that carry no protocol data.\<close>

definition item_answers :: "nat \<Rightarrow> nat \<Rightarrow> unit outputs" where
  "item_answers k c r es qs cs \<longleftrightarrow>
     length es + length qs \<le> k \<and> length cs \<le> c \<and> (r = Inr () \<or> r = Inl TypeError) \<and>
     (\<forall>e \<in> set es. evt_protocolType e = None \<and> evt_opaqueState e = JUndefined)"

lemma item_answers_append:
  "item_answers k c (Inr ()) es qs cs \<Longrightarrow> item_answers k' c' r es' qs' cs' \<Longrightarrow>
   item_answers (k + k') (c + c') r (es @ es') (qs @ qs') (cs @ cs')"
  by (auto simp: item_answers_def)

lemma yields_forEach_items:
  assumes "\<And>x s'. x \<in> set xs \<Longrightarrow> yields (item_answers 1 c) (f x) s'"
  shows "yields (item_answers (length xs) (length xs * c)) (forEach xs f) s"
  using assms
proof (induction xs arbitrary: s)
  case Nil
  show ?case by (auto simp: item_answers_def intro: yields_ret)
next
  case (Cons a xs s)
  show ?case
    unfolding forEach.simps
  proof (rule yields_andThen [where ?P1.0 = "item_answers 1 c"])
    show "yields (item_answers 1 c) (f a) s" by (rule Cons.prems) simp
  next
    fix e es qs cs assume "item_answers 1 c (Inl e) es qs cs"
    then show "item_answers (length (a # xs)) (length (a # xs) * c) (Inl e) es qs cs"
      by (auto simp: item_answers_def)
  next
    fix x :: unit and es qs cs s' assume first: "item_answers 1 c (Inr x) es qs cs"
    have "yields (item_answers (length xs) (length xs * c)) (forEach xs f) s'"
      by (rule Cons.IH, rule Cons.prems) simp
    then show "yields (after es qs cs (item_answers (length (a # xs)) (length (a # xs) * c))) (forEach xs f) s'"
      by (rule yields_mono) (use item_answers_append [OF first [simplified]] in simp)
  qed
qed

lemma carries_item: "carries (itemCommand b) e \<longleftrightarrow> evt_protocolType e = None \<and> evt_opaqueState e = JUndefined"
  by (simp add: carries_def itemCommand_def)

lemma yields_item_prepare: "yields (item_answers 1 0) (prepareTransferStart E (itemCommand b) p) s"
  by (rule yields_mono [OF yields_prepareTransferStart])
     (auto simp: one_answer_def item_answers_def carries_item)

lemma yields_item_fulfil: "yields (item_answers 1 1) (fulfilTransferStart E (itemCommand b) p) s"
  by (rule yields_mono [OF yields_fulfilTransferStart])
     (auto simp: fulfilOutputs_def one_answer_def item_answers_def carries_item)

text \<open>A bulk prepare never throws; either the bulk transfer could not be added, and that is reported
  with the protocol data of the command, or its items are answered, each at most once, and every
  event of an item has lost the protocol type and the opaque state of the bulk command.\<close>

theorem bulk_prepare_items:
  assumes "prepareBulkTransferStart E msg p s = (r, s')"
  shows "\<exists>es qs. outputEvents s' = outputEvents s @ es \<and> abBatchRequests s' = abBatchRequests s @ qs \<and>
     abCancelationBatchRequests s' = abCancelationBatchRequests s \<and>
     ((qs = [] \<and> es = [tagged msg (TransferBCUnableToAddBulkTransferToDatabaseEvt (bprep_bulkTransferId p)
          UNABLE_TO_ADD_BULK_TRANSFER)]) \<or>
      (length es + length qs \<le> length (bprep_individualTransfers p) \<and>
       (\<forall>e \<in> set es. evt_protocolType e = None \<and> evt_opaqueState e = JUndefined)))"
proof -
  let ?failed = "tagged msg (TransferBCUnableToAddBulkTransferToDatabaseEvt (bprep_bulkTransferId p)
      UNABLE_TO_ADD_BULK_TRANSFER)"
  let ?P = "\<lambda>(r :: exn + unit) es qs cs. (qs = [] \<and> cs = [] \<and> es = [?failed]) \<or>
      item_answers (length (bprep_individualTransfers p)) 0 r es qs cs"
  have add: "silent (addBulkTransfer E b)" for b
  proof -
    have "silent (case pr of Inl e \<Rightarrow> modify (\<lambda>s. s\<lparr>unhandled := unhandled s @ [e]\<rparr>) | Inr _ \<Rightarrow> ret ())"
      for pr :: "exn + string"
      by (cases pr) (auto intro: silent_modify silent_intros)
    then show ?thesis unfolding addBulkTransfer_def by (intro silent_intros)
  qed
  have items: "yields ?P (forEach (bprep_individualTransfers p) (\<lambda>it. let ip = itemPrepare p it in
      prepareTransferStart E (itemCommand (PrepareTransferCmd ip)) ip)) s1" for s1
    by (rule yields_mono [OF yields_forEach_items [where c = 0]]) (simp_all add: Let_def yields_item_prepare [simplified])
  have "yields ?P (prepareBulkTransferStart E msg p) s"
    unfolding prepareBulkTransferStart_def
    by (intro yields_andThen_quiet yields_tryElse_silent silent_intros add items yields_emit) simp
  from this assms show ?thesis
    by (rule yieldsD) (auto simp: item_answers_def)
qed

section \<open>Completion\<close>

lemma prepareContinue_run:
  "\<exists>s1. prepareTransferContinue E rsp req orig (Some r) s = (Inr (), s1) \<and> bheap s1 = bheap s \<and>
     bulkTransfersCache s1 = bulkTransfersCache s \<and>
     transferId (theap s1 r) = transferId (theap s r) \<and> bulkTransferId (theap s1 r) = bulkTransferId (theap s r)"
  by (cases "rsp_success rsp"; cases "truthy (bulkTransferId (theap s r))")
     (auto simp: prepareTransferContinue_def run_simps primitive_defs emit_def split: prod.split)

text \<open>The answer to the reservation of an item of a loaded bulk transfer is counted among the prepared
  items, success or not; the bulk transfer becomes \<open>BULK_PENDING\<close> exactly when the counted items reach
  the number of its items.\<close>

theorem bulk_prepare_counts_items:
  assumes "map_of (bulkTransfersCache s) (bulkTransferId (theap s r)) = Some br" and "b = bheap s br"
    and "prepareBulkTransferContinue E rsp req orig (Some r) s = (res, s')"
  shows "res = Inr () \<and>
     bt_transfersPreparedProcessedIds (bheap s' br) = bt_transfersPreparedProcessedIds b @ [transferId (theap s r)] \<and>
     bt_status (bheap s' br) =
       (if Suc (length (bt_transfersPreparedProcessedIds b)) + length (bt_transfersNotProcessedIds b)
             = length (bt_individualTransfers b)
        then BULK_PENDING else bt_status b)"
proof -
  obtain s1 where first: "prepareTransferContinue E rsp req orig (Some r) s = (Inr (), s1)"
    and s1: "bheap s1 = bheap s" "bulkTransfersCache s1 = bulkTransfersCache s"
      "transferId (theap s1 r) = transferId (theap s r)" "bulkTransferId (theap s1 r) = bulkTransferId (theap s r)"
    using prepareContinue_run [of E rsp req orig r s] by blast
  have "map_of (bulkTransfersCache s1) (bulkTransferId (theap s1 r)) = Some br" "bheap s1 br = b"
    using assms(1,2) s1 by simp_all
  then have "wp (prepareBulkTransferContinue E rsp req orig (Some r)) (\<lambda>res s'. res = Inr () \<and>
     bt_transfersPreparedProcessedIds (bheap s' br) = bt_transfersPreparedProcessedIds b @ [transferId (theap s r)] \<and>
     bt_status (bheap s' br) =
       (if Suc (length (bt_transfersPreparedProcessedIds b)) + length (bt_transfersNotProcessedIds b)
             = length (bt_individualTransfers b)
        then BULK_PENDING else bt_status b)) s"
    by (simp add: prepareBulkTransferContinue_def prepareBulkComplete_def wp_def run_simps first primitive_defs
        getBulkTransfer_cached emit_def s1(3) split: prod.splits)
  with assms(3) show ?thesis by (simp add: wp_def)
qed

text \<open>The continue handler of a fulfil does not touch the bulk transfers.\<close>

definition bulks_are :: "(nat \<Rightarrow> bulk_transfer) \<Rightarrow> (string option \<times> nat) list \<Rightarrow> 'w agg \<Rightarrow> bool" where
  "bulks_are h c s \<longleftrightarrow> bheap s = h \<and> bulkTransfersCache s = c"

lemma keeps_bulks_are:
  assumes "\<And>s. bheap (snd (m s)) = bheap s \<and> bulkTransfersCache (snd (m s)) = bulkTransfersCache s"
  shows "keeps (bulks_are h c) m"
  by (rule keepsI) (use assms in \<open>simp add: bulks_are_def wp_unfold\<close>)

lemma bulks_are_steps:
  "keeps (bulks_are h c) (call m)" "keeps (bulks_are h c) (now E)" "keeps (bulks_are h c) (newTransfer t)"
  "keeps (bulks_are h c) (getT r)" "keeps (bulks_are h c) (setT r f)" "keeps (bulks_are h c) (cacheT r)"
  "keeps (bulks_are h c) (emit msg e)" "keeps (bulks_are h c) (pushCancelation q)"
  "keeps (bulks_are h c) (uuid E)" "keeps (bulks_are h c) (lift_sum x)"
  "keeps (bulks_are h c) (modify (\<lambda>s. s\<lparr>transfersCache := g s\<rparr>))"
  by (rule keeps_bulks_are;
      cases x; simp add: primitive_defs reads_def modify_def emit_def pushCancelation_def lift_sum_def ret_def raise_def
        split: prod.splits)+

lemma bulks_are_cancel: "keeps (bulks_are h c) (cancelTransfer E tid code)"
  unfolding cancelTransfer_def cancelTransferBody_def getParticipantsInfo_def getTransfer_def
  by (intro keeps_intros bulks_are_steps)

lemma bulks_are_fulfilContinue: "keeps (bulks_are h c) (fulfilTransferContinue E rsp req orig (Some r))"
  unfolding fulfilTransferContinue_def option.case
  by (intro keeps_intros bulks_are_steps bulks_are_cancel)

lemma fulfilContinue_run:
  "\<exists>s1. fulfilTransferContinue E rsp req orig (Some r) s = (Inr (), s1) \<and> bheap s1 = bheap s \<and>
     bulkTransfersCache s1 = bulkTransfersCache s"
proof -
  obtain res s1 where run: "fulfilTransferContinue E rsp req orig (Some r) s = (res, s1)" by fastforce
  have "bulks_are (bheap s) (bulkTransfersCache s) s1"
    by (rule keeps_run [OF bulks_are_fulfilContinue _ run]) (simp add: bulks_are_def)
  moreover have "res = Inr ()"
  proof (cases "rsp_success rsp")
    case True
    with run show ?thesis
      by (cases "truthy (bulkTransferId (theap s r))")
         (auto simp: fulfilTransferContinue_def run_simps primitive_defs emit_def split: prod.splits)
  next
    case False
    from yieldsD [OF yields_fulfilContinue_failure [OF this] run] show ?thesis by blast
  qed
  ultimately show ?thesis using run by (auto simp: bulks_are_def)
qed

text \<open>C37: the answer to the commit of an item of a loaded bulk transfer is counted among the fulfilled items
  whether it is a success or not.  When the counted items reach the number of its items, the bulk
  transfer is \<open>BULK_COMPLETED\<close> and announced as fulfilled, and the cache forgets all bulk transfers, also
  those that are still in progress: each of them is next read as the repository has it.\<close>

theorem bulk_fulfil_counts_items:
  assumes "map_of (bulkTransfersCache s) (bulkTransferId (theap s r)) = Some br" and "b = bheap s br"
    and "\<And>b w. fst (bulkRepo_updateBulkTransfer E b w) = Inr ()"
    and "finished \<longleftrightarrow> Suc (length (bt_transfersFulfiledProcessedIds b)) + length (bt_transfersNotProcessedIds b)
           = length (bt_individualTransfers b)"
    and "fulfilBulkTransferContinue E rsp req orig (Some r) s = (res, s')"
  shows "res = Inr () \<and>
     bt_transfersFulfiledProcessedIds (bheap s' br) = bt_transfersFulfiledProcessedIds b @ [transferId (theap s r)] \<and>
     bt_status (bheap s' br) = (if finished then BULK_COMPLETED else BULK_PROCESSING) \<and>
     (finished \<longrightarrow> last (outputEvents s') = tagged orig (BulkTransferFulfiledEvt (bulkFulfiledPayload (cmd_body orig))) \<and>
       (\<forall>bid d w. bulkRepo_getBulkTransferById E bid (world s') = (Inr (Some d), w) \<longrightarrow>
          bheap (snd (getBulkTransfer E bid s')) (bnext s') = d))"
proof -
  obtain n w where n: "dateNow E (world s) = (n, w)" by fastforce
  let ?s = "s\<lparr>world := w, bheap := (bheap s)(br := b\<lparr>bt_updatedAt := n, bt_status := BULK_PROCESSING\<rparr>),
     bulkTransfersCache := AList.update (Some (bt_bulkTransferId b)) br (bulkTransfersCache s)\<rparr>"
  obtain s1 where run: "fulfilTransferContinue E rsp req orig (Some r) ?s = (Inr (), s1)"
    and s1: "bheap s1 = bheap ?s"
    using fulfilContinue_run [of E rsp req orig r ?s] by blast
  have update: "\<exists>w'. bulkRepo_updateBulkTransfer E x w1 = (Inr (), w')" for x w1
    using assms(3) [of x w1] by (cases "bulkRepo_updateBulkTransfer E x w1") simp
  obtain m w2 where m: "dateNow E (world s1) = (m, w2)" by fastforce
  obtain w3 where w3: "bulkRepo_updateBulkTransfer E (b\<lparr>bt_transfersFulfiledProcessedIds :=
      bt_transfersFulfiledProcessedIds b @ [transferId (theap s r)], bt_updatedAt := m, bt_status := BULK_COMPLETED\<rparr>) w2 = (Inr (), w3)"
    using update by blast
  show ?thesis
  proof (cases finished)
    case True
    with assms(1,2,4,5) n run s1 m w3 show ?thesis
      by (auto simp: fulfilBulkTransferContinue_def fulfilBulkComplete_def run_simps primitive_defs
          getBulkTransfer_cached emit_def getBulkTransfer_def)
  next
    case False
    with assms(1,2,4,5) n run s1 show ?thesis
      by (auto simp: fulfilBulkTransferContinue_def run_simps primitive_defs getBulkTransfer_cached)
  qed
qed

end
