(* ===== verification/Merge.thy ===== *)
theory Merge
  imports Json
begin

text \<open>
  What \<open>deepMerge\<close> of \<open>packages/domain-lib/src/utils.ts\<close> computes: when it returns, what it returns
  property by property, and what it never touches.
\<close>

section \<open>Assignments\<close>

lemma is_object_assign [simp]: "is_object (assign t k v) = is_object t"
  by (cases t) (simp_all add: assign_def)

lemma props_assign: "is_object t \<Longrightarrow> props (assign t k v) = AList.update k v (props t)"
  by (cases t) (simp_all add: assign_def)

lemma lookup_assign: "is_object t \<Longrightarrow> map_of (props (assign t k v)) k' = (if k' = k then Some v else map_of (props t) k')"
  by (simp add: props_assign update_conv')

section \<open>The guard\<close>

text \<open>The result of a merge, whether it returned or threw.\<close>

definition merged :: "json + json \<Rightarrow> json" where
  "merged r = (case r of Inl t \<Rightarrow> t | Inr t \<Rightarrow> t)"

lemma merged_simps [simp]: "merged (Inl t) = t" "merged (Inr t) = t"
  by (simp_all add: merged_def)

lemma assign_all_keeps:
  "k \<notin> fst ` set ps \<Longrightarrow> is_object t \<Longrightarrow> map_of (props (merged (assign_all t ps))) k = map_of (props t) k"
  by (induction t ps rule: assign_all.induct) (auto simp: lookup_assign)

lemma merge_props_keeps:
  "blocked_key k \<or> k \<notin> fst ` set ps \<Longrightarrow> is_object t \<Longrightarrow>
   map_of (props (merged (merge_props t ps))) k = map_of (props t) k"
proof (induction ps arbitrary: t)
  case Nil
  then show ?case by simp
next
  case (Cons p ps)
  obtain k' v where p: "p = (k', v)" by fastforce
  show ?case
  proof (cases "blocked_key k'")
    case True
    with Cons p show ?thesis by auto
  next
    case False
    with Cons.prems p have k: "k \<noteq> k'" by auto
    have step: "map_of (props (merged (merge_props (assign t k' x) ps))) k = map_of (props t) k" for x
      using Cons.IH [of "assign t k' x"] Cons.prems k p by (auto simp: lookup_assign)
    show ?thesis
    proof (cases "map_of (props t) k'")
      case None
      with False Cons.prems p step show ?thesis by simp
    next
      case (Some tv)
      with False Cons.prems p step k show ?thesis
        by (cases "deepMerge tv v") (auto simp: lookup_assign)
    qed
  qed
qed

text \<open>Whatever the source object holds, a merge leaves the target's own properties \<open>__proto__\<close> and
  \<open>constructor\<close> as they are, even when it throws; the same holds of every property that the source
  does not have.\<close>

theorem merge_guards_prototype:
  assumes "is_object target" and "is_object source" and "blocked_key k \<or> map_of (props source) k = None"
  shows "map_of (props (merged (deepMerge target source))) k = map_of (props target) k"
proof -
  have "deepMerge target source = merge_props target (props source)"
    using assms(2) by (cases source) simp_all
  with assms merge_props_keeps [of k "props source" target] show ?thesis
    by (auto simp: map_of_eq_None_iff)
qed

section \<open>The value of every property\<close>

text \<open>What the merge puts at a property that both sides may have.\<close>

definition mergedValue :: "json option \<Rightarrow> json \<Rightarrow> json + json" where
  "mergedValue tv v = (case tv of Some t \<Rightarrow> if is_object v then deepMerge t v else Inr v | None \<Rightarrow> Inr v)"

lemma merge_props_step:
  "merge_props t ((k, v) # ps) =
     (if blocked_key k then merge_props t ps
      else if \<not> is_object t then Inl t
      else (case mergedValue (map_of (props t) k) v of
              Inl v' \<Rightarrow> Inl (assign t k v')
            | Inr v' \<Rightarrow> merge_props (assign t k v') ps))"
  by (auto simp: mergedValue_def split: option.split)

lemma merge_props_value:
  assumes "merge_props t ps = Inr m" and "distinct (map fst ps)" and "is_object t"
    and "map_of ps k = Some v" and "\<not> blocked_key k"
  shows "\<exists>v'. mergedValue (map_of (props t) k) v = Inr v' \<and> map_of (props m) k = Some v'"
  using assms
proof (induction ps arbitrary: t)
  case Nil
  then show ?case by simp
next
  case (Cons p ps)
  obtain k' x where p: "p = (k', x)" by fastforce
  show ?case
  proof (cases "k' = k")
    case True
    with Cons.prems p have x: "x = v" and k: "k \<notin> fst ` set ps" by auto
    from True Cons.prems p x obtain v' where v': "mergedValue (map_of (props t) k) v = Inr v'"
      and rest: "merge_props (assign t k v') ps = Inr m"
      by (auto simp: merge_props_step simp del: merge_props.simps split: sum.splits)
    from merge_props_keeps [of k ps "assign t k v'"] rest k Cons.prems(3)
    have "map_of (props m) k = Some v'" by (simp add: lookup_assign)
    with v' show ?thesis by blast
  next
    case False
    show ?thesis
    proof (cases "blocked_key k'")
      case True
      with Cons False p show ?thesis by auto
    next
      case not_blocked: False
      with False Cons.prems p obtain x' where rest: "merge_props (assign t k' x') ps = Inr m"
        by (auto simp: merge_props_step simp del: merge_props.simps split: sum.splits)
      from Cons.IH [OF rest] Cons.prems False p show ?thesis by (auto simp: lookup_assign)
    qed
  qed
qed

text \<open>C38: a merge that returns gives every property of the source that is not guarded its value: the merge
  of the two values, recursively, when the source's is an object and the target has the property,
  and the source's value otherwise.\<close>

theorem merge_value:
  assumes "deepMerge target source = Inr m" and "is_object target" and "is_object source"
    and "distinct (map fst (props source))" and "map_of (props source) k = Some v" and "\<not> blocked_key k"
  shows "case map_of (props target) k of
      Some tv \<Rightarrow> if is_object v then (\<exists>v'. deepMerge tv v = Inr v' \<and> map_of (props m) k = Some v')
                 else map_of (props m) k = Some v
    | None \<Rightarrow> map_of (props m) k = Some v"
proof -
  have "merge_props target (props source) = Inr m"
    using assms(1,3) by (cases source) simp_all
  from merge_props_value [OF this assms(4,2,5,6)] show ?thesis
    by (auto simp: mergedValue_def split: option.splits if_splits)
qed

section \<open>When it returns\<close>

text \<open>
  Two values conflict when a property that is not guarded is an object in the source, with
  something to merge, and a value that is no object in the target.
\<close>

fun mergeable :: "json \<Rightarrow> json \<Rightarrow> bool" and mergeable_props :: "json \<Rightarrow> (string \<times> json) list \<Rightarrow> bool" where
  "mergeable t (JObj ps) = mergeable_props t ps"
| "mergeable t (JArr ps) = mergeable_props t ps"
| "mergeable t (JStr s) = (s = '''' \<or> is_object t)"
| "mergeable t (JBool _) = True"
| "mergeable t (JNum _) = True"
| "mergeable t JNull = False"
| "mergeable t JUndefined = False"
| "mergeable_props t [] = True"
| "mergeable_props t ((k, v) # ps) =
     ((blocked_key k \<or> (is_object t \<and>
        (case map_of (props t) k of None \<Rightarrow> True | Some tv \<Rightarrow> is_object v \<longrightarrow> mergeable tv v)))
      \<and> mergeable_props t ps)"

fun plain :: "json \<Rightarrow> bool" and plain_props :: "(string \<times> json) list \<Rightarrow> bool" where
  "plain (JObj ps) = (distinct (map fst ps) \<and> plain_props ps)"
| "plain (JArr ps) = (distinct (map fst ps) \<and> plain_props ps)"
| "plain _ = True"
| "plain_props [] = True"
| "plain_props ((k, v) # ps) = (plain v \<and> plain_props ps)"

lemma mergeable_props_cong:
  "is_object t = is_object t' \<Longrightarrow> (\<And>k. k \<in> fst ` set ps \<Longrightarrow> map_of (props t) k = map_of (props t') k) \<Longrightarrow>
   mergeable_props t ps = mergeable_props t' ps"
  by (induction ps) auto

lemma assign_all_returns: "(\<exists>m. assign_all t ps = Inr m) \<longleftrightarrow> ps = [] \<or> is_object t"
proof (cases "is_object t")
  case True
  then have "\<exists>m. assign_all t ps = Inr m" by (induction t ps rule: assign_all.induct) auto
  with True show ?thesis by simp
next
  case False
  then show ?thesis by (cases ps) auto
qed

lemma mergeable_assign:
  "is_object t \<Longrightarrow> k \<notin> fst ` set ps \<Longrightarrow> mergeable_props (assign t k v) ps = mergeable_props t ps"
  by (rule mergeable_props_cong) (auto simp: lookup_assign)

lemma merge_returns:
  "plain s \<Longrightarrow> (\<exists>m. deepMerge t s = Inr m) \<longleftrightarrow> mergeable t s"
  "distinct (map fst ps) \<Longrightarrow> plain_props ps \<Longrightarrow> (\<exists>m. merge_props t ps = Inr m) \<longleftrightarrow> mergeable_props t ps"
proof (induction t s and t ps rule: deepMerge_merge_props.induct)
  case (3 t s)
  then show ?case by (simp add: assign_all_returns string_props_def enumerate_eq_zip)
next
  case (9 t k v ps)
  then have k: "k \<notin> fst ` set ps" by auto
  show ?case
  proof (cases "blocked_key k \<or> \<not> is_object t")
    case True
    with 9 show ?thesis by auto
  next
    case False
    then have f: "\<not> blocked_key k" "is_object t" by simp_all
    show ?thesis
    proof (cases "map_of (props t) k")
      case None
      with 9 f k show ?thesis by (simp add: mergeable_assign)
    next
      case (Some tv)
      show ?thesis
      proof (cases "is_object v")
        case True
        show ?thesis
        proof (cases "deepMerge tv v")
          case (Inl v')
          with 9 f k Some True show ?thesis by auto
        next
          case (Inr v')
          with 9 f k Some True show ?thesis by (auto simp: mergeable_assign)
        qed
      next
        case False
        with 9 f k Some show ?thesis by (simp add: mergeable_assign)
      qed
    qed
  qed
qed simp_all

text \<open>A merge with a JSON object whose keys are distinct at every level throws exactly when it meets a
  conflict at some depth: an object with something to merge where the target has a value that is no
  object.\<close>

theorem merge_throws_iff_conflict:
  assumes "plain source"
  shows "(\<exists>e. deepMerge target source = Inl e) \<longleftrightarrow> \<not> mergeable target source"
  using merge_returns(1) [OF assms, of target] by (cases "deepMerge target source") auto

end
