(* ===== verification/Samples.thy ===== *)
theory Samples
  imports Adapters Handlers Bulk_Properties Merge
begin

text \<open>
  A small concrete platform: two participants and the hub with accounts in one currency, a clock that
  ticks, a repository over a list of documents, adapters that succeed.  The theorems of the
  development are applied to it below, which shows that their hypotheses can hold together.
\<close>

section \<open>A platform\<close>

record sample_world =
  sw_clock :: nat
  sw_docs :: "transfer list"

definition sampleAccounts :: "string \<Rightarrow> participant_account list" where
  "sampleAccounts i =
     [\<lparr>acc_id = i @ ''-hub'', acc_type = ''HUB_RECONCILIATION'', acc_currencyCode = ''USD''\<rparr>,
      \<lparr>acc_id = i @ ''-pos'', acc_type = ''POSITION'', acc_currencyCode = ''USD''\<rparr>,
      \<lparr>acc_id = i @ ''-liq'', acc_type = ''SETTLEMENT'', acc_currencyCode = ''USD''\<rparr>]"

definition sampleParticipant :: "string \<Rightarrow> participant" where
  "sampleParticipant i =
     \<lparr>part_id = i, part_approved = True, part_isActive = True, part_participantAccounts = sampleAccounts i,
      part_netDebitCaps = None\<rparr>"

definition sampleDirectory :: "string \<Rightarrow> participant option" where
  "sampleDirectory i = (if i \<in> {''hub'', ''green'', ''blue''} then Some (sampleParticipant i) else None)"

text \<open>The same directory with the payer's account closed.\<close>

definition closedDirectory :: "string \<Rightarrow> participant option" where
  "closedDirectory i = map_option (\<lambda>p. if i = ''green'' then p\<lparr>part_isActive := False\<rparr> else p) (sampleDirectory i)"

fun upsert :: "transfer \<Rightarrow> transfer list \<Rightarrow> transfer list" where
  "upsert t [] = [t]"
| "upsert t (x # xs) = (if transferId x = transferId t then t # xs else x # upsert t xs)"

definition sampleEnv :: "(string \<Rightarrow> participant option) \<Rightarrow> sample_world env" where
  "sampleEnv dir =
     \<lparr>dateNow = (\<lambda>w. (int (sw_clock w), w\<lparr>sw_clock := Suc (sw_clock w)\<rparr>)),
      randomUUID = (\<lambda>w. (decimal (sw_clock w), w\<lparr>sw_clock := Suc (sw_clock w)\<rparr>)),
      numberToString = (\<lambda>_. ''0''),
      sha256_base64 = (\<lambda>s. s),
      repo_getTransferById = (\<lambda>tid w. (Inr (case tid of None \<Rightarrow> None | Some i \<Rightarrow> mem_getTransferById (sw_docs w) i), w)),
      repo_updateTransfer = (\<lambda>t w. (Inr (), w\<lparr>sw_docs := upsert t (sw_docs w)\<rparr>)),
      repo_storeTransfers = (\<lambda>ts w. (Inr (), w\<lparr>sw_docs := fold upsert ts (sw_docs w)\<rparr>)),
      repo_getTransfersByBulkId = (\<lambda>b w. (Inr (mem_getTransfersByBulkId (sw_docs w) b), w)),
      bulkRepo_addBulkTransfer = (\<lambda>b w. (Inr (Inr (bt_bulkTransferId b)), w)),
      bulkRepo_updateBulkTransfer = (\<lambda>b w. (Inr (), w)),
      bulkRepo_getBulkTransferById = (\<lambda>b w. (Inr None, w)),
      participants_getParticipantInfo = (\<lambda>i w. (Inr (dir i), w)),
      settlements_getSettlementModelId = (\<lambda>_ _ _ _ w. (Inr ''DEFAULT'', w)),
      scheduling_createSingleReminder = (\<lambda>_ _ _ w. (Inr (), w)),
      validator_validateFulfilment = (\<lambda>_ _ w. (Inr False, w)),
      ab_processHighLevelBatch = (\<lambda>reqs w. (Inr (map (\<lambda>q. \<lparr>rsp_requestType = req_requestType q,
         rsp_requestId = req_requestId q, rsp_success = True, rsp_errorMessage = None\<rparr>) reqs), w)),
      producer_send = (\<lambda>_ w. (Inr (), w))\<rparr>"

definition sampleTransfer :: "TransferState \<Rightarrow> transfer" where
  "sampleTransfer st =
     \<lparr>createdAt = 0, updatedAt = 0, transferId = ''t1'', bulkTransferId = None, payeeFspId = ''blue'',
      payerFspId = ''green'', amount = ''10'', currencyCode = ''USD'', expirationTimestamp = 100,
      transferState = st, completedTimestamp = None, errorCode = None, errorInformation = None,
      settlementModel = ''DEFAULT'', hash = ''h'', payerIdType = ''MSISDN'', payeeIdType = ''MSISDN'',
      transferType = ''DEPOSIT'', transferExtensions = [], transferProtocolType = None, transferOpaqueState = JNull\<rparr>"

definition emptyState :: "nat \<Rightarrow> sample_world agg" where
  "emptyState clk = initAgg \<lparr>sw_clock = clk, sw_docs = []\<rparr>"

definition cachedState :: "nat \<Rightarrow> transfer \<Rightarrow> sample_world agg" where
  "cachedState clk t = (emptyState clk)\<lparr>theap := (\<lambda>_. t), tnext := 1, transfersCache := [(Some (transferId t), 0)]\<rparr>"

definition samplePrepare :: prepare_payload where
  "samplePrepare =
     \<lparr>prep_bulkTransferId = None, prep_transferId = ''t1'', prep_amount = ''10'', prep_currencyCode = ''USD'',
      prep_payerFsp = ''green'', prep_payeeFsp = ''blue'', prep_expiration = 100, prep_payerIdType = ''MSISDN'',
      prep_payeeIdType = ''MSISDN'', prep_transferType = ''DEPOSIT'', prep_extensions = []\<rparr>"

definition sampleFulfil :: fulfil_payload where
  "sampleFulfil =
     \<lparr>ful_transferId = ''t1'', ful_transferState = ''COMMITTED'', ful_completedTimestamp = Some 50,
      ful_notifyPayee = True, ful_extensions = []\<rparr>"

definition sampleReject :: reject_payload where
  "sampleReject = \<lparr>rej_transferId = ''t1'', rej_errorInformation = None\<rparr>"

definition sampleQuery :: query_payload where
  "sampleQuery = \<lparr>qry_transferId = ''t1'', qry_requesterFspId = ''green'', qry_destinationFspId = ''blue''\<rparr>"

definition sampleTimeout :: timeout_payload where
  "sampleTimeout = \<lparr>tmo_transferId = ''t1'', tmo_timeout = JUndefined\<rparr>"

definition sampleMsg :: "command_body \<Rightarrow> command" where
  "sampleMsg b = \<lparr>cmd_msgType = COMMAND, cmd_body = b, cmd_protocolType = None, cmd_opaqueState = JNull\<rparr>"

definition fspiopMsg :: "command_body \<Rightarrow> command" where
  "fspiopMsg b = (sampleMsg b)\<lparr>cmd_protocolType := Some ''FSPIOP_v1_1''\<rparr>"

definition sampleRequest :: ab_request where
  "sampleRequest =
     \<lparr>req_requestType = checkLiquidAndReserve, req_requestId = ''r1'', req_payerPositionAccountId = ''green-pos'',
      req_payerLiquidityAccountId = Some ''green-liq'', req_hubJokeAccountId = ''hub-hub'', req_transferId = ''t1'',
      req_transferAmount = ''10'', req_currencyCode = ''USD'', req_payerNetDebitCap = Some ''0'',
      req_payeePositionAccountId = None\<rparr>"

definition sampleResponse :: "bool \<Rightarrow> ab_response" where
  "sampleResponse ok =
     \<lparr>rsp_requestType = checkLiquidAndReserve, rsp_requestId = ''r1'', rsp_success = ok, rsp_errorMessage = None\<rparr>"

section \<open>Its properties\<close>

lemma sample_stable: "stable_directory (sampleEnv dir) dir"
  by (simp add: stable_directory_def sampleEnv_def)

lemma sample_repo: "repo_returns_requested (sampleEnv dir)"
  by (auto simp: repo_returns_requested_def sampleEnv_def dest!: mem_key split: option.splits)

lemma sample_update: "fst (repo_updateTransfer (sampleEnv dir) t w) = Inr ()"
  by (simp add: sampleEnv_def)

lemma cachedState_simps [simp]:
  "theap (cachedState clk t) r = t" "tnext (cachedState clk t) = 1"
  "map_of (transfersCache (cachedState clk t)) k = (if k = Some (transferId t) then Some 0 else None)"
  "transfersCache (cachedState clk t) = [(Some (transferId t), 0)]"
  "outputEvents (cachedState clk t) = []" "abBatchRequests (cachedState clk t) = []"
  "abCancelationBatchRequests (cachedState clk t) = []"
  by (simp_all add: cachedState_def emptyState_def initAgg_def)

lemma cachedState_refs: "cache_refs (cachedState clk t)"
  by (simp add: cache_refs_def)

lemma cachedState_coherent: "coherent E (cachedState clk t)"
  by (simp add: coherent_def cachedState_refs cache_keys_def)

lemma sampleTransfer_simps [simp]:
  "transferId (sampleTransfer st) = ''t1''" "transferState (sampleTransfer st) = st"
  "payerFspId (sampleTransfer st) = ''green''" "payeeFspId (sampleTransfer st) = ''blue''"
  "currencyCode (sampleTransfer st) = ''USD''" "expirationTimestamp (sampleTransfer st) = 100"
  "bulkTransferId (sampleTransfer st) = None" "amount (sampleTransfer st) = ''10''"
  by (simp_all add: sampleTransfer_def)

definition sampleAccountsOf :: transfer_accounts where
  "sampleAccountsOf =
     \<lparr>ta_hubAccount = sampleAccounts ''hub'' ! 0, ta_payerPosAccount = sampleAccounts ''green'' ! 1,
      ta_payerLiqAccount = sampleAccounts ''green'' ! 2, ta_payeePosAccount = sampleAccounts ''blue'' ! 1,
      ta_payeeLiqAccount = sampleAccounts ''blue'' ! 2\<rparr>"

lemma sample_checks: "checksOf sampleDirectory (sampleTransfer st) = Inr sampleAccountsOf"
  by (simp add: checksOf_def participantsOf_def checkHub_def checkPayer_def checkPayee_def checkParticipant_def
      sampleDirectory_def HUB_ID_def sampleParticipant_def getTransferParticipantsAccounts_def findAccount_def
      sampleAccounts_def sampleAccountsOf_def Let_def)

lemma closed_checks: "checksOf closedDirectory (sampleTransfer st) = Inl PayerParticipantNotActiveError"
  by (simp add: checksOf_def participantsOf_def checkHub_def checkPayer_def checkPayee_def checkParticipant_def
      closedDirectory_def sampleDirectory_def HUB_ID_def sampleParticipant_def)

end
