(* ===== verification/Witnesses.thy ===== *)
theory Witnesses
  imports Samples
begin

text \<open>
  Every theorem with hypotheses, applied to the sample platform: each lemma below uses one theorem of the
  development at concrete values at which its hypotheses hold.
\<close>

abbreviation E0 :: "sample_world env" where "E0 \<equiv> sampleEnv sampleDirectory"
abbreviation prepareMsg :: command where "prepareMsg \<equiv> sampleMsg (PrepareTransferCmd samplePrepare)"
abbreviation fulfilMsg :: command where "fulfilMsg \<equiv> sampleMsg (CommitTransferFulfilCmd sampleFulfil)"
abbreviation rejectMsg :: command where "rejectMsg \<equiv> sampleMsg (RejectTransferCmd sampleReject)"
abbreviation queryMsg :: command where "queryMsg \<equiv> sampleMsg (QueryTransferCmd sampleQuery)"
abbreviation timeoutMsg :: command where "timeoutMsg \<equiv> sampleMsg (TimeoutTransferCmd sampleTimeout)"

lemmas payload_defs = samplePrepare_def sampleFulfil_def sampleReject_def sampleQuery_def sampleTimeout_def

section \<open>Participants and accounts\<close>

lemma getParticipantsInfo_gate_witness:
  "\<exists>w. snd (getParticipantsInfo E0 ''green'' ''blue'' (emptyState 1)) = (emptyState 1)\<lparr>world := w\<rparr>"
  using getParticipantsInfo_gate [OF surjective_pairing, of E0 "''green''" "''blue''" "emptyState 1"] by blast

lemma getParticipantsInfo_first_violation_witness:
  "(case fst (getParticipantsInfo (sampleEnv closedDirectory) ''green'' ''blue'' (emptyState 1)) of
      Inr _ \<Rightarrow> None
    | Inl e \<Rightarrow> map_option snd (participantsFailure ''t1'' ''green'' ''blue'' e)) = Some PAYER_PARTICIPANT_NOT_ACTIVE"
proof -
  have "map_option snd (find fst (violations closedDirectory ''green'' ''blue'')) = Some PAYER_PARTICIPANT_NOT_ACTIVE"
    by (simp add: violations_def closedDirectory_def sampleDirectory_def sampleParticipant_def HUB_ID_def)
  with getParticipantsInfo_first_violation [OF sample_stable [of closedDirectory], where payer = "''green''" and
      payee = "''blue''" and tid = "''t1''" and s = "emptyState 1"]
  show ?thesis by (simp only:)
qed

section \<open>Cancelling\<close>

lemma sample_directory_checks:
  "participantsOf sampleDirectory ''green'' ''blue'' =
     Inr \<lparr>tp_hub = sampleParticipant ''hub'', tp_payer = sampleParticipant ''green'', tp_payee = sampleParticipant ''blue''\<rparr>"
  by (simp add: participantsOf_def checkHub_def checkPayer_def checkPayee_def checkParticipant_def
      sampleDirectory_def HUB_ID_def sampleParticipant_def)

lemma sample_cancel:
  "\<exists>s'. cancelTransfer E0 (Some ''t1'') TRANSFER_EXPIRED (cachedState 1 (sampleTransfer RESERVED)) = (Inr (), s')"
proof -
  let ?s = "cachedState 1 (sampleTransfer RESERVED)"
  obtain w where w: "getParticipantsInfo E0 ''green'' ''blue'' ?s =
      (participantsOf sampleDirectory ''green'' ''blue'', ?s\<lparr>world := w\<rparr>)"
    using getParticipantsInfo_stable [OF sample_stable, of sampleDirectory "''green''" "''blue''" ?s] by blast
  have "getTransferParticipantsAccounts \<lparr>tp_hub = sampleParticipant ''hub'', tp_payer = sampleParticipant ''green'',
      tp_payee = sampleParticipant ''blue''\<rparr> (sampleTransfer RESERVED) = Inr sampleAccountsOf"
    using sample_checks [of RESERVED] by (simp add: checksOf_def sample_directory_checks)
  with w show ?thesis
    by (simp add: cancelTransfer_def cancelTransferBody_def run_simps getTransfer_cached primitive_defs lift_sum_def
        sample_directory_checks pushCancelation_def sampleEnv_def)
qed

lemma cancelTransfer_success_witness:
  "\<exists>s' r. cancelTransfer E0 (Some ''t1'') TRANSFER_EXPIRED (cachedState 1 (sampleTransfer RESERVED)) = (Inr (), s') \<and>
     transferState (theap s' r) = ABORTED"
  using sample_cancel cancelTransfer_success [of E0 "Some ''t1''" TRANSFER_EXPIRED "cachedState 1 (sampleTransfer RESERVED)"]
  by blast

section \<open>Prepare\<close>

lemma prepare_answers_once_witness:
  "fst (prepareTransferStart E0 prepareMsg samplePrepare (emptyState 1)) = Inr ()"
  using prepare_answers_once [OF surjective_pairing, of E0 prepareMsg samplePrepare "emptyState 1"] by blast

lemma prepare_duplicate_witness:
  "prepareTransferStart E0 prepareMsg samplePrepare (cachedState 1 (sampleTransfer RESERVED))
     = (Inr (), cachedState 1 (sampleTransfer RESERVED))"
proof -
  let ?s = "cachedState 1 (sampleTransfer RESERVED)"
  have "map_of (transfersCache ?s) (Some (prep_transferId samplePrepare)) = Some 0"
    by (simp add: payload_defs)
  from prepare_duplicate [OF this refl, of E0 prepareMsg] show ?thesis by simp
qed


lemma prepareContinue_outcome_witness:
  "transfersCache (snd (prepareTransferContinue E0 (sampleResponse True) sampleRequest prepareMsg (Some 0)
      (cachedState 1 (sampleTransfer RECEIVED)))) = [(Some ''t1'', 0)]"
  using prepareContinue_outcome [OF surjective_pairing refl, of E0 "sampleResponse True" sampleRequest prepareMsg 0
      "cachedState 1 (sampleTransfer RECEIVED)"]
  by simp

section \<open>Fulfil\<close>

lemma cached_fulfil: "map_of (transfersCache (cachedState 1 (sampleTransfer st))) (Some (ful_transferId sampleFulfil)) = Some 0"
  by (simp add: payload_defs)

lemma fulfil_answers_once_witness:
  "\<exists>cs. abCancelationBatchRequests (snd (fulfilTransferStart E0 fulfilMsg sampleFulfil
      (cachedState 1 (sampleTransfer RESERVED)))) = cs \<and> length cs \<le> 1"
  using fulfil_answers_once [OF surjective_pairing, of E0 fulfilMsg sampleFulfil "cachedState 1 (sampleTransfer RESERVED)"]
  by auto



lemma fulfilMsg_plain: "cmd_protocolType fulfilMsg \<noteq> Some ''FSPIOP_v1_1''" "\<not> json_truthy (cmd_opaqueState fulfilMsg)"
  by (simp_all add: sampleMsg_def)

lemma fulfil_requests_any_state_witness:
  "\<exists>u. abBatchRequests (snd (fulfilTransferStart E0 fulfilMsg sampleFulfil (cachedState 1 (sampleTransfer COMMITTED))))
      = [commitRequest (sampleTransfer COMMITTED) sampleAccountsOf u]"
proof -
  have "checksOf sampleDirectory (theap (cachedState 1 (sampleTransfer COMMITTED)) 0) = Inr sampleAccountsOf"
    by (simp add: sample_checks)
  from fulfil_requests_any_state [OF sample_stable cached_fulfil this fulfilMsg_plain surjective_pairing]
  show ?thesis by simp
qed


lemma fulfilContinue_success_witness:
  "transfersCache (snd (fulfilTransferContinue E0 (sampleResponse True) sampleRequest fulfilMsg (Some 0)
      (cachedState 1 (sampleTransfer RESERVED)))) = [(Some ''t1'', 0)]"
proof -
  have "rsp_success (sampleResponse True)" by (simp add: sampleResponse_def)
  from fulfilContinue_success [OF surjective_pairing this refl, of E0 sampleRequest fulfilMsg 0
      "cachedState 1 (sampleTransfer RESERVED)"]
  show ?thesis by simp
qed


section \<open>Reject, query and timeout\<close>

lemma reject_aborts_any_state_witness:
  "transferState (theap (snd (rejectTransfer E0 rejectMsg sampleReject (cachedState 1 (sampleTransfer COMMITTED)))) 0) = ABORTED"
proof -
  let ?s = "cachedState 1 (sampleTransfer COMMITTED)"
  have "map_of (transfersCache ?s) (Some (rej_transferId sampleReject)) = Some 0"
    and "checksOf sampleDirectory (theap ?s 0) = Inr sampleAccountsOf"
    by (simp_all add: payload_defs sample_checks)
  from reject_aborts_any_state [OF sample_stable this sample_update surjective_pairing] show ?thesis by blast
qed

lemma query_answer_witness:
  "\<exists>ev. outputEvents (snd (queryTransfer E0 queryMsg sampleQuery (emptyState 1))) = [tagged queryMsg ev]"
proof -
  have "outputEvents (emptyState 1) = []" by (simp add: emptyState_def initAgg_def)
  with query_answer [OF sample_stable surjective_pairing, of sampleDirectory queryMsg sampleQuery "emptyState 1"]
  show ?thesis by auto
qed

lemma timeout_received_witness:
  "outputEvents (snd (timeoutTransfer E0 timeoutMsg sampleTimeout (cachedState 1 (sampleTransfer RECEIVED)))) =
     [tagged timeoutMsg (TransferPrepareRequestTimedoutEvt ''t1'' ''green'' TRANSFER_EXPIRED)]"
proof -
  let ?s = "cachedState 1 (sampleTransfer RECEIVED)"
  have "map_of (transfersCache ?s) (Some (tmo_transferId sampleTimeout)) = Some 0"
    and "transferState (theap ?s 0) = RECEIVED" and "date_getTime (expirationTimestamp (theap ?s 0)) = Some 100"
    and "dateNow E0 (world ?s) = (1, \<lparr>sw_clock = 2, sw_docs = []\<rparr>)"
    by (simp_all add: payload_defs date_getTime_def sampleEnv_def cachedState_def emptyState_def initAgg_def)
  from timeout_received [OF this(1) refl this(2-4) sample_update surjective_pairing]
  show ?thesis by simp
qed

lemma timeout_reserved_witness:
  "transferState (theap (snd (timeoutTransfer E0 timeoutMsg sampleTimeout (cachedState 200 (sampleTransfer RESERVED)))) 0) = ABORTED"
proof -
  let ?s = "cachedState 200 (sampleTransfer RESERVED)"
  have "map_of (transfersCache ?s) (Some (tmo_transferId sampleTimeout)) = Some 0"
    and "transferState (theap ?s 0) = RESERVED" and "date_getTime (expirationTimestamp (theap ?s 0)) = Some 100"
    and "checksOf sampleDirectory (theap ?s 0) = Inr sampleAccountsOf"
    and "dateNow E0 (world ?s) = (200, \<lparr>sw_clock = 201, sw_docs = []\<rparr>)"
    by (simp_all add: payload_defs date_getTime_def sampleEnv_def cachedState_def emptyState_def initAgg_def sample_checks)
  from timeout_reserved [OF sample_stable this(1) refl this(2-5) sample_update surjective_pairing]
  show ?thesis by simp
qed

section \<open>Batches\<close>

lemma batch_keeps_cache_coherent_witness:
  "coherent E0 (snd (processCommandBatch E0 [prepareMsg, fulfilMsg] (cachedState 1 (sampleTransfer RECEIVED))))"
  by (rule batch_keeps_cache_coherent [OF cachedState_coherent])

lemma batch_preserves_terms_witness:
  "terms (theap (snd (processCommandBatch E0 [fulfilMsg, rejectMsg] (cachedState 1 (sampleTransfer RESERVED)))) 0)
     = terms (sampleTransfer RESERVED)"
  using batch_preserves_terms [OF cachedState_refs, of 0 1 "sampleTransfer RESERVED" E0 "[fulfilMsg, rejectMsg]"] by simp

lemma commands_only_abort_witness:
  "transferState (theap (snd (runCommands E0 [fulfilMsg] (cachedState 1 (sampleTransfer RESERVED)))) 0) \<noteq> COMMITTED"
  using commands_only_abort [OF cachedState_refs, of 0 1 "sampleTransfer RESERVED", OF _ refl, of E0 "[fulfilMsg]"] by auto

lemma batch_never_back_to_received_witness:
  "transferState (theap (snd (processCommandBatch E0 [fulfilMsg] (cachedState 1 (sampleTransfer RESERVED)))) 0) \<noteq> RECEIVED"
  using batch_never_back_to_received [OF cachedState_refs, of 0 1 "sampleTransfer RESERVED" E0 "[fulfilMsg]"] by simp

lemma batch_stops_at_invalid_command_witness:
  "fst (processCommandBatch E0 [prepareMsg, sampleMsg (NoPayloadCmd ''x''), fulfilMsg] (emptyState 1)) \<noteq> Resolved"
proof -
  have "invalid_command (sampleMsg (NoPayloadCmd ''x''))" by (simp add: invalid_command_def sampleMsg_def)
  from batch_stops_at_invalid_command [OF this, of E0 "[prepareMsg]" "[fulfilMsg]" "emptyState 1"] show ?thesis by simp
qed

lemma sample_duplicate_batch:
  "\<exists>s'. processCommandBatch E0 [prepareMsg] (cachedState 1 (sampleTransfer RESERVED)) = (Resolved, s')"
proof -
  let ?s = "(resetBatch (cachedState 1 (sampleTransfer RESERVED)))\<lparr>batchCommands := registerCommand prepareMsg []\<rparr>"
  have "prepareTransferStart E0 prepareMsg samplePrepare ?s = (Inr (), ?s)"
    by (simp add: prepareTransferStart_def prepareExisting_def run_simps getTransfer_cached getT_def payload_defs resetBatch_def)
  then have "processCommand E0 prepareMsg (resetBatch (cachedState 1 (sampleTransfer RESERVED))) = (Inr (), ?s)"
    using rememberCommand_run [of prepareMsg "resetBatch (cachedState 1 (sampleTransfer RESERVED))"]
    by (simp add: processCommand_def ensureValidMessage_def dispatchCommand_def run_simps sampleMsg_def resetBatch_def)
  then show ?thesis
    by (simp add: processCommandBatch_def batchBody_def runCommands_def runRequests_def runCancelations_def
        batchFinally_def flush_def run_simps call_def sampleMsg_def resetBatch_def sampleEnv_def)
qed

lemma batch_resolved_witness:
  "\<exists>s'. processCommandBatch E0 [prepareMsg] (cachedState 1 (sampleTransfer RESERVED)) = (Resolved, s') \<and>
     transfersCache s' = []"
  using sample_duplicate_batch batch_resolved [of E0 "[prepareMsg]" "cachedState 1 (sampleTransfer RESERVED)"] by blast

definition refusingEnv :: "sample_world env" where
  "refusingEnv = E0\<lparr>repo_storeTransfers := (\<lambda>_ w. (Inl (OtherError ''refused''), w))\<rparr>"

lemma batch_flush_failure_witness:
  "fst (processCommandBatch refusingEnv [] (cachedState 1 (sampleTransfer RESERVED))) = Pending"
proof -
  let ?s1 = "resetBatch (cachedState 1 (sampleTransfer RESERVED))"
  have "batchBody refusingEnv [] ?s1 = (Inr (), ?s1)"
    by (simp add: batchBody_def runCommands_def runRequests_def runCancelations_def run_simps resetBatch_def)
  moreover have "transfersCache ?s1 \<noteq> []" by (simp add: resetBatch_def)
  moreover have "repo_storeTransfers refusingEnv (map (\<lambda>(_, r). theap ?s1 r) (transfersCache ?s1)) (world ?s1)
      = (Inl (OtherError ''refused''), world ?s1)"
    by (simp add: refusingEnv_def)
  ultimately have "processCommandBatch refusingEnv [] (cachedState 1 (sampleTransfer RESERVED)) =
      (Pending, ?s1\<lparr>world := world ?s1, unhandled := unhandled ?s1 @ [OtherError ''refused'']\<rparr>)"
    by (rule batch_flush_failure)
  then show ?thesis by simp
qed

lemma last_command_wins_witness:
  "\<exists>s'. runCommands E0 [prepareMsg] (cachedState 1 (sampleTransfer RESERVED)) = (Inr (), s') \<and>
     map_of (batchCommands s') (Some ''t1'') = Some prepareMsg"
proof -
  let ?s = "cachedState 1 (sampleTransfer RESERVED)"
  let ?s' = "?s\<lparr>batchCommands := registerCommand prepareMsg (batchCommands ?s)\<rparr>"
  have "prepareTransferStart E0 prepareMsg samplePrepare ?s' = (Inr (), ?s')"
    by (simp add: prepareTransferStart_def prepareExisting_def run_simps getTransfer_cached getT_def payload_defs)
  then have run: "runCommands E0 [prepareMsg] ?s = (Inr (), ?s')"
    using rememberCommand_run [of prepareMsg ?s]
    by (simp add: runCommands_def processCommand_def ensureValidMessage_def dispatchCommand_def run_simps sampleMsg_def)
  have "Some ''t1'' \<in> set (registers prepareMsg)"
    by (simp add: registers_def sampleMsg_def payload_defs)
  with run last_command_wins [OF run, of "Some ''t1''"] show ?thesis
    by (simp add: sampleMsg_def)
qed


section \<open>Bulk transfers\<close>

definition sampleBulk :: prepare_bulk_payload where
  "sampleBulk =
     \<lparr>bprep_bulkTransferId = ''b1'', bprep_bulkQuoteId = ''q1'', bprep_payeeFsp = ''blue'', bprep_payerFsp = ''green'',
      bprep_individualTransfers = [\<lparr>it_transferId = ''t1'', it_currency = ''USD'', it_amount = ''10'',
         it_payerIdType = ''MSISDN'', it_payeeIdType = ''MSISDN'', it_transferType = ''DEPOSIT'', it_extensions = []\<rparr>],
      bprep_expiration = 100, bprep_extensions = []\<rparr>"

abbreviation bulkMsg :: command where "bulkMsg \<equiv> sampleMsg (PrepareBulkTransferCmd sampleBulk)"

definition bulkState :: "sample_world agg" where
  "bulkState = (cachedState 1 ((sampleTransfer RECEIVED)\<lparr>bulkTransferId := Some ''b1''\<rparr>))
     \<lparr>bheap := (\<lambda>_. newBulkOf bulkMsg sampleBulk 0), bnext := 1, bulkTransfersCache := [(Some ''b1'', 0)]\<rparr>"

lemma bulk_prepare_items_witness:
  "\<exists>es qs. outputEvents (snd (prepareBulkTransferStart E0 bulkMsg sampleBulk (emptyState 1))) = es \<and>
     abBatchRequests (snd (prepareBulkTransferStart E0 bulkMsg sampleBulk (emptyState 1))) = qs \<and>
     length es + length qs \<le> 1"
proof -
  have "outputEvents (emptyState 1) = []" "abBatchRequests (emptyState 1) = []"
    by (simp_all add: emptyState_def initAgg_def)
  with bulk_prepare_items [OF surjective_pairing, of E0 bulkMsg sampleBulk "emptyState 1"] show ?thesis
    by (auto simp: sampleBulk_def)
qed

lemma bulk_prepare_counts_items_witness:
  "bt_status (bheap (snd (prepareBulkTransferContinue E0 (sampleResponse True) sampleRequest bulkMsg (Some 0) bulkState)) 0)
     = BULK_PENDING"
proof -
  have "map_of (bulkTransfersCache bulkState) (bulkTransferId (theap bulkState 0)) = Some 0"
    by (simp add: bulkState_def)
  from bulk_prepare_counts_items [OF this refl surjective_pairing, of E0 "sampleResponse True" sampleRequest bulkMsg]
  show ?thesis by (simp add: bulkState_def newBulkOf_def sampleBulk_def)
qed

lemma bulk_fulfil_counts_items_witness:
  "bt_status (bheap (snd (fulfilBulkTransferContinue E0 (sampleResponse False) sampleRequest fulfilMsg (Some 0) bulkState)) 0)
     = BULK_COMPLETED"
proof -
  have "map_of (bulkTransfersCache bulkState) (bulkTransferId (theap bulkState 0)) = Some 0"
    by (simp add: bulkState_def)
  moreover have "fst (bulkRepo_updateBulkTransfer E0 b w) = Inr ()" for b w by (simp add: sampleEnv_def)
  ultimately show ?thesis
    using bulk_fulfil_counts_items [OF _ refl _ refl surjective_pairing, of bulkState 0 0 E0 "sampleResponse False"
        sampleRequest fulfilMsg]
    by (simp add: bulkState_def newBulkOf_def sampleBulk_def)
qed

section \<open>Repositories and adapters\<close>

text \<open>A collection over the sample documents that counts as the driver does.\<close>

definition sampleCollection :: "sample_world collection" where
  "sampleCollection =
     \<lparr>coll_findOne = (\<lambda>tid w. (Inr (case tid of None \<Rightarrow> None | Some i \<Rightarrow> mem_getTransferById (sw_docs w) i), w)),
      coll_findByBulk = (\<lambda>b w. (Inr (mem_getTransfersByBulkId (sw_docs w) b), w)),
      coll_insertOne = (\<lambda>t w. (Inr (), w\<lparr>sw_docs := sw_docs w @ [t]\<rparr>)),
      coll_deleteOne = (\<lambda>i w. (Inr (if mem_getTransferById (sw_docs w) i = None then 0 else 1),
         w\<lparr>sw_docs := filter (\<lambda>t. transferId t \<noteq> i) (sw_docs w)\<rparr>)),
      coll_updateOne = (\<lambda>i t w. (Inr (), w\<lparr>sw_docs := upsert t (sw_docs w)\<rparr>)),
      coll_bulkWrite = (\<lambda>ts w.
         (Inr (length (filter (\<lambda>t. mem_getTransferById (sw_docs w) (transferId t) = None) ts),
               length (filter (\<lambda>t. mem_getTransferById (sw_docs w) (transferId t) \<notin> {None, Some t}) ts)),
          w\<lparr>sw_docs := fold upsert ts (sw_docs w)\<rparr>))\<rparr>"

lemma sample_counts: "counts_changes sampleCollection (\<lambda>w. mem_getTransferById (sw_docs w))"
  by (simp add: counts_changes_def sampleCollection_def)

definition sampleBulkCollection :: "sample_world bulk_collection" where
  "sampleBulkCollection =
     \<lparr>bcoll_findOne = (\<lambda>_ w. (Inr None, w)), bcoll_find = (\<lambda>w. (Inr [], w)),
      bcoll_insertOne = (\<lambda>_ w. (Inr (), w)), bcoll_updateOne = (\<lambda>_ _ w. (Inr (), w))\<rparr>"

text \<open>Clients that are all down: every call rejects.\<close>

definition downClients :: "sample_world clients" where
  "downClients =
     \<lparr>cl_getParticipantById = (\<lambda>_. raise TypeError), cl_getParticipantsByIds = (\<lambda>_. raise TypeError),
      cl_getSettlementModelId = (\<lambda>_ _ _ _. raise TypeError), cl_defaultSettlementModelId = ''DEFAULT'',
      cl_createReminder = (\<lambda>_. raise TypeError), cl_createSingleReminder = (\<lambda>_. raise TypeError),
      cl_getReminder = (\<lambda>_. raise TypeError), cl_deleteReminder = (\<lambda>_. raise TypeError),
      cl_validateFulfilment = (\<lambda>_ _. raise TypeError), cl_createAccounts = (\<lambda>_. raise TypeError),
      cl_createJournalEntries = (\<lambda>_. raise TypeError),
      cl_getAccountsByIds = (\<lambda>_. raise TypeError), cl_getAccountsByOwnerId = (\<lambda>_. raise TypeError),
      cl_processHighLevelBatch = (\<lambda>_. raise TypeError)\<rparr>"

lemma storeTransfers_fails_on_unchanged_witness:
  "fst (mongo_storeTransfers sampleCollection [sampleTransfer RESERVED]
      \<lparr>sw_clock = 1, sw_docs = [sampleTransfer RESERVED]\<rparr>) = Inl (OtherError ''UnableToBulkInsertTransfersError'')"
  by (subst storeTransfers_fails_on_unchanged [OF sample_counts]) (simp_all add: mem_getTransferById_def)


lemma deployed_prepare_answered_witness:
  "length (outputEvents (snd (prepareTransferStart
       (deployedEnv E0 sampleCollection sampleBulkCollection downClients) prepareMsg samplePrepare (emptyState 1)))) +
   length (abBatchRequests (snd (prepareTransferStart
       (deployedEnv E0 sampleCollection sampleBulkCollection downClients) prepareMsg samplePrepare (emptyState 1)))) = 1"
proof -
  have "map_of (transfersCache (emptyState 1)) (Some (prep_transferId samplePrepare)) = None"
    and "fst (coll_findOne sampleCollection (Some (prep_transferId samplePrepare)) (world (emptyState 1))) = Inr None"
    and empty: "outputEvents (emptyState 1) = []" "abBatchRequests (emptyState 1) = []"
    by (simp_all add: emptyState_def initAgg_def sampleCollection_def mem_getTransferById_def)
  from deployed_prepare_answered [OF this(1,2) surjective_pairing, of E0 sampleBulkCollection downClients prepareMsg] empty
  show ?thesis by fastforce
qed

section \<open>The event handler\<close>

definition sampleInbound :: inbound where
  "sampleInbound = \<lparr>in_msgType = DOMAIN_EVENT, in_body = TransferRejectRequestedEvt sampleReject,
     in_protocolType = Some ''FSPIOP_v1_1'', in_opaqueState = JNull\<rparr>"

lemma published_commands_valid_witness:
  "ensureValidMessage (inboundCommand sampleInbound (prepareEventToRejectCommand sampleReject)) (emptyState 1)
     = (Inr (), emptyState 1)"
proof -
  have "commandsOfBatch [sampleInbound] = Inr [inboundCommand sampleInbound (prepareEventToRejectCommand sampleReject)]"
    by (simp add: sampleInbound_def getCmdFromEvent_def observeDurations_def)
  from published_commands_valid [OF this, of _ "emptyState 1"] show ?thesis by simp
qed

section \<open>The merge\<close>

lemma merge_guards_prototype_witness:
  "map_of (props (merged (deepMerge (JObj [(''a'', JNull)]) (JObj [(''__proto__'', JBool True)])))) ''__proto__'' = None"
  by (subst merge_guards_prototype) (simp_all add: blocked_key_def)

lemma merge_value_witness:
  "\<exists>m. deepMerge (JObj [(''a'', JNum 1)]) (JObj [(''a'', JNum 2)]) = Inr m \<and> map_of (props m) ''a'' = Some (JNum 2)"
proof -
  have run: "deepMerge (JObj [(''a'', JNum 1)]) (JObj [(''a'', JNum 2)]) = Inr (JObj [(''a'', JNum 2)])"
    by (simp add: blocked_key_def assign_def)
  from merge_value [OF run, of "''a''" "JNum 2"] run show ?thesis by (simp add: blocked_key_def)
qed

lemma merge_throws_iff_conflict_witness:
  "\<exists>e. deepMerge (JObj [(''a'', JNum 1)]) (JObj [(''a'', JObj [(''b'', JNull)])]) = Inl e"
  by (subst merge_throws_iff_conflict) (simp_all add: blocked_key_def)

end
