(* ===== verification/Commit_Safety.thy ===== *)
theory Commit_Safety
  imports Invariants Frames
begin

text \<open>
  No transfer is reserved or committed without being asked: a batch moves a transfer to \<open>RESERVED\<close> only
  for a prepare, and to \<open>COMMITTED\<close> only for a fulfil, of that transfer in the same batch, and only on a
  successful answer of Accounts & Balances.  The argument
  follows the two phases of a batch.  While the commands run, every request queued for Accounts &
  Balances names a transfer that a command of the batch names (\<open>justified\<close>); while the responses are
  processed, the requests stay as they are, and the only transfer a handler grants is the one of the
  request it continues (\<open>lawful\<close>).
\<close>

section \<open>What a command asks for\<close>

text \<open>The state that a successful request of a type leads to.\<close>

fun grants :: "ab_request_type \<Rightarrow> TransferState option" where
  "grants checkLiquidAndReserve = Some RESERVED"
| "grants cancelReservationAndCommit = Some COMMITTED"
| "grants _ = None"

text \<open>The transfers a command asks to reserve or to commit.\<close>

fun asks :: "command_body \<Rightarrow> ab_request_type \<Rightarrow> string list" where
  "asks (PrepareTransferCmd p) checkLiquidAndReserve = [prep_transferId p]"
| "asks (PrepareBulkTransferCmd p) checkLiquidAndReserve = map it_transferId (bprep_individualTransfers p)"
| "asks (CommitTransferFulfilCmd p) cancelReservationAndCommit = [ful_transferId p]"
| "asks (CommitBulkTransferFulfilCmd p) cancelReservationAndCommit = map ir_transferId (bful_individualTransferResults p)"
| "asks _ _ = []"

definition asked :: "command list \<Rightarrow> ab_request_type \<Rightarrow> string set" where
  "asked cmds rt = (\<Union>c \<in> set cmds. if cmd_msgType c = COMMAND then set (asks (cmd_body c) rt) else {})"

section \<open>The requests of the start handlers\<close>

text \<open>Every request added is of the given type and for the given transfer.\<close>

definition requestsOnly :: "ab_request_type \<Rightarrow> string \<Rightarrow> 'a outputs" where
  "requestsOnly rt tid r es qs cs \<longleftrightarrow> (\<forall>q \<in> set qs. req_requestType q = rt \<and> req_transferId q = tid)"

lemma requestsOnly_none [simp]: "requestsOnly rt tid r es [] cs"
  by (simp add: requestsOnly_def)

lemma requestsOnly_reserve [simp]:
  "requestsOnly checkLiquidAndReserve tid r es [reserveRequest t a ndc u] cs \<longleftrightarrow> transferId t = tid"
  by (simp add: requestsOnly_def reserveRequest_def)

lemma newTransferOf_id [simp]: "transferId (newTransferOf msg p hsh model n) = prep_transferId p"
  by (simp add: newTransferOf_def)

lemma requests_of_prepare:
  "yields (requestsOnly checkLiquidAndReserve (prep_transferId p)) (prepareTransferStart E msg p) s"
proof -
  let ?P = "requestsOnly checkLiquidAndReserve (prep_transferId p) :: unit outputs"
  have reserve: "yields ?P (prepareReserve E msg p r ps a) s1" if "transferId (theap s1 r) = prep_transferId p" for r ps a s1
    using that unfolding prepareReserve_def Let_def
    by (intro yields_getT yields_tryElse_silent yields_andThen_quiet yields_intros silent_intros) simp_all
  have participants: "yields ?P (prepareParticipantsError msg r e) s1"
    and accounts: "yields ?P (prepareAccountsError msg r e) s1" for r e s1
    unfolding prepareParticipantsError_def prepareAccountsError_def
    by (intro yields_andThen_quiet yields_intros silent_intros; simp)+
  have new: "yields ?P (prepareNew E msg p hsh) s1" for hsh s1
    unfolding prepareNew_def getSettlementModel_def
    by (intro yields_tryElse_silent yields_andThen_quiet yields_newTransfer yields_getT
          yields_tryElse_probe [OF probe_getParticipantsInfo] yields_tryElse_probe [OF probe_lift_sum]
          participants accounts reserve yields_intros silent_intros) simp_all
  show ?thesis
    unfolding prepareTransferStart_def prepareExisting_def Let_def
    by (intro yields_tryElse_silent yields_andThen_quiet yields_intros silent_intros new) simp_all
qed

lemma wp_getTransfer_coherent:
  assumes "coherent E s" and "repo_returns_requested E"
    and "\<And>e s'. outs s' = outs s \<Longrightarrow> coherent E s' \<Longrightarrow> Q (Inl e) s'"
    and "\<And>s'. outs s' = outs s \<Longrightarrow> coherent E s' \<Longrightarrow> Q (Inr None) s'"
    and "\<And>r s'. outs s' = outs s \<Longrightarrow> coherent E s' \<Longrightarrow> r < tnext s' \<Longrightarrow> tid = Some (transferId (theap s' r)) \<Longrightarrow>
           Q (Inr (Some r)) s'"
  shows "wp (getTransfer E tid) Q s"
proof (rule wp_mono, rule wp_conj)
  show "wp (getTransfer E tid) (\<lambda>_ s'. cache.inv E 0 s') s"
    using assms(1) by (intro keepsD [OF cache.keeps_getTransfer]) (simp add: cache.inv_def)
  show "wp (getTransfer E tid) (\<lambda>r s'. outs s' = outs s \<and>
      (\<forall>x. r = Inr (Some x) \<longrightarrow> map_of (transfersCache s') tid = Some x)) s"
    by (rule wp_getTransfer_found) simp_all
next
  fix r :: "exn + nat option" and s'
  assume r: "cache.inv E 0 s' \<and> outs s' = outs s \<and> (\<forall>x. r = Inr (Some x) \<longrightarrow> map_of (transfersCache s') tid = Some x)"
  then have c: "coherent E s'" by (simp add: cache.inv_def)
  show "Q r s'"
  proof (cases r)
    case (Inl e)
    with r c assms(3) show ?thesis by simp
  next
    case (Inr found)
    show ?thesis
    proof (cases found)
      case None
      with r c Inr assms(4) show ?thesis by simp
    next
      case (Some x)
      with r Inr have x: "map_of (transfersCache s') tid = Some x" by simp
      with c assms(2) have "x < tnext s'" "tid = Some (transferId (theap s' x))"
        by (auto simp: coherent_def cache_keys_def dest: cache_refs_map_of map_of_SomeD)
      with r c Inr Some assms(5) show ?thesis by simp
    qed
  qed
qed

lemma requests_of_fulfil:
  assumes "coherent E s" and "repo_returns_requested E"
  shows "yields (requestsOnly cancelReservationAndCommit (ful_transferId p)) (fulfilTransferStart E msg p) s"
proof -
  let ?P = "requestsOnly cancelReservationAndCommit (ful_transferId p) :: unit outputs"
  have missing: "yields ?P (missingTransfer E msg tid) s1" for tid s1
    unfolding missingTransfer_def by (intro yields_afterCancel yields_intros) simp_all
  have found: "yields ?P (andThen (mergeOpaqueState msg r) (\<lambda>_. fulfilValidate E msg p r)) s1"
    if "ful_transferId p = transferId (theap s1 r)" for r s1
    by (rule yields_mono [OF yields_fulfil_found [OF refl]])
       (auto simp: that commitsFor_def requestsOnly_def commitRequest_def)
  show ?thesis
    unfolding fulfilTransferStart_def yields_def wp_tryElse
  proof (rule wp_getTransfer_coherent [OF assms], goal_cases)
    case (1 e s')
    then show ?case by (auto intro!: yields_wp yields_emit)
  next
    case (2 s')
    then show ?case by (auto intro!: yields_wp missing)
  next
    case (3 r s')
    then have "yields ?P (andThen (mergeOpaqueState msg r) (\<lambda>_. fulfilValidate E msg p r)) s'"
      by (intro found) simp
    with 3 show ?case by (simp add: yields_wp)
  qed
qed

section \<open>The commands\<close>

text \<open>While the commands run: the cache is coherent and every request is asked for by a command.\<close>

definition justified :: "'w env \<Rightarrow> (ab_request_type \<Rightarrow> string set) \<Rightarrow> 'w agg \<Rightarrow> bool" where
  "justified E A s \<longleftrightarrow> coherent E s \<and> (\<forall>q \<in> set (abBatchRequests s). req_transferId q \<in> A (req_requestType q))"

text \<open>The handlers that ask for nothing keep both parts separately.\<close>

abbreviation all_asked :: "(ab_request_type \<Rightarrow> string set) \<Rightarrow> 'w agg \<Rightarrow> bool" where
  "all_asked A \<equiv> \<lambda>s. \<forall>q \<in> set (abBatchRequests s). req_transferId q \<in> A (req_requestType q)"

interpretation asking: continue_frame "all_asked A" "\<lambda>_. True" for A
  by unfold_locales simp_all

lemma keeps_coherent: "(\<And>n. keeps (cache.inv E n) m) \<Longrightarrow> keeps (coherent E) m"
  unfolding keeps_def using cache.inv_def by (metis (no_types, lifting) wp_mono zero_le)

lemma keeps_justified_frame:
  assumes "\<And>n. keeps (cache.inv E n) m" and "keeps (all_asked A) m"
  shows "keeps (justified E A) m"
  unfolding justified_def by (intro keeps_conj keeps_coherent assms)

lemma keeps_justified_requests:
  assumes "\<And>n. keeps (cache.inv E n) m" and "\<And>s. coherent E s \<Longrightarrow> yields (requestsOnly rt tid) m s"
    and "tid \<in> A rt"
  shows "keeps (justified E A) m"
proof (rule keepsI)
  fix s assume s: "justified E A s"
  have "wp m (\<lambda>_ s'. coherent E s') s"
    by (rule keepsD [OF keeps_coherent [OF assms(1)]]) (use s in \<open>simp add: justified_def\<close>)
  moreover have "wp m (added s (requestsOnly rt tid)) s"
    using s assms(2) [of s] by (simp add: justified_def yields_def)
  ultimately show "wp m (\<lambda>_ s'. justified E A s') s"
    by (rule wp_mono [OF wp_conj]) (use s assms(3) in \<open>auto simp: justified_def added_def requestsOnly_def\<close>)
qed

lemma justified_prepare:
  "prep_transferId p \<in> A checkLiquidAndReserve \<Longrightarrow> keeps (justified E A) (prepareTransferStart E msg p)"
  by (rule keeps_justified_requests [OF cache.keeps_prepareTransferStart requests_of_prepare])

lemma justified_fulfil:
  "repo_returns_requested E \<Longrightarrow> ful_transferId p \<in> A cancelReservationAndCommit \<Longrightarrow>
   keeps (justified E A) (fulfilTransferStart E msg p)"
  by (rule keeps_justified_requests [OF cache.keeps_fulfilTransferStart requests_of_fulfil])

lemma keeps_justified_outside:
  assumes "\<And>s. theap (snd (m s)) = theap s \<and> tnext (snd (m s)) = tnext s \<and>
      transfersCache (snd (m s)) = transfersCache s \<and> abBatchRequests (snd (m s)) = abBatchRequests s"
  shows "keeps (justified E A) m"
  by (rule keepsI) (use assms in \<open>simp add: wp_unfold justified_def coherent_def cache_refs_def cache_keys_def\<close>)

text \<open>The steps around the items of the two bulk commands.\<close>

lemma justified_steps:
  "keeps (justified E A) (now E)" "keeps (justified E A) (emit msg ev)" "keeps (justified E A) (setB br g)"
  "keeps (justified E A) (cacheB br)" "keeps (justified E A) (rememberCommand msg)"
  by (rule keeps_justified_outside;
      simp add: primitive_defs modify_def emit_def rememberCommand_run split: prod.splits)+

lemma justified_bulk_steps:
  "keeps (justified E A) (addBulkTransfer E b)" "keeps (justified E A) (getBulkTransfer E bid)"
proof -
  show "keeps (justified E A) (addBulkTransfer E b)"
    by (rule keeps_justified_outside) (simp add: addBulkTransfer_def run_simps call_def split: prod.split sum.split)
  show "keeps (justified E A) (getBulkTransfer E bid)"
    by (rule keeps_justified_frame [OF cache.keeps_getBulkTransfer asking.frame_lookups(2)])
qed

lemma justified_dispatch:
  assumes "repo_returns_requested E" and "\<And>rt. set (asks (cmd_body c) rt) \<subseteq> A rt"
  shows "keeps (justified E A) (dispatchCommand E c)"
proof (cases "cmd_body c")
  case (PrepareTransferCmd p)
  with assms(2) [of checkLiquidAndReserve] show ?thesis
    by (simp add: dispatchCommand_def justified_prepare)
next
  case (CommitTransferFulfilCmd p)
  with assms(2) [of cancelReservationAndCommit] assms(1) show ?thesis
    by (simp add: dispatchCommand_def justified_fulfil)
next
  case (RejectTransferCmd p)
  then show ?thesis
    by (simp add: dispatchCommand_def
        keeps_justified_frame [OF cache.keeps_rejectTransfer asking.frame_answered(1)])
next
  case (QueryTransferCmd p)
  then show ?thesis
    by (simp add: dispatchCommand_def
        keeps_justified_frame [OF cache.keeps_queryTransfer asking.frame_answered(2)])
next
  case (TimeoutTransferCmd p)
  then show ?thesis
    by (simp add: dispatchCommand_def
        keeps_justified_frame [OF cache.keeps_timeoutTransfer asking.frame_answered(3)])
next
  case (PrepareBulkTransferCmd p)
  with assms(2) [of checkLiquidAndReserve] show ?thesis
    unfolding dispatchCommand_def prepareBulkTransferStart_def Let_def
    by (auto intro!: keeps_intros justified_steps justified_bulk_steps justified_prepare simp: itemPrepare_def)
next
  case (CommitBulkTransferFulfilCmd p)
  with assms(2) [of cancelReservationAndCommit] show ?thesis
    unfolding dispatchCommand_def fulfilBulkTransferStart_def Let_def
    by (auto intro!: keeps_intros justified_steps justified_bulk_steps justified_fulfil [OF assms(1)] simp: itemFulfil_def)
next
  case (RejectBulkTransferCmd p)
  then show ?thesis
    by (simp add: dispatchCommand_def
        keeps_justified_frame [OF cache.keeps_rejectBulkTransfer asking.frame_bulk_answered(1)])
next
  case (QueryBulkTransferCmd p)
  then show ?thesis
    by (simp add: dispatchCommand_def
        keeps_justified_frame [OF cache.keeps_queryBulkTransfer asking.frame_bulk_answered(2)])
next
  case (UnknownCmd n t b r)
  then show ?thesis by (simp add: dispatchCommand_def justified_steps)
next
  case (NoPayloadCmd n)
  then show ?thesis by (simp add: dispatchCommand_def keeps_ret)
qed

lemma justified_runCommands:
  assumes "repo_returns_requested E" and "\<And>rt. asked cmds rt \<subseteq> A rt"
  shows "keeps (justified E A) (runCommands E cmds)"
proof -
  have "keeps (justified E A) (processCommand E c)" if c: "c \<in> set cmds" "cmd_msgType c = COMMAND" for c
  proof -
    have "set (asks (cmd_body c) rt) \<subseteq> A rt" for rt
      using c assms(2) [of rt] by (auto simp: asked_def)
    then have "keeps (justified E A) (dispatchCommand E c)"
      by (rule justified_dispatch [OF assms(1)])
    moreover have "keeps (justified E A) (ensureValidMessage c)"
      unfolding ensureValidMessage_def by (cases "cmd_body c") (auto intro: keeps_intros)
    ultimately show ?thesis
      unfolding processCommand_def by (intro keeps_intros justified_steps)
  qed
  then show ?thesis
    unfolding runCommands_def by (auto intro!: keeps_forEach simp: keeps_ret split: if_split)
qed

section \<open>The responses\<close>

text \<open>
  While the responses are processed: no object has the state that \<open>rt\<close> grants unless its identifier is
  in \<open>V\<close> or the repository holds it in that state.  The transfer the handler holds, if any, is in \<open>V\<close>.
\<close>

definition granted :: "ab_request_type \<Rightarrow> transfer \<Rightarrow> bool" where
  "granted rt t \<longleftrightarrow> grants rt = Some (transferState t)"

definition stored_granted :: "'w env \<Rightarrow> ab_request_type \<Rightarrow> string \<Rightarrow> bool" where
  "stored_granted E rt tid \<longleftrightarrow> (\<exists>key w t w'. repo_getTransferById E key w = (Inr (Some t), w') \<and>
     transferId t = tid \<and> granted rt t)"

definition lawful :: "'w env \<Rightarrow> ab_request_type \<Rightarrow> string set \<Rightarrow> nat option \<Rightarrow> 'w agg \<Rightarrow> bool" where
  "lawful E rt V held s \<longleftrightarrow> coherent E s \<and>
     (\<forall>r < tnext s. granted rt (theap s r) \<longrightarrow>
        transferId (theap s r) \<in> V \<or> stored_granted E rt (transferId (theap s r))) \<and>
     (case held of None \<Rightarrow> True | Some r \<Rightarrow> r < tnext s \<and> transferId (theap s r) \<in> V)"

definition never_grants :: "ab_request_type \<Rightarrow> (transfer \<Rightarrow> transfer) \<Rightarrow> bool" where
  "never_grants rt f \<longleftrightarrow> keepsId f \<and> (\<forall>t. granted rt (f t) \<longrightarrow> granted rt t)"

lemma granted_not [simp]:
  "transferState t = RECEIVED \<Longrightarrow> \<not> granted rt t" "transferState t = ABORTED \<Longrightarrow> \<not> granted rt t"
  by (cases rt; simp add: granted_def)+

lemma granted_update [simp]:
  "granted rt (t\<lparr>errorCode := c\<rparr>) = granted rt t" "granted rt (t\<lparr>transferOpaqueState := v\<rparr>) = granted rt t"
  by (simp_all add: granted_def)

interpretation lawful: agg_invariant E "lawful E rt V held" "never_grants rt"
  for E :: "'w env" and rt V held
proof (unfold_locales, goal_cases)
  case (1 s s')
  then show ?case using cache.I_frame [of E s s'] by (simp add: lawful_def split: option.splits)
next
  case (2 s k r)
  then show ?case using cache.I_ref [of E s k r] by (simp add: lawful_def)
next
  case (3 s t)
  then show ?case using cache.I_new [of E s t] by (auto simp: lawful_def less_Suc_eq split: option.splits)
next
  case (4 s tid w t w')
  then have "granted rt t \<Longrightarrow> stored_granted E rt (transferId t)"
    unfolding stored_granted_def by blast
  with 4 show ?case
    using cache.I_fetch [of E s tid w t w'] by (auto simp: lawful_def less_Suc_eq split: option.splits)
next
  case (5 s f r)
  then show ?case using cache.I_update [of E s f r]
    by (auto simp: lawful_def never_grants_def keepsId_def split: option.splits)
next
  case (6 s r)
  then show ?case using cache.I_cache [of E s r] by (simp add: lawful_def split: option.splits)
next
  case (7 s)
  then show ?case using cache.I_clear [of E s] by (simp add: lawful_def split: option.splits)
qed (simp_all add: never_grants_def keepsId_def)

text \<open>The one update that may grant the state, on the transfer that is held.\<close>

lemma lawful_grant: "keepsId f \<Longrightarrow> keeps (lawful.inv E rt V (Some r) n) (setT r f)"
  using cache.I_update
  by (auto simp: keeps_def wp_simps lawful.inv_def lawful_def keepsId_def)

lemma lawful_update: "never_grants rt f \<Longrightarrow> keeps (lawful.inv E rt V held n) (setT r f)"
  by (rule lawful.keeps_setT)

text \<open>
  A continue handler, for a response of the type of its request: the other type of request grants
  the other state, so the update it makes is harmless.
\<close>

lemma lawful_continueRequest:
  assumes "rsp_requestType rsp = rt \<Longrightarrow> rsp_success rsp \<Longrightarrow> held = Some r" and "Suc r \<le> n"
  shows "keeps (lawful.inv E rt V held n) (continueRequest E rsp req orig (Some r))"
proof -
  have step: "keeps (lawful.inv E rt V held n) (setT r f)"
    if "keepsId f" and "rsp_success rsp" and "rsp_requestType rsp \<noteq> rt \<Longrightarrow> never_grants rt f" for f
    using that assms(1) by (cases "rsp_requestType rsp = rt") (auto intro: lawful_grant lawful_update)
  show ?thesis
  proof (rule lawful.keeps_continueRequest_if, goal_cases)
    case (1 r')
    with assms(2) show ?case by simp
  next
    case (2 r' k)
    have "never_grants rt (reserved_at k)" if "rt \<noteq> checkLiquidAndReserve"
      using that by (cases rt) (auto simp: never_grants_def keepsId_def granted_def)
    with 2 step [of "reserved_at k"] show ?case by (auto simp: keepsId_def)
  next
    case (3 r' k ts)
    have "never_grants rt (committed_at k ts)" if "rt \<noteq> cancelReservationAndCommit"
      using that by (cases rt) (auto simp: never_grants_def keepsId_def granted_def)
    with 3 step [of "committed_at k ts"] show ?case by (auto simp: keepsId_def)
  qed
qed

lemma lawful_weaken: "lawful E rt V held s \<Longrightarrow> lawful E rt V None s"
  by (simp add: lawful_def)

lemma lawful_hold:
  "lawful E rt V None s \<Longrightarrow> r < tnext s \<Longrightarrow> transferId (theap s r) \<in> V \<Longrightarrow> lawful E rt V (Some r) s"
  by (simp add: lawful_def)

text \<open>The handler for a request, once the transfer has been looked up.\<close>

lemma lawful_continue_found:
  assumes "lawful E rt V None s" and "r < tnext s"
    and "rsp_requestType rsp = rt \<Longrightarrow> rsp_success rsp \<Longrightarrow> transferId (theap s r) \<in> V"
  shows "wp (continueRequest E rsp req orig (Some r)) (\<lambda>_ s'. lawful E rt V None s') s"
proof -
  define held where "held = (if rsp_requestType rsp = rt \<and> rsp_success rsp then Some r else None)"
  have "lawful.inv E rt V held (Suc r) s"
    using assms lawful_hold by (auto simp: lawful.inv_def held_def)
  then have "wp (continueRequest E rsp req orig (Some r)) (\<lambda>_ s'. lawful.inv E rt V held (Suc r) s') s"
    by (intro keepsD [OF lawful_continueRequest]) (auto simp: held_def)
  then show ?thesis
    by (rule wp_mono) (auto simp: lawful.inv_def intro: lawful_weaken)
qed

lemma lawful_continue_missing: "keeps (lawful.inv E rt V None 0) (continueRequest E rsp req orig None)"
  by (rule lawful.keeps_continueRequest_if) simp_all

lemma lawful_response:
  assumes "repo_returns_requested E" and s: "lawful E rt V None s" and qs: "abBatchRequests s = qs"
    and echo: "\<And>q. q \<in> set qs \<Longrightarrow> rsp_success rsp \<Longrightarrow> req_requestId q = rsp_requestId rsp \<Longrightarrow> rsp_requestType rsp = req_requestType q"
    and V: "\<And>q. \<lbrakk>q \<in> set qs; req_requestType q = rt; req_requestId q = rsp_requestId rsp; rsp_success rsp\<rbrakk>
      \<Longrightarrow> req_transferId q \<in> V"
  shows "wp (processAccountsAndBalancesResponse E rsp) (\<lambda>_ s'. lawful E rt V None s' \<and> abBatchRequests s' = qs) s"
proof -
  let ?Q = "\<lambda>(_ :: exn + unit) s'. lawful E rt V None s'"
  have missing: "wp (continueRequest E rsp req orig None) ?Q s'" if "lawful E rt V None s'" for req orig s'
    using that keepsD [OF lawful_continue_missing, of E rt V s' rsp req orig]
    by (auto simp: lawful.inv_def elim: wp_mono)
  have "wp (andThen (lookupTransfer E orig (req_transferId q)) (continueRequest E rsp q orig)) ?Q s"
    if q: "q \<in> set qs" "req_requestId q = rsp_requestId rsp" for q orig
  proof -
    have lawfulGet: "wp (getTransfer E (Some (req_transferId q))) (\<lambda>_ s'. lawful E rt V None s') s"
      using s keepsD [OF lawful.keeps_getTransfer, of E rt V None 0 s "Some (req_transferId q)"]
      by (auto simp: lawful.inv_def elim: wp_mono)
    have "wp (getTransfer E (Some (req_transferId q)))
        (\<lambda>res s'. \<forall>r. res = Inr (Some r) \<longrightarrow> r < tnext s' \<and> transferId (theap s' r) = req_transferId q) s"
      by (rule wp_getTransfer_coherent) (use s assms(1) in \<open>simp_all add: lawful_def\<close>)
    from wp_conj [OF lawfulGet this] show ?thesis
      unfolding lookupTransfer_def wp_andThen wp_tryElse
    proof (rule wp_mono, goal_cases)
      case (1 res s')
      have "lawful E rt V None (s'\<lparr>outputEvents := es\<rparr>)" if "lawful E rt V None s'" for es
        by (rule lawful.I_frame [OF that]) simp_all
      then have stuck: "wp (continueRequest E rsp q orig None) ?Q (s'\<lparr>outputEvents := es\<rparr>)" for es
        using 1 by (intro missing) simp
      from 1 have none: "wp (continueRequest E rsp q orig None) ?Q s'" by (intro missing) simp
      have found: "wp (continueRequest E rsp q orig (Some r)) ?Q s'" if "res = Inr (Some r)" for r
        using 1 that V [OF q(1) _ q(2)] echo [OF q(1) _ q(2)] by (intro lawful_continue_found) auto
      show ?case
      proof (cases res)
        case (Inl e)
        with stuck show ?thesis by (simp add: wp_ret wp_andThen wp_emit)
      next
        case (Inr x)
        with none found show ?thesis by (cases x) (simp_all add: wp_ret)
      qed
    qed
  qed
  then have "wp (processAccountsAndBalancesResponse E rsp) ?Q s"
    unfolding processAccountsAndBalancesResponse_def wp_andThen wp_reads qs
    using s by (auto simp: wp_raise wp_andThen wp_reads find_Some_iff split: option.split)
  moreover have "wp (processAccountsAndBalancesResponse E rsp) (\<lambda>_ s'. abBatchRequests s' = qs) s"
    by (rule keepsD [OF requests.frame_response qs])
  ultimately show ?thesis by (rule wp_conj)
qed

section \<open>The batch\<close>

text \<open>
  What the code relies on of Accounts & Balances: a successful response that names a request of the call
  has that request's type.
\<close>

definition echoes_type :: "'w env \<Rightarrow> bool" where
  "echoes_type E \<longleftrightarrow> (\<forall>qs w rsps w'. ab_processHighLevelBatch E qs w = (Inr rsps, w') \<longrightarrow>
     (\<forall>rsp \<in> set rsps. \<forall>q \<in> set qs. rsp_success rsp \<longrightarrow> req_requestId q = rsp_requestId rsp \<longrightarrow>
        rsp_requestType rsp = req_requestType q))"

lemma lawful_responses:
  assumes "repo_returns_requested E"
    and "\<And>rsp q. rsp \<in> set rsps \<Longrightarrow> q \<in> set qs \<Longrightarrow> rsp_success rsp \<Longrightarrow> req_requestId q = rsp_requestId rsp \<Longrightarrow>
      rsp_requestType rsp = req_requestType q"
    and "\<And>rsp q. \<lbrakk>rsp \<in> set rsps; q \<in> set qs; req_requestType q = rt; req_requestId q = rsp_requestId rsp;
        rsp_success rsp\<rbrakk> \<Longrightarrow> req_transferId q \<in> V"
  shows "keeps (\<lambda>s. lawful E rt V None s \<and> abBatchRequests s = qs)
     (forEach rsps (processAccountsAndBalancesResponse E))"
  by (rule keeps_forEach, rule keepsI) (auto intro!: lawful_response assms)

text \<open>Among the requests queued, one of the given type for the given transfer is answered with success.\<close>

definition answered :: "'w env \<Rightarrow> 'w agg \<Rightarrow> ab_request_type \<Rightarrow> string \<Rightarrow> bool" where
  "answered E s rt tid \<longleftrightarrow>
     (case ab_processHighLevelBatch E (abBatchRequests s) (world s) of
        (Inl _, _) \<Rightarrow> False
      | (Inr rsps, _) \<Rightarrow> \<exists>q \<in> set (abBatchRequests s). \<exists>rsp \<in> set rsps. req_requestId q = rsp_requestId rsp \<and>
          rsp_success rsp \<and> req_requestType q = rt \<and> req_transferId q = tid)"

text \<open>That happened in the call a batch makes once its commands have run.\<close>

definition accepted :: "'w env \<Rightarrow> command list \<Rightarrow> 'w agg \<Rightarrow> ab_request_type \<Rightarrow> string \<Rightarrow> bool" where
  "accepted E cmds s = answered E (snd (runCommands E cmds (resetBatch s)))"

lemma lawful_runRequests:
  assumes E: "repo_returns_requested E" "echoes_type E" and s: "lawful E rt V None s"
    and V: "\<And>q. q \<in> set (abBatchRequests s) \<Longrightarrow> req_requestType q = rt \<Longrightarrow> answered E s rt (req_transferId q) \<Longrightarrow>
      req_transferId q \<in> V"
  shows "wp (runRequests E) (\<lambda>_ s'. lawful E rt V None s') s"
proof -
  let ?qs = "abBatchRequests s"
  obtain res w where call: "ab_processHighLevelBatch E ?qs (world s) = (res, w)" by fastforce
  have frame: "lawful E rt V None (s\<lparr>world := w, abBatchResponses := rs\<rparr>)" "lawful E rt V None (s\<lparr>world := w\<rparr>)" for rs
    by (rule lawful.I_frame [OF s]; simp)+
  show ?thesis
  proof (cases res)
    case (Inl e)
    with s frame call show ?thesis by (simp add: runRequests_def wp_simps)
  next
    case (Inr rsps)
    let ?s = "s\<lparr>world := w, abBatchResponses := rsps\<rparr>"
    have "wp (forEach rsps (processAccountsAndBalancesResponse E))
        (\<lambda>_ s'. lawful E rt V None s' \<and> abBatchRequests s' = ?qs) ?s"
    proof (rule keepsD [OF lawful_responses [OF E(1)]])
      fix rsp q assume "rsp \<in> set rsps" "q \<in> set ?qs" "rsp_success rsp" "req_requestId q = rsp_requestId rsp"
      then show "rsp_requestType rsp = req_requestType q"
        using E(2) call Inr unfolding echoes_type_def by blast
    next
      fix rsp q assume q: "rsp \<in> set rsps" "q \<in> set ?qs" "req_requestType q = rt"
        "req_requestId q = rsp_requestId rsp" "rsp_success rsp"
      then have "answered E s rt (req_transferId q)"
        using call Inr unfolding answered_def by auto
      with q V show "req_transferId q \<in> V" by simp
    qed (use frame in auto)
    then have "wp (forEach rsps (processAccountsAndBalancesResponse E)) (\<lambda>_ s'. lawful E rt V None s') ?s"
      by (rule wp_mono) simp
    with s call Inr show ?thesis
      by (simp add: runRequests_def setResponses_def wp_andThen wp_call wp_reads wp_modify wp_ret)
  qed
qed

text \<open>A transfer that an object of the aggregate or a document of the repository has in the granted state.\<close>

definition granted_before :: "'w env \<Rightarrow> 'w agg \<Rightarrow> ab_request_type \<Rightarrow> string \<Rightarrow> bool" where
  "granted_before E s rt tid \<longleftrightarrow>
     (\<exists>r < tnext s. transferId (theap s r) = tid \<and> granted rt (theap s r)) \<or> stored_granted E rt tid"

lemma granted_needs_command:
  assumes E: "repo_returns_requested E" "echoes_type E" and s: "coherent E s"
    and s': "s' = snd (processCommandBatch E cmds s)" and r: "r < tnext s'" "granted rt (theap s' r)"
  shows "transferId (theap s' r) \<in> asked cmds rt \<and> accepted E cmds s rt (transferId (theap s' r)) \<or>
     granted_before E s rt (transferId (theap s' r))"
proof -
  define V where "V = {tid \<in> asked cmds rt. accepted E cmds s rt tid} \<union> {tid. granted_before E s rt tid}"
  let ?I = "lawful E rt V None" and ?s = "resetBatch s"
  have keeps: "keeps ?I m" if "\<And>n. keeps (lawful.inv E rt V None n) m" for m :: "('a, unit) act"
    using that [of 0] unfolding keeps_def lawful.inv_def by simp
  have start: "?I ?s" "justified E (asked cmds) ?s"
    using s by (auto simp: lawful_def justified_def V_def granted_before_def resetBatch_def coherent_def
        cache_refs_def cache_keys_def)
  let ?R = "\<lambda>s1. (?I s1 \<and> justified E (asked cmds) s1) \<and> s1 = snd (runCommands E cmds ?s)"
  have "wp (runCommands E cmds) (\<lambda>_. ?R) ?s"
    by (intro wp_conj keepsD [OF keeps [OF lawful.keeps_runCommands]] keepsD [OF justified_runCommands] start E)
       (simp_all add: wp_unfold)
  then have "wp (batchBody E cmds) (\<lambda>_ s'. ?I s') ?s"
    unfolding batchBody_def
    by (intro wp_andThen_I [where R = "\<lambda>_. ?R"] lawful_runRequests [OF E]
          wp_andThen_I [where R = "\<lambda>_. ?I"] keepsD [OF keeps [OF lawful.keeps_runCancelations]])
       (auto simp: justified_def V_def accepted_def)
  then have body: "?I (snd (batchBody E cmds ?s))" by (simp add: wp_snd)
  have "?I (snd (batchFinally E (snd (batchBody E cmds ?s))))"
    by (rule keeps_snd [OF keeps [OF lawful.keeps_batchFinally] body])
  moreover have "?I (x\<lparr>unhandled := u\<rparr>)" if "?I x" for x u
    by (rule lawful.I_frame [OF that]) simp_all
  ultimately have "?I s'"
    by (auto simp: s' processCommandBatch_def split: prod.splits sum.splits)
  with r show ?thesis
    by (auto simp: lawful_def V_def granted_before_def)
qed

text \<open>No transfer is committed without a fulfil: with a repository that answers a lookup with the
  transfer asked for, and responses of the type of their request, every transfer that is \<open>COMMITTED\<close>
  after a batch was so before, or is named by a fulfil or bulk fulfil command of the batch and its
  commit was accepted by Accounts & Balances.\<close>

theorem commit_needs_fulfil:
  assumes "repo_returns_requested E" and "echoes_type E" and "coherent E s"
    and "s' = snd (processCommandBatch E cmds s)" and "r < tnext s'" and "transferState (theap s' r) = COMMITTED"
  shows "transferId (theap s' r) \<in> asked cmds cancelReservationAndCommit \<and>
       accepted E cmds s cancelReservationAndCommit (transferId (theap s' r)) \<or>
     granted_before E s cancelReservationAndCommit (transferId (theap s' r))"
  by (rule granted_needs_command [OF assms(1-5)]) (simp add: granted_def assms(6))

text \<open>No transfer is reserved without a prepare: under the same assumptions, every transfer that is
  \<open>RESERVED\<close> after a batch was so before, or is named by a prepare or bulk prepare command of the batch and
  its reservation was accepted by Accounts & Balances.\<close>

theorem reserve_needs_prepare:
  assumes "repo_returns_requested E" and "echoes_type E" and "coherent E s"
    and "s' = snd (processCommandBatch E cmds s)" and "r < tnext s'" and "transferState (theap s' r) = RESERVED"
  shows "transferId (theap s' r) \<in> asked cmds checkLiquidAndReserve \<and>
       accepted E cmds s checkLiquidAndReserve (transferId (theap s' r)) \<or>
     granted_before E s checkLiquidAndReserve (transferId (theap s' r))"
  by (rule granted_needs_command [OF assms(1-5)]) (simp add: granted_def assms(6))

end
