(* ===== verification/History.thy ===== *)
theory History
  imports Commit_Safety Handlers Adapters Batch_Properties
begin

text \<open>
  The life of a command handler: it starts with an empty aggregate and consumes one batch after the
  other.  The consumer waits for the promise of \<open>_batchMsgHandler\<close> (\<open>packages/command-handler-svc/src/handler.ts\<close>),
  so a batch whose promise stays pending is the last one; so is a batch with an unhandled rejection,
  which Node raises as an uncaught exception, on which the service exits.  Between two batches the
  rest of the platform moves as it likes, and each batch may find other answers behind the same
  interfaces.
\<close>

section \<open>Consecutive batches\<close>

text \<open>
  A past batch: the platform it ran on, its messages, and the aggregate before and after it.  What the code relies
  on of the platform of a batch: a lookup gives the transfer asked for, and unless it is aborted it is
  in a state in which an earlier batch left a transfer of that identifier; and successful responses
  have the type of their request.
\<close>

type_synonym 'w batch_record = "'w env \<times> command list \<times> 'w agg \<times> 'w agg"

abbreviation commands :: "command list \<Rightarrow> command list" where
  "commands msgs \<equiv> filter (\<lambda>m. cmd_msgType m = COMMAND) msgs"

definition left_by :: "'w batch_record list \<Rightarrow> string \<Rightarrow> TransferState \<Rightarrow> bool" where
  "left_by h tid st \<longleftrightarrow> (\<exists>(E, msgs, s0, s) \<in> set h. \<exists>r < tnext s. transferId (theap s r) = tid \<and> transferState (theap s r) = st)"

definition platform_ok :: "'w batch_record list \<Rightarrow> 'w env \<Rightarrow> bool" where
  "platform_ok h E \<longleftrightarrow> repo_returns_requested E \<and> echoes_type E \<and>
     (\<forall>tid w t w'. repo_getTransferById E tid w = (Inr (Some t), w') \<longrightarrow>
        transferState t = ABORTED \<or> left_by h (transferId t) (transferState t))"

text \<open>The promise of the batch resolves, and no rejection of it is unhandled: the process goes on.\<close>

definition survives :: "'w env \<Rightarrow> command list \<Rightarrow> 'w agg \<Rightarrow> 'w agg \<Rightarrow> bool" where
  "survives E msgs s s' \<longleftrightarrow> commandBatchHandler E msgs s = (Resolved, s') \<and> unhandled s' = []"

inductive history :: "'w batch_record list \<Rightarrow> 'w agg \<Rightarrow> bool" where
  started: "history [] (initAgg w)"
| consumed: "\<lbrakk>history h s; platform_ok h E; survives E msgs s s'\<rbrakk>
    \<Longrightarrow> history ((E, msgs, s, s') # h) (s'\<lparr>world := w\<rparr>)"

inductive_cases history_ConsE: "history (b # h) s"

section \<open>Invariants of every history\<close>

text \<open>The handler runs the commands of a batch in the aggregate, or nothing.\<close>

lemma commandBatchHandler_state:
  assumes "commandBatchHandler E msgs s = (out, s')"
  obtains "s' = s"
  | u where "s' = (snd (processCommandBatch E (commands msgs) s))\<lparr>unhandled := u\<rparr>"
proof -
  let ?p = "processCommandBatch E (commands msgs) s"
  have same: "\<exists>u. x = x\<lparr>unhandled := u\<rparr>" for x :: "'a agg"
    by (rule exI [of _ "unhandled x"]) simp
  have "s' = s \<or> (\<exists>u. s' = (snd ?p)\<lparr>unhandled := u\<rparr>)"
    using assms same [of "snd ?p"]
    by (cases ?p) (auto simp: commandBatchHandler_def Let_def split: if_splits outcome.splits)
  with that show thesis by blast
qed

lemma asked_commands: "asked (commands msgs) = asked msgs"
  by (rule ext) (auto simp: asked_def)

lemma well_keyed_outside:
  "coherent E (x\<lparr>unhandled := u\<rparr>) = coherent E x" "coherent E (x\<lparr>world := w\<rparr>) = coherent E x"
  by (simp_all add: coherent_def cache_refs_def cache_keys_def)

lemma history_well_keyed: "history h s \<Longrightarrow> cache_refs s \<and> cache_keys s"
proof (induction rule: history.induct)
  case (started w)
  show ?case by (simp add: initAgg_def cache_refs_def cache_keys_def)
next
  case (consumed h s E msgs s' w)
  then have s: "coherent E s" and E: "repo_returns_requested E"
    and "commandBatchHandler E msgs s = (Resolved, s')"
    by (simp_all add: coherent_def platform_ok_def survives_def)
  from this(3) have "coherent E s'"
    by (rule commandBatchHandler_state)
       (use s in \<open>auto simp: well_keyed_outside intro: cache.inv_processCommandBatch\<close>)
  then have "coherent E (s'\<lparr>world := w\<rparr>)" by (simp only: well_keyed_outside)
  with E show ?case by (simp add: coherent_def)
qed

lemma history_coherent: "history h s \<Longrightarrow> coherent E s"
  by (drule history_well_keyed) (simp add: coherent_def)

section \<open>Nothing is granted unasked\<close>

text \<open>A command of some batch of the history asked for it, and Accounts & Balances agreed in that batch.\<close>

definition granted_in :: "'w batch_record list \<Rightarrow> ab_request_type \<Rightarrow> string \<Rightarrow> bool" where
  "granted_in h rt tid \<longleftrightarrow> (\<exists>(E, msgs, s0, s) \<in> set h. tid \<in> asked msgs rt \<and> accepted E (commands msgs) s0 rt tid)"

lemma granted_in_Cons:
  "granted_in ((E, msgs, s0, s) # h) rt tid \<longleftrightarrow>
     tid \<in> asked msgs rt \<and> accepted E (commands msgs) s0 rt tid \<or> granted_in h rt tid"
  by (auto simp: granted_in_def)

lemma left_by_Cons:
  "left_by ((E, msgs, s0, s) # h) tid st \<longleftrightarrow>
     (\<exists>r < tnext s. transferId (theap s r) = tid \<and> transferState (theap s r) = st) \<or> left_by h tid st"
  by (auto simp: left_by_def)

lemma history_grants:
  "history h s \<Longrightarrow>
     (\<forall>r < tnext s. granted rt (theap s r) \<longrightarrow> granted_in h rt (transferId (theap s r))) \<and>
     (\<forall>tid st. left_by h tid st \<longrightarrow> grants rt = Some st \<longrightarrow> granted_in h rt tid)"
proof (induction rule: history.induct)
  case (started w)
  show ?case by (simp add: initAgg_def left_by_def)
next
  case (consumed h s E msgs s' w)
  then have E: "repo_returns_requested E" "echoes_type E" and run: "commandBatchHandler E msgs s = (Resolved, s')"
    by (simp_all add: platform_ok_def survives_def)
  let ?new = "\<lambda>tid. tid \<in> asked msgs rt \<and> accepted E (commands msgs) s rt tid"
  have before: "granted_in h rt tid" if "granted_before E s rt tid" for tid
    using that unfolding granted_before_def
  proof
    assume "stored_granted E rt tid"
    then obtain key w t w' where t: "repo_getTransferById E key w = (Inr (Some t), w')"
      and tid: "transferId t = tid" and g: "granted rt t"
      unfolding stored_granted_def by blast
    from g have "transferState t \<noteq> ABORTED" by auto
    with t tid \<open>platform_ok h E\<close> have "left_by h tid (transferState t)" unfolding platform_ok_def by blast
    with g consumed.IH show ?thesis by (simp add: granted_def)
  qed (use consumed.IH in blast)
  have step: "?new (transferId (theap s' r)) \<or> granted_in h rt (transferId (theap s' r))"
    if r: "r < tnext s'" "granted rt (theap s' r)" for r
    using run
  proof (cases rule: commandBatchHandler_state)
    case 1
    with r consumed.IH show ?thesis by simp
  next
    case (2 u)
    with r granted_needs_command [OF E history_coherent [OF consumed.hyps(1)] refl, of r
        "commands msgs" rt]
    show ?thesis by (auto simp: asked_commands intro: before)
  qed
  then have "\<forall>r < tnext s'. granted rt (theap s' r) \<longrightarrow> granted_in ((E, msgs, s, s') # h) rt (transferId (theap s' r))"
    by (simp add: granted_in_Cons)
  moreover from this consumed.IH have "\<forall>tid st. left_by ((E, msgs, s, s') # h) tid st \<longrightarrow> grants rt = Some st \<longrightarrow>
      granted_in ((E, msgs, s, s') # h) rt tid"
    by (auto simp: left_by_Cons granted_def granted_in_Cons)
  ultimately show ?case by simp
qed

text \<open>C1: in every history of a command handler, a transfer is \<open>COMMITTED\<close> only if some batch had a fulfil
  or bulk fulfil command for it and Accounts & Balances accepted its commit in that batch.\<close>

theorem history_commit_needs_fulfil:
  assumes "history h s" and "r < tnext s" and "transferState (theap s r) = COMMITTED"
  shows "granted_in h cancelReservationAndCommit (transferId (theap s r))"
  using history_grants [OF assms(1), of cancelReservationAndCommit] assms(2,3) by (simp add: granted_def)

text \<open>C2: and \<open>RESERVED\<close> only if some batch had a prepare or bulk prepare command for it and Accounts &
  Balances accepted its reservation in that batch.\<close>

theorem history_reserve_needs_prepare:
  assumes "history h s" and "r < tnext s" and "transferState (theap s r) = RESERVED"
  shows "granted_in h checkLiquidAndReserve (transferId (theap s r))"
  using history_grants [OF assms(1), of checkLiquidAndReserve] assms(2,3) by (simp add: granted_def)

section \<open>The terms, for ever\<close>

text \<open>One history extends another.\<close>

lemma commandBatchHandler_terms:
  assumes "cache_refs s" and "r < tnext s" and "commandBatchHandler E msgs s = (out, s')"
  shows "r < tnext s' \<and> terms (theap s' r) = terms (theap s r)"
proof -
  let ?cmds = "commands msgs"
  have "same_terms_since s s" using assms(1) by (simp add: same_terms_since_def)
  then have "same_terms_since s (snd (processCommandBatch E ?cmds s))"
    by (rule agreed.inv_processCommandBatch)
  with assms(2) have "r < tnext (snd (processCommandBatch E ?cmds s)) \<and>
      terms (theap (snd (processCommandBatch E ?cmds s)) r) = terms (theap s r)"
    by (auto simp: same_terms_since_def)
  with assms(3) show ?thesis
    by (auto elim!: commandBatchHandler_state simp: assms(2))
qed


section \<open>The batches of a living handler\<close>

lemma history_calm: "history h s \<Longrightarrow> unhandled s = [] \<and> transfersCache s = []"
proof (induction rule: history.induct)
  case (started w)
  show ?case by (simp add: initAgg_def)
next
  case (consumed h s E msgs s' w)
  then show ?case
    by (auto simp: survives_def commandBatchHandler_def Let_def split: if_splits prod.splits outcome.splits
        elim: resolved_batch)
qed

text \<open>C19: every batch that a living command handler has behind it was carried through: none of its commands
  ended in an error, Accounts & Balances answered, the repository accepted every transfer it had
  loaded, the producer accepted its events, and the next batch starts with an empty cache.\<close>

theorem history_batches_completed:
  assumes "history (h' @ (E, msgs, s0, s) # h) s''"
  shows "history h s0 \<and> transfersCache s = [] \<and>
     (commands msgs = [] \<or>
      (\<exists>s1 w. batchBody E (commands msgs) (resetBatch s0) = (Inr (), s1) \<and> unhandled s1 = [] \<and>
         (transfersCache s1 = [] \<or>
          (\<exists>w'. repo_storeTransfers E (map (\<lambda>(_, r). theap s1 r) (transfersCache s1)) (world s1) = (Inr (), w'))) \<and>
         producer_send E (outputEvents s1) w = (Inr (), world s)))"
proof -
  have "history (h' @ (E, msgs, s0, s) # h) s'' \<Longrightarrow> history h s0 \<and> survives E msgs s0 s" for s''
    by (induction h' arbitrary: s'') (auto elim: history_ConsE)
  with assms have s0: "history h s0" and run: "survives E msgs s0 s" by blast+
  show ?thesis
  proof (cases "commands msgs = []")
    case True
    with s0 run history_calm [OF s0] show ?thesis by (simp add: survives_def commandBatchHandler_def Let_def)
  next
    case False
    with run have "processCommandBatch E (commands msgs) s0 = (Resolved, s)" and "unhandled s = []"
      by (auto simp: survives_def commandBatchHandler_def Let_def split: prod.splits outcome.splits)
    from this(1) show ?thesis
      by (rule resolved_batch) (use s0 \<open>unhandled s = []\<close> in \<open>metis (no_types, lifting)\<close>)
  qed
qed

section \<open>Batches that end the process\<close>

text \<open>C26: a redelivered prepare ends the command handler: as deployed, with MongoDB counting only changed
  documents as modified, no history goes on after a batch with just a duplicate of the prepare of a
  transfer that is stored as it is read, for example of a committed one.\<close>

theorem duplicate_prepare_ends_process:
  assumes "history h s" and "counts_changes C docs"
    and "cmd_msgType c = COMMAND" and "cmd_body c = PrepareTransferCmd p"
    and "coll_findOne C (Some (prep_transferId p)) (world s) = (Inr (Some t), w)"
    and "mapToTransfer t = t" and "docs w (transferId t) = Some t"
  shows "\<nexists>s'. survives (deployedEnv B C D K) [c] s s'"
  using deployed_duplicate_never_settles [OF assms(2) _ assms(3-7), of B D K] history_calm [OF assms(1)] assms(3)
  by (auto simp: survives_def commandBatchHandler_def split: prod.splits outcome.splits)

lemma survivor_commands:
  assumes "survives E msgs s s'" and "c \<in> set msgs" and "cmd_msgType c = COMMAND"
  obtains s1 s2 where "processCommand E c s1 = (Inr (), s2)" and "unhandled s2 = []"
proof -
  let ?cmds = "commands msgs"
  from assms have "?cmds \<noteq> []" by (auto simp: filter_empty_conv)
  with assms(1) have run: "processCommandBatch E ?cmds s = (Resolved, s')" and calm: "unhandled s' = []"
    by (auto simp: survives_def commandBatchHandler_def Let_def split: prod.splits outcome.splits)
  from run obtain b where body: "batchBody E ?cmds (resetBatch s) = (Inr (), b)" by (rule resolved_batch)
  from assms obtain xs ys where split: "?cmds = xs @ c # ys" by (auto dest: split_list)
  from body obtain s0 where all: "runCommands E ?cmds (resetBatch s) = (Inr (), s0)"
    by (auto simp: batchBody_def run_simps split: prod.splits sum.splits)
  then obtain s1 s2 where c: "processCommand E c s1 = (Inr (), s2)" and rest: "runCommands E ys s2 = (Inr (), s0)"
    using assms(3) unfolding split runCommands_append
    by (auto simp: run_simps runCommands_def [of E "c # ys"] runCommands_def [of E ys, symmetric]
        split: prod.splits sum.splits)
  have "unhandled s0 = []" using failed_batch [of E ?cmds s] all run calm by auto
  moreover have "failed (snd (runCommands E ys s2))" if "failed s2"
    by (rule keeps_snd [OF failed_runCommands that])
  ultimately have "unhandled s2 = []" using rest by auto
  with c that show thesis by blast
qed

lemma refused_bulk_fails:
  assumes "\<And>b w. bt_bulkTransferId b = bprep_bulkTransferId p \<Longrightarrow> \<exists>e w'. bulkRepo_addBulkTransfer E b w = (Inr (Inl e), w')"
  shows "failed (snd (prepareBulkTransferStart E c p s))"
proof -
  have items: "keeps failed (forEach (bprep_individualTransfers p) (\<lambda>it.
      let ip = itemPrepare p it in prepareTransferStart E (itemCommand (PrepareTransferCmd ip)) ip))"
    unfolding Let_def by (intro keeps_intros failing.frame_single)
  obtain n s1 where n: "now E s = (Inr n, s1)" by (cases "dateNow E (world s)") (simp add: now_def)
  obtain e w' where "bulkRepo_addBulkTransfer E (newBulkOf c p n) (world s1) = (Inr (Inl e), w')"
    using assms [of "newBulkOf c p n" "world s1"] by (auto simp: newBulkOf_def)
  then have add: "addBulkTransfer E (newBulkOf c p n) s1 = (Inr (), s1\<lparr>world := w', unhandled := unhandled s1 @ [e]\<rparr>)"
    by (simp add: addBulkTransfer_def run_simps call_def)
  show ?thesis
    unfolding prepareBulkTransferStart_def using n add keeps_snd [OF items]
    by (simp add: run_simps)
qed

text \<open>C27: a redelivered bulk prepare ends the command handler as well: when the bulk transfer is stored, the
  promise of \<open>addBulkTransfer\<close>, which nobody awaits, rejects; no history goes on after a batch that has
  the command in it, wherever it stands.\<close>

theorem duplicate_bulk_prepare_ends_process:
  assumes "c \<in> set msgs" and "cmd_msgType c = COMMAND" and "cmd_body c = PrepareBulkTransferCmd p"
    and "bprep_bulkTransferId p \<noteq> []" and "\<And>w. \<exists>b w'. bcoll_findOne D (Some (bprep_bulkTransferId p)) w = (Inr (Some b), w')"
  shows "\<nexists>s'. survives (deployedEnv B C D K) msgs s s'"
proof
  let ?E = "deployedEnv B C D K"
  assume "\<exists>s'. survives ?E msgs s s'"
  then obtain s1 s2 where c: "processCommand ?E c s1 = (Inr (), s2)" and calm: "unhandled s2 = []"
    using survivor_commands [OF _ assms(1,2)] by metis
  have "\<exists>e w'. bulkRepo_addBulkTransfer ?E b w = (Inr (Inl e), w')"
    if "bt_bulkTransferId b = bprep_bulkTransferId p" for b w
    using that assms(4) assms(5) [of w] by (auto simp: deployedEnv_def mongo_addBulkTransfer_def catchAs_def run_simps)
  then have "failed (snd (prepareBulkTransferStart ?E c p s))" for s by (rule refused_bulk_fails)
  moreover from c assms(3) obtain s3 where "prepareBulkTransferStart ?E c p s3 = (Inr (), s2)"
    by (auto simp: processCommand_def dispatchCommand_def ensureValidMessage_def rememberCommand_run run_simps
        split: if_splits)
  ultimately show False using calm by (metis snd_conv)
qed

end
