(* ===== verification/End_To_End.thy ===== *)
theory End_To_End
  imports Batch_Properties
begin

text \<open>
  On a platform whose services all answer, a command is carried out to the end: the promise of its batch
  resolves, the transfer reaches the state the command asks for, and exactly one event says so.  The
  proofs compute the whole of \<open>processCommandBatch\<close>, from the command to the flush.
\<close>

section \<open>A healthy platform\<close>

definition succeeds :: "('w, 'a) call \<Rightarrow> ('a \<Rightarrow> bool) \<Rightarrow> bool" where
  "succeeds m R \<longleftrightarrow> (\<forall>w. \<exists>x w'. m w = (Inr x, w') \<and> R x)"

text \<open>Accounts & Balances answers each request of a call, in order, with success.\<close>

definition grants_all :: "ab_request list \<Rightarrow> ab_response list \<Rightarrow> bool" where
  "grants_all = list_all2 (\<lambda>q rsp. rsp_requestId rsp = req_requestId q \<and>
     rsp_requestType rsp = req_requestType q \<and> rsp_success rsp)"

definition services_up :: "'w env \<Rightarrow> (string \<Rightarrow> participant option) \<Rightarrow> bool" where
  "services_up E dir \<longleftrightarrow> stable_directory E dir \<and>
     (\<forall>a c c' x. succeeds (settlements_getSettlementModelId E a c c' x) (\<lambda>m. m \<noteq> '''')) \<and>
     (\<forall>i n x. succeeds (scheduling_createSingleReminder E i n x) (\<lambda>_. True)) \<and>
     (\<forall>qs. succeeds (ab_processHighLevelBatch E qs) (grants_all qs)) \<and>
     (\<forall>es. succeeds (producer_send E es) (\<lambda>_. True))"

text \<open>The repository takes the transfers as well.\<close>

definition healthy :: "'w env \<Rightarrow> (string \<Rightarrow> participant option) \<Rightarrow> bool" where
  "healthy E dir \<longleftrightarrow> services_up E dir \<and> (\<forall>ts. succeeds (repo_storeTransfers E ts) (\<lambda>_. True))"

lemma services_upD:
  assumes "services_up E dir"
  shows "stable_directory E dir"
    and "\<exists>m w'. settlements_getSettlementModelId E x c c' e w = (Inr m, w') \<and> m \<noteq> []"
    and "\<exists>w'. scheduling_createSingleReminder E i n y w = (Inr (), w')"
    and "\<exists>rsps w'. ab_processHighLevelBatch E qs w = (Inr rsps, w') \<and> grants_all qs rsps"
    and "\<exists>w'. producer_send E es w = (Inr (), w')"
  using assms by (auto simp: services_up_def succeeds_def)

lemma healthy_up: "healthy E dir \<Longrightarrow> services_up E dir"
  by (simp add: healthy_def)

lemma healthyD:
  assumes "healthy E dir"
  shows "stable_directory E dir"
    and "\<exists>rsps w'. ab_processHighLevelBatch E qs w = (Inr rsps, w') \<and> grants_all qs rsps"
    and "\<exists>w'. repo_storeTransfers E ts w = (Inr (), w')"
  using assms by (auto simp: healthy_def services_up_def succeeds_def)

text \<open>One statement after another.\<close>

lemma run_steps:
  "andThen (reads f) k s = k (f s) s"
  "andThen (modify g) k' s = k' () (g s)"
  "andThen (ret x) k'' s = k'' x s"
  "tryElse (ret x) h k'' s = k'' x s"
  "m (world s) = (Inr y, w) \<Longrightarrow> andThen (call m) k3 s = k3 y (s\<lparr>world := w\<rparr>)"
  "andThen m' ret s = m' s"
  by (auto simp: run_simps call_def split: prod.split sum.split)

section \<open>From the body of a batch to its promise\<close>

text \<open>When the body of a batch succeeds, the transfers are stored, the events published, the promise resolves.\<close>

lemma stored_batch:
  assumes h: "services_up E dir" and body: "batchBody E cmds (resetBatch s) = (Inr (), s1)"
    and store: "transfersCache s1 \<noteq> [] \<Longrightarrow>
       repo_storeTransfers E (map (\<lambda>(_, r). theap s1 r) (transfersCache s1)) (world s1) = (Inr (), w1)"
    and none: "transfersCache s1 = [] \<Longrightarrow> w1 = world s1"
  obtains w2 where "producer_send E (outputEvents s1) w1 = (Inr (), w2)"
    and "processCommandBatch E cmds s = (Resolved, s1\<lparr>world := w2, transfersCache := []\<rparr>)"
proof -
  have fl: "flush E s1 = (Inr (), s1\<lparr>world := w1, transfersCache := []\<rparr>)"
    using store none by (auto simp: flush_def run_simps call_def)
  obtain w2 where w2: "producer_send E (outputEvents s1) w1 = (Inr (), w2)"
    using services_upD(5) [OF h] by blast
  with fl have "batchFinally E s1 = (Inr (), s1\<lparr>world := w2, transfersCache := []\<rparr>)"
    by (simp add: batchFinally_def run_simps call_def)
  with body w2 show thesis by (intro that [of w2]) (simp_all add: processCommandBatch_def)
qed

lemma healthy_batch:
  assumes h: "healthy E dir" and "wp (batchBody E cmds) (\<lambda>r s1. r = Inr () \<and> P s1) (resetBatch s)"
  obtains s1 w where "P s1" and "processCommandBatch E cmds s = (Resolved, s1\<lparr>world := w, transfersCache := []\<rparr>)"
proof -
  obtain s1 where s1: "batchBody E cmds (resetBatch s) = (Inr (), s1)" and P: "P s1"
    using assms(2) by (cases "batchBody E cmds (resetBatch s)") (auto simp: wp_def)
  let ?ts = "map (\<lambda>(_, r). theap s1 r) (transfersCache s1)"
  obtain w1 where w1: "repo_storeTransfers E ?ts (world s1) = (Inr (), w1)"
    using healthyD(3) [OF h] by blast
  obtain w2 where "processCommandBatch E cmds s = (Resolved, s1\<lparr>world := w2, transfersCache := []\<rparr>)"
    by (rule stored_batch [OF healthy_up [OF h] s1, of "if transfersCache s1 = [] then world s1 else w1"]) (use w1 in auto)
  with P show thesis by (rule that)
qed

section \<open>Prepare\<close>

lemma accounts_of_new:
  "getTransferParticipantsAccounts ps (newTransferOf msg p hsh model n) =
   getTransferParticipantsAccounts ps (newTransferOf msg p [] [] 0)"
  by (simp add: getTransferParticipantsAccounts_def newTransferOf_def)

lemma newTransferOf_simps [simp]:
  "payerFspId (newTransferOf msg p hsh model n) = prep_payerFsp p"
  "payeeFspId (newTransferOf msg p hsh model n) = prep_payeeFsp p"
  "transferId (newTransferOf msg p hsh model n) = prep_transferId p"
  "bulkTransferId (newTransferOf msg p hsh model n) = prep_bulkTransferId p"
  by (simp_all add: newTransferOf_def)

text \<open>The state after the command has run: one new, cached transfer and one request to reserve it.\<close>

lemma prepare_start_healthy:
  assumes h: "services_up E dir" and new: "map_of (transfersCache s) (Some (prep_transferId p)) = None"
    and repo: "fst (repo_getTransferById E (Some (prep_transferId p)) (world s)) = Inr None"
    and checks: "checksOf dir (newTransferOf msg p [] [] 0) = Inr a"
  obtains w model n ndc u where "prepareTransferStart E msg p s =
     (Inr (), s\<lparr>world := w, theap := (theap s)(tnext s := newTransferOf msg p (prepareHash E p) model n),
            tnext := Suc (tnext s),
            transfersCache := AList.update (Some (prep_transferId p)) (tnext s) (transfersCache s),
            abBatchRequests := abBatchRequests s @
              [reserveRequest (newTransferOf msg p (prepareHash E p) model n) a ndc u]\<rparr>)"
proof -
  from checks obtain ps where ps: "participantsOf dir (prep_payerFsp p) (prep_payeeFsp p) = Inr ps"
    and a0: "getTransferParticipantsAccounts ps (newTransferOf msg p [] [] 0) = Inr a"
    by (auto simp: checksOf_def split: sum.splits)
  have a: "getTransferParticipantsAccounts ps (newTransferOf msg p hsh m n) = Inr a" for hsh m n
    by (subst accounts_of_new) (rule a0)
  obtain w where w: "repo_getTransferById E (Some (prep_transferId p)) (world s) = (Inr None, w)"
    using repo by (cases "repo_getTransferById E (Some (prep_transferId p)) (world s)") simp
  obtain m w1 where m: "m \<noteq> []" "settlements_getSettlementModelId E (prep_amount p) (prep_currencyCode p)
      (prep_currencyCode p) (prep_extensions p) w = (Inr m, w1)"
    using services_upD(2) [OF h] by blast
  obtain n w2 where n: "dateNow E w1 = (n, w2)" by fastforce
  let ?t = "newTransferOf msg p (prepareHash E p) m n"
  let ?s = "s\<lparr>world := w2, theap := (theap s)(tnext s := ?t), tnext := Suc (tnext s)\<rparr>"
  obtain w3 where info: "getParticipantsInfo E (prep_payerFsp p) (prep_payeeFsp p) ?s = (Inr ps, ?s\<lparr>world := w3\<rparr>)"
    using getParticipantsInfo_stable [OF services_upD(1) [OF h], of "prep_payerFsp p" "prep_payeeFsp p" ?s] ps by auto
  obtain w4 where rem: "scheduling_createSingleReminder E (prep_transferId p) (expirationTimestamp ?t)
      \<lparr>rem_transfer = ?t, rem_protocolType = cmd_protocolType msg, rem_opaqueState = cmd_opaqueState msg\<rparr> w3 = (Inr (), w4)"
    using services_upD(3) [OF h] by blast
  obtain u w5 where u: "randomUUID E w4 = (u, w5)" by fastforce
  have "prepareTransferStart E msg p s =
     (Inr (), s\<lparr>world := w5, theap := (theap s)(tnext s := ?t), tnext := Suc (tnext s),
            transfersCache := AList.update (Some (prep_transferId p)) (tnext s) (transfersCache s),
            abBatchRequests := abBatchRequests s @
              [reserveRequest ?t a (payerNetDebitCap E (tp_payer ps) (currencyCode ?t)) u]\<rparr>)"
    using new w m n info rem u
    by (simp add: prepareTransferStart_def prepareNew_def getSettlementModel_def prepareReserve_def run_simps
        primitive_defs getTransfer_def lift_sum_def a pushAbRequest_def)
  then show thesis by (rule that)
qed

text \<open>The response to a single request, continued with the only command of the batch.\<close>

lemma single_request_world:
  assumes h: "services_up E dir" and qs: "abBatchRequests s = [q]"
    and orig: "map_of (batchCommands s) (Some (req_transferId q)) = Some c"
    and cached: "map_of (transfersCache s) (Some (req_transferId q)) = Some r"
  obtains w rsp where "rsp_success rsp" and "rsp_requestType rsp = req_requestType q"
    and "runRequests E s = continueRequest E rsp q c (Some r) (s\<lparr>world := w, abBatchResponses := [rsp]\<rparr>)"
    and "ab_processHighLevelBatch E [q] (world s) = (Inr [rsp], w)"
proof -
  obtain rsps w where ab: "ab_processHighLevelBatch E [q] (world s) = (Inr rsps, w)" and "grants_all [q] rsps"
    using services_upD(4) [OF h] by blast
  then obtain rsp where rsp: "rsps = [rsp]" "rsp_requestId rsp = req_requestId q"
      "rsp_requestType rsp = req_requestType q" "rsp_success rsp"
    by (auto simp: grants_all_def list_all2_Cons1)
  have get: "getTransfer E (Some (req_transferId q)) s' = (Inr (Some r), s')"
    if "transfersCache s' = transfersCache s" for s'
    by (rule getTransfer_cached) (simp add: that cached)
  let ?s = "s\<lparr>world := w, abBatchResponses := [rsp]\<rparr>"
  have look: "andThen (lookupTransfer E c (req_transferId q)) k ?s = k (Some r) ?s" for k :: "_ \<Rightarrow> ('a, unit) act"
    by (simp add: lookupTransfer_def andThen_def tryElse_def get ret_def)
  have "processAccountsAndBalancesResponse E rsp ?s = continueRequest E rsp q c (Some r) ?s"
    using qs orig rsp by (simp add: processAccountsAndBalancesResponse_def run_steps look)
  then have "runRequests E s = continueRequest E rsp q c (Some r) ?s"
    using qs ab rsp by (simp add: runRequests_def setResponses_def run_steps)
  with ab rsp show thesis by (intro that [of rsp w]) simp_all
qed

lemma single_request_answered:
  assumes h: "services_up E dir" and qs: "abBatchRequests s = [q]"
    and orig: "map_of (batchCommands s) (Some (req_transferId q)) = Some c"
    and cached: "map_of (transfersCache s) (Some (req_transferId q)) = Some r"
  obtains w rsp where "rsp_success rsp" and "rsp_requestType rsp = req_requestType q"
    and "runRequests E s = continueRequest E rsp q c (Some r) (s\<lparr>world := w, abBatchResponses := [rsp]\<rparr>)"
  using single_request_world [OF assms] that by metis

text \<open>A batch of one command: it is remembered, its handler runs, its request is answered.\<close>

definition starts :: "'w agg \<Rightarrow> string \<Rightarrow> command \<Rightarrow> 'w agg" where
  "starts s tid c = (resetBatch s)\<lparr>batchCommands := [(Some tid, c)]\<rparr>"

lemma starts_simps [simp]:
  "abBatchRequests (starts s tid c) = []" "abCancelationBatchRequests (starts s tid c) = []"
  "outputEvents (starts s tid c) = []" "batchCommands (starts s tid c) = [(Some tid, c)]"
  "transfersCache (starts s tid c) = transfersCache s" "tnext (starts s tid c) = tnext s"
  "theap (starts s tid c) = theap s" "world (starts s tid c) = world s"
  by (simp_all add: starts_def resetBatch_def)

lemma single_command:
  assumes c: "cmd_msgType c = COMMAND" "payload_transferId (cmd_body c) = Some tid" "\<nexists>n. cmd_body c = NoPayloadCmd n"
      "msgName (cmd_body c) \<noteq> []" "\<not> truthy (payload_bulkTransferId (cmd_body c))"
    and start: "dispatchCommand E c (starts s tid c) = (Inr (), s1)"
  shows "batchBody E [c] (resetBatch s) = andThen (runRequests E) (\<lambda>_. runCancelations E) s1"
proof -
  have "(ensureValidMessage c :: ('a, unit) act) = ret ()"
    using c by (cases "cmd_body c") (simp_all add: ensureValidMessage_def)
  moreover have "resetBatch s\<lparr>batchCommands := AList.update (Some tid) c (batchCommands (resetBatch s))\<rparr> = starts s tid c"
    by (simp add: starts_def resetBatch_def)
  ultimately have "runCommands E [c] (resetBatch s) = (Inr (), s1)"
    using c start by (simp add: runCommands_def processCommand_def rememberCommand_def run_steps)
  then show ?thesis by (simp add: batchBody_def andThen_def [of "runCommands E [c]"])
qed

lemma no_cancelations: "abCancelationBatchRequests s = [] \<Longrightarrow> runCancelations E s = (Inr (), s)"
  by (simp add: runCancelations_def run_steps) (simp add: ret_def)

lemma reserve_answered:
  assumes "rsp_success rsp" and "rsp_requestType rsp = checkLiquidAndReserve"
    and "\<not> truthy (payload_bulkTransferId (cmd_body c))" and "\<not> truthy (bulkTransferId (theap s r))"
  shows "wp (continueRequest E rsp q c (Some r)) (\<lambda>res s'. res = Inr () \<and>
      abCancelationBatchRequests s' = abCancelationBatchRequests s \<and>
      (\<exists>n k. theap s' = (theap s)(r := reserved_at n (theap s r)) \<and> outputEvents s' = outputEvents s @
         [tagged c (TransferPreparedEvt (preparedPayload (cmd_body c) (theap s' r) k))])) s"
  using assms
  by (simp add: continueRequest_def prepareTransferContinue_def wp_simps split: prod.split) blast

text \<open>On a healthy platform, a prepare command for an unknown transfer whose participants and accounts
  pass the checks is carried out: the promise of its batch resolves, the transfer is \<open>RESERVED\<close> with the
  terms of the command, one event announces it as prepared, and no transfer stays in the cache.\<close>

theorem prepare_end_to_end:
  assumes "healthy E dir" and "cmd_msgType c = COMMAND" and "cmd_body c = PrepareTransferCmd p"
    and "\<not> truthy (prep_bulkTransferId p)" and "map_of (transfersCache s) (Some (prep_transferId p)) = None"
    and "\<And>w. fst (repo_getTransferById E (Some (prep_transferId p)) w) = Inr None"
    and "checksOf dir (newTransferOf c p [] [] 0) = Inr a"
  shows "\<exists>s' model n k. processCommandBatch E [c] s = (Resolved, s') \<and> transfersCache s' = [] \<and>
     transferState (theap s' (tnext s)) = RESERVED \<and>
     terms (theap s' (tnext s)) = terms (newTransferOf c p (prepareHash E p) model n) \<and>
     outputEvents s' = [tagged c (TransferPreparedEvt (preparedPayload (cmd_body c) (theap s' (tnext s)) k))]"
proof -
  let ?tid = "prep_transferId p" and ?r = "tnext s"
  obtain w model n ndc u where start: "prepareTransferStart E c p (starts s ?tid c) =
     (Inr (), (starts s ?tid c)\<lparr>world := w, theap := (theap s)(?r := newTransferOf c p (prepareHash E p) model n),
            tnext := Suc ?r, transfersCache := AList.update (Some ?tid) ?r (transfersCache s),
            abBatchRequests := [reserveRequest (newTransferOf c p (prepareHash E p) model n) a ndc u]\<rparr>)"
    by (rule prepare_start_healthy [OF healthy_up [OF assms(1)] _ assms(6,7), where s = "starts s ?tid c"]) (simp_all add: assms(5))
  let ?t = "newTransferOf c p (prepareHash E p) model n"
  let ?q = "reserveRequest ?t a ndc u"
  let ?s1 = "(starts s ?tid c)\<lparr>world := w, theap := (theap s)(?r := ?t), tnext := Suc ?r,
     transfersCache := AList.update (Some ?tid) ?r (transfersCache s), abBatchRequests := [?q]\<rparr>"
  have "dispatchCommand E c (starts s ?tid c) = (Inr (), ?s1)"
    using start assms(3) by (simp add: dispatchCommand_def)
  then have body: "batchBody E [c] (resetBatch s) = andThen (runRequests E) (\<lambda>_. runCancelations E) ?s1"
    using assms(2-4) by (intro single_command) simp_all
  obtain w' rsp where rsp: "rsp_success rsp" "rsp_requestType rsp = checkLiquidAndReserve"
    and run: "runRequests E ?s1 = continueRequest E rsp ?q c (Some ?r) (?s1\<lparr>world := w', abBatchResponses := [rsp]\<rparr>)"
    by (rule single_request_answered [OF healthy_up [OF assms(1)], of ?s1 ?q c ?r]) (simp_all add: reserveRequest_def update_conv')
  let ?P = "\<lambda>s2. abCancelationBatchRequests s2 = [] \<and> (\<exists>n' k. theap s2 ?r = reserved_at n' ?t \<and>
      outputEvents s2 = [tagged c (TransferPreparedEvt (preparedPayload (cmd_body c) (theap s2 ?r) k))])"
  have "wp (runRequests E) (\<lambda>res s2. res = Inr () \<and> ?P s2) ?s1"
    unfolding wp_def run
    by (rule wp_mono [OF reserve_answered [OF rsp], unfolded wp_def]) (use assms(3,4) in auto)
  then have "wp (batchBody E [c]) (\<lambda>res s2. res = Inr () \<and> ?P s2) (resetBatch s)"
    unfolding wp_def [of "batchBody E [c]"] body
    by (auto simp: wp_def andThen_def no_cancelations split: prod.splits)
  then obtain s2 wf where "?P s2" and settled: "processCommandBatch E [c] s = (Resolved, s2\<lparr>world := wf, transfersCache := []\<rparr>)"
    by (rule healthy_batch [OF assms(1)])
  then obtain n' k where "theap s2 ?r = reserved_at n' ?t"
    "outputEvents s2 = [tagged c (TransferPreparedEvt (preparedPayload (cmd_body c) (theap s2 ?r) k))]"
    by blast
  moreover have "terms (reserved_at n' ?t) = terms ?t" by (simp add: terms_def)
  ultimately show ?thesis using settled by auto
qed

section \<open>Fulfil\<close>

text \<open>The parts of a fulfil command that can be refused: its opaque state and its fulfilment.\<close>

definition acceptable :: "'w env \<Rightarrow> command \<Rightarrow> transfer \<Rightarrow> bool" where
  "acceptable E c t \<longleftrightarrow>
     (json_truthy (cmd_opaqueState c) \<longrightarrow> (\<exists>v. deepMerge (transferOpaqueState t) (cmd_opaqueState c) = Inr v)) \<and>
     (cmd_protocolType c = Some ''FSPIOP_v1_1'' \<longrightarrow>
        (\<forall>v. succeeds (validator_validateFulfilment E (cmd_opaqueState c) v) (\<lambda>ok. ok)))"

lemma merge_acceptable:
  assumes "acceptable E c (theap s r)"
  obtains v where "mergeOpaqueState c r s = (Inr (), s\<lparr>theap := (theap s)(r := (theap s r)\<lparr>transferOpaqueState := v\<rparr>)\<rparr>)"
proof (cases "json_truthy (cmd_opaqueState c)")
  case True
  with assms obtain v where "deepMerge (transferOpaqueState (theap s r)) (cmd_opaqueState c) = Inr v"
    by (auto simp: acceptable_def)
  with True show thesis by (intro that [of v]) (simp add: mergeOpaqueState_def run_simps getT_def setT_def)
next
  case False
  then show thesis
    by (intro that [of "transferOpaqueState (theap s r)"]) (simp add: mergeOpaqueState_def run_simps)
qed

lemma validate_acceptable:
  assumes "acceptable E c t"
  obtains w where "fulfilValidate E c p r s = fulfilReserve E c r (s\<lparr>world := w\<rparr>)"
proof (cases "cmd_protocolType c = Some ''FSPIOP_v1_1''")
  case True
  with assms obtain ok w where "validator_validateFulfilment E (cmd_opaqueState c)
      (transferOpaqueState (theap s r)) (world s) = (Inr ok, w)" and ok
    unfolding acceptable_def succeeds_def by blast
  then have "validator_validateFulfilment E (cmd_opaqueState c)
      (transferOpaqueState (theap s r)) (world s) = (Inr True, w)" by simp
  with True show thesis
    by (intro that [of w]) (simp add: fulfilValidate_def Let_def getT_def run_steps tryElse_def call_def)
next
  case False
  then show thesis by (intro that [of "world s"]) (simp add: fulfilValidate_def)
qed

text \<open>The start of a fulfil, once its transfer is found.\<close>

lemma fulfil_found:
  assumes h: "services_up E dir" and checks: "checksOf dir (theap s r) = Inr a" and acc: "acceptable E c (theap s r)"
  obtains w v u where "andThen (mergeOpaqueState c r) (\<lambda>_. fulfilValidate E c p r) s =
     (Inr (), s\<lparr>world := w, theap := (theap s)(r := (theap s r)\<lparr>transferOpaqueState := v\<rparr>),
            abBatchRequests := abBatchRequests s @ [commitRequest (theap s r) a u]\<rparr>)"
proof -
  let ?t = "theap s r"
  from checks obtain ps where ps: "participantsOf dir (payerFspId ?t) (payeeFspId ?t) = Inr ps"
    and a: "getTransferParticipantsAccounts ps ?t = Inr a"
    by (auto simp: checksOf_def split: sum.splits)
  from acc obtain v where merge: "mergeOpaqueState c r s =
      (Inr (), s\<lparr>theap := (theap s)(r := ?t\<lparr>transferOpaqueState := v\<rparr>)\<rparr>)"
    by (rule merge_acceptable)
  let ?s2 = "s\<lparr>theap := (theap s)(r := ?t\<lparr>transferOpaqueState := v\<rparr>)\<rparr>"
  obtain w2 where validate: "fulfilValidate E c p r ?s2 = fulfilReserve E c r (?s2\<lparr>world := w2\<rparr>)"
    by (rule validate_acceptable [OF acc])
  obtain w3 where info: "getParticipantsInfo E (payerFspId ?t) (payeeFspId ?t) (?s2\<lparr>world := w2\<rparr>) = (Inr ps, ?s2\<lparr>world := w3\<rparr>)"
    using getParticipantsInfo_stable [OF services_upD(1) [OF h], of "payerFspId ?t" "payeeFspId ?t" "?s2\<lparr>world := w2\<rparr>"] ps
    by auto
  obtain u w4 where u: "randomUUID E w3 = (u, w4)" by fastforce
  have "fulfilReserve E c r (?s2\<lparr>world := w2\<rparr>) = (Inr (), ?s2\<lparr>world := w4,
      abBatchRequests := abBatchRequests s @ [commitRequest ?t a u]\<rparr>)"
    using info u by (simp add: fulfilReserve_def run_simps primitive_defs lift_sum_def a pushAbRequest_def)
  with merge validate show thesis
    by (intro that [where w = w4 and v = v and u = u]) (simp add: andThen_def)
qed

lemma fulfil_start_healthy:
  assumes h: "services_up E dir" and new: "map_of (transfersCache s) (Some (ful_transferId p)) = None"
    and repo: "fst (repo_getTransferById E (Some (ful_transferId p)) (world s)) = Inr (Some t)"
    and checks: "checksOf dir t = Inr a" and acc: "acceptable E c t"
  obtains w v u where "fulfilTransferStart E c p s =
     (Inr (), s\<lparr>world := w, theap := (theap s)(tnext s := t\<lparr>transferOpaqueState := v\<rparr>), tnext := Suc (tnext s),
            transfersCache := AList.update (Some (ful_transferId p)) (tnext s) (transfersCache s),
            abBatchRequests := abBatchRequests s @ [commitRequest t a u]\<rparr>)"
proof -
  let ?tid = "Some (ful_transferId p)" and ?r = "tnext s"
  obtain w where w: "repo_getTransferById E ?tid (world s) = (Inr (Some t), w)"
    using repo by (cases "repo_getTransferById E ?tid (world s)") simp
  let ?read = "s\<lparr>world := w, theap := (theap s)(?r := t), tnext := Suc ?r,
     transfersCache := AList.update ?tid ?r (transfersCache s)\<rparr>"
  have get: "getTransfer E ?tid s = (Inr (Some ?r), ?read)"
    using new w by (simp add: getTransfer_def run_simps primitive_defs)
  obtain w' v u where "andThen (mergeOpaqueState c ?r) (\<lambda>_. fulfilValidate E c p ?r) ?read =
     (Inr (), ?read\<lparr>world := w', theap := (theap ?read)(?r := (theap ?read ?r)\<lparr>transferOpaqueState := v\<rparr>),
            abBatchRequests := abBatchRequests ?read @ [commitRequest (theap ?read ?r) a u]\<rparr>)"
    by (rule fulfil_found [OF h, where s = ?read and r = ?r and a = a and c = c and p = p]) (use checks acc in simp_all)
  with get show thesis
    by (intro that [where w = w' and v = v and u = u]) (simp add: fulfilTransferStart_def tryElse_def)
qed

lemma commit_answered:
  assumes "rsp_success rsp" and "rsp_requestType rsp = cancelReservationAndCommit"
    and "\<not> truthy (payload_bulkTransferId (cmd_body c))" and "\<not> truthy (bulkTransferId (theap s r))"
  shows "wp (continueRequest E rsp q c (Some r)) (\<lambda>res s'. res = Inr () \<and>
      abCancelationBatchRequests s' = abCancelationBatchRequests s \<and>
      (\<exists>n k. theap s' = (theap s)(r := committed_at n (payload_completedTimestamp (cmd_body c)) (theap s r)) \<and>
         outputEvents s' = outputEvents s @
           [tagged c (TransferFulfiledEvt (fulfiledPayload (cmd_body c) (theap s' r) k))])) s"
  using assms
  by (simp add: continueRequest_def fulfilTransferContinue_def wp_simps split: prod.split) blast

text \<open>On a healthy platform, a fulfil command for a stored transfer whose participants and accounts pass
  the checks, with an opaque state that merges and a fulfilment the validator accepts, is carried out:
  the promise of its batch resolves, the transfer is \<open>COMMITTED\<close> with its terms unchanged and the
  completion time of the command, and one event announces it as fulfilled.\<close>

theorem fulfil_end_to_end:
  assumes "healthy E dir" and "cmd_msgType c = COMMAND" and "cmd_body c = CommitTransferFulfilCmd p"
    and "map_of (transfersCache s) (Some (ful_transferId p)) = None"
    and "\<And>w. fst (repo_getTransferById E (Some (ful_transferId p)) w) = Inr (Some t)"
    and "transferId t = ful_transferId p" and "\<not> truthy (bulkTransferId t)"
    and "checksOf dir t = Inr a" and "acceptable E c t"
  shows "\<exists>s' k. processCommandBatch E [c] s = (Resolved, s') \<and> transfersCache s' = [] \<and>
     transferState (theap s' (tnext s)) = COMMITTED \<and> terms (theap s' (tnext s)) = terms t \<and>
     completedTimestamp (theap s' (tnext s)) = ful_completedTimestamp p \<and>
     outputEvents s' = [tagged c (TransferFulfiledEvt (fulfiledPayload (cmd_body c) (theap s' (tnext s)) k))]"
proof -
  let ?tid = "ful_transferId p" and ?r = "tnext s"
  obtain w v u where start: "fulfilTransferStart E c p (starts s ?tid c) =
     (Inr (), (starts s ?tid c)\<lparr>world := w, theap := (theap s)(?r := t\<lparr>transferOpaqueState := v\<rparr>), tnext := Suc ?r,
            transfersCache := AList.update (Some ?tid) ?r (transfersCache s), abBatchRequests := [commitRequest t a u]\<rparr>)"
    by (rule fulfil_start_healthy [OF healthy_up [OF assms(1)] _ assms(5,8,9), where s = "starts s ?tid c"]) (simp_all add: assms(4))
  let ?t = "t\<lparr>transferOpaqueState := v\<rparr>" and ?q = "commitRequest t a u"
  let ?s1 = "(starts s ?tid c)\<lparr>world := w, theap := (theap s)(?r := ?t), tnext := Suc ?r,
     transfersCache := AList.update (Some ?tid) ?r (transfersCache s), abBatchRequests := [?q]\<rparr>"
  have "dispatchCommand E c (starts s ?tid c) = (Inr (), ?s1)"
    using start assms(3) by (simp add: dispatchCommand_def)
  then have body: "batchBody E [c] (resetBatch s) = andThen (runRequests E) (\<lambda>_. runCancelations E) ?s1"
    using assms(2,3) by (intro single_command) simp_all
  obtain w' rsp where rsp: "rsp_success rsp" "rsp_requestType rsp = cancelReservationAndCommit"
    and run: "runRequests E ?s1 = continueRequest E rsp ?q c (Some ?r) (?s1\<lparr>world := w', abBatchResponses := [rsp]\<rparr>)"
    by (rule single_request_answered [OF healthy_up [OF assms(1)], of ?s1 ?q c ?r])
       (simp_all add: commitRequest_def update_conv' assms(6))
  let ?P = "\<lambda>s2. abCancelationBatchRequests s2 = [] \<and>
     (\<exists>n k. theap s2 ?r = committed_at n (payload_completedTimestamp (cmd_body c)) ?t \<and>
        outputEvents s2 = [tagged c (TransferFulfiledEvt (fulfiledPayload (cmd_body c) (theap s2 ?r) k))])"
  have "wp (runRequests E) (\<lambda>res s2. res = Inr () \<and> ?P s2) ?s1"
    unfolding wp_def run
    by (rule wp_mono [OF commit_answered [OF rsp], unfolded wp_def]) (use assms(3,7) in auto)
  then have "wp (batchBody E [c]) (\<lambda>res s2. res = Inr () \<and> ?P s2) (resetBatch s)"
    unfolding wp_def [of "batchBody E [c]"] body
    by (auto simp: wp_def andThen_def no_cancelations split: prod.splits)
  then obtain s2 wf where "?P s2" and settled: "processCommandBatch E [c] s = (Resolved, s2\<lparr>world := wf, transfersCache := []\<rparr>)"
    by (rule healthy_batch [OF assms(1)])
  then obtain n k where "theap s2 ?r = committed_at n (ful_completedTimestamp p) ?t"
    "outputEvents s2 = [tagged c (TransferFulfiledEvt (fulfiledPayload (cmd_body c) (theap s2 ?r) k))]"
    using assms(3) by auto
  moreover have "terms (committed_at n ts ?t) = terms t" for n ts by (simp add: terms_def)
  ultimately show ?thesis using settled by auto
qed

end
