(* ===== verification/Run_Witnesses.thy ===== *)
theory Run_Witnesses
  imports Witnesses History End_To_End
begin

text \<open>
  The theorems on whole batches and on histories of batches, applied to variants of the sample platform
  whose repository is the same in every world.
\<close>

section \<open>Platforms\<close>

text \<open>A repository without documents, and one with a single document.\<close>

definition freshEnv :: "sample_world env" where
  "freshEnv = E0\<lparr>repo_getTransferById := (\<lambda>_ w. (Inr None, w))\<rparr>"

definition storedEnv :: "transfer \<Rightarrow> sample_world env" where
  "storedEnv t = E0\<lparr>repo_getTransferById := (\<lambda>tid w. (Inr (if tid = Some (transferId t) then Some t else None), w))\<rparr>"

text \<open>The fresh platform, with an Accounts & Balances that answers only requests of distinct identifiers.\<close>

definition carefulEnv :: "sample_world env" where
  "carefulEnv = freshEnv\<lparr>ab_processHighLevelBatch := (\<lambda>reqs w.
     (Inr (if distinct (map req_requestId reqs)
           then map (\<lambda>q. \<lparr>rsp_requestType = req_requestType q, rsp_requestId = req_requestId q,
                  rsp_success = True, rsp_errorMessage = None\<rparr>) reqs
           else []), w))\<rparr>"

lemma same_request:
  assumes "distinct (map req_requestId qs)" and "q \<in> set qs" and "q' \<in> set qs"
    and "req_requestId q = req_requestId q'"
  shows "q = q'"
  using assms by (simp add: distinct_map inj_on_def)

lemma careful_echoes: "echoes_type carefulEnv"
  unfolding echoes_type_def
proof (intro allI impI ballI)
  fix qs w rsps w' rsp q
  assume run: "ab_processHighLevelBatch carefulEnv qs w = (Inr rsps, w')"
    and rsp: "rsp \<in> set rsps" and "rsp_success rsp" and q: "q \<in> set qs" "req_requestId q = rsp_requestId rsp"
  from run rsp have "distinct (map req_requestId qs)"
    by (auto simp: carefulEnv_def split: if_splits)
  moreover from run rsp obtain q' where q': "q' \<in> set qs" "rsp_requestId rsp = req_requestId q'"
    "rsp_requestType rsp = req_requestType q'"
    by (auto simp: carefulEnv_def split: if_splits)
  ultimately have "q = q'" using q by (intro same_request) simp_all
  with q' show "rsp_requestType rsp = req_requestType q" by simp
qed

lemma careful_ok: "platform_ok h carefulEnv"
  using careful_echoes by (simp add: platform_ok_def repo_returns_requested_def carefulEnv_def freshEnv_def)

lemma fresh_healthy: "healthy freshEnv sampleDirectory" and stored_healthy: "healthy (storedEnv t) sampleDirectory"
proof -
  have "grants_all qs (map (\<lambda>q. \<lparr>rsp_requestType = req_requestType q, rsp_requestId = req_requestId q,
      rsp_success = True, rsp_errorMessage = None\<rparr>) qs)" for qs
    by (simp add: grants_all_def list_all2_map2 list_all2_same)
  then show "healthy freshEnv sampleDirectory" and "healthy (storedEnv t) sampleDirectory"
    by (simp_all add: healthy_def services_up_def succeeds_def stable_directory_def freshEnv_def storedEnv_def sampleEnv_def)
qed

section \<open>A history\<close>

text \<open>A prepare and the fulfil of the same transfer, then a reject of it.\<close>

definition firstBatch :: "command list" where "firstBatch = [prepareMsg, fulfilMsg]"

definition afterFirst :: "sample_world agg" where
  "afterFirst = snd (commandBatchHandler carefulEnv firstBatch (emptyState 10))"

definition afterSecond :: "sample_world agg" where
  "afterSecond = snd (commandBatchHandler carefulEnv [rejectMsg] afterFirst)"

lemma first_run:
  "(let r = commandBatchHandler carefulEnv firstBatch (emptyState 10) in
     (fst r, unhandled (snd r), tnext (snd r), transferState (theap (snd r) 0), transferId (theap (snd r) 0)))
   = (Resolved, [], 1, COMMITTED, ''t1'')"
  by code_simp

lemma second_run:
  "(let r = commandBatchHandler carefulEnv [rejectMsg] afterFirst in (fst r, unhandled (snd r))) = (Resolved, [])"
  by code_simp

lemma first_survives: "survives carefulEnv firstBatch (emptyState 10) afterFirst"
  using first_run by (auto simp: survives_def afterFirst_def Let_def prod_eq_iff)

lemma second_survives: "survives carefulEnv [rejectMsg] afterFirst afterSecond"
  using second_run by (auto simp: survives_def afterSecond_def Let_def prod_eq_iff)

abbreviation history1 :: "sample_world batch_record list" where
  "history1 \<equiv> [(carefulEnv, firstBatch, emptyState 10, afterFirst)]"

lemma same_world: "s\<lparr>world := world s\<rparr> = (s :: 'w agg)"
  by simp

lemma history_first: "history history1 afterFirst"
  using history.consumed [OF history.started careful_ok, of firstBatch _ afterFirst "world afterFirst"] first_survives
  by (simp add: emptyState_def)

lemma history_second: "history ([(carefulEnv, [rejectMsg], afterFirst, afterSecond)] @ history1) afterSecond"
  using history.consumed [OF history_first careful_ok second_survives, of "world afterSecond"] by simp

lemma first_left: "tnext afterFirst = 1" "transferState (theap afterFirst 0) = COMMITTED" "transferId (theap afterFirst 0) = ''t1''"
  using first_run by (simp_all add: afterFirst_def Let_def)

lemma history_commit_needs_fulfil_witness: "granted_in history1 cancelReservationAndCommit ''t1''"
  using history_commit_needs_fulfil [OF history_first, of 0] by (simp add: first_left)


lemma history_batches_completed_witness: "transfersCache afterFirst = []"
proof -
  have "history ([] @ (carefulEnv, firstBatch, emptyState 10, afterFirst) # []) afterFirst"
    using history_first by simp
  from history_batches_completed [OF this] show ?thesis by simp
qed

text \<open>A prepare alone.\<close>

definition afterPrepare :: "sample_world agg" where
  "afterPrepare = snd (commandBatchHandler carefulEnv [prepareMsg] (emptyState 10))"

lemma prepare_run:
  "(let r = commandBatchHandler carefulEnv [prepareMsg] (emptyState 10) in
     (fst r, unhandled (snd r), tnext (snd r), transferState (theap (snd r) 0), transferId (theap (snd r) 0)))
   = (Resolved, [], 1, RESERVED, ''t1'')"
  by code_simp

lemma history_reserve_needs_prepare_witness:
  "granted_in [(carefulEnv, [prepareMsg], emptyState 10, afterPrepare)] checkLiquidAndReserve ''t1''"
proof -
  have "survives carefulEnv [prepareMsg] (emptyState 10) afterPrepare"
    using prepare_run by (auto simp: survives_def afterPrepare_def Let_def prod_eq_iff)
  then have "history [(carefulEnv, [prepareMsg], emptyState 10, afterPrepare)] afterPrepare"
    using history.consumed [OF history.started careful_ok, of "[prepareMsg]" _ afterPrepare "world afterPrepare"]
    by (simp add: emptyState_def)
  from history_reserve_needs_prepare [OF this, of 0] prepare_run show ?thesis
    by (simp add: afterPrepare_def Let_def)
qed

section \<open>Batches that end the process\<close>

abbreviation duplicateState :: "sample_world agg" where
  "duplicateState \<equiv> initAgg \<lparr>sw_clock = 1, sw_docs = [sampleTransfer RESERVED]\<rparr>"

lemma duplicate_prepare_ends_process_witness:
  "\<nexists>s'. survives (deployedEnv E0 sampleCollection sampleBulkCollection downClients) [prepareMsg] duplicateState s'"
proof (rule duplicate_prepare_ends_process [OF history.started sample_counts])
  show "cmd_body prepareMsg = PrepareTransferCmd samplePrepare" by (simp add: sampleMsg_def)
  show "coll_findOne sampleCollection (Some (prep_transferId samplePrepare)) (world duplicateState)
      = (Inr (Some (sampleTransfer RESERVED)), \<lparr>sw_clock = 1, sw_docs = [sampleTransfer RESERVED]\<rparr>)"
    by (simp add: sampleCollection_def initAgg_def samplePrepare_def mem_getTransferById_def)
  show "mapToTransfer (sampleTransfer RESERVED) = sampleTransfer RESERVED"
    by (simp add: mapToTransfer_def sampleTransfer_def)
qed (simp_all add: sampleMsg_def mem_getTransferById_def)

definition fullBulkCollection :: "sample_world bulk_collection" where
  "fullBulkCollection = sampleBulkCollection\<lparr>bcoll_findOne := (\<lambda>_ w. (Inr (Some (newBulkOf bulkMsg sampleBulk 0)), w))\<rparr>"

lemma duplicate_bulk_prepare_ends_process_witness:
  "\<nexists>s'. survives (deployedEnv E0 sampleCollection fullBulkCollection downClients) [rejectMsg, bulkMsg] (emptyState 1) s'"
  by (rule duplicate_bulk_prepare_ends_process [of bulkMsg _ sampleBulk])
     (simp_all add: sampleMsg_def sampleBulk_def fullBulkCollection_def)

section \<open>End to end\<close>

lemma prepare_end_to_end_witness:
  "\<exists>s'. processCommandBatch freshEnv [prepareMsg] (emptyState 1) = (Resolved, s') \<and>
     transferState (theap s' 0) = RESERVED"
proof -
  have "checksOf sampleDirectory (newTransferOf prepareMsg samplePrepare [] [] 0) = Inr sampleAccountsOf"
    using sample_checks [of RECEIVED]
    by (simp add: checksOf_def sample_directory_checks getTransferParticipantsAccounts_def newTransferOf_def samplePrepare_def)
  from prepare_end_to_end [OF fresh_healthy _ _ _ _ _ this, of "emptyState 1"]
  show ?thesis
    by (fastforce simp: sampleMsg_def samplePrepare_def emptyState_def initAgg_def freshEnv_def)
qed

lemma fulfil_end_to_end_witness:
  "\<exists>s'. processCommandBatch (storedEnv (sampleTransfer RESERVED)) [fulfilMsg] (emptyState 1) = (Resolved, s') \<and>
     transferState (theap s' 0) = COMMITTED"
proof -
  have "acceptable (storedEnv (sampleTransfer RESERVED)) fulfilMsg (sampleTransfer RESERVED)"
    by (simp add: acceptable_def sampleMsg_def)
  from fulfil_end_to_end [OF stored_healthy _ _ _ _ _ _ sample_checks this, of sampleFulfil "emptyState 1"]
  show ?thesis
    by (fastforce simp: sampleMsg_def sampleFulfil_def emptyState_def initAgg_def storedEnv_def)
qed

end
