(* ===== verification/World_Frames.thy ===== *)
theory World_Frames
  imports Frames
begin

text \<open>
  What the prepare and the fulfil handlers do to the world behind the interfaces.  The locale
  \<open>call_frame\<close> reduces the preservation of a predicate on the world, the queued requests and the queued
  cancellations to one law per call they make.  It is interpreted on the identifiers given out
  (\<open>Request_Ids\<close>) and on the documents of the repository (\<open>Life_Cycle\<close>).
\<close>

locale call_frame =
  fixes E :: "'w env" and I :: "'w agg \<Rightarrow> bool"
  assumes frame: "\<lbrakk>I s; world s' = world s; abBatchRequests s' = abBatchRequests s;
      abCancelationBatchRequests s' = abCancelationBatchRequests s\<rbrakk> \<Longrightarrow> I s'"
    and reads_transfer: "keeps I (call (repo_getTransferById E tid))"
    and reads_participant: "keeps I (call (participants_getParticipantInfo E i))"
    and asks_settlements: "keeps I (call (settlements_getSettlementModelId E a cur cur' x))"
    and asks_scheduling: "keeps I (call (scheduling_createSingleReminder E i n p))"
    and asks_validator: "keeps I (call (validator_validateFulfilment E v v'))"
    and reads_clock: "keeps I (now E)"
    and reserves: "keeps I (andThen (uuid E) (\<lambda>u. pushAbRequest (reserveRequest t acc ndc u)))"
    and commits: "keeps I (andThen (uuid E) (\<lambda>u. pushAbRequest (commitRequest t acc u)))"
    and cancels: "keeps I (cancelTransfer E tid code)"
begin

lemma keeps_frame:
  assumes "\<And>s. world (snd (m s)) = world s \<and> abBatchRequests (snd (m s)) = abBatchRequests s \<and>
     abCancelationBatchRequests (snd (m s)) = abCancelationBatchRequests s"
  shows "keeps I m"
proof (rule keepsI)
  fix s assume "I s"
  with frame [of s "snd (m s)"] assms show "wp m (\<lambda>_ s'. I s') s" by (simp add: wp_unfold)
qed

lemma frame_primitives:
  "keeps I (newTransfer t)" "keeps I (getT r)" "keeps I (setT r f)" "keeps I (cacheT r)" "keeps I (emit msg e)"
  "keeps I (lift_sum x)" "keeps I (modify (\<lambda>s. s\<lparr>transfersCache := f1 s\<rparr>))"
  by (rule keeps_frame; cases x; simp add: primitive_defs reads_def modify_def emit_def lift_sum_def ret_def raise_def)+

lemma frame_state:
  "\<lbrakk>keeps I m1; keeps I m2; keeps I m3; keeps I m4\<rbrakk> \<Longrightarrow>
   keeps I (case st of RECEIVED \<Rightarrow> m1 | RESERVED \<Rightarrow> m2 | COMMITTED \<Rightarrow> m3 | ABORTED \<Rightarrow> m4)"
  by (cases st) auto

lemmas frame_intros = keeps_intros frame_primitives frame_state reads_transfer reads_participant asks_settlements
  asks_scheduling asks_validator reads_clock cancels

lemma frame_helpers:
  "keeps I (getTransfer E tid)" "keeps I (getParticipantsInfo E payer payee)" "keeps I (missingTransfer E msg tid')"
  unfolding getTransfer_def getParticipantsInfo_def missingTransfer_def by (intro frame_intros)+

lemma frame_prepareTransferStart: "keeps I (prepareTransferStart E msg p)"
  unfolding prepareTransferStart_def prepareExisting_def prepareNew_def getSettlementModel_def prepareReserve_def
    prepareParticipantsError_def prepareAccountsError_def Let_def
  by (rule reserves | rule frame_intros frame_helpers)+

lemma frame_fulfilTransferStart: "keeps I (fulfilTransferStart E msg fp)"
  unfolding fulfilTransferStart_def mergeOpaqueState_def fulfilValidate_def fulfilReserve_def fulfilParticipantsError_def
    fulfilAccountsError_def fulfilAbort_def Let_def
  by (rule commits | rule frame_intros frame_helpers)+

lemma frame_continue:
  "keeps I (prepareTransferContinue E rsp q c r)" "keeps I (fulfilTransferContinue E rsp q c r)"
  unfolding prepareTransferContinue_def fulfilTransferContinue_def
  by (intro frame_intros frame_helpers)+

end

text \<open>A law of the platform as a part of the predicate.\<close>

lemma keeps_under: "(P \<Longrightarrow> keeps I m) \<Longrightarrow> keeps (\<lambda>s. P \<longrightarrow> I s) m"
  by (cases P) (auto simp: keeps_def wp_unfold)

end
