(* ===== verification/Request_Ids.thy ===== *)
theory Request_Ids
  imports World_Frames
begin

text \<open>
  The identifiers of the requests to Accounts & Balances.  A response is matched with its request by
  \<open>requestId\<close>, the first one in the list that has it, so the continuation is the right one only because
  \<open>randomUUID()\<close> does not repeat itself.  Here that is a law of the platform, \<open>fresh_ids\<close>, and its
  consequence is proved for every command: the requests of a batch have pairwise different identifiers.
\<close>

section \<open>A platform that never repeats an identifier\<close>

text \<open>\<open>used w\<close> holds the identifiers given out before the world \<open>w\<close>; a call may add to them.\<close>

definition grows :: "('w \<Rightarrow> string set) \<Rightarrow> ('w \<Rightarrow> 'r \<times> 'w) \<Rightarrow> bool" where
  "grows used m \<longleftrightarrow> (\<forall>w. used w \<subseteq> used (snd (m w)))"

definition fresh_ids :: "'w env \<Rightarrow> ('w \<Rightarrow> string set) \<Rightarrow> bool" where
  "fresh_ids E used \<longleftrightarrow>
     (\<forall>w. fst (randomUUID E w) \<notin> used w \<and> insert (fst (randomUUID E w)) (used w) \<subseteq> used (snd (randomUUID E w))) \<and>
     grows used (dateNow E) \<and>
     (\<forall>x. grows used (repo_getTransferById E x)) \<and>
     (\<forall>x. grows used (repo_updateTransfer E x)) \<and>
     (\<forall>x. grows used (repo_getTransfersByBulkId E x)) \<and>
     (\<forall>x. grows used (bulkRepo_addBulkTransfer E x)) \<and>
     (\<forall>x. grows used (bulkRepo_updateBulkTransfer E x)) \<and>
     (\<forall>x. grows used (bulkRepo_getBulkTransferById E x)) \<and>
     (\<forall>x. grows used (participants_getParticipantInfo E x)) \<and>
     (\<forall>a c c' x. grows used (settlements_getSettlementModelId E a c c' x)) \<and>
     (\<forall>i n x. grows used (scheduling_createSingleReminder E i n x)) \<and>
     (\<forall>x y. grows used (validator_validateFulfilment E x y))"

text \<open>The requests queued so far have different identifiers, all of them given out.\<close>

definition ids_ok :: "('w \<Rightarrow> string set) \<Rightarrow> 'w agg \<Rightarrow> bool" where
  "ids_ok used s \<longleftrightarrow> distinct (map req_requestId (abBatchRequests s)) \<and>
     req_requestId ` set (abBatchRequests s) \<subseteq> used (world s)"

section \<open>Every command keeps the identifiers different\<close>

lemma ids_frame:
  assumes "\<And>s. world (snd (m s)) = world s \<and> abBatchRequests (snd (m s)) = abBatchRequests s"
  shows "keeps (ids_ok used) m"
  by (rule keepsI) (use assms in \<open>simp add: wp_unfold ids_ok_def\<close>)

lemma ids_primitives:
  "keeps (ids_ok used) (newTransfer t)" "keeps (ids_ok used) (getT r)" "keeps (ids_ok used) (setT r f)"
  "keeps (ids_ok used) (cacheT r)" "keeps (ids_ok used) (newBulk b)" "keeps (ids_ok used) (getB br)"
  "keeps (ids_ok used) (setB br g)" "keeps (ids_ok used) (cacheB br)" "keeps (ids_ok used) (emit msg e)"
  "keeps (ids_ok used) (pushCancelation q)" "keeps (ids_ok used) (lift_sum x)"
  "keeps (ids_ok used) (modify (\<lambda>s. s\<lparr>transfersCache := f1 s\<rparr>))"
  "keeps (ids_ok used) (modify (\<lambda>s. s\<lparr>bulkTransfersCache := f2 s\<rparr>))"
  "keeps (ids_ok used) (modify (\<lambda>s. s\<lparr>batchCommands := f3 s\<rparr>))"
  "keeps (ids_ok used) (modify (\<lambda>s. s\<lparr>unhandled := f4 s\<rparr>))"
  by (rule ids_frame; cases x; simp add: primitive_defs reads_def modify_def emit_def pushCancelation_def
      lift_sum_def ret_def raise_def)+

lemma ids_later: "ids_ok used s \<Longrightarrow> used (world s) \<subseteq> used w \<Longrightarrow> ids_ok used (s\<lparr>world := w\<rparr>)"
  by (auto simp: ids_ok_def)

lemma ids_grow:
  assumes "grows used m"
  shows "keeps (ids_ok used) (call m)"
proof (rule keepsI)
  fix s assume "ids_ok used s"
  then have "ids_ok used (s\<lparr>world := snd (m (world s))\<rparr>)"
    by (rule ids_later) (use assms in \<open>simp add: grows_def\<close>)
  then show "wp (call m) (\<lambda>_ s'. ids_ok used s') s" by (simp add: wp_unfold call_def prod.case_eq_if)
qed

lemma ids_calls:
  assumes "fresh_ids E used"
  shows "keeps (ids_ok used) (call (repo_getTransferById E tid))"
    "keeps (ids_ok used) (call (repo_updateTransfer E t))"
    "keeps (ids_ok used) (call (repo_getTransfersByBulkId E i))"
    "keeps (ids_ok used) (call (bulkRepo_addBulkTransfer E bt))"
    "keeps (ids_ok used) (call (bulkRepo_updateBulkTransfer E bt))"
    "keeps (ids_ok used) (call (bulkRepo_getBulkTransferById E bid))"
    "keeps (ids_ok used) (call (participants_getParticipantInfo E i))"
    "keeps (ids_ok used) (call (settlements_getSettlementModelId E a c c' x))"
    "keeps (ids_ok used) (call (scheduling_createSingleReminder E i n p))"
    "keeps (ids_ok used) (call (validator_validateFulfilment E v v'))"
  using assms by (intro ids_grow, simp add: fresh_ids_def)+

text \<open>An identifier is given out, and possibly used for one request.\<close>

lemma fresh_uuid:
  assumes "fresh_ids E used" and "randomUUID E w = (u, w')"
  shows "u \<notin> used w" and "u \<in> used w'" and "used w \<subseteq> used w'"
proof -
  have "fst (randomUUID E w) \<notin> used w" "insert (fst (randomUUID E w)) (used w) \<subseteq> used (snd (randomUUID E w))"
    using assms(1) unfolding fresh_ids_def by blast+
  with assms(2) show "u \<notin> used w" "u \<in> used w'" "used w \<subseteq> used w'" by simp_all
qed

lemma ids_clock:
  assumes f: "fresh_ids E used"
  shows "keeps (ids_ok used) (uuid E)" and "keeps (ids_ok used) (now E)"
proof -
  have "used w \<subseteq> used (snd (dateNow E w))" for w
    using f by (simp add: fresh_ids_def grows_def)
  then show "keeps (ids_ok used) (now E)"
    by (intro keepsI) (auto simp: wp_unfold now_def prod.case_eq_if intro!: ids_later)
  show "keeps (ids_ok used) (uuid E)"
    using fresh_uuid(3) [OF f prod.collapse [symmetric]]
    by (intro keepsI) (auto simp: wp_unfold uuid_def prod.case_eq_if intro!: ids_later)
qed

lemma ids_push:
  assumes f: "fresh_ids E used" and q: "\<And>u. req_requestId (q u) = u"
  shows "keeps (ids_ok used) (andThen (uuid E) (\<lambda>u. pushAbRequest (q u)))"
proof (rule keepsI)
  fix s assume s: "ids_ok used s"
  obtain u w where u: "randomUUID E (world s) = (u, w)" by fastforce
  from s have "u \<notin> req_requestId ` set (abBatchRequests s)" "insert u (req_requestId ` set (abBatchRequests s)) \<subseteq> used w"
    using fresh_uuid [OF f u] by (auto simp: ids_ok_def)
  with s u q show "wp (andThen (uuid E) (\<lambda>u. pushAbRequest (q u))) (\<lambda>_ s'. ids_ok used s') s"
    by (simp add: wp_simps ids_ok_def)
qed

lemma ids_state:
  "keeps I m1 \<Longrightarrow> keeps I m2 \<Longrightarrow> keeps I m3 \<Longrightarrow> keeps I m4 \<Longrightarrow>
   keeps I (case st of RECEIVED \<Rightarrow> m1 | RESERVED \<Rightarrow> m2 | COMMITTED \<Rightarrow> m3 | ABORTED \<Rightarrow> m4)"
  by (cases st) auto

lemmas ids_intros = keeps_intros ids_primitives ids_calls ids_clock ids_state

lemma ids_helpers:
  assumes f: "fresh_ids E used"
  shows "keeps (ids_ok used) (getTransfer E tid)" "keeps (ids_ok used) (getBulkTransfer E bid)"
    "keeps (ids_ok used) (getParticipantsInfo E payer payee)"
  unfolding getTransfer_def getBulkTransfer_def getParticipantsInfo_def
  by (intro ids_intros f)+

lemma ids_cancel:
  assumes f: "fresh_ids E used"
  shows "keeps (ids_ok used) (cancelTransfer E tid code)"
  unfolding cancelTransfer_def cancelTransferBody_def
  by (intro ids_intros f ids_helpers [OF f])+

interpretation ids: call_frame E "\<lambda>s. fresh_ids E used \<longrightarrow> ids_ok used s"
  for E :: "'w env" and used :: "'w \<Rightarrow> string set"
proof
  fix s s' :: "'w agg"
  assume "fresh_ids E used \<longrightarrow> ids_ok used s" and "world s' = world s" and "abBatchRequests s' = abBatchRequests s"
  then show "fresh_ids E used \<longrightarrow> ids_ok used s'" by (simp add: ids_ok_def)
qed (rule keeps_under; intro ids_intros ids_push ids_cancel; simp add: reserveRequest_def commitRequest_def)+

lemma ids_single:
  assumes f: "fresh_ids E used"
  shows "keeps (ids_ok used) (prepareTransferStart E msg p)"
    "keeps (ids_ok used) (fulfilTransferStart E msg fp)"
    "keeps (ids_ok used) (rejectTransfer E msg rp)"
    "keeps (ids_ok used) (queryTransfer E msg qp)"
    "keeps (ids_ok used) (timeoutTransfer E msg tp)"
proof -
  show "keeps (ids_ok used) (prepareTransferStart E msg p)" "keeps (ids_ok used) (fulfilTransferStart E msg fp)"
    using ids.frame_prepareTransferStart [of E used msg p] ids.frame_fulfilTransferStart [of E used msg fp] f
    by simp_all
  show "keeps (ids_ok used) (rejectTransfer E msg rp)" "keeps (ids_ok used) (queryTransfer E msg qp)"
    "keeps (ids_ok used) (timeoutTransfer E msg tp)"
    unfolding rejectTransfer_def rejectParticipantsError_def rejectCancel_def
      rejectUpdate_def queryTransfer_def queryParticipantsError_def timeoutTransfer_def timeoutReceived_def
      timeoutReceivedUpdate_def timeoutReserved_def timeoutReservedUpdate_def Let_def
    by (intro ids_intros f ids_helpers [OF f] ids_cancel [OF f])+
qed

lemma ids_bulk:
  assumes f: "fresh_ids E used"
  shows "keeps (ids_ok used) (prepareBulkTransferStart E msg bp)"
    "keeps (ids_ok used) (fulfilBulkTransferStart E msg bf)"
    "keeps (ids_ok used) (rejectBulkTransfer E msg br)"
    "keeps (ids_ok used) (queryBulkTransfer E msg bq)"
  unfolding prepareBulkTransferStart_def addBulkTransfer_def fulfilBulkTransferStart_def rejectBulkTransfer_def
    queryBulkTransfer_def queryBulkRespond_def queryBulkParticipantsError_def Let_def
  by (intro ids_intros f ids_helpers [OF f] ids_cancel [OF f] ids_single [OF f])+

lemma ids_runCommands:
  assumes f: "fresh_ids E used"
  shows "keeps (ids_ok used) (runCommands E cmds)"
proof -
  have "keeps (ids_ok used) (dispatchCommand E c)" for c
    unfolding dispatchCommand_def
    by (cases "cmd_body c") (simp_all add: ids_intros ids_single [OF f] ids_bulk [OF f])
  moreover have "keeps (ids_ok used) (ensureValidMessage c)" for c
    unfolding ensureValidMessage_def by (cases "cmd_body c") (simp_all add: keeps_intros)
  ultimately show ?thesis
    unfolding runCommands_def processCommand_def rememberCommand_def by (intro ids_intros)
qed

text \<open>C28: on a platform whose \<open>randomUUID\<close> never repeats itself, the requests that the commands of a batch
  queue for Accounts & Balances have pairwise different identifiers, whatever the commands are and
  whatever the other services answer; so each response is matched with the request it answers.\<close>

theorem batch_requests_distinct:
  assumes "fresh_ids E used" and "runCommands E cmds (resetBatch s) = (r, s1)"
  shows "distinct (map req_requestId (abBatchRequests s1)) \<and>
    (\<forall>q. q \<in> set (abBatchRequests s1) \<longrightarrow> find (\<lambda>q'. req_requestId q' = req_requestId q) (abBatchRequests s1) = Some q)"
proof -
  have "ids_ok used (resetBatch s)" by (simp add: ids_ok_def resetBatch_def)
  from keeps_run [OF ids_runCommands [OF assms(1)] this assms(2)]
  have d: "distinct (map req_requestId (abBatchRequests s1))" by (simp add: ids_ok_def)
  have "q \<in> set qs \<Longrightarrow> distinct (map req_requestId qs) \<Longrightarrow> find (\<lambda>q'. req_requestId q' = req_requestId q) qs = Some q" for q qs
    by (induction qs) auto
  with d show ?thesis by blast
qed

end
