(* ===== verification/Many_Commands.thy ===== *)
theory Many_Commands
  imports End_To_End Request_Ids
begin

text \<open>
  A whole batch on a healthy platform.  Every command of it is a prepare of an unknown transfer or a
  fulfil of a stored one, of different transfers; then the promise resolves, every transfer reaches its
  state, and the events come in the order of the commands, each with the protocol fields of its own
  command.  The proof runs the batch in two phases: the commands (\<open>runs_commands\<close>), which leave one
  cached object and one request each, and the responses (\<open>runs_responses\<close>), which find them again.
\<close>

section \<open>Commands that can be carried out\<close>

text \<open>What the platform has to know for a command: nothing about a new transfer, everything about a stored one.\<close>

definition doable :: "'w env \<Rightarrow> (string \<Rightarrow> participant option) \<Rightarrow> command \<Rightarrow> bool" where
  "doable E dir c \<longleftrightarrow> cmd_msgType c = COMMAND \<and>
     (case cmd_body c of
        PrepareTransferCmd p \<Rightarrow>
          \<not> truthy (prep_bulkTransferId p) \<and> (\<forall>w. fst (repo_getTransferById E (Some (prep_transferId p)) w) = Inr None) \<and>
          (\<exists>a. checksOf dir (newTransferOf c p [] [] 0) = Inr a)
      | CommitTransferFulfilCmd p \<Rightarrow>
          (\<exists>t a. (\<forall>w. fst (repo_getTransferById E (Some (ful_transferId p)) w) = Inr (Some t)) \<and>
             transferId t = ful_transferId p \<and> \<not> truthy (bulkTransferId t) \<and> checksOf dir t = Inr a \<and> acceptable E c t)
      | _ \<Rightarrow> False)"

lemma doable_cases [consumes 1, case_names prepare fulfil]:
  assumes "doable E dir c"
  obtains p a where "cmd_msgType c = COMMAND" "cmd_body c = PrepareTransferCmd p" "\<not> truthy (prep_bulkTransferId p)"
      "\<And>w. fst (repo_getTransferById E (Some (prep_transferId p)) w) = Inr None"
      "checksOf dir (newTransferOf c p [] [] 0) = Inr a"
  | p t a where "cmd_msgType c = COMMAND" "cmd_body c = CommitTransferFulfilCmd p"
      "\<And>w. fst (repo_getTransferById E (Some (ful_transferId p)) w) = Inr (Some t)" "transferId t = ful_transferId p"
      "\<not> truthy (bulkTransferId t)" "checksOf dir t = Inr a" "acceptable E c t"
  using assms by (auto simp: doable_def split: command_body.splits)

text \<open>The identifier of the transfer of such a command.\<close>

definition subject :: "command \<Rightarrow> string" where
  "subject c = (case payload_transferId (cmd_body c) of Some tid \<Rightarrow> tid | None \<Rightarrow> '''')"

lemma subject_simps [simp]:
  "cmd_body c = PrepareTransferCmd p \<Longrightarrow> subject c = prep_transferId p"
  "cmd_body c = CommitTransferFulfilCmd fp \<Longrightarrow> subject c = ful_transferId fp"
  by (simp_all add: subject_def)

text \<open>The object a command starts with, the request it queues, the object it ends with, and the event that says so.\<close>

definition begins :: "'w env \<Rightarrow> command \<Rightarrow> transfer \<Rightarrow> bool" where
  "begins E c t \<longleftrightarrow> transferId t = subject c \<and> \<not> truthy (bulkTransferId t) \<and>
     (case cmd_body c of
        PrepareTransferCmd p \<Rightarrow> \<exists>model n. t = newTransferOf c p (prepareHash E p) model n
      | CommitTransferFulfilCmd p \<Rightarrow>
          \<exists>t0 v. (\<forall>w. fst (repo_getTransferById E (Some (subject c)) w) = Inr (Some t0)) \<and> t = t0\<lparr>transferOpaqueState := v\<rparr>
      | _ \<Rightarrow> False)"

definition asks_for :: "command \<Rightarrow> ab_request \<Rightarrow> bool" where
  "asks_for c q \<longleftrightarrow> req_transferId q = subject c \<and> req_requestType q =
     (case cmd_body c of PrepareTransferCmd _ \<Rightarrow> checkLiquidAndReserve | _ \<Rightarrow> cancelReservationAndCommit)"

definition ends :: "command \<Rightarrow> transfer \<Rightarrow> transfer \<Rightarrow> bool" where
  "ends c t t' \<longleftrightarrow>
     (case cmd_body c of
        PrepareTransferCmd _ \<Rightarrow> \<exists>n. t' = reserved_at n t
      | _ \<Rightarrow> \<exists>n. t' = committed_at n (payload_completedTimestamp (cmd_body c)) t)"

definition announces :: "command \<Rightarrow> transfer \<Rightarrow> event_msg \<Rightarrow> bool" where
  "announces c t e \<longleftrightarrow>
     (\<exists>k. e = tagged c (case cmd_body c of
        PrepareTransferCmd _ \<Rightarrow> TransferPreparedEvt (preparedPayload (cmd_body c) t k)
      | _ \<Rightarrow> TransferFulfiledEvt (fulfiledPayload (cmd_body c) t k)))"

section \<open>The commands\<close>

text \<open>One command: a new object in the store and in the cache, and a request.\<close>

definition begun :: "'w env \<Rightarrow> command \<Rightarrow> 'w agg \<Rightarrow> 'w agg \<Rightarrow> bool" where
  "begun E c s s' \<longleftrightarrow> (\<exists>w t q. begins E c t \<and> asks_for c q \<and>
     s' = s\<lparr>world := w, theap := (theap s)(tnext s := t), tnext := Suc (tnext s),
            transfersCache := transfersCache s @ [(Some (subject c), tnext s)],
            batchCommands := batchCommands s @ [(Some (subject c), c)],
            abBatchRequests := abBatchRequests s @ [q]\<rparr>)"

lemma update_new: "map_of m k = None \<Longrightarrow> AList.update k v m = m @ [(k, v)]"
  by (induction m) (auto split: if_splits)

lemma processCommand_single:
  assumes "doable E dir c" and "map_of (batchCommands s) (Some (subject c)) = None"
  shows "processCommand E c s = dispatchCommand E c (s\<lparr>batchCommands := batchCommands s @ [(Some (subject c), c)]\<rparr>)"
  using assms
  by (cases rule: doable_cases)
     (simp_all add: processCommand_def ensureValidMessage_def rememberCommand_def run_steps update_new)

lemma command_begun:
  assumes h: "healthy E dir" and d: "doable E dir c"
    and cache: "map_of (transfersCache s) (Some (subject c)) = None"
    and known: "map_of (batchCommands s) (Some (subject c)) = None"
  obtains s' where "processCommand E c s = (Inr (), s')" and "begun E c s s'"
proof -
  let ?s = "s\<lparr>batchCommands := batchCommands s @ [(Some (subject c), c)]\<rparr>"
  note run = processCommand_single [OF d known]
  from d show thesis
  proof (cases rule: doable_cases)
    case (prepare p a)
    obtain w model n ndc u where "prepareTransferStart E c p ?s =
       (Inr (), ?s\<lparr>world := w, theap := (theap ?s)(tnext ?s := newTransferOf c p (prepareHash E p) model n),
            tnext := Suc (tnext ?s),
            transfersCache := AList.update (Some (prep_transferId p)) (tnext ?s) (transfersCache ?s),
            abBatchRequests := abBatchRequests ?s @
              [reserveRequest (newTransferOf c p (prepareHash E p) model n) a ndc u]\<rparr>)"
      by (rule prepare_start_healthy [OF healthy_up [OF h] _ prepare(4,5), where s = ?s]) (use cache prepare(2) in simp_all)
    with run prepare cache show thesis
      by (intro that) (auto simp: dispatchCommand_def begun_def begins_def asks_for_def reserveRequest_def update_new
          intro!: exI [of _ w] exI [of _ "newTransferOf c p (prepareHash E p) model n"]
            exI [of _ "reserveRequest (newTransferOf c p (prepareHash E p) model n) a ndc u"])
  next
    case (fulfil p t a)
    obtain w v u where "fulfilTransferStart E c p ?s =
       (Inr (), ?s\<lparr>world := w, theap := (theap ?s)(tnext ?s := t\<lparr>transferOpaqueState := v\<rparr>), tnext := Suc (tnext ?s),
            transfersCache := AList.update (Some (ful_transferId p)) (tnext ?s) (transfersCache ?s),
            abBatchRequests := abBatchRequests ?s @ [commitRequest t a u]\<rparr>)"
      by (rule fulfil_start_healthy [OF healthy_up [OF h] _ fulfil(3,6,7), where s = ?s]) (use cache fulfil(2) in simp_all)
    with run fulfil cache show thesis
      by (intro that) (auto simp: dispatchCommand_def begun_def begins_def asks_for_def commitRequest_def update_new
          intro!: exI [of _ w] exI [of _ "t\<lparr>transferOpaqueState := v\<rparr>"] exI [of _ "commitRequest t a u"])
  qed
qed

text \<open>All commands: the new objects, references, remembered commands and requests are in the order of the batch.\<close>

definition begun_all :: "'w env \<Rightarrow> command list \<Rightarrow> 'w agg \<Rightarrow> 'w agg \<Rightarrow> bool" where
  "begun_all E cs s s' \<longleftrightarrow> (\<exists>qs.
     list_all2 asks_for cs qs \<and> abBatchRequests s' = abBatchRequests s @ qs \<and>
     tnext s' = tnext s + length cs \<and>
     (\<forall>i < length cs. begins E (cs ! i) (theap s' (tnext s + i))) \<and>
     (\<forall>r < tnext s. theap s' r = theap s r) \<and>
     transfersCache s' = transfersCache s @ zip (map (Some \<circ> subject) cs) [tnext s..<tnext s + length cs] \<and>
     batchCommands s' = batchCommands s @ zip (map (Some \<circ> subject) cs) cs \<and>
     outputEvents s' = outputEvents s \<and> abCancelationBatchRequests s' = abCancelationBatchRequests s)"

lemma begun_all_Cons:
  assumes one: "begun E c s s1" and all: "begun_all E cs s1 s'"
  shows "begun_all E (c # cs) s s'"
proof -
  from one obtain w t q where t: "begins E c t" and q: "asks_for c q" and
    s1: "s1 = s\<lparr>world := w, theap := (theap s)(tnext s := t), tnext := Suc (tnext s),
            transfersCache := transfersCache s @ [(Some (subject c), tnext s)],
            batchCommands := batchCommands s @ [(Some (subject c), c)],
            abBatchRequests := abBatchRequests s @ [q]\<rparr>"
    by (auto simp: begun_def)
  from all obtain qs where a: "list_all2 asks_for cs qs" "abBatchRequests s' = abBatchRequests s1 @ qs"
     "tnext s' = tnext s1 + length cs"
     "transfersCache s' = transfersCache s1 @ zip (map (Some \<circ> subject) cs) [tnext s1..<tnext s1 + length cs]"
     "batchCommands s' = batchCommands s1 @ zip (map (Some \<circ> subject) cs) cs"
     "outputEvents s' = outputEvents s1" "abCancelationBatchRequests s' = abCancelationBatchRequests s1"
    and old: "\<And>r. r < tnext s1 \<Longrightarrow> theap s' r = theap s1 r"
    and new: "\<And>i. i < length cs \<Longrightarrow> begins E (cs ! i) (theap s' (tnext s1 + i))"
    by (auto simp: begun_all_def)
  have "begins E ((c # cs) ! i) (theap s' (tnext s + i))" if "i < length (c # cs)" for i
    using that t old [of "tnext s"] new [of "i - 1"] s1 by (cases i) simp_all
  moreover have "theap s' r = theap s r" if "r < tnext s" for r
    using that old [of r] s1 by simp
  moreover have "[tnext s..<tnext s + length (c # cs)] = tnext s # [Suc (tnext s)..<Suc (tnext s) + length cs]"
    using upt_conv_Cons [of "tnext s" "tnext s + length (c # cs)"] by simp
  ultimately show ?thesis
    using a s1 q unfolding begun_all_def by (intro exI [of _ "q # qs"]) simp
qed

lemma runs_commands:
  assumes h: "healthy E dir"
  shows "\<lbrakk>\<And>c. c \<in> set cs \<Longrightarrow> doable E dir c; distinct (map subject cs);
     \<And>c. c \<in> set cs \<Longrightarrow> map_of (transfersCache s) (Some (subject c)) = None;
     \<And>c. c \<in> set cs \<Longrightarrow> map_of (batchCommands s) (Some (subject c)) = None\<rbrakk> \<Longrightarrow>
     \<exists>s'. runCommands E cs s = (Inr (), s') \<and> begun_all E cs s s'"
proof (induction cs arbitrary: s)
  case Nil
  show ?case by (simp add: runCommands_def ret_def begun_all_def)
next
  case (Cons c cs)
  obtain s1 where run: "processCommand E c s = (Inr (), s1)" and one: "begun E c s s1"
    by (rule command_begun [OF h, of c s]) (use Cons.prems in simp_all)
  have other: "subject c' \<noteq> subject c" if "c' \<in> set cs" for c'
    using Cons.prems(2) that by (auto simp: image_iff)
  have "\<exists>s'. runCommands E cs s1 = (Inr (), s') \<and> begun_all E cs s1 s'"
  proof (rule Cons.IH, goal_cases)
    case (3 c')
    with other [OF 3] Cons.prems(3) one show ?case by (auto simp: begun_def map_add_Some_iff)
  next
    case (4 c')
    with other [OF 4] Cons.prems(4) one show ?case by (auto simp: begun_def)
  qed (use Cons.prems in simp_all)
  then obtain s' where "runCommands E cs s1 = (Inr (), s')" and "begun_all E cs s1 s'" by blast
  moreover have "cmd_msgType c = COMMAND"
    using Cons.prems(1) [of c] by (simp add: doable_def)
  ultimately show ?case
    using run begun_all_Cons [OF one] by (auto simp: runCommands_def andThen_def)
qed

section \<open>The responses\<close>

lemma update_same: "map_of m k = Some v \<Longrightarrow> AList.update k v m = m"
  by (induction m) (auto split: if_splits)

lemma find_request:
  "\<lbrakk>q \<in> set qs; distinct (map req_requestId qs)\<rbrakk> \<Longrightarrow> find (\<lambda>q'. req_requestId q' = req_requestId q) qs = Some q"
  by (induction qs) auto

text \<open>One response: the object of its command reaches its state, and one event is pushed.\<close>

definition answered_by :: "command \<Rightarrow> nat \<Rightarrow> event_msg \<Rightarrow> 'w agg \<Rightarrow> 'w agg \<Rightarrow> bool" where
  "answered_by c r e s s' \<longleftrightarrow> (\<exists>w t'. ends c (theap s r) t' \<and> announces c t' e \<and>
     s' = s\<lparr>world := w, theap := (theap s)(r := t'), outputEvents := outputEvents s @ [e]\<rparr>)"

lemma continue_answered:
  assumes "(\<exists>p. cmd_body c = PrepareTransferCmd p \<and> \<not> truthy (prep_bulkTransferId p)) \<or> (\<exists>p. cmd_body c = CommitTransferFulfilCmd p)"
    and "rsp_success rsp" and "rsp_requestType rsp = req_requestType q" and "asks_for c q"
    and "map_of (transfersCache s) (Some (transferId (theap s r))) = Some r" and "\<not> truthy (bulkTransferId (theap s r))"
  shows "\<exists>s' e. continueRequest E rsp q c (Some r) s = (Inr (), s') \<and> answered_by c r e s s'"
proof -
  obtain k w1 where k: "dateNow E (world s) = (k, w1)" by fastforce
  obtain n w2 where n: "dateNow E w1 = (n, w2)" by fastforce
  note run = continueRequest_def prepareTransferContinue_def fulfilTransferContinue_def run_simps primitive_defs
    emit_def update_same
  from assms(1) show ?thesis
  proof (elim disjE exE)
    fix p assume c: "cmd_body c = PrepareTransferCmd p \<and> \<not> truthy (prep_bulkTransferId p)"
    let ?t = "reserved_at n (theap s r)"
    show ?thesis
      using assms(2-) c k n
      by (intro exI [of _ "s\<lparr>world := w2, theap := (theap s)(r := ?t), outputEvents := outputEvents s @
            [tagged c (TransferPreparedEvt (preparedPayload (cmd_body c) ?t k))]\<rparr>"]
          exI [of _ "tagged c (TransferPreparedEvt (preparedPayload (cmd_body c) ?t k))"])
         (auto simp: run asks_for_def answered_by_def ends_def announces_def)
  next
    fix fp assume c: "cmd_body c = CommitTransferFulfilCmd fp"
    let ?t = "committed_at n (ful_completedTimestamp fp) (theap s r)"
    show ?thesis
      using assms(2-) c k n
      by (intro exI [of _ "s\<lparr>world := w2, theap := (theap s)(r := ?t), outputEvents := outputEvents s @
            [tagged c (TransferFulfiledEvt (fulfiledPayload (cmd_body c) ?t k))]\<rparr>"]
          exI [of _ "tagged c (TransferFulfiledEvt (fulfiledPayload (cmd_body c) ?t k))"])
         (auto simp: run asks_for_def answered_by_def ends_def announces_def)
  qed
qed

text \<open>Distinct requests of distinct transfers, each with its command and its cached object.\<close>

definition ready :: "'w agg \<Rightarrow> command \<Rightarrow> ab_request \<Rightarrow> nat \<Rightarrow> bool" where
  "ready s c q r \<longleftrightarrow> q \<in> set (abBatchRequests s) \<and> asks_for c q \<and>
     map_of (batchCommands s) (Some (subject c)) = Some c \<and> map_of (transfersCache s) (Some (subject c)) = Some r \<and>
     transferId (theap s r) = subject c \<and> \<not> truthy (bulkTransferId (theap s r)) \<and>
     ((\<exists>p. cmd_body c = PrepareTransferCmd p \<and> \<not> truthy (prep_bulkTransferId p)) \<or> (\<exists>p. cmd_body c = CommitTransferFulfilCmd p))"

lemma response_answered:
  assumes d: "distinct (map req_requestId (abBatchRequests s))" and r: "ready s c q r"
    and rsp: "rsp_requestId rsp = req_requestId q" "rsp_requestType rsp = req_requestType q" "rsp_success rsp"
  shows "\<exists>s' e. processAccountsAndBalancesResponse E rsp s = (Inr (), s') \<and> answered_by c r e s s'"
proof -
  from r have q: "q \<in> set (abBatchRequests s)" "asks_for c q" "req_transferId q = subject c"
    "map_of (batchCommands s) (Some (subject c)) = Some c" "map_of (transfersCache s) (Some (subject c)) = Some r"
    by (auto simp: ready_def asks_for_def)
  have "lookupTransfer E c (subject c) s = (Inr (Some r), s)"
    using getTransfer_cached [OF q(5)] by (simp add: lookupTransfer_def tryElse_def ret_def)
  then have "processAccountsAndBalancesResponse E rsp s = continueRequest E rsp q c (Some r) s"
    using find_request [OF q(1) d] rsp(1) q
    by (simp add: processAccountsAndBalancesResponse_def run_steps andThen_def [of "lookupTransfer E c (subject c)"])
  moreover have "\<exists>s' e. continueRequest E rsp q c (Some r) s = (Inr (), s') \<and> answered_by c r e s s'"
    by (rule continue_answered [OF _ rsp(3,2) q(2)]) (use r in \<open>auto simp: ready_def\<close>)
  ultimately show ?thesis by simp
qed

text \<open>All responses.\<close>

definition answered_all :: "(command \<times> ab_request \<times> nat) list \<Rightarrow> 'w agg \<Rightarrow> 'w agg \<Rightarrow> bool" where
  "answered_all items s s' \<longleftrightarrow> (\<exists>es.
     list_all2 (\<lambda>(c, q, r) e. ends c (theap s r) (theap s' r) \<and> announces c (theap s' r) e) items es \<and>
     outputEvents s' = outputEvents s @ es \<and>
     (\<forall>r. r \<notin> (\<lambda>i. snd (snd i)) ` set items \<longrightarrow> theap s' r = theap s r) \<and>
     abCancelationBatchRequests s' = abCancelationBatchRequests s \<and> tnext s' = tnext s)"

lemma ready_later:
  assumes "answered_by c r e s s'" and "ready s c' q' r'" and "r' \<noteq> r"
  shows "ready s' c' q' r'"
  using assms by (auto simp: answered_by_def ready_def)

lemma runs_responses:
  "\<lbrakk>\<forall>(c, q, r) \<in> set items. ready s c q r; distinct (map (\<lambda>i. snd (snd i)) items);
    distinct (map req_requestId (abBatchRequests s)); grants_all (map (\<lambda>i. fst (snd i)) items) rsps\<rbrakk> \<Longrightarrow>
   \<exists>s'. forEach rsps (processAccountsAndBalancesResponse E) s = (Inr (), s') \<and> answered_all items s s'"
proof (induction items arbitrary: s rsps)
  case Nil
  then show ?case by (simp add: grants_all_def ret_def answered_all_def)
next
  case (Cons i items)
  obtain c q r where i: "i = (c, q, r)" by (cases i)
  with Cons.prems(4) obtain rsp rsps' where rsps: "rsps = rsp # rsps'"
    and rsp: "rsp_requestId rsp = req_requestId q" "rsp_requestType rsp = req_requestType q" "rsp_success rsp"
    and rest: "grants_all (map (\<lambda>i. fst (snd i)) items) rsps'"
    by (auto simp: grants_all_def list_all2_Cons1)
  obtain s1 e where run: "processAccountsAndBalancesResponse E rsp s = (Inr (), s1)" and one: "answered_by c r e s s1"
    using response_answered [OF Cons.prems(3) _ rsp, of c r E] Cons.prems(1) i by auto
  have r: "r \<notin> (\<lambda>i. snd (snd i)) ` set items" and d: "distinct (map (\<lambda>i. snd (snd i)) items)"
    using Cons.prems(2) i by simp_all
  have "\<forall>(c', q', r') \<in> set items. ready s1 c' q' r'"
    using Cons.prems(1) r by (force intro: ready_later [OF one])
  moreover have "abBatchRequests s1 = abBatchRequests s"
    using one by (auto simp: answered_by_def)
  ultimately obtain s' where run': "forEach rsps' (processAccountsAndBalancesResponse E) s1 = (Inr (), s')"
    and all: "answered_all items s1 s'"
    using Cons.IH [of s1 rsps'] d Cons.prems(3) rest by auto
  from all obtain es where es: "list_all2 (\<lambda>(c, q, r) e. ends c (theap s1 r) (theap s' r) \<and> announces c (theap s' r) e) items es"
    and s': "outputEvents s' = outputEvents s1 @ es" "abCancelationBatchRequests s' = abCancelationBatchRequests s1"
       "tnext s' = tnext s1"
    and same: "\<And>r. r \<notin> (\<lambda>i. snd (snd i)) ` set items \<Longrightarrow> theap s' r = theap s1 r"
    by (auto simp: answered_all_def)
  have old: "theap s1 r' = theap s r'" if "r' \<noteq> r" for r'
    using one that by (auto simp: answered_by_def)
  have "list_all2 (\<lambda>(c, q, r) e. ends c (theap s r) (theap s' r) \<and> announces c (theap s' r) e) items es"
    by (rule list.rel_mono_strong [OF es]) (use old r in force)
  then have "answered_all (i # items) s s'"
    using one i s' same [OF r] old same unfolding answered_all_def answered_by_def
    by (intro exI [of _ "e # es"]) auto
  with run run' rsps show ?case by (simp add: andThen_def)
qed

lemma runs_requests:
  assumes h: "healthy E dir" and r: "\<forall>(c, q, r) \<in> set items. ready s c q r"
    and refs: "distinct (map (\<lambda>i. snd (snd i)) items)" and ids: "distinct (map req_requestId (abBatchRequests s))"
    and qs: "map (\<lambda>i. fst (snd i)) items = abBatchRequests s"
  shows "\<exists>s'. runRequests E s = (Inr (), s') \<and> answered_all items s s'"
proof (cases "abBatchRequests s = []")
  case True
  with qs show ?thesis by (simp add: runRequests_def run_steps answered_all_def) (simp add: ret_def)
next
  case False
  obtain rsps w where ab: "ab_processHighLevelBatch E (abBatchRequests s) (world s) = (Inr rsps, w)"
    and g: "grants_all (abBatchRequests s) rsps"
    using healthyD(2) [OF h] by blast
  let ?s = "s\<lparr>world := w, abBatchResponses := rsps\<rparr>"
  have "ready ?s c q r = ready s c q r" for c q r by (simp add: ready_def)
  with r have "\<forall>(c, q, r) \<in> set items. ready ?s c q r" by simp
  then obtain s' where "forEach rsps (processAccountsAndBalancesResponse E) ?s = (Inr (), s')"
    and "answered_all items ?s s'"
    using runs_responses [of items ?s rsps E] refs ids g qs by auto
  with ab False show ?thesis
    by (intro exI [of _ s']) (simp add: runRequests_def setResponses_def run_steps answered_all_def)
qed

section \<open>The batch\<close>

text \<open>What a client sees of a command that was carried out.\<close>

definition carried_out :: "'w env \<Rightarrow> command \<Rightarrow> transfer \<Rightarrow> event_msg \<Rightarrow> bool" where
  "carried_out E c t e \<longleftrightarrow> transferId t = subject c \<and> announces c t e \<and>
     (case cmd_body c of
        PrepareTransferCmd p \<Rightarrow> transferState t = RESERVED \<and>
          (\<exists>model n. terms t = terms (newTransferOf c p (prepareHash E p) model n))
      | CommitTransferFulfilCmd p \<Rightarrow> transferState t = COMMITTED \<and> completedTimestamp t = ful_completedTimestamp p \<and>
          (\<exists>t0. (\<forall>w. fst (repo_getTransferById E (Some (ful_transferId p)) w) = Inr (Some t0)) \<and> terms t = terms t0)
      | _ \<Rightarrow> False)"

lemma carried_out_ends:
  assumes "begins E c t" and "ends c t t'" and "announces c t' e"
  shows "carried_out E c t' e"
proof -
  have "terms (t\<lparr>transferOpaqueState := v\<rparr>) = terms t" "terms (reserved_at n t) = terms t"
    "terms (committed_at n ts t) = terms t" for t v n ts
    by (simp_all add: terms_def)
  with assms show ?thesis
    by (fastforce simp: begins_def ends_def carried_out_def split: command_body.splits)
qed

lemma grants_all_length: "grants_all qs rsps \<Longrightarrow> length rsps = length qs"
  by (simp add: grants_all_def list_all2_lengthD)

text \<open>The state after the commands is ready for the responses.\<close>

definition items_of :: "command list \<Rightarrow> ab_request list \<Rightarrow> nat \<Rightarrow> (command \<times> ab_request \<times> nat) list" where
  "items_of cs qs n = zip cs (zip qs [n..<n + length cs])"

lemma items_of_simps:
  assumes "length qs = length cs"
  shows "length (items_of cs qs n) = length cs"
    and "map (\<lambda>i. fst (snd i)) (items_of cs qs n) = qs"
    and "map (\<lambda>i. snd (snd i)) (items_of cs qs n) = [n..<n + length cs]"
    and "i < length cs \<Longrightarrow> items_of cs qs n ! i = (cs ! i, qs ! i, n + i)"
proof -
  show len: "length (items_of cs qs n) = length cs" by (simp add: items_of_def assms)
  show nth: "items_of cs qs n ! i = (cs ! i, qs ! i, n + i)" if "i < length cs" for i
    using that by (simp add: items_of_def assms)
  show "map (\<lambda>i. fst (snd i)) (items_of cs qs n) = qs"
    by (rule nth_equalityI) (simp_all add: len nth assms)
  show "map (\<lambda>i. snd (snd i)) (items_of cs qs n) = [n..<n + length cs]"
    by (rule nth_equalityI) (simp_all add: len nth)
qed

lemma zip_subjects:
  assumes "distinct (map subject cs)" and "length vs = length cs" and "i < length cs"
  shows "map_of (zip (map (Some \<circ> subject) cs) vs) (Some (subject (cs ! i))) = Some (vs ! i)"
proof -
  have "distinct (map (Some \<circ> subject) cs)"
    using assms(1) by (simp add: distinct_map inj_on_def)
  from map_of_zip_nth [OF _ this, of vs i] assms(2,3) show ?thesis by simp
qed

lemma all_ready:
  assumes all: "begun_all E cs s s1" and qs: "abBatchRequests s1 = qs"
    and s: "abBatchRequests s = []" "batchCommands s = []"
    and d: "distinct (map subject cs)"
    and cache: "\<And>c. c \<in> set cs \<Longrightarrow> map_of (transfersCache s) (Some (subject c)) = None"
    and dc: "\<And>c. c \<in> set cs \<Longrightarrow> doable E dir c"
  shows "\<forall>(c, q, r) \<in> set (items_of cs qs (tnext s)). ready s1 c q r"
proof -
  from all s qs have a: "list_all2 asks_for cs qs"
     "transfersCache s1 = transfersCache s @ zip (map (Some \<circ> subject) cs) [tnext s..<tnext s + length cs]"
     "batchCommands s1 = zip (map (Some \<circ> subject) cs) cs"
    and b: "\<And>i. i < length cs \<Longrightarrow> begins E (cs ! i) (theap s1 (tnext s + i))"
    by (auto simp: begun_all_def)
  have "ready s1 (cs ! i) (qs ! i) (tnext s + i)" if i: "i < length cs" for i
  proof -
    have "map_of (batchCommands s1) (Some (subject (cs ! i))) = Some (cs ! i)"
      "map_of (transfersCache s1) (Some (subject (cs ! i))) = Some (tnext s + i)"
      using a(2,3) cache [of "cs ! i"] i by (simp_all add: map_add_def zip_subjects [OF d])
    moreover have "asks_for (cs ! i) (qs ! i)" "qs ! i \<in> set (abBatchRequests s1)"
      using a(1) i qs by (simp_all add: list_all2_nthD list_all2_lengthD [symmetric])
    moreover have "(\<exists>p. cmd_body (cs ! i) = PrepareTransferCmd p \<and> \<not> truthy (prep_bulkTransferId p)) \<or>
        (\<exists>p. cmd_body (cs ! i) = CommitTransferFulfilCmd p)"
      using dc [of "cs ! i"] i by (auto elim: doable_cases)
    ultimately show ?thesis
      using b [OF i] by (simp add: ready_def begins_def)
  qed
  then show ?thesis
    using list_all2_lengthD [OF a(1)] by (auto simp: items_of_def set_zip)
qed

lemma batch_carried_out:
  assumes h: "healthy E dir" and f: "fresh_ids E used"
    and dc: "\<And>c. c \<in> set cs \<Longrightarrow> doable E dir c" and d: "distinct (map subject cs)"
    and cache: "\<And>c. c \<in> set cs \<Longrightarrow> map_of (transfersCache s) (Some (subject c)) = None"
  shows "\<exists>s'. processCommandBatch E cs s = (Resolved, s') \<and> transfersCache s' = [] \<and>
     tnext s' = tnext s + length cs \<and> length (outputEvents s') = length cs \<and>
     (\<forall>i < length cs. carried_out E (cs ! i) (theap s' (tnext s + i)) (outputEvents s' ! i))"
proof -
  let ?s = "resetBatch s"
  have s: "abBatchRequests ?s = []" "batchCommands ?s = []" "outputEvents ?s = []"
    "abCancelationBatchRequests ?s = []" "tnext ?s = tnext s" "transfersCache ?s = transfersCache s"
    by (simp_all add: resetBatch_def)
  obtain s1 where run1: "runCommands E cs ?s = (Inr (), s1)" and all: "begun_all E cs ?s s1"
    using runs_commands [OF h dc d, of ?s] s cache by auto
  define items where "items = items_of cs (abBatchRequests s1) (tnext s)"
  have r: "\<forall>(c, q, r) \<in> set items. ready s1 c q r"
    using all_ready [OF all refl s(1,2) d _ dc] cache s by (simp add: items_def)
  have len: "length (abBatchRequests s1) = length cs"
    using all s by (auto simp: begun_all_def list_all2_lengthD)
  note items = items_of_simps [OF len, where n = "tnext s", folded items_def]
  have dis: "distinct (map req_requestId (abBatchRequests s1))"
    using keeps_run [OF ids_runCommands [OF f] _ run1] s by (simp add: ids_ok_def)
  obtain s2 where run2: "runRequests E s1 = (Inr (), s2)" and done2: "answered_all items s1 s2"
    using runs_requests [OF h r _ dis] items by auto
  have no: "abCancelationBatchRequests s2 = []" and n: "tnext s2 = tnext s + length cs"
    using all done2 s by (auto simp: begun_all_def answered_all_def)
  from done2 obtain es where es: "list_all2 (\<lambda>(c, q, r) e. ends c (theap s1 r) (theap s2 r) \<and> announces c (theap s2 r) e) items es"
    and out: "outputEvents s2 = es"
    using all s by (auto simp: begun_all_def answered_all_def)
  have result: "carried_out E (cs ! i) (theap s2 (tnext s + i)) (outputEvents s2 ! i)" if "i < length cs" for i
    using list_all2_nthD [OF es, of i] that items all s out
    by (intro carried_out_ends [of E "cs ! i" "theap s1 (tnext s + i)"]) (auto simp: begun_all_def)
  have "length (outputEvents s2) = length cs"
    using list_all2_lengthD [OF es] out items by simp
  moreover have "batchBody E cs ?s = (Inr (), s2)"
    using run1 run2 no_cancelations [OF no] by (simp add: batchBody_def andThen_def)
  ultimately have "wp (batchBody E cs) (\<lambda>r s'. r = Inr () \<and> s' = s2) ?s"
    by (simp add: wp_def)
  then obtain w where "processCommandBatch E cs s = (Resolved, s2\<lparr>world := w, transfersCache := []\<rparr>)"
    by (rule healthy_batch [OF h]) simp
  with n result \<open>length (outputEvents s2) = length cs\<close> show ?thesis by simp
qed

text \<open>C6: a batch of prepares of unknown transfers and fulfils of stored ones, of pairwise different transfers, is
  carried out by a healthy platform as a whole: the promise resolves, the cache is empty, and for the
  \<open>i\<close>-th command the \<open>i\<close>-th object is \<open>RESERVED\<close> with the command's terms, or \<open>COMMITTED\<close> with the
  stored ones, and the \<open>i\<close>-th event announces it with the protocol fields of that command.\<close>

theorem batch_end_to_end:
  assumes "healthy E dir" and "fresh_ids E used"
    and "\<And>c. c \<in> set cs \<Longrightarrow> doable E dir c" and "distinct (map subject cs)"
    and "\<And>c. c \<in> set cs \<Longrightarrow> map_of (transfersCache s) (Some (subject c)) = None"
  shows "\<exists>s'. processCommandBatch E cs s = (Resolved, s') \<and> transfersCache s' = [] \<and>
     tnext s' = tnext s + length cs \<and> length (outputEvents s') = length cs \<and>
     (\<forall>i < length cs. carried_out E (cs ! i) (theap s' (tnext s + i)) (outputEvents s' ! i))"
  using assms by (rule batch_carried_out)

end
