(* ===== verification/Pipeline.thy ===== *)
theory Pipeline
  imports Handlers Many_Commands
begin

text \<open>
  The event handler and the command handler in a row: the commands that \<open>TransfersEventHandler\<close> publishes
  for a batch of domain events are the batch that \<open>TransfersCommandHandler\<close> consumes.  On a healthy
  platform every prepare or fulfil request of another context is served: its transfer reaches its state,
  and the event that answers it carries the protocol fields of the request.
\<close>

section \<open>The two handlers in a row\<close>

text \<open>A topic is the list of the messages sent to it; it is consumed in one batch.\<close>

definition publish :: "command list \<Rightarrow> (command list, unit) call" where
  "publish cs topic = (Inr (), topic @ cs)"

definition pipeline :: "'w env \<Rightarrow> inbound list \<Rightarrow> 'w agg \<Rightarrow> outcome \<times> 'w agg" where
  "pipeline E ms s = commandBatchHandler E (snd (eventBatchHandler publish ms [])) s"

text \<open>The commands that reach the aggregate: those of the domain events, in their order, or none at all.\<close>

lemma pipeline_commands:
  "snd (eventBatchHandler publish ms []) = (if \<exists>m \<in> set ms. throws m then [] else List.map_filter commandOf ms)"
  by (simp add: eventBatchHandler_spec publish_def)

section \<open>Requests that can be served\<close>

definition servable :: "'w env \<Rightarrow> (string \<Rightarrow> participant option) \<Rightarrow> inbound \<Rightarrow> bool" where
  "servable E dir m \<longleftrightarrow> \<not> throws m \<and> (\<exists>c. commandOf m = Some c \<and> doable E dir c)"

text \<open>The transfer a request is about.\<close>

definition about :: "inbound \<Rightarrow> string" where
  "about m =
     (case in_body m of
        TransferPrepareRequestedEvt e \<Rightarrow> pr_transferId e
      | TransferFulfilRequestedEvt e \<Rightarrow> ful_transferId e
      | _ \<Rightarrow> '''')"

definition served :: "inbound \<Rightarrow> transfer \<Rightarrow> event_msg \<Rightarrow> bool" where
  "served m t e \<longleftrightarrow> transferId t = about m \<and>
     evt_protocolType e = in_protocolType m \<and> evt_opaqueState e = in_opaqueState m \<and>
     (case in_body m of
        TransferPrepareRequestedEvt p \<Rightarrow> transferState t = RESERVED \<and>
          payerFspId t = pr_payerFsp p \<and> payeeFspId t = pr_payeeFsp p \<and>
          amount t = pr_amount p \<and> currencyCode t = pr_currencyCode p \<and> expirationTimestamp t = pr_expiration p \<and>
          (\<exists>x. evt_body e = TransferPreparedEvt x \<and> pe_transferId x = Some (pr_transferId p) \<and>
             pe_payerFsp x = Some (pr_payerFsp p) \<and> pe_payeeFsp x = Some (pr_payeeFsp p) \<and>
             pe_amount x = Some (pr_amount p) \<and> pe_currencyCode x = Some (pr_currencyCode p))
      | TransferFulfilRequestedEvt p \<Rightarrow> transferState t = COMMITTED \<and> completedTimestamp t = ful_completedTimestamp p \<and>
          (\<exists>x. evt_body e = TransferFulfiledEvt x \<and> fe_transferId x = Some (ful_transferId p) \<and>
             fe_amount x = amount t \<and> fe_currencyCode x = currencyCode t \<and>
             fe_payerFspId x = payerFspId t \<and> fe_payeeFspId x = payeeFspId t)
      | _ \<Rightarrow> False)"

lemma command_shapes:
  assumes "commandOf m = Some c" and "doable E dir c"
  shows "c = inboundCommand m (cmd_body c)" and "subject c = about m"
    and "(\<exists>p. in_body m = TransferPrepareRequestedEvt p \<and> cmd_body c = prepareEventToPrepareCommand p) \<or>
         (\<exists>p. in_body m = TransferFulfilRequestedEvt p \<and> cmd_body c = prepareEventToFulfilCommand p)"
  using assms
  by (auto simp: commandOf_def getCmdFromEvent_def inboundCommand_def doable_def about_def subject_def
      prepareEventToTimeoutCommand_def prepareEventToPrepareCommand_def prepareEventToFulfilCommand_def
      prepareEventToRejectCommand_def prepareEventToQueryCommand_def prepareEventToPrepareBulkCommand_def
      fulfilEventToFulfilBulkCommand_def prepareEventToRejectBulkCommand_def prepareEventToQueryBulkCommand_def
      split: inbound_body.splits sum.splits if_splits)

text \<open>A command that is carried out serves the request it was made from.\<close>

lemma carried_out_serves:
  assumes "commandOf m = Some c" and "doable E dir c" and "carried_out E c t e"
  shows "served m t e"
proof -
  have same: "payerFspId t = payerFspId t'" "payeeFspId t = payeeFspId t'" "amount t = amount t'"
    "currencyCode t = currencyCode t'" "expirationTimestamp t = expirationTimestamp t'"
    if "terms t = terms t'" for t'
    using that by (cases t; cases t'; simp add: terms_def)+
  have sub: "transferId t = about m"
    using assms(3) command_shapes(2) [OF assms(1,2)] by (simp add: carried_out_def)
  have c: "cmd_protocolType c = in_protocolType m" "cmd_opaqueState c = in_opaqueState m"
    using command_shapes(1) [OF assms(1,2)] by (simp_all add: inboundCommand_def, metis command.select_convs, metis command.select_convs)
  from command_shapes(3) [OF assms(1,2)] show ?thesis
  proof (elim disjE exE conjE)
    fix p assume p: "in_body m = TransferPrepareRequestedEvt p" "cmd_body c = prepareEventToPrepareCommand p"
    with assms(3) obtain p' model n where "prepareEventToPrepareCommand p = PrepareTransferCmd p'"
      and "terms t = terms (newTransferOf c p' (prepareHash E p') model n)"
      by (auto simp: carried_out_def prepareEventToPrepareCommand_def)
    with p assms(3) sub c show ?thesis
      by (auto simp: served_def carried_out_def announces_def tagged_def prepareEventToPrepareCommand_def
          preparedPayload_def newTransferOf_def same)
  next
    fix p assume p: "in_body m = TransferFulfilRequestedEvt p" "cmd_body c = prepareEventToFulfilCommand p"
    with assms(3) show ?thesis
      using sub c by (auto simp: served_def carried_out_def announces_def tagged_def prepareEventToFulfilCommand_def
          fulfiledPayload_def)
  qed
qed

lemma commands_of_servable:
  "\<forall>m \<in> set ms. servable E dir m \<Longrightarrow>
   length (List.map_filter commandOf ms) = length ms \<and>
   (\<forall>i < length ms. commandOf (ms ! i) = Some (List.map_filter commandOf ms ! i) \<and>
      doable E dir (List.map_filter commandOf ms ! i))"
proof (induction ms)
  case (Cons m ms)
  then obtain c where "commandOf m = Some c" "doable E dir c" by (auto simp: servable_def)
  with Cons show ?case by (auto simp: map_filter_simps nth_Cons split: nat.split)
qed (simp add: map_filter_simps)


end
