(* ===== verification/Bulk_Items.thy ===== *)
theory Bulk_Items
  imports Many_Commands
begin

text \<open>
  The bulk commands that run their items through the handlers of single transfers, the bulk prepare and
  the bulk fulfil, as one scheme, the locale \<open>bulk_items\<close>: every item leaves a cached object and a request
  (\<open>runs_items\<close>), every response ends its object and counts it in the bulk transfer, and the response
  that completes the count closes the bulk transfer and announces it (\<open>runs_item_responses\<close>).
\<close>

section \<open>The items\<close>

text \<open>The rest of the state is as it was.\<close>

definition same_rest :: "'w agg \<Rightarrow> 'w agg \<Rightarrow> bool" where
  "same_rest s s' \<longleftrightarrow> batchCommands s' = batchCommands s \<and> outputEvents s' = outputEvents s \<and>
     abCancelationBatchRequests s' = abCancelationBatchRequests s \<and> bheap s' = bheap s \<and> bnext s' = bnext s \<and>
     bulkTransfersCache s' = bulkTransfersCache s \<and> unhandled s' = unhandled s"

lemma same_rest_refl: "same_rest s s"
  by (simp add: same_rest_def)

text \<open>The items \<open>its\<close>, identified by \<open>key\<close>, have left objects \<open>obj\<close> and requests of type \<open>rt\<close>.\<close>

definition item_request :: "('i \<Rightarrow> string) \<Rightarrow> ab_request_type \<Rightarrow> 'i \<Rightarrow> ab_request \<Rightarrow> bool" where
  "item_request key rt i q \<longleftrightarrow> req_transferId q = key i \<and> req_requestType q = rt"

definition queued :: "('i \<Rightarrow> string) \<Rightarrow> ('i \<Rightarrow> transfer \<Rightarrow> bool) \<Rightarrow> ab_request_type \<Rightarrow> 'i list \<Rightarrow> 'w agg \<Rightarrow> 'w agg \<Rightarrow> bool" where
  "queued key obj rt its s s' \<longleftrightarrow> same_rest s s' \<and> tnext s' = tnext s + length its \<and>
     (\<exists>qs. list_all2 (item_request key rt) its qs \<and> abBatchRequests s' = abBatchRequests s @ qs) \<and>
     (\<forall>i < length its. obj (its ! i) (theap s' (tnext s + i))) \<and>
     (\<forall>r < tnext s. theap s' r = theap s r) \<and>
     transfersCache s' = transfersCache s @ zip (map (Some \<circ> key) its) [tnext s..<tnext s + length its]"

section \<open>The bulk transfer\<close>

text \<open>The bulk transfer \<open>b\<close> of identifier \<open>bid\<close> is the object \<open>br\<close> of the cache, or will be once it is read.\<close>

definition bulk_in :: "string \<Rightarrow> nat \<Rightarrow> bulk_transfer \<Rightarrow> 'w agg \<Rightarrow> bool" where
  "bulk_in bid br b s \<longleftrightarrow> bt_bulkTransferId b = bid \<and> map_of (bulkTransfersCache s) (Some bid) = Some br \<and> bheap s br = b"

definition bulk_at :: "'w env \<Rightarrow> string \<Rightarrow> nat \<Rightarrow> bulk_transfer \<Rightarrow> 'w agg \<Rightarrow> bool" where
  "bulk_at E bid br b s \<longleftrightarrow> bulk_in bid br b s \<or> (bt_bulkTransferId b = bid \<and>
      map_of (bulkTransfersCache s) (Some bid) = None \<and> bnext s = br \<and>
        (\<forall>w. fst (bulkRepo_getBulkTransferById E (Some bid) w) = Inr (Some b)))"

lemma bulk_read:
  assumes "bulk_at E bid br b s"
  obtains w bh bn c where "getBulkTransfer E (Some bid) s =
      (Inr (Some br), s\<lparr>world := w, bheap := bh, bnext := bn, bulkTransfersCache := c\<rparr>)"
    and "bh br = b" and "map_of c (Some bid) = Some br"
proof (cases "map_of (bulkTransfersCache s) (Some bid)")
  case None
  with assms have br: "bnext s = br" and get: "fst (bulkRepo_getBulkTransferById E (Some bid) (world s)) = Inr (Some b)"
    by (auto simp: bulk_at_def bulk_in_def)
  then obtain w where "bulkRepo_getBulkTransferById E (Some bid) (world s) = (Inr (Some b), w)"
    by (metis prod.collapse)
  with None br show thesis
    by (intro that [where w = w and bh = "(bheap s)(br := b)" and bn = "Suc br"
            and c = "AList.update (Some bid) br (bulkTransfersCache s)"])
       (simp_all add: getBulkTransfer_def run_simps primitive_defs update_conv')
next
  case (Some r)
  with assms have "r = br" "bheap s br = b" by (auto simp: bulk_at_def bulk_in_def)
  with Some show thesis
    by (intro that [where w = "world s" and bh = "bheap s" and bn = "bnext s" and c = "bulkTransfersCache s"])
       (simp_all add: getBulkTransfer_cached)
qed

lemma bulk_at_id: "bulk_at E bid br b s \<Longrightarrow> bt_bulkTransferId b = bid"
  by (auto simp: bulk_at_def bulk_in_def)

text \<open>\<open>counter\<close> is the list of the identifiers of the items that are through.\<close>

definition counts :: "(bulk_transfer \<Rightarrow> string list) \<Rightarrow> string \<Rightarrow> bulk_transfer \<Rightarrow> bulk_transfer \<Rightarrow> bool" where
  "counts counter tid b b' \<longleftrightarrow> counter b' = counter b @ [tid] \<and>
     bt_transfersNotProcessedIds b' = bt_transfersNotProcessedIds b \<and> bt_individualTransfers b' = bt_individualTransfers b"

definition counted_out :: "(bulk_transfer \<Rightarrow> string list) \<Rightarrow> bulk_transfer \<Rightarrow> bool" where
  "counted_out counter b \<longleftrightarrow>
     length (counter b) + length (bt_transfersNotProcessedIds b) = length (bt_individualTransfers b)"

lemma counted_out_counts:
  "counts counter tid b b' \<Longrightarrow> counted_out counter b' \<longleftrightarrow>
     Suc (length (counter b) + length (bt_transfersNotProcessedIds b)) = length (bt_individualTransfers b)"
  by (auto simp: counts_def counted_out_def)

section \<open>The responses\<close>

definition item_ready :: "ab_request_type \<Rightarrow> 'w agg \<Rightarrow> command \<Rightarrow> string \<Rightarrow> ab_request \<Rightarrow> nat \<Rightarrow> bool" where
  "item_ready rt s c bid q r \<longleftrightarrow> q \<in> set (abBatchRequests s) \<and> req_requestType q = rt \<and>
     map_of (batchCommands s) (Some (req_transferId q)) = Some c \<and>
     map_of (transfersCache s) (Some (req_transferId q)) = Some r \<and>
     transferId (theap s r) = req_transferId q \<and> bulkTransferId (theap s r) = Some bid"

text \<open>What the response to the request of an item is continued with.\<close>

lemma item_continued:
  assumes d: "distinct (map req_requestId (abBatchRequests s))" and r: "item_ready rt s c bid q r"
    and rsp: "rsp_requestId rsp = req_requestId q"
  shows "processAccountsAndBalancesResponse E rsp s = continueRequest E rsp q c (Some r) s"
proof -
  from r have q: "q \<in> set (abBatchRequests s)" "map_of (batchCommands s) (Some (req_transferId q)) = Some c"
    "map_of (transfersCache s) (Some (req_transferId q)) = Some r"
    by (simp_all add: item_ready_def)
  have "lookupTransfer E c (req_transferId q) s = (Inr (Some r), s)"
    using getTransfer_cached [OF q(3)] by (simp add: lookupTransfer_def tryElse_def ret_def)
  then show ?thesis
    using find_request [OF q(1) d] rsp q
    by (simp add: processAccountsAndBalancesResponse_def run_steps andThen_def [of "lookupTransfer E c _"])
qed

text \<open>The parts of the state that a continuation leaves alone, with the object \<open>r\<close> coming to its end.\<close>

definition item_ended :: "(transfer \<Rightarrow> transfer \<Rightarrow> bool) \<Rightarrow> nat \<Rightarrow> 'w agg \<Rightarrow> 'w agg \<Rightarrow> bool" where
  "item_ended becomes r s s' \<longleftrightarrow>
     abBatchRequests s' = abBatchRequests s \<and> batchCommands s' = batchCommands s \<and>
     transfersCache s' = transfersCache s \<and> tnext s' = tnext s \<and> unhandled s' = unhandled s \<and>
     abCancelationBatchRequests s' = abCancelationBatchRequests s \<and>
     becomes (theap s r) (theap s' r) \<and> (\<forall>r'. r' \<noteq> r \<longrightarrow> theap s' r' = theap s r')"

lemma item_ready_later:
  assumes "item_ended becomes r s s'" and "item_ready rt s c bid q' r'" and "r' \<noteq> r"
  shows "item_ready rt s' c bid q' r'"
  using assms by (auto simp: item_ended_def item_ready_def)

definition items_answered :: "(transfer \<Rightarrow> transfer \<Rightarrow> bool) \<Rightarrow> (bulk_transfer \<Rightarrow> string list) \<Rightarrow>
    (bulk_transfer \<Rightarrow> 'w agg \<Rightarrow> bool) \<Rightarrow> ('w agg \<Rightarrow> event_msg) \<Rightarrow> bulk_transfer \<Rightarrow> (ab_request \<times> nat) list \<Rightarrow>
    'w agg \<Rightarrow> 'w agg \<Rightarrow> bool" where
  "items_answered becomes counter closing news b items s s' \<longleftrightarrow>
     transfersCache s' = transfersCache s \<and> tnext s' = tnext s \<and> unhandled s' = unhandled s \<and>
     abCancelationBatchRequests s' = abCancelationBatchRequests s \<and>
     (\<forall>(q, r) \<in> set items. becomes (theap s r) (theap s' r)) \<and>
     (\<forall>r. r \<notin> snd ` set items \<longrightarrow> theap s' r = theap s r) \<and>
     (\<exists>b'. closing b' s' \<and> counter b' = counter b @ map (\<lambda>i. req_transferId (fst i)) items) \<and>
     outputEvents s' = outputEvents s @ [news s']"

definition request_refs :: "ab_request list \<Rightarrow> nat \<Rightarrow> (ab_request \<times> nat) list" where
  "request_refs qs n = zip qs [n..<n + length qs]"

lemma request_refs_simps:
  "map fst (request_refs qs n) = qs" "map snd (request_refs qs n) = [n..<n + length qs]"
  "length (request_refs qs n) = length qs" "i < length qs \<Longrightarrow> request_refs qs n ! i = (qs ! i, n + i)"
  by (simp_all add: request_refs_def)

lemma responses_run:
  assumes "healthy E dir" and "abBatchRequests s \<noteq> []"
  obtains rsps w where "grants_all (abBatchRequests s) rsps"
    and "runRequests E s = forEach rsps (processAccountsAndBalancesResponse E) (s\<lparr>world := w, abBatchResponses := rsps\<rparr>)"
proof -
  obtain rsps w where "ab_processHighLevelBatch E (abBatchRequests s) (world s) = (Inr rsps, w)"
    and "grants_all (abBatchRequests s) rsps"
    using healthyD(2) [OF assms(1)] by blast
  with assms(2) show thesis
    by (intro that) (simp_all add: runRequests_def setResponses_def run_steps)
qed

locale bulk_items =
  fixes E :: "'w env" and c :: command and bid :: string and br :: nat and side :: bool
    and key :: "'i \<Rightarrow> string" and step :: "'i \<Rightarrow> ('w, unit) act" and able :: "'i \<Rightarrow> bool"
    and obj :: "'i \<Rightarrow> transfer \<Rightarrow> bool" and rt :: ab_request_type
    and becomes :: "transfer \<Rightarrow> transfer \<Rightarrow> bool" and counter :: "bulk_transfer \<Rightarrow> string list"
    and closing :: "bulk_transfer \<Rightarrow> 'w agg \<Rightarrow> bool" and news :: "'w agg \<Rightarrow> event_msg"
  assumes queue_one: "\<lbrakk>able i; map_of (transfersCache s) (Some (key i)) = None\<rbrakk> \<Longrightarrow>
      \<exists>w t q. obj i t \<and> item_request key rt i q \<and>
        step i s = (Inr (), s\<lparr>world := w, theap := (theap s)(tnext s := t), tnext := Suc (tnext s),
          transfersCache := transfersCache s @ [(Some (key i), tnext s)], abBatchRequests := abBatchRequests s @ [q]\<rparr>)"
    and object: "obj i t \<Longrightarrow> transferId t = key i \<and> bulkTransferId t = Some bid"
    and answer_one: "\<lbrakk>side; item_ready rt s c bid q r; bulk_at E bid br b s; rsp_requestType rsp = rt; rsp_success rsp\<rbrakk> \<Longrightarrow>
      \<exists>s' b'. continueRequest E rsp q c (Some r) s = (Inr (), s') \<and> item_ended becomes r s s' \<and>
        counts counter (req_transferId q) b b' \<and>
        (if counted_out counter b' then closing b' s' \<and> outputEvents s' = outputEvents s @ [news s']
         else bulk_in bid br b' s' \<and> outputEvents s' = outputEvents s)"
begin

lemma runs_items:
  "\<lbrakk>\<And>i. i \<in> set its \<Longrightarrow> able i; distinct (map key its);
     \<And>i. i \<in> set its \<Longrightarrow> map_of (transfersCache s) (Some (key i)) = None\<rbrakk> \<Longrightarrow>
     \<exists>s'. forEach its step s = (Inr (), s') \<and> queued key obj rt its s s'"
proof (induction its arbitrary: s)
  case Nil
  show ?case by (simp add: ret_def queued_def same_rest_refl)
next
  case (Cons it its)
  obtain w t q where run: "step it s = (Inr (), s\<lparr>world := w, theap := (theap s)(tnext s := t),
       tnext := Suc (tnext s), transfersCache := transfersCache s @ [(Some (key it), tnext s)],
       abBatchRequests := abBatchRequests s @ [q]\<rparr>)" (is "_ = (_, ?s1)")
    and t: "obj it t" and q: "item_request key rt it q"
    using queue_one [of it s] Cons.prems by auto
  have other: "key i \<noteq> key it" if "i \<in> set its" for i
    using Cons.prems(2) that by (auto simp: image_iff)
  have "\<exists>s'. forEach its step ?s1 = (Inr (), s') \<and> queued key obj rt its ?s1 s'"
  proof (rule Cons.IH, goal_cases)
    case (3 i)
    with other [OF 3] Cons.prems(3) show ?case by (auto simp: map_add_Some_iff)
  qed (use Cons.prems in simp_all)
  then obtain s' where run': "forEach its step ?s1 = (Inr (), s')" and all: "queued key obj rt its ?s1 s'"
    by blast
  from all obtain qs where qs: "list_all2 (item_request key rt) its qs" "abBatchRequests s' = abBatchRequests ?s1 @ qs"
    by (auto simp: queued_def)
  have "obj ((it # its) ! i) (theap s' (tnext s + i))" if "i < length (it # its)" for i
    using that t all by (cases i) (auto simp: queued_def)
  moreover have "\<exists>qs. list_all2 (item_request key rt) (it # its) qs \<and> abBatchRequests s' = abBatchRequests s @ qs"
    using q qs by (intro exI [of _ "q # qs"]) simp
  moreover have "same_rest s s'"
    using all by (auto simp: queued_def same_rest_def)
  ultimately have "queued key obj rt (it # its) s s'"
    using all upt_conv_Cons [of "tnext s" "tnext s + length (it # its)"] by (auto simp: queued_def)
  with run run' show ?case by (auto simp: andThen_def)
qed

lemma runs_item_responses:
  assumes side
  shows "\<lbrakk>\<forall>(q, r) \<in> set items. item_ready rt s c bid q r; distinct (map snd items);
    distinct (map req_requestId (abBatchRequests s)); grants_all (map fst items) rsps;
    bulk_at E bid br b s; items \<noteq> [];
    length (counter b) + length (bt_transfersNotProcessedIds b) + length items = length (bt_individualTransfers b)\<rbrakk> \<Longrightarrow>
   \<exists>s'. forEach rsps (processAccountsAndBalancesResponse E) s = (Inr (), s') \<and>
     items_answered becomes counter closing news b items s s'"
proof (induction items arbitrary: s rsps b)
  case Nil
  then show ?case by simp
next
  case (Cons i items)
  obtain q r where i: "i = (q, r)" by (cases i)
  with Cons.prems(4) obtain rsp rsps' where rsps: "rsps = rsp # rsps'"
    and rsp: "rsp_requestId rsp = req_requestId q" "rsp_requestType rsp = req_requestType q" "rsp_success rsp"
    and rest: "grants_all (map fst items) rsps'"
    by (auto simp: grants_all_def list_all2_Cons1)
  have ready: "item_ready rt s c bid q r" using Cons.prems(1) i by simp
  then have "rsp_requestType rsp = rt" using rsp by (simp add: item_ready_def)
  from answer_one [OF assms ready Cons.prems(5) this rsp(3)] obtain s1 b1
    where run: "continueRequest E rsp q c (Some r) s = (Inr (), s1)" and one: "item_ended becomes r s s1"
      and b1: "counts counter (req_transferId q) b b1"
      and out: "if counted_out counter b1 then closing b1 s1 \<and> outputEvents s1 = outputEvents s @ [news s1]
         else bulk_in bid br b1 s1 \<and> outputEvents s1 = outputEvents s"
    by blast
  have fin: "counted_out counter b1 \<longleftrightarrow> items = []"
    using Cons.prems(7) counted_out_counts [OF b1] by (auto simp flip: length_0_conv)
  note run = item_continued [OF Cons.prems(3) ready rsp(1), of E, unfolded run]
  have r: "r \<notin> snd ` set items" and d: "distinct (map snd items)"
    using Cons.prems(2) i by simp_all
  show ?case
  proof (cases "items = []")
    case True
    with rest have "rsps' = []" by (simp add: grants_all_def)
    with True run one rsps i b1 out fin show ?thesis
      by (intro exI [of _ s1]) (auto simp: andThen_def ret_def item_ended_def items_answered_def counts_def)
  next
    case False
    with out fin have out: "bulk_in bid br b1 s1" "outputEvents s1 = outputEvents s" by simp_all
    have "\<forall>(q', r') \<in> set items. item_ready rt s1 c bid q' r'"
      using Cons.prems(1) r by (force intro: item_ready_later [OF one])
    moreover have "distinct (map req_requestId (abBatchRequests s1))"
      using one Cons.prems(3) by (simp add: item_ended_def)
    moreover have "length (counter b1) + length (bt_transfersNotProcessedIds b1) + length items
        = length (bt_individualTransfers b1)"
      using b1 Cons.prems(7) by (simp add: counts_def)
    ultimately obtain s' where run': "forEach rsps' (processAccountsAndBalancesResponse E) s1 = (Inr (), s')"
      and all: "items_answered becomes counter closing news b1 items s1 s'"
      using Cons.IH [of s1 rsps' b1] d rest out(1) False unfolding bulk_at_def by blast
    have old: "theap s1 r' = theap s r'" if "r' \<noteq> r" for r'
      using one that by (simp add: item_ended_def)
    have "becomes (theap s r) (theap s' r)"
      using all one r by (auto simp: items_answered_def item_ended_def)
    moreover have "becomes (theap s r') (theap s' r')" if "(q', r') \<in> set items" for q' r'
    proof -
      have "r' \<noteq> r" using that r by force
      moreover have "becomes (theap s1 r') (theap s' r')"
        using all that by (auto simp: items_answered_def)
      ultimately show ?thesis using old by simp
    qed
    moreover have "theap s' r' = theap s r'" if "r' \<notin> snd ` set (i # items)" for r'
      using that all old i by (auto simp: items_answered_def)
    ultimately have "items_answered becomes counter closing news b (i # items) s s'"
      using all one b1 i out(2) unfolding items_answered_def item_ended_def counts_def by auto
    with run run' rsps show ?thesis by (auto simp: andThen_def)
  qed
qed

text \<open>After the items, everything is ready for the responses.\<close>

lemma items_ready:
  assumes q: "queued key obj rt its s s1" and s: "abBatchRequests s = []"
    and reg: "\<And>i. i \<in> set its \<Longrightarrow> map_of (batchCommands s) (Some (key i)) = Some c"
    and free: "\<And>i. i \<in> set its \<Longrightarrow> map_of (transfersCache s) (Some (key i)) = None"
    and d: "distinct (map key its)"
  shows "length (abBatchRequests s1) = length its"
    and "\<forall>(q, r) \<in> set (request_refs (abBatchRequests s1) (tnext s)). item_ready rt s1 c bid q r"
    and "\<And>i. i < length its \<Longrightarrow> req_transferId (abBatchRequests s1 ! i) = key (its ! i)"
proof -
  from q s have a: "list_all2 (item_request key rt) its (abBatchRequests s1)"
     "transfersCache s1 = transfersCache s @ zip (map (Some \<circ> key) its) [tnext s..<tnext s + length its]"
     "batchCommands s1 = batchCommands s"
    and b: "\<And>i. i < length its \<Longrightarrow> obj (its ! i) (theap s1 (tnext s + i))"
    by (auto simp: queued_def same_rest_def)
  show len: "length (abBatchRequests s1) = length its"
    using list_all2_lengthD [OF a(1)] by simp
  show tid: "req_transferId (abBatchRequests s1 ! i) = key (its ! i)" if "i < length its" for i
    using list_all2_nthD [OF a(1) that] by (simp add: item_request_def)
  have d': "distinct (map (Some \<circ> key) its)"
    using d by (simp add: distinct_map inj_on_def)
  have "item_ready rt s1 c bid (abBatchRequests s1 ! i) (tnext s + i)" if i: "i < length its" for i
  proof -
    have "map_of (transfersCache s1) (Some (key (its ! i))) = Some (tnext s + i)"
      using map_of_zip_nth [OF _ d', of "[tnext s..<tnext s + length its]" i] free [of "its ! i"] i a(2)
      by (simp add: map_add_def)
    then show ?thesis
      using list_all2_nthD [OF a(1) i] object [OF b [OF i]] i len reg [of "its ! i"] a(3)
      by (auto simp: item_ready_def item_request_def)
  qed
  then show "\<forall>(q, r) \<in> set (request_refs (abBatchRequests s1) (tnext s)). item_ready rt s1 c bid q r"
    using len by (auto simp: request_refs_def set_zip)
qed

text \<open>The batch with the bulk command \<open>c\<close> alone, from the point where its items are queued.\<close>

lemma batch_runs:
  assumes h: "healthy E dir" and f: "fresh_ids E used" and side
    and run1: "runCommands E [c] (resetBatch s) = (Inr (), s1)" and q: "queued key obj rt its s0 s1"
    and s0: "abBatchRequests s0 = []" "outputEvents s0 = []" "abCancelationBatchRequests s0 = []"
    and reg: "\<And>i. i \<in> set its \<Longrightarrow> map_of (batchCommands s0) (Some (key i)) = Some c"
    and free: "\<And>i. i \<in> set its \<Longrightarrow> map_of (transfersCache s0) (Some (key i)) = None"
    and its: "distinct (map key its)" "its \<noteq> []"
    and bulk: "bulk_at E bid br b s0"
    and count: "length (counter b) + length (bt_transfersNotProcessedIds b) + length its = length (bt_individualTransfers b)"
  obtains s2 b' w where "processCommandBatch E [c] s = (Resolved, s2\<lparr>world := w, transfersCache := []\<rparr>)"
    and "unhandled s2 = unhandled s0" and "transfersCache s2 = transfersCache s1"
    and "\<And>i. i < length its \<Longrightarrow> \<exists>t. obj (its ! i) t \<and> becomes t (theap s2 (tnext s0 + i))"
    and "closing b' s2" and "counter b' = counter b @ map key its" and "outputEvents s2 = [news s2]"
proof -
  define refs where "refs = request_refs (abBatchRequests s1) (tnext s0)"
  note ready = items_ready [OF q s0(1) reg free its(1), folded refs_def]
  note refs = request_refs_simps [where qs = "abBatchRequests s1" and n = "tnext s0", folded refs_def]
  have s1: "unhandled s1 = unhandled s0" "outputEvents s1 = []" "abCancelationBatchRequests s1 = []"
    "\<And>i. i < length its \<Longrightarrow> obj (its ! i) (theap s1 (tnext s0 + i))"
    using q s0 by (simp_all add: queued_def same_rest_def)
  obtain rsps w' where g: "grants_all (abBatchRequests s1) rsps"
    and run2: "runRequests E s1 = forEach rsps (processAccountsAndBalancesResponse E) (s1\<lparr>world := w', abBatchResponses := rsps\<rparr>)"
    by (rule responses_run [OF h, of s1]) (use ready(1) its(2) in auto)
  let ?s1 = "s1\<lparr>world := w', abBatchResponses := rsps\<rparr>"
  have "\<exists>s'. forEach rsps (processAccountsAndBalancesResponse E) ?s1 = (Inr (), s') \<and>
      items_answered becomes counter closing news b refs ?s1 s'"
  proof (rule runs_item_responses [OF \<open>side\<close>])
    show "\<forall>(q, r) \<in> set refs. item_ready rt ?s1 c bid q r" using ready(2) by (simp add: item_ready_def)
    show "distinct (map req_requestId (abBatchRequests ?s1))"
      using keeps_run [OF ids_runCommands [OF f] _ run1] by (simp add: ids_ok_def resetBatch_def)
    show "bulk_at E bid br b ?s1"
      using bulk q by (auto simp: bulk_at_def bulk_in_def queued_def same_rest_def)
    have "length refs = length its" by (simp add: refs_def request_refs_simps(3) ready(1))
    with its(2) show "refs \<noteq> []" by auto
  qed (use count g refs ready(1) in simp_all)
  then obtain s2 where "runRequests E s1 = (Inr (), s2)"
    and done2: "items_answered becomes counter closing news b refs ?s1 s2"
    using run2 by auto
  have ends: "\<exists>t. obj (its ! i) t \<and> becomes t (theap s2 (tnext s0 + i))" if i: "i < length its" for i
  proof -
    have "(abBatchRequests s1 ! i, tnext s0 + i) \<in> set refs"
      using i refs(3,4) ready(1) by (metis nth_mem)
    with done2 s1(4) [OF i] show ?thesis by (auto simp: items_answered_def)
  qed
  have "map (\<lambda>i. req_transferId (fst i)) refs = map key its"
    by (rule nth_equalityI) (use refs ready(1,3) in auto)
  with done2 s1 obtain b' where b': "closing b' s2" "counter b' = counter b @ map key its" "outputEvents s2 = [news s2]"
    and rest: "unhandled s2 = unhandled s0" "transfersCache s2 = transfersCache s1" "abCancelationBatchRequests s2 = []"
    by (auto simp: items_answered_def)
  have "batchBody E [c] (resetBatch s) = (Inr (), s2)"
    using run1 \<open>runRequests E s1 = (Inr (), s2)\<close> no_cancelations [OF rest(3)]
    by (simp add: batchBody_def andThen_def)
  then have "wp (batchBody E [c]) (\<lambda>r s'. r = Inr () \<and> s' = s2) (resetBatch s)"
    by (simp add: wp_def)
  then obtain w where "processCommandBatch E [c] s = (Resolved, s2\<lparr>world := w, transfersCache := []\<rparr>)"
    by (rule healthy_batch [OF h]) simp
  from this rest(1,2) ends b' show thesis by (rule that)
qed

end

end
