(* ===== verification/Bulk_End_To_End.thy ===== *)
theory Bulk_End_To_End
  imports Bulk_Items
begin

text \<open>
  A bulk prepare on a healthy platform: every item becomes a reserved transfer, and the answer to the last
  reservation completes the bulk transfer and announces it once, with all its transfers.  The items and
  the responses run by the scheme of \<open>Bulk_Items\<close>, of which \<open>prepare\<close> is the instance.
\<close>

section \<open>The items\<close>

text \<open>The object of an item.\<close>

definition item_object :: "'w env \<Rightarrow> prepare_bulk_payload \<Rightarrow> individual_transfer \<Rightarrow> transfer \<Rightarrow> bool" where
  "item_object E p it t \<longleftrightarrow> (let ip = itemPrepare p it in
     \<exists>model n. t = newTransferOf (itemCommand (PrepareTransferCmd ip)) ip (prepareHash E ip) model n)"

definition item_doable :: "'w env \<Rightarrow> (string \<Rightarrow> participant option) \<Rightarrow> prepare_bulk_payload \<Rightarrow> individual_transfer \<Rightarrow> bool" where
  "item_doable E dir p it \<longleftrightarrow> (let ip = itemPrepare p it in
     (\<forall>w. fst (repo_getTransferById E (Some (it_transferId it)) w) = Inr None) \<and>
     (\<exists>a. checksOf dir (newTransferOf (itemCommand (PrepareTransferCmd ip)) ip [] [] 0) = Inr a))"

lemma itemPrepare_simps [simp]:
  "prep_transferId (itemPrepare p it) = it_transferId it" "prep_amount (itemPrepare p it) = it_amount it"
  "prep_currencyCode (itemPrepare p it) = it_currency it"
  "prep_bulkTransferId (itemPrepare p it) = Some (bprep_bulkTransferId p)"
  "prep_payerFsp (itemPrepare p it) = bprep_payerFsp p" "prep_payeeFsp (itemPrepare p it) = bprep_payeeFsp p"
  by (simp_all add: itemPrepare_def)

definition prepareItem :: "'w env \<Rightarrow> prepare_bulk_payload \<Rightarrow> individual_transfer \<Rightarrow> ('w, unit) act" where
  "prepareItem E p it = prepareTransferStart E (itemCommand (PrepareTransferCmd (itemPrepare p it))) (itemPrepare p it)"

lemma item_queued:
  assumes h: "healthy E dir" and d: "item_doable E dir p it"
    and cache: "map_of (transfersCache s) (Some (it_transferId it)) = None"
  obtains w t q where "prepareItem E p it s = (Inr (), s\<lparr>world := w, theap := (theap s)(tnext s := t),
       tnext := Suc (tnext s), transfersCache := transfersCache s @ [(Some (it_transferId it), tnext s)],
       abBatchRequests := abBatchRequests s @ [q]\<rparr>)"
    and "item_object E p it t" and "item_request it_transferId checkLiquidAndReserve it q"
proof -
  let ?ip = "itemPrepare p it" and ?c = "itemCommand (PrepareTransferCmd (itemPrepare p it))"
  from d obtain a where repo: "\<And>w. fst (repo_getTransferById E (Some (prep_transferId ?ip)) w) = Inr None"
    and a: "checksOf dir (newTransferOf ?c ?ip [] [] 0) = Inr a"
    by (auto simp: item_doable_def Let_def)
  have new: "map_of (transfersCache s) (Some (prep_transferId ?ip)) = None" using cache by simp
  obtain w model n ndc u where run: "prepareTransferStart E ?c ?ip s =
     (Inr (), s\<lparr>world := w, theap := (theap s)(tnext s := newTransferOf ?c ?ip (prepareHash E ?ip) model n),
            tnext := Suc (tnext s),
            transfersCache := AList.update (Some (prep_transferId ?ip)) (tnext s) (transfersCache s),
            abBatchRequests := abBatchRequests s @
              [reserveRequest (newTransferOf ?c ?ip (prepareHash E ?ip) model n) a ndc u]\<rparr>)"
    by (rule prepare_start_healthy [OF healthy_up [OF h] new repo a])
  show thesis
    by (rule that) (use run cache in \<open>auto simp: prepareItem_def update_new item_object_def Let_def item_request_def
      reserveRequest_def\<close>)
qed

section \<open>The bulk transfer\<close>

text \<open>One more prepared item.\<close>

definition count_item :: "string \<Rightarrow> bulk_transfer \<Rightarrow> bulk_transfer" where
  "count_item tid b = b\<lparr>bt_transfersPreparedProcessedIds := bt_transfersPreparedProcessedIds b @ [tid]\<rparr>"

lemma count_item_simps [simp]:
  "bt_bulkTransferId (count_item tid b) = bt_bulkTransferId b"
  "bt_transfersPreparedProcessedIds (count_item tid b) = bt_transfersPreparedProcessedIds b @ [tid]"
  "bt_transfersNotProcessedIds (count_item tid b) = bt_transfersNotProcessedIds b"
  "bt_individualTransfers (count_item tid b) = bt_individualTransfers b"
  by (simp_all add: count_item_def)

lemma cached_frame [simp]:
  "cachedTransfersOfBulk (s\<lparr>outputEvents := x1\<rparr>) bid = cachedTransfersOfBulk s bid"
  "cachedTransfersOfBulk (s\<lparr>world := x2\<rparr>) bid = cachedTransfersOfBulk s bid"
  "cachedTransfersOfBulk (s\<lparr>bheap := x3\<rparr>) bid = cachedTransfersOfBulk s bid"
  "cachedTransfersOfBulk (s\<lparr>bnext := x4\<rparr>) bid = cachedTransfersOfBulk s bid"
  "cachedTransfersOfBulk (s\<lparr>bulkTransfersCache := x5\<rparr>) bid = cachedTransfersOfBulk s bid"
  by (simp_all add: cachedTransfersOfBulk_def)

text \<open>The continuation of the reservation of an item.\<close>

abbreviation prepared_ids :: "bulk_transfer \<Rightarrow> string list" where
  "prepared_ids \<equiv> bt_transfersPreparedProcessedIds"

definition reserves :: "transfer \<Rightarrow> transfer \<Rightarrow> bool" where
  "reserves t t' \<longleftrightarrow> (\<exists>n. t' = reserved_at n t)"

definition bulk_prepared :: "string \<Rightarrow> nat \<Rightarrow> bulk_transfer \<Rightarrow> 'w agg \<Rightarrow> bool" where
  "bulk_prepared bid br b s \<longleftrightarrow> bulk_in bid br b s \<and> bt_status b = BULK_PENDING"

definition prepared_news :: "command \<Rightarrow> string \<Rightarrow> 'w agg \<Rightarrow> event_msg" where
  "prepared_news c bid s = tagged c (BulkTransferPreparedEvt (bulkPreparedPayload (cmd_body c) (cachedTransfersOfBulk s bid)))"

lemma item_continue:
  assumes bulk: "bulk_at E bid br b s" and bid: "bid \<noteq> []" "bulkTransferId (theap s r) = Some bid"
    and cached: "map_of (transfersCache s) (Some (transferId (theap s r))) = Some r"
    and "rsp_success rsp"
  shows "\<exists>s' b'. prepareBulkTransferContinue E rsp q c (Some r) s = (Inr (), s') \<and> item_ended reserves r s s' \<and>
     counts prepared_ids (transferId (theap s r)) b b' \<and>
     (if counted_out prepared_ids b' then bulk_prepared bid br b' s' \<and> outputEvents s' = outputEvents s @ [prepared_news c bid s']
      else bulk_in bid br b' s' \<and> outputEvents s' = outputEvents s)"
proof -
  obtain k w1 where k: "dateNow E (world s) = (k, w1)" by fastforce
  obtain n w2 where n: "dateNow E w1 = (n, w2)" by fastforce
  let ?t = "reserved_at n (theap s r)"
  let ?s1 = "s\<lparr>world := w2, theap := (theap s)(r := ?t)\<rparr>"
  have first: "prepareTransferContinue E rsp q c (Some r) s = (Inr (), ?s1)"
    using assms k n by (simp add: prepareTransferContinue_def run_simps primitive_defs update_same)
  have "bulk_at E bid br b ?s1" using bulk by (simp add: bulk_at_def bulk_in_def)
  then obtain w bh bn bc where read: "getBulkTransfer E (Some bid) ?s1 =
      (Inr (Some br), ?s1\<lparr>world := w, bheap := bh, bnext := bn, bulkTransfersCache := bc\<rparr>)"
    and bh: "bh br = b" and bc: "map_of bc (Some bid) = Some br"
    by (rule bulk_read)
  have b: "bt_bulkTransferId b = bid" using bulk by (rule bulk_at_id)
  let ?b = "count_item (transferId (theap s r)) b"
  let ?s2 = "?s1\<lparr>world := w, bnext := bn, bheap := bh(br := ?b), bulkTransfersCache := bc\<rparr>"
  let ?fin = "counted_out prepared_ids ?b"
  have run: "prepareBulkTransferContinue E rsp q c (Some r) s =
      (if ?fin then prepareBulkComplete E c br ?s2 else (Inr (), ?s2))"
    using first read bh b bid update_same [OF bc]
    by (simp add: prepareBulkTransferContinue_def run_simps primitive_defs counted_out_def count_item_def)
  show ?thesis
  proof (cases ?fin)
    case False
    with run b bc show ?thesis
      by (intro exI [of _ ?s2] exI [of _ ?b])
         (simp add: bulk_in_def counts_def item_ended_def reserves_def, blast)
  next
    case True
    obtain m w4 where m: "dateNow E w = (m, w4)" by fastforce
    let ?b' = "?b\<lparr>bt_updatedAt := m, bt_status := BULK_PENDING\<rparr>"
    let ?s3 = "?s2\<lparr>world := w4, bheap := bh(br := ?b')\<rparr>"
    have "?t \<in> set (cachedTransfersOfBulk ?s3 bid)"
      using map_of_SomeD [OF cached] bid by (force simp: cachedTransfersOfBulk_def image_iff)
    then have ne: "cachedTransfersOfBulk ?s3 bid \<noteq> []" by auto
    have "prepareBulkComplete E c br ?s2 = (Inr (), ?s3\<lparr>outputEvents := outputEvents s @ [prepared_news c bid ?s3]\<rparr>)"
      using m b update_same [OF bc] ne
      by (simp add: prepareBulkComplete_def prepared_news_def run_simps primitive_defs emit_def)
    with run True b bc show ?thesis
      by (intro exI [of _ "?s3\<lparr>outputEvents := outputEvents s @ [prepared_news c bid ?s3]\<rparr>"] exI [of _ ?b'])
         (simp add: bulk_in_def counts_def counted_out_def bulk_prepared_def prepared_news_def item_ended_def reserves_def, blast)
  qed
qed

text \<open>The bulk prepare \<open>p\<close> as an instance of the scheme.\<close>

interpretation prepare: bulk_items E c "bprep_bulkTransferId p" br
  "bprep_bulkTransferId p \<noteq> [] \<and> truthy (payload_bulkTransferId (cmd_body c))" it_transferId "prepareItem E p"
  "\<lambda>it. healthy E dir \<and> item_doable E dir p it" "item_object E p" checkLiquidAndReserve
  reserves prepared_ids "bulk_prepared (bprep_bulkTransferId p) br" "prepared_news c (bprep_bulkTransferId p)"
  for E :: "'w env" and c p br dir
proof (unfold_locales, goal_cases)
  case (1 it s)
  then have h: "healthy E dir" and d: "item_doable E dir p it"
    and cache: "map_of (transfersCache s) (Some (it_transferId it)) = None" by simp_all
  show ?case by (rule item_queued [OF h d cache]) (intro exI conjI; assumption)
next
  case (2 it t)
  then show ?case by (auto simp: item_object_def Let_def newTransferOf_def)
next
  case (3 s q r b rsp)
  then have "continueRequest E rsp q c (Some r) s = prepareBulkTransferContinue E rsp q c (Some r) s"
    by (simp add: continueRequest_def)
  with item_continue [OF 3(3) _ _ _ 3(5), of r q c] 3(1,2) show ?case
    by (simp add: item_ready_def)
qed

section \<open>The batch\<close>

text \<open>The command itself: the bulk transfer is added, the items are run.\<close>

lemma bulk_command:
  assumes h: "healthy E dir" and c: "cmd_msgType c = COMMAND" "cmd_body c = PrepareBulkTransferCmd p"
    and bid: "bprep_bulkTransferId p \<noteq> []"
    and add: "\<And>b w. \<exists>x w'. bulkRepo_addBulkTransfer E b w = (Inr (Inr x), w')"
    and its: "\<And>it. it \<in> set (bprep_individualTransfers p) \<Longrightarrow> item_doable E dir p it"
      "distinct (map it_transferId (bprep_individualTransfers p))"
      "\<And>it. it \<in> set (bprep_individualTransfers p) \<Longrightarrow> map_of (transfersCache s) (Some (it_transferId it)) = None"
  obtains w s1 where "runCommands E [c] s = (Inr (), s1)"
    and "queued it_transferId (item_object E p) checkLiquidAndReserve (bprep_individualTransfers p) (s\<lparr>world := w, batchCommands := registerCommand c (batchCommands s)\<rparr>) s1"
proof -
  let ?s = "s\<lparr>batchCommands := registerCommand c (batchCommands s)\<rparr>"
  obtain n w1 where n: "dateNow E (world s) = (n, w1)" by fastforce
  obtain x w where x: "bulkRepo_addBulkTransfer E (newBulkOf c p n) w1 = (Inr (Inr x), w)" using add by blast
  have "\<exists>s'. forEach (bprep_individualTransfers p) (prepareItem E p) (?s\<lparr>world := w\<rparr>) = (Inr (), s') \<and>
      queued it_transferId (item_object E p) checkLiquidAndReserve (bprep_individualTransfers p) (?s\<lparr>world := w\<rparr>) s'"
    by (rule prepare.runs_items [where dir = dir]) (use h its in simp_all)
  then obtain s1 where run: "forEach (bprep_individualTransfers p) (prepareItem E p) (?s\<lparr>world := w\<rparr>) = (Inr (), s1)"
    and q: "queued it_transferId (item_object E p) checkLiquidAndReserve (bprep_individualTransfers p) (?s\<lparr>world := w\<rparr>) s1"
    by blast
  have "prepareBulkTransferStart E c p ?s = (Inr (), s1)"
    using n x run
    by (simp add: prepareBulkTransferStart_def addBulkTransfer_def prepareItem_def [abs_def] Let_def run_simps now_def call_def)
  then have "runCommands E [c] s = (Inr (), s1)"
    using c bid by (simp add: runCommands_def processCommand_def ensureValidMessage_def dispatchCommand_def
        andThen_def ret_def rememberCommand_run)
  moreover have "?s\<lparr>world := w\<rparr> = s\<lparr>world := w, batchCommands := registerCommand c (batchCommands s)\<rparr>" by simp
  ultimately show thesis using q that by metis
qed

text \<open>The objects of the bulk transfer in the cache, at the end.\<close>

lemma cached_items:
  assumes "transfersCache s = zip ks [n..<n + k]" and "length ks = k"
    and "\<And>i. i < k \<Longrightarrow> bulkTransferId (theap s (n + i)) = Some bid"
  shows "cachedTransfersOfBulk s bid = map (\<lambda>i. theap s (n + i)) [0..<k]"
proof -
  have "map (\<lambda>(_, r). theap s r) (transfersCache s) = map (\<lambda>i. theap s (n + i)) [0..<k]"
    by (rule nth_equalityI) (simp_all add: assms(1,2))
  with assms(3) show ?thesis by (simp add: cachedTransfersOfBulk_def filter_id_conv)
qed

text \<open>The final transfer of an item.\<close>

definition item_reserved :: "prepare_bulk_payload \<Rightarrow> individual_transfer \<Rightarrow> transfer \<Rightarrow> bool" where
  "item_reserved p it t \<longleftrightarrow> transferState t = RESERVED \<and> transferId t = it_transferId it \<and>
     bulkTransferId t = Some (bprep_bulkTransferId p) \<and> amount t = it_amount it \<and> currencyCode t = it_currency it \<and>
     payerFspId t = bprep_payerFsp p \<and> payeeFspId t = bprep_payeeFsp p"

lemma item_object_reserved: "item_object E p it t \<Longrightarrow> item_reserved p it (reserved_at n t)"
  by (auto simp: item_object_def item_reserved_def newTransferOf_def Let_def)

text \<open>C7: on a healthy platform, a bulk prepare of unknown transfers of different identifiers is carried out: the
  promise resolves, every item is a \<open>RESERVED\<close> transfer of the bulk transfer with the item's amount,
  currency and the parties of the command, the bulk transfer is \<open>BULK_PENDING\<close> with all items counted in
  their order, and one event, with the protocol fields of the bulk command, lists them all.\<close>

theorem bulk_prepare_end_to_end:
  assumes h: "healthy E dir" and f: "fresh_ids E used"
    and c: "cmd_msgType c = COMMAND" "cmd_body c = PrepareBulkTransferCmd p" "bprep_bulkTransferId p \<noteq> []"
    and its: "its = bprep_individualTransfers p" "its \<noteq> []" "distinct (map it_transferId its)"
    and dc: "\<And>it. it \<in> set its \<Longrightarrow> item_doable E dir p it"
    and add: "\<And>b w. \<exists>x w'. bulkRepo_addBulkTransfer E b w = (Inr (Inr x), w')"
    and get: "\<And>w. fst (bulkRepo_getBulkTransferById E (Some (bprep_bulkTransferId p)) w) = Inr (Some (newBulkOf c p n))"
    and s: "transfersCache s = []" "map_of (bulkTransfersCache s) (Some (bprep_bulkTransferId p)) = None"
  shows "\<exists>s' x. processCommandBatch E [c] s = (Resolved, s') \<and> transfersCache s' = [] \<and> unhandled s' = unhandled s \<and>
     (\<forall>i < length its. item_reserved p (its ! i) (theap s' (tnext s + i))) \<and>
     map_of (bulkTransfersCache s') (Some (bprep_bulkTransferId p)) = Some (bnext s) \<and>
     bt_status (bheap s' (bnext s)) = BULK_PENDING \<and>
     bt_transfersPreparedProcessedIds (bheap s' (bnext s)) = map it_transferId its \<and>
     outputEvents s' = [tagged c (BulkTransferPreparedEvt x)] \<and> bpe_bulkTransferId x = Some (bprep_bulkTransferId p) \<and>
     bpe_individualTransfers x = map (\<lambda>it. (it_transferId it, it_amount it, it_currency it)) its"
proof -
  let ?s = "resetBatch s" and ?bid = "bprep_bulkTransferId p"
  have s0: "abBatchRequests ?s = []" "batchCommands ?s = []" "outputEvents ?s = []" "unhandled ?s = unhandled s"
    "abCancelationBatchRequests ?s = []" "tnext ?s = tnext s" "transfersCache ?s = []" "bnext ?s = bnext s"
    "bulkTransfersCache ?s = bulkTransfersCache s"
    by (simp_all add: resetBatch_def s)
  obtain w s1 where run1: "runCommands E [c] ?s = (Inr (), s1)"
    and q: "queued it_transferId (item_object E p) checkLiquidAndReserve its
      (?s\<lparr>world := w, batchCommands := registerCommand c (batchCommands ?s)\<rparr>) s1"
    by (rule bulk_command [OF h c add, of ?s, folded its(1)]) (use dc its(3) s0 in simp_all)
  let ?begun = "?s\<lparr>world := w, batchCommands := registerCommand c (batchCommands ?s)\<rparr>"
  obtain s2 b' w' where run: "processCommandBatch E [c] s = (Resolved, s2\<lparr>world := w', transfersCache := []\<rparr>)"
    and rest: "unhandled s2 = unhandled ?begun" "transfersCache s2 = transfersCache s1"
    and done2: "\<And>i. i < length its \<Longrightarrow> \<exists>t. item_object E p (its ! i) t \<and> reserves t (theap s2 (tnext ?begun + i))"
    and b': "bulk_prepared ?bid (bnext s) b' s2" "prepared_ids b' = prepared_ids (newBulkOf c p n) @ map it_transferId its"
    and out: "outputEvents s2 = [prepared_news c ?bid s2]"
  proof (rule prepare.batch_runs [OF h f _ run1 q, where br = "bnext s" and b = "newBulkOf c p n"])
    show "map_of (batchCommands ?begun) (Some (it_transferId it)) = Some c" if "it \<in> set its" for it
      using that c its(1) s0 by (simp add: map_of_registerCommand registers_def)
    show "bulk_at E ?bid (bnext s) (newBulkOf c p n) ?begun"
      using s0 s(2) get by (simp add: bulk_at_def newBulkOf_def)
  qed (use c its s0 in \<open>simp_all add: newBulkOf_def\<close>)
  have reserved: "item_reserved p (its ! i) (theap s2 (tnext s + i))" if "i < length its" for i
    using done2 [OF that] s0 by (auto simp: reserves_def dest: item_object_reserved)
  have "cachedTransfersOfBulk s2 ?bid = map (\<lambda>i. theap s2 (tnext s + i)) [0..<length its]"
    by (rule cached_items) (use q rest reserved s0 in \<open>auto simp: queued_def item_reserved_def\<close>)
  then have x: "bpe_bulkTransferId (bulkPreparedPayload (cmd_body c) (cachedTransfersOfBulk s2 ?bid)) = Some ?bid"
    "bpe_individualTransfers (bulkPreparedPayload (cmd_body c) (cachedTransfersOfBulk s2 ?bid)) =
       map (\<lambda>it. (it_transferId it, it_amount it, it_currency it)) its"
    using c reserved by (auto simp: bulkPreparedPayload_def item_reserved_def intro: nth_equalityI)
  from run reserved rest b' out x s0 show ?thesis
    by (intro exI [of _ "s2\<lparr>world := w', transfersCache := []\<rparr>"]
          exI [of _ "bulkPreparedPayload (cmd_body c) (cachedTransfersOfBulk s2 ?bid)"])
       (simp add: bulk_prepared_def bulk_in_def prepared_news_def newBulkOf_def)
qed

end
