(* ===== verification/Bulk_Fulfil_End_To_End.thy ===== *)
theory Bulk_Fulfil_End_To_End
  imports Bulk_Items
begin

text \<open>
  A bulk fulfil on a healthy platform, the second instance of \<open>Bulk_Items\<close>: every item's transfer is
  committed, and the answer to the last commit completes the bulk transfer, stores it, announces it with
  the results of the command, and drops the bulk transfers from the cache.
\<close>

section \<open>The items\<close>

definition fulfilItem :: "'w env \<Rightarrow> fulfil_bulk_payload \<Rightarrow> individual_result \<Rightarrow> ('w, unit) act" where
  "fulfilItem E p ir = fulfilTransferStart E (itemCommand (CommitTransferFulfilCmd (itemFulfil p ir))) (itemFulfil p ir)"

text \<open>The stored transfer of an item, which passes the checks, and the object it becomes.\<close>

definition stored_item :: "'w env \<Rightarrow> string \<Rightarrow> individual_result \<Rightarrow> transfer \<Rightarrow> bool" where
  "stored_item E bid ir t \<longleftrightarrow>
     (\<forall>w. fst (repo_getTransferById E (Some (ir_transferId ir)) w) = Inr (Some t)) \<and>
     transferId t = ir_transferId ir \<and> bulkTransferId t = Some bid"

definition fulfil_doable :: "'w env \<Rightarrow> (string \<Rightarrow> participant option) \<Rightarrow> string \<Rightarrow> individual_result \<Rightarrow> bool" where
  "fulfil_doable E dir bid ir \<longleftrightarrow> (\<exists>t a. stored_item E bid ir t \<and> checksOf dir t = Inr a)"

definition fulfil_object :: "'w env \<Rightarrow> string \<Rightarrow> individual_result \<Rightarrow> transfer \<Rightarrow> bool" where
  "fulfil_object E bid ir t \<longleftrightarrow> (\<exists>t0 v. stored_item E bid ir t0 \<and> t = t0\<lparr>transferOpaqueState := v\<rparr>)"

lemma fulfil_item_queued:
  assumes h: "healthy E dir" and d: "fulfil_doable E dir bid ir"
    and cache: "map_of (transfersCache s) (Some (ir_transferId ir)) = None"
  obtains w t q where "fulfilItem E p ir s = (Inr (), s\<lparr>world := w, theap := (theap s)(tnext s := t),
       tnext := Suc (tnext s), transfersCache := transfersCache s @ [(Some (ir_transferId ir), tnext s)],
       abBatchRequests := abBatchRequests s @ [q]\<rparr>)"
    and "fulfil_object E bid ir t" and "item_request ir_transferId cancelReservationAndCommit ir q"
proof -
  let ?ip = "itemFulfil p ir" and ?c = "itemCommand (CommitTransferFulfilCmd (itemFulfil p ir))"
  have ip: "ful_transferId ?ip = ir_transferId ir" by (simp add: itemFulfil_def)
  from d obtain t a where t: "stored_item E bid ir t" and a: "checksOf dir t = Inr a"
    by (auto simp: fulfil_doable_def)
  then have repo: "\<And>w. fst (repo_getTransferById E (Some (ful_transferId ?ip)) w) = Inr (Some t)"
    by (simp add: stored_item_def ip)
  have acc: "acceptable E ?c t" by (simp add: acceptable_def itemCommand_def)
  have new: "map_of (transfersCache s) (Some (ful_transferId ?ip)) = None" using cache ip by simp
  obtain w v u where run: "fulfilTransferStart E ?c ?ip s =
     (Inr (), s\<lparr>world := w, theap := (theap s)(tnext s := t\<lparr>transferOpaqueState := v\<rparr>), tnext := Suc (tnext s),
            transfersCache := AList.update (Some (ful_transferId ?ip)) (tnext s) (transfersCache s),
            abBatchRequests := abBatchRequests s @ [commitRequest t a u]\<rparr>)"
    by (rule fulfil_start_healthy [OF healthy_up [OF h] new repo a acc])
  show thesis
    by (rule that) (use run cache t in \<open>auto simp: fulfilItem_def ip update_new fulfil_object_def item_request_def
      commitRequest_def stored_item_def\<close>)
qed

section \<open>The bulk transfer\<close>

abbreviation fulfiled_ids :: "bulk_transfer \<Rightarrow> string list" where
  "fulfiled_ids \<equiv> bt_transfersFulfiledProcessedIds"

definition commits :: "int option \<Rightarrow> transfer \<Rightarrow> transfer \<Rightarrow> bool" where
  "commits ts t t' \<longleftrightarrow> (\<exists>n. t' = committed_at n ts t)"

text \<open>The completed bulk transfer is no longer in the cache, and it has been given to the repository.\<close>

definition bulk_fulfiled :: "'w env \<Rightarrow> nat \<Rightarrow> bulk_transfer \<Rightarrow> 'w agg \<Rightarrow> bool" where
  "bulk_fulfiled E br b s \<longleftrightarrow> bheap s br = b \<and> bulkTransfersCache s = [] \<and> bt_status b = BULK_COMPLETED \<and>
     (\<exists>w. bulkRepo_updateBulkTransfer E b w = (Inr (), world s))"

definition fulfiled_news :: "command \<Rightarrow> 'w agg \<Rightarrow> event_msg" where
  "fulfiled_news c s = tagged c (BulkTransferFulfiledEvt (bulkFulfiledPayload (cmd_body c)))"

definition updates_bulk :: "'w env \<Rightarrow> bool" where
  "updates_bulk E \<longleftrightarrow> (\<forall>b. succeeds (bulkRepo_updateBulkTransfer E b) (\<lambda>_. True))"

lemma fulfil_item_continue:
  assumes upd: "updates_bulk E"
    and bulk: "bulk_at E bid br b s" and bid: "bid \<noteq> []" "bulkTransferId (theap s r) = Some bid"
    and cached: "map_of (transfersCache s) (Some (transferId (theap s r))) = Some r"
    and "rsp_success rsp"
  shows "\<exists>s' b'. fulfilBulkTransferContinue E rsp q c (Some r) s = (Inr (), s') \<and>
     item_ended (commits (payload_completedTimestamp (cmd_body c))) r s s' \<and>
     counts fulfiled_ids (transferId (theap s r)) b b' \<and>
     (if counted_out fulfiled_ids b' then bulk_fulfiled E br b' s' \<and> outputEvents s' = outputEvents s @ [fulfiled_news c s']
      else bulk_in bid br b' s' \<and> outputEvents s' = outputEvents s)"
proof -
  obtain w bh bn bc where read: "getBulkTransfer E (Some bid) s =
      (Inr (Some br), s\<lparr>world := w, bheap := bh, bnext := bn, bulkTransfersCache := bc\<rparr>)"
    and bh: "bh br = b" and bc: "map_of bc (Some bid) = Some br"
    using bulk by (rule bulk_read)
  have b: "bt_bulkTransferId b = bid" using bulk by (rule bulk_at_id)
  obtain l w1 where l: "dateNow E w = (l, w1)" by fastforce
  obtain k w2 where k: "dateNow E w1 = (k, w2)" by fastforce
  obtain n w3 where n: "dateNow E w2 = (n, w3)" by fastforce
  let ?t = "committed_at n (payload_completedTimestamp (cmd_body c)) (theap s r)"
  let ?b = "b\<lparr>bt_updatedAt := l, bt_status := BULK_PROCESSING,
      bt_transfersFulfiledProcessedIds := fulfiled_ids b @ [transferId (theap s r)]\<rparr>"
  let ?s2 = "s\<lparr>bnext := bn, world := w3, theap := (theap s)(r := ?t), bheap := bh(br := ?b), bulkTransfersCache := bc\<rparr>"
  let ?fin = "counted_out fulfiled_ids ?b"
  have run: "fulfilBulkTransferContinue E rsp q c (Some r) s =
      (if ?fin then fulfilBulkComplete E c br ?s2 else (Inr (), ?s2))"
    using assms read bh b bid update_same [OF bc] update_same [OF cached] l k n
    by (simp add: fulfilBulkTransferContinue_def fulfilTransferContinue_def run_simps primitive_defs counted_out_def)
  show ?thesis
  proof (cases ?fin)
    case False
    with run b bc show ?thesis
      by (intro exI [of _ ?s2] exI [of _ ?b])
         (simp add: bulk_in_def counts_def item_ended_def commits_def, blast)
  next
    case True
    obtain m w4 where m: "dateNow E w3 = (m, w4)" by fastforce
    let ?b' = "?b\<lparr>bt_updatedAt := m, bt_status := BULK_COMPLETED\<rparr>"
    obtain w5 where w5: "bulkRepo_updateBulkTransfer E ?b' w4 = (Inr (), w5)"
      using upd by (auto simp: updates_bulk_def succeeds_def)
    let ?s3 = "?s2\<lparr>world := w5, bheap := bh(br := ?b'), bulkTransfersCache := [],
        outputEvents := outputEvents s @ [tagged c (BulkTransferFulfiledEvt (bulkFulfiledPayload (cmd_body c)))]\<rparr>"
    have "fulfilBulkComplete E c br ?s2 = (Inr (), ?s3)"
      using m b w5 update_same [OF bc]
      by (simp add: fulfilBulkComplete_def run_simps primitive_defs emit_def)
    with run True w5 show ?thesis
      by (intro exI [of _ ?s3] exI [of _ ?b'])
         (simp add: counts_def counted_out_def bulk_fulfiled_def fulfiled_news_def item_ended_def commits_def, blast)
  qed
qed

text \<open>The bulk fulfil \<open>p\<close> as an instance of the scheme.\<close>

interpretation fulfil: bulk_items E c "bful_bulkTransferId p" br
  "updates_bulk E \<and> bful_bulkTransferId p \<noteq> [] \<and> truthy (payload_bulkTransferId (cmd_body c))" ir_transferId "fulfilItem E p"
  "\<lambda>ir. healthy E dir \<and> fulfil_doable E dir (bful_bulkTransferId p) ir" "fulfil_object E (bful_bulkTransferId p)"
  cancelReservationAndCommit "commits (payload_completedTimestamp (cmd_body c))" fulfiled_ids "bulk_fulfiled E br" "fulfiled_news c"
  for E :: "'w env" and c p br dir
proof (unfold_locales, goal_cases)
  case (1 ir s)
  then have h: "healthy E dir" and d: "fulfil_doable E dir (bful_bulkTransferId p) ir"
    and cache: "map_of (transfersCache s) (Some (ir_transferId ir)) = None" by simp_all
  show ?case by (rule fulfil_item_queued [OF h d cache]) (intro exI conjI; assumption)
next
  case (2 ir t)
  then show ?case by (auto simp: fulfil_object_def stored_item_def)
next
  case (3 s q r b rsp)
  then have "continueRequest E rsp q c (Some r) s = fulfilBulkTransferContinue E rsp q c (Some r) s"
    by (simp add: continueRequest_def)
  with fulfil_item_continue [OF _ 3(3) _ _ _ 3(5), of r q c] 3(1,2) show ?case
    by (simp add: item_ready_def)
qed

section \<open>The batch\<close>

text \<open>The command itself: the bulk transfer is accepted, the items are run.\<close>

lemma bulk_fulfil_command:
  assumes h: "healthy E dir" and c: "cmd_msgType c = COMMAND" "cmd_body c = CommitBulkTransferFulfilCmd p"
    and bid: "bful_bulkTransferId p \<noteq> []" and bulk: "bulk_at E (bful_bulkTransferId p) br b s"
    and irs: "\<And>ir. ir \<in> set irs \<Longrightarrow> fulfil_doable E dir (bful_bulkTransferId p) ir" "distinct (map ir_transferId irs)"
      "\<And>ir. ir \<in> set irs \<Longrightarrow> map_of (transfersCache s) (Some (ir_transferId ir)) = None"
      "irs = bful_individualTransferResults p"
  obtains s0 s1 n where "runCommands E [c] s = (Inr (), s1)"
    and "queued ir_transferId (fulfil_object E (bful_bulkTransferId p)) cancelReservationAndCommit irs s0 s1"
    and "bulk_in (bful_bulkTransferId p) br (b\<lparr>bt_updatedAt := n, bt_status := BULK_ACCEPTED\<rparr>) s0"
    and "batchCommands s0 = registerCommand c (batchCommands s)"
    and "abBatchRequests s0 = abBatchRequests s" "outputEvents s0 = outputEvents s" "transfersCache s0 = transfersCache s"
      "abCancelationBatchRequests s0 = abCancelationBatchRequests s" "unhandled s0 = unhandled s" "tnext s0 = tnext s"
proof -
  let ?bid = "bful_bulkTransferId p" and ?s = "s\<lparr>batchCommands := registerCommand c (batchCommands s)\<rparr>"
  have "bulk_at E ?bid br b ?s" using bulk by (simp add: bulk_at_def bulk_in_def)
  then obtain w bh bn bc where read: "getBulkTransfer E (Some ?bid) ?s =
      (Inr (Some br), ?s\<lparr>world := w, bheap := bh, bnext := bn, bulkTransfersCache := bc\<rparr>)"
    and bh: "bh br = b" and bc: "map_of bc (Some ?bid) = Some br"
    by (rule bulk_read)
  have b: "bt_bulkTransferId b = ?bid" using bulk by (rule bulk_at_id)
  obtain n w1 where n: "dateNow E w = (n, w1)" by fastforce
  let ?begun = "?s\<lparr>bnext := bn, world := w1,
      bheap := bh(br := b\<lparr>bt_updatedAt := n, bt_status := BULK_ACCEPTED\<rparr>), bulkTransfersCache := bc\<rparr>"
  have "\<exists>s'. forEach irs (fulfilItem E p) ?begun = (Inr (), s') \<and>
      queued ir_transferId (fulfil_object E ?bid) cancelReservationAndCommit irs ?begun s'"
    by (rule fulfil.runs_items [where dir = dir]) (use h irs in simp_all)
  then obtain s1 where run: "forEach irs (fulfilItem E p) ?begun = (Inr (), s1)"
    and q: "queued ir_transferId (fulfil_object E ?bid) cancelReservationAndCommit irs ?begun s1"
    by blast
  have "fulfilBulkTransferStart E c p ?s = (Inr (), s1)"
    using n read bh b run update_same [OF bc] irs(4)
    by (simp add: fulfilBulkTransferStart_def fulfilItem_def [abs_def] Let_def run_simps primitive_defs)
  then have "runCommands E [c] s = (Inr (), s1)"
    using c bid by (simp add: runCommands_def processCommand_def ensureValidMessage_def dispatchCommand_def
        andThen_def ret_def rememberCommand_run)
  from this q show thesis
    by (rule that [of s1 ?begun n]) (use b bc in \<open>simp_all add: bulk_in_def\<close>)
qed


end
