(* ===== verification/Store.thy ===== *)
theory Store
  imports Repository_Properties
begin

text \<open>
  What a repository of transfers is, as a specification: a finite map from identifiers to transfers with
  five operations (\<open>store_op\<close>).  \<open>MongoTransfersRepo\<close>, over a collection that behaves as documented,
  and \<open>MemoryTransferRepo\<close> are both shown to refine it, each under its own condition on the operations;
  a run of operations that meets both is answered alike by the two, so the double of the tests stands
  for the database exactly there.
\<close>

section \<open>The specification\<close>

datatype repo_op =
    GetTransfer string
  | AddTransfer transfer
  | UpdateTransfer transfer
  | RemoveTransfer string
  | StoreTransfers "transfer list"

text \<open>Which error an operation fails with is not part of the specification: the two repositories differ there.\<close>

datatype repo_answer = Found "transfer option" | Added string | Done | Failed

type_synonym store = "string \<Rightarrow> transfer option"

definition put_all :: "transfer list \<Rightarrow> store \<Rightarrow> store" where
  "put_all ts m = fold (\<lambda>t m. m(transferId t \<mapsto> t)) ts m"

text \<open>Storing fails, after it has been done, when one of the transfers was stored before as it is.\<close>

fun store_op :: "repo_op \<Rightarrow> store \<Rightarrow> repo_answer \<times> store" where
  "store_op (GetTransfer k) m = (Found (m k), m)"
| "store_op (AddTransfer t) m =
     (if m (transferId t) \<noteq> None then (Failed, m) else (Added (transferId t), m(transferId t \<mapsto> t)))"
| "store_op (UpdateTransfer t) m =
     (if m (transferId t) = None then (Failed, m) else (Done, m(transferId t \<mapsto> t)))"
| "store_op (RemoveTransfer k) m = (if m k = None then (Failed, m) else (Done, m(k := None)))"
| "store_op (StoreTransfers ts) m =
     (if \<exists>t \<in> set ts. m (transferId t) = Some t then Failed else Done, put_all ts m)"

section \<open>Refinement\<close>

text \<open>A run of operations and its answers, of a specification or of an implementation.\<close>

fun run_ops :: "('op \<Rightarrow> 's \<Rightarrow> 'ans \<times> 's) \<Rightarrow> 'op list \<Rightarrow> 's \<Rightarrow> 'ans list \<times> 's" where
  "run_ops step [] s = ([], s)"
| "run_ops step (x # xs) s =
     (case step x s of (a, s1) \<Rightarrow> (case run_ops step xs s1 of (as, s2) \<Rightarrow> (a # as, s2)))"

text \<open>Every operation meets a condition on it and on the specified state at that point.\<close>

fun along :: "('op \<Rightarrow> 'm \<Rightarrow> 'ans \<times> 'm) \<Rightarrow> ('op \<Rightarrow> 'm \<Rightarrow> bool) \<Rightarrow> 'op list \<Rightarrow> 'm \<Rightarrow> bool" where
  "along spec ok [] m \<longleftrightarrow> True"
| "along spec ok (x # xs) m \<longleftrightarrow> ok x m \<and> along spec ok xs (snd (spec x m))"

lemma along_mono: "along spec ok xs m \<Longrightarrow> (\<And>x m. ok x m \<Longrightarrow> ok' x m) \<Longrightarrow> along spec ok' xs m"
  by (induction xs arbitrary: m) auto

text \<open>An implementation \<open>step\<close> that, where \<open>ok\<close> holds, commutes with the abstraction of its states.\<close>

locale store_refinement =
  fixes spec :: "'op \<Rightarrow> 'm \<Rightarrow> 'ans \<times> 'm"
    and step :: "'op \<Rightarrow> 's \<Rightarrow> 'ans \<times> 's"
    and abs :: "'s \<Rightarrow> 'm"
    and inv :: "'s \<Rightarrow> bool"
    and ok :: "'op \<Rightarrow> 'm \<Rightarrow> bool"
  assumes simulates: "\<lbrakk>inv s; ok x (abs s)\<rbrakk> \<Longrightarrow>
     inv (snd (step x s)) \<and> spec x (abs s) = (fst (step x s), abs (snd (step x s)))"
begin

lemma run_simulates:
  "\<lbrakk>inv s; along spec ok xs (abs s)\<rbrakk> \<Longrightarrow>
   inv (snd (run_ops step xs s)) \<and>
   run_ops spec xs (abs s) = (fst (run_ops step xs s), abs (snd (run_ops step xs s)))"
proof (induction xs arbitrary: s)
  case (Cons x xs)
  obtain a s1 where s1: "step x s = (a, s1)" by fastforce
  with simulates [of s x] Cons.prems have "inv s1" "spec x (abs s) = (a, abs s1)" by simp_all
  with Cons.IH [of s1] Cons.prems s1 show ?case by (auto split: prod.split)
qed simp

end

section \<open>MongoDB\<close>

text \<open>
  The documented behaviour of a collection with a unique index on \<open>transferId\<close> whose documents are
  \<open>docs\<close>: reads change nothing, an insert of a new identifier adds the document, an update with \<open>$set\<close> of
  all fields replaces it, a removal counts what it removed, a bulk write of replacements with \<open>upsert\<close>
  puts every document and counts the new and the changed ones.
\<close>

definition honest :: "'c collection \<Rightarrow> ('c \<Rightarrow> store) \<Rightarrow> bool" where
  "honest C docs \<longleftrightarrow> counts_changes C docs \<and>
     (\<forall>c k. \<exists>c'. coll_findOne C (Some k) c = (Inr (docs c k), c') \<and> docs c' = docs c) \<and>
     (\<forall>c t. docs c (transferId t) = None \<longrightarrow>
        (\<exists>c'. coll_insertOne C t c = (Inr (), c') \<and> docs c' = (docs c)(transferId t \<mapsto> t))) \<and>
     (\<forall>c t. docs c (transferId t) \<noteq> None \<longrightarrow>
        (\<exists>c'. coll_updateOne C (transferId t) t c = (Inr (), c') \<and> docs c' = (docs c)(transferId t \<mapsto> t))) \<and>
     (\<forall>c k. \<exists>c'. coll_deleteOne C k c = (Inr (if docs c k = None then 0 else 1), c') \<and> docs c' = (docs c)(k := None)) \<and>
     (\<forall>c ts. distinct (map transferId ts) \<longrightarrow> docs (snd (coll_bulkWrite C ts c)) = put_all ts (docs c))"

lemma honestD:
  assumes "honest C docs"
  shows "counts_changes C docs"
    and "\<exists>c'. coll_findOne C (Some k) c = (Inr (docs c k), c') \<and> docs c' = docs c"
    and "docs c (transferId t) = None \<Longrightarrow>
        \<exists>c'. coll_insertOne C t c = (Inr (), c') \<and> docs c' = (docs c)(transferId t \<mapsto> t)"
    and "docs c (transferId t) \<noteq> None \<Longrightarrow>
        \<exists>c'. coll_updateOne C (transferId t) t c = (Inr (), c') \<and> docs c' = (docs c)(transferId t \<mapsto> t)"
    and "\<exists>c'. coll_deleteOne C k c = (Inr (if docs c k = None then 0 else 1), c') \<and> docs c' = (docs c)(k := None)"
    and "distinct (map transferId ts) \<Longrightarrow> docs (snd (coll_bulkWrite C ts c)) = put_all ts (docs c)"
  using assms unfolding honest_def by blast+

text \<open>The documents are such as \<open>_mapToTransfer\<close> leaves unchanged, and are found under their own identifiers.\<close>

definition readable :: "transfer \<Rightarrow> bool" where
  "readable t \<longleftrightarrow> mapToTransfer t = t \<and> transferId t \<noteq> ''''"

definition docs_ok :: "store \<Rightarrow> bool" where
  "docs_ok m \<longleftrightarrow> (\<forall>k t. m k = Some t \<longrightarrow> readable t \<and> transferId t = k)"

text \<open>What an operation of \<open>MongoTransfersRepo\<close> answers.\<close>

definition answer :: "(exn + 'a) \<times> 'c \<Rightarrow> ('a \<Rightarrow> repo_answer) \<Rightarrow> repo_answer \<times> 'c" where
  "answer r f = (case r of (Inl _, c) \<Rightarrow> (Failed, c) | (Inr x, c) \<Rightarrow> (f x, c))"

fun mongo_op :: "'c collection \<Rightarrow> repo_op \<Rightarrow> 'c \<Rightarrow> repo_answer \<times> 'c" where
  "mongo_op C (GetTransfer k) c = answer (mongo_getTransferById C (Some k) c) Found"
| "mongo_op C (AddTransfer t) c = answer (mongo_addTransfer C '''' t c) Added"
| "mongo_op C (UpdateTransfer t) c = answer (mongo_updateTransfer C t c) (\<lambda>_. Done)"
| "mongo_op C (RemoveTransfer k) c = answer (mongo_removeTransfer C k c) (\<lambda>_. Done)"
| "mongo_op C (StoreTransfers ts) c = answer (mongo_storeTransfers C ts c) (\<lambda>_. Done)"

fun mongo_ok :: "repo_op \<Rightarrow> store \<Rightarrow> bool" where
  "mongo_ok (AddTransfer t) m \<longleftrightarrow> readable t"
| "mongo_ok (UpdateTransfer t) m \<longleftrightarrow> readable t"
| "mongo_ok (StoreTransfers ts) m \<longleftrightarrow> distinct (map transferId ts) \<and> (\<forall>t \<in> set ts. readable t)"
| "mongo_ok _ m \<longleftrightarrow> True"

lemma docs_ok_put: "docs_ok m \<Longrightarrow> readable t \<Longrightarrow> docs_ok (m(transferId t \<mapsto> t))"
  by (auto simp: docs_ok_def split: if_splits)

lemma put_all_ok: "docs_ok m \<Longrightarrow> \<forall>t \<in> set ts. readable t \<Longrightarrow> docs_ok (put_all ts m)"
proof (induction ts arbitrary: m)
  case (Cons t ts)
  then have "docs_ok (put_all ts (m(transferId t \<mapsto> t)))"
    by (intro Cons.IH docs_ok_put) simp_all
  then show ?case by (simp add: put_all_def)
qed (simp add: put_all_def)

lemma mongo_get:
  assumes h: "honest C docs" and m: "docs_ok (docs c)"
  obtains c' where "mongo_getTransferById C (Some k) c = (Inr (docs c k), c')" and "docs c' = docs c"
proof -
  obtain c' where c': "coll_findOne C (Some k) c = (Inr (docs c k), c')" "docs c' = docs c"
    using honestD(2) [OF h] by blast
  have "map_option mapToTransfer (docs c k) = docs c k"
    using m by (cases "docs c k") (auto simp: docs_ok_def readable_def)
  with c' show thesis
    by (intro that [of c']) (simp_all add: mongo_getTransferById_def catchAs_def run_simps)
qed

lemma mongo_store:
  assumes h: "honest C docs" and d: "distinct (map transferId ts)"
  shows "fst (mongo_storeTransfers C ts c) = Inr () \<longleftrightarrow> \<not> (\<exists>t \<in> set ts. docs c (transferId t) = Some t)"
    and "docs (snd (mongo_storeTransfers C ts c)) = put_all ts (docs c)"
proof -
  show "fst (mongo_storeTransfers C ts c) = Inr () \<longleftrightarrow> \<not> (\<exists>t \<in> set ts. docs c (transferId t) = Some t)"
    using storeTransfers_answer [OF honestD(1) [OF h] d, of c] by auto
  have "snd (mongo_storeTransfers C ts c) = snd (coll_bulkWrite C ts c)"
    by (cases "coll_bulkWrite C ts c") (auto simp: mongo_storeTransfers_def catchAs_def run_simps split: sum.split)
  with honestD(6) [OF h d] show "docs (snd (mongo_storeTransfers C ts c)) = put_all ts (docs c)" by simp
qed

lemma answer_unit: "answer r (\<lambda>_. Done) = ((if fst r = Inr () then Done else Failed), snd r)"
  for r :: "(exn + unit) \<times> 'c"
  by (cases r) (auto simp: answer_def split: sum.split)

lemma mongo_simulates:
  assumes h: "honest C docs" and m: "docs_ok (docs c)" and ok: "mongo_ok x (docs c)"
  shows "docs_ok (docs (snd (mongo_op C x c))) \<and>
     store_op x (docs c) = (fst (mongo_op C x c), docs (snd (mongo_op C x c)))"
proof (cases x)
  case (GetTransfer k)
  obtain c' where "mongo_getTransferById C (Some k) c = (Inr (docs c k), c')" "docs c' = docs c"
    by (rule mongo_get [OF h m])
  with GetTransfer m show ?thesis by (simp add: answer_def)
next
  case (AddTransfer t)
  with ok have t: "readable t" by simp
  obtain c1 where c1: "coll_findOne C (Some (transferId t)) c = (Inr (docs c (transferId t)), c1)" "docs c1 = docs c"
    using honestD(2) [OF h] by blast
  show ?thesis
  proof (cases "docs c (transferId t)")
    case None
    with c1 obtain c2 where "coll_insertOne C t c1 = (Inr (), c2)" "docs c2 = (docs c)(transferId t \<mapsto> t)"
      using honestD(3) [OF h, of c1 t] by auto
    with None c1 t AddTransfer m show ?thesis
      by (auto simp: mongo_addTransfer_def catchAs_def run_simps answer_def readable_def docs_ok_def)
  next
    case (Some t')
    with c1 t AddTransfer m show ?thesis
      by (simp add: mongo_addTransfer_def catchAs_def run_simps answer_def readable_def)
  qed
next
  case (UpdateTransfer t)
  with ok have t: "readable t" by simp
  obtain c1 where c1: "mongo_getTransferById C (Some (transferId t)) c = (Inr (docs c (transferId t)), c1)" "docs c1 = docs c"
    by (rule mongo_get [OF h m])
  show ?thesis
  proof (cases "docs c (transferId t)")
    case None
    with c1 UpdateTransfer m show ?thesis by (simp add: mongo_updateTransfer_def run_simps answer_def)
  next
    case (Some t')
    then have t': "transferId t' = transferId t" using m by (simp add: docs_ok_def)
    have same: "t\<lparr>transferId := transferId t\<rparr> = t" by simp
    from Some c1 obtain c2 where "coll_updateOne C (transferId t) t c1 = (Inr (), c2)" "docs c2 = (docs c)(transferId t \<mapsto> t)"
      using honestD(4) [OF h, of c1 t] by auto
    with Some c1 t t' UpdateTransfer m show ?thesis
      by (auto simp: mongo_updateTransfer_def catchAs_def run_simps answer_def readable_def docs_ok_def same)
  qed
next
  case (RemoveTransfer k)
  obtain c' where c': "coll_deleteOne C k c = (Inr (if docs c k = None then 0 else 1), c')" "docs c' = (docs c)(k := None)"
    using honestD(5) [OF h] by blast
  have "(docs c)(k := None) = docs c" if "docs c k = None" using that by auto
  with RemoveTransfer c' m show ?thesis
    by (auto simp: mongo_removeTransfer_def catchAs_def run_simps answer_def docs_ok_def)
next
  case (StoreTransfers ts)
  with ok m mongo_store [OF h, of ts c] show ?thesis
    by (auto simp: answer_unit intro: put_all_ok)
qed

interpretation mongo: store_refinement store_op "mongo_op C" docs "\<lambda>c. honest C docs \<and> docs_ok (docs c)" mongo_ok
  for C :: "'c collection" and docs :: "'c \<Rightarrow> store"
proof
  fix x and c :: 'c
  assume "honest C docs \<and> docs_ok (docs c)" and "mongo_ok x (docs c)"
  then show "(honest C docs \<and> docs_ok (docs (snd (mongo_op C x c)))) \<and>
      store_op x (docs c) = (fst (mongo_op C x c), docs (snd (mongo_op C x c)))"
    using mongo_simulates [of C docs c x] by simp
qed

section \<open>Memory\<close>

fun mem_op :: "repo_op \<Rightarrow> transfer list \<Rightarrow> repo_answer \<times> transfer list" where
  "mem_op (GetTransfer k) ts = (Found (mem_getTransferById ts k), ts)"
| "mem_op (AddTransfer t) ts = answer (mem_addTransfer t ts) Added"
| "mem_op (UpdateTransfer t) ts = answer (mem_updateTransfer t ts) (\<lambda>_. Done)"
| "mem_op (RemoveTransfer k) ts = (Done, mem_removeTransfer k ts)"
| "mem_op (StoreTransfers new) ts = answer (mem_storeTransfers new ts) (\<lambda>_. Done)"

text \<open>It does not check whether an added transfer is new or a removed one is there, and does not store.\<close>

fun mem_ok :: "repo_op \<Rightarrow> store \<Rightarrow> bool" where
  "mem_ok (AddTransfer t) m \<longleftrightarrow> m (transferId t) = None"
| "mem_ok (RemoveTransfer k) m \<longleftrightarrow> m k \<noteq> None"
| "mem_ok (StoreTransfers ts) m \<longleftrightarrow> ts = []"
| "mem_ok _ m \<longleftrightarrow> True"

lemma assignFirst_ids: "map transferId (assignFirst t ts) = map transferId ts"
  by (induction ts) auto

lemma mem_unknown: "mem_getTransferById ts k = None \<longleftrightarrow> k \<notin> transferId ` set ts"
  by (auto simp: mem_getTransferById_def find_None_iff)

lemma distinct_without:
  "distinct (map f xs) \<Longrightarrow> distinct (map f (take i xs @ drop (Suc i) xs))"
proof (induction xs arbitrary: i)
  case (Cons x xs)
  then show ?case by (cases i) (auto dest!: in_set_takeD in_set_dropD)
qed simp

lemma mem_simulates:
  assumes d: "distinct (map transferId ts)" and ok: "mem_ok x (mem_getTransferById ts)"
  shows "distinct (map transferId (snd (mem_op x ts))) \<and>
     store_op x (mem_getTransferById ts) = (fst (mem_op x ts), mem_getTransferById (snd (mem_op x ts)))"
proof (cases x)
  case (AddTransfer t)
  with ok have new: "mem_getTransferById ts (transferId t) = None" by simp
  then have "transferId t \<notin> transferId ` set ts" by (simp only: mem_unknown simp_thms)
  with AddTransfer d new show ?thesis
    by (auto simp: mem_addTransfer_def answer_def get_add fun_eq_iff split: option.split)
next
  case (UpdateTransfer t)
  with d show ?thesis
    by (auto simp: mem_updateTransfer_def answer_def assignFirst_ids get_assignFirst fun_eq_iff)
next
  case (RemoveTransfer k)
  with ok obtain i where i: "findIndex (\<lambda>t. transferId t = k) ts = Some i"
    using findIndex_None [of "\<lambda>t. transferId t = k" ts] by (auto simp: mem_getTransferById_def)
  have "distinct (map transferId (take i ts @ drop (Suc i) ts))"
    using d by (rule distinct_without)
  with RemoveTransfer ok i remove_found [OF i d] show ?thesis
    by (auto simp: mem_removeTransfer_def fun_eq_iff)
qed (use d ok in \<open>simp_all add: mem_storeTransfers_def answer_def put_all_def\<close>)

interpretation memory: store_refinement store_op mem_op mem_getTransferById "\<lambda>ts. distinct (map transferId ts)" mem_ok
  by unfold_locales (rule mem_simulates)

section \<open>What follows for the code\<close>

text \<open>C13: over a collection that behaves as documented, \<open>MongoTransfersRepo\<close> is a map from identifiers to
  transfers: every run of its operations, on transfers that read back as they are, is answered as the
  specification answers it and leaves the documents the specification leaves.\<close>

theorem mongo_refines_store:
  assumes "honest C docs" and "docs_ok (docs c)" and "along store_op mongo_ok xs (docs c)"
  shows "run_ops store_op xs (docs c) = (fst (run_ops (mongo_op C) xs c), docs (snd (run_ops (mongo_op C) xs c))) \<and>
     docs_ok (docs (snd (run_ops (mongo_op C) xs c)))"
  using mongo.run_simulates [of C docs c xs] assms by simp

text \<open>C14: a run of operations that adds only new transfers, removes only known ones and stores none in bulk is
  answered alike by \<open>MongoTransfersRepo\<close> and by the repository of the tests, from the same contents on.\<close>

theorem repositories_agree:
  assumes "honest C docs" and "docs_ok (docs c)" and "distinct (map transferId ts)"
    and "docs c = mem_getTransferById ts" and "along store_op (\<lambda>x m. mongo_ok x m \<and> mem_ok x m) xs (docs c)"
  shows "fst (run_ops (mongo_op C) xs c) = fst (run_ops mem_op xs ts) \<and>
     docs (snd (run_ops (mongo_op C) xs c)) = mem_getTransferById (snd (run_ops mem_op xs ts))"
proof -
  have "along store_op mongo_ok xs (docs c)" "along store_op mem_ok xs (mem_getTransferById ts)"
    using assms(4,5) by (auto elim: along_mono)
  with mongo.run_simulates [of C docs c xs] memory.run_simulates [of ts xs] assms show ?thesis by simp
qed

end
