(* ===== verification/Bulk_Store.thy ===== *)
theory Bulk_Store
  imports Store
begin

text \<open>
  The repositories of bulk transfers against a specification of their own, with the locale of \<open>Store\<close>: a
  finite map from identifiers to bulk transfers, which only grows.
\<close>

section \<open>The specification\<close>

datatype bulk_op = GetBulk string | AddBulk bulk_transfer | UpdateBulk bulk_transfer

datatype bulk_answer = FoundBulk "bulk_transfer option" | AddedBulk string | DoneBulk | FailedBulk

type_synonym bulk_store = "string \<Rightarrow> bulk_transfer option"

fun bulk_store_op :: "bulk_op \<Rightarrow> bulk_store \<Rightarrow> bulk_answer \<times> bulk_store" where
  "bulk_store_op (GetBulk k) m = (FoundBulk (m k), m)"
| "bulk_store_op (AddBulk b) m =
     (if m (bt_bulkTransferId b) \<noteq> None then (FailedBulk, m)
      else (AddedBulk (bt_bulkTransferId b), m(bt_bulkTransferId b \<mapsto> b)))"
| "bulk_store_op (UpdateBulk b) m =
     (if m (bt_bulkTransferId b) = None then (FailedBulk, m) else (DoneBulk, m(bt_bulkTransferId b \<mapsto> b)))"

section \<open>MongoDB\<close>

text \<open>
  The documented behaviour of a collection whose documents, one for each identifier, are \<open>docs\<close>.  There is no
  unique index on \<open>bulkTransferId\<close>; an insert of an identifier that is not there adds its document.
\<close>

definition honest_bulk :: "'c bulk_collection \<Rightarrow> ('c \<Rightarrow> bulk_store) \<Rightarrow> bool" where
  "honest_bulk D docs \<longleftrightarrow>
     (\<forall>c k. \<exists>c'. bcoll_findOne D (Some k) c = (Inr (docs c k), c') \<and> docs c' = docs c) \<and>
     (\<forall>c b. docs c (bt_bulkTransferId b) = None \<longrightarrow>
        (\<exists>c'. bcoll_insertOne D b c = (Inr (), c') \<and> docs c' = (docs c)(bt_bulkTransferId b \<mapsto> b))) \<and>
     (\<forall>c b. docs c (bt_bulkTransferId b) \<noteq> None \<longrightarrow>
        (\<exists>c'. bcoll_updateOne D (bt_bulkTransferId b) b c = (Inr (), c') \<and> docs c' = (docs c)(bt_bulkTransferId b \<mapsto> b)))"

lemma honest_bulkD:
  assumes "honest_bulk D docs"
  shows "\<exists>c'. bcoll_findOne D (Some k) c = (Inr (docs c k), c') \<and> docs c' = docs c"
    and "docs c (bt_bulkTransferId b) = None \<Longrightarrow>
        \<exists>c'. bcoll_insertOne D b c = (Inr (), c') \<and> docs c' = (docs c)(bt_bulkTransferId b \<mapsto> b)"
    and "docs c (bt_bulkTransferId b) \<noteq> None \<Longrightarrow>
        \<exists>c'. bcoll_updateOne D (bt_bulkTransferId b) b c = (Inr (), c') \<and> docs c' = (docs c)(bt_bulkTransferId b \<mapsto> b)"
  using assms unfolding honest_bulk_def by blast+

definition readable_bulk :: "bulk_transfer \<Rightarrow> bool" where
  "readable_bulk b \<longleftrightarrow> mapToBulkTransfer b = b \<and> bt_bulkTransferId b \<noteq> ''''"

definition bulk_docs_ok :: "bulk_store \<Rightarrow> bool" where
  "bulk_docs_ok m \<longleftrightarrow> (\<forall>k b. m k = Some b \<longrightarrow> readable_bulk b \<and> bt_bulkTransferId b = k)"

definition bulk_reply :: "(exn + 'a) \<times> 'c \<Rightarrow> ('a \<Rightarrow> bulk_answer) \<Rightarrow> bulk_answer \<times> 'c" where
  "bulk_reply r f = (case r of (Inl _, c) \<Rightarrow> (FailedBulk, c) | (Inr x, c) \<Rightarrow> (f x, c))"

fun mongo_bulk_op :: "'c bulk_collection \<Rightarrow> bulk_op \<Rightarrow> 'c \<Rightarrow> bulk_answer \<times> 'c" where
  "mongo_bulk_op D (GetBulk k) c = bulk_reply (mongo_getBulkTransferById D (Some k) c) FoundBulk"
| "mongo_bulk_op D (AddBulk b) c = bulk_reply (mongo_addBulkTransfer D b c) AddedBulk"
| "mongo_bulk_op D (UpdateBulk b) c = bulk_reply (mongo_updateBulkTransfer D b c) (\<lambda>_. DoneBulk)"

fun mongo_bulk_ok :: "bulk_op \<Rightarrow> bulk_store \<Rightarrow> bool" where
  "mongo_bulk_ok (GetBulk k) m \<longleftrightarrow> True"
| "mongo_bulk_ok (AddBulk b) m \<longleftrightarrow> readable_bulk b"
| "mongo_bulk_ok (UpdateBulk b) m \<longleftrightarrow> readable_bulk b"

lemma mongo_get_bulk:
  assumes h: "honest_bulk D docs" and m: "bulk_docs_ok (docs c)"
  obtains c' where "mongo_getBulkTransferById D (Some k) c = (Inr (docs c k), c')" and "docs c' = docs c"
proof -
  obtain c' where c': "bcoll_findOne D (Some k) c = (Inr (docs c k), c')" "docs c' = docs c"
    using honest_bulkD(1) [OF h] by blast
  have "map_option mapToBulkTransfer (docs c k) = docs c k"
    using m by (cases "docs c k") (auto simp: bulk_docs_ok_def readable_bulk_def)
  with c' show thesis
    by (intro that [of c']) (simp_all add: mongo_getBulkTransferById_def catchAs_def run_simps)
qed

lemma mongo_bulk_simulates:
  assumes h: "honest_bulk D docs" and m: "bulk_docs_ok (docs c)" and ok: "mongo_bulk_ok x (docs c)"
  shows "bulk_docs_ok (docs (snd (mongo_bulk_op D x c))) \<and>
     bulk_store_op x (docs c) = (fst (mongo_bulk_op D x c), docs (snd (mongo_bulk_op D x c)))"
proof (cases x)
  case (GetBulk k)
  obtain c' where "mongo_getBulkTransferById D (Some k) c = (Inr (docs c k), c')" "docs c' = docs c"
    by (rule mongo_get_bulk [OF h m])
  with GetBulk m show ?thesis by (simp add: bulk_reply_def)
next
  case (AddBulk b)
  with ok have b: "readable_bulk b" by simp
  obtain c1 where c1: "bcoll_findOne D (Some (bt_bulkTransferId b)) c = (Inr (docs c (bt_bulkTransferId b)), c1)"
      "docs c1 = docs c"
    using honest_bulkD(1) [OF h] by blast
  show ?thesis
  proof (cases "docs c (bt_bulkTransferId b)")
    case None
    with c1 obtain c2 where "bcoll_insertOne D b c1 = (Inr (), c2)" "docs c2 = (docs c)(bt_bulkTransferId b \<mapsto> b)"
      using honest_bulkD(2) [OF h, of c1 b] by auto
    with None c1 b AddBulk m show ?thesis
      by (auto simp: mongo_addBulkTransfer_def catchAs_def run_simps bulk_reply_def readable_bulk_def bulk_docs_ok_def)
  next
    case (Some b')
    with c1 b AddBulk m show ?thesis
      by (simp add: mongo_addBulkTransfer_def catchAs_def run_simps bulk_reply_def readable_bulk_def)
  qed
next
  case (UpdateBulk b)
  with ok have b: "readable_bulk b" by simp
  obtain c1 where c1: "mongo_getBulkTransferById D (Some (bt_bulkTransferId b)) c = (Inr (docs c (bt_bulkTransferId b)), c1)"
      "docs c1 = docs c"
    by (rule mongo_get_bulk [OF h m])
  show ?thesis
  proof (cases "docs c (bt_bulkTransferId b)")
    case None
    with c1 UpdateBulk m show ?thesis by (simp add: mongo_updateBulkTransfer_def run_simps bulk_reply_def)
  next
    case (Some b')
    then have b': "bt_bulkTransferId b' = bt_bulkTransferId b" using m by (simp add: bulk_docs_ok_def)
    have same: "b\<lparr>bt_bulkTransferId := bt_bulkTransferId b\<rparr> = b" by simp
    from Some c1 obtain c2 where "bcoll_updateOne D (bt_bulkTransferId b) b c1 = (Inr (), c2)"
        "docs c2 = (docs c)(bt_bulkTransferId b \<mapsto> b)"
      using honest_bulkD(3) [OF h, of c1 b] by auto
    with Some c1 b b' UpdateBulk m show ?thesis
      by (auto simp: mongo_updateBulkTransfer_def catchAs_def run_simps bulk_reply_def readable_bulk_def bulk_docs_ok_def same)
  qed
qed

interpretation mongo_bulk: store_refinement bulk_store_op "mongo_bulk_op D" docs
  "\<lambda>c. honest_bulk D docs \<and> bulk_docs_ok (docs c)" mongo_bulk_ok
  for D :: "'c bulk_collection" and docs :: "'c \<Rightarrow> bulk_store"
proof
  fix x and c :: 'c
  assume "honest_bulk D docs \<and> bulk_docs_ok (docs c)" and "mongo_bulk_ok x (docs c)"
  then show "(honest_bulk D docs \<and> bulk_docs_ok (docs (snd (mongo_bulk_op D x c)))) \<and>
      bulk_store_op x (docs c) = (fst (mongo_bulk_op D x c), docs (snd (mongo_bulk_op D x c)))"
    using mongo_bulk_simulates [of D docs c x] by simp
qed

section \<open>Memory\<close>

fun mem_bulk_op :: "bulk_op \<Rightarrow> bulk_transfer list \<Rightarrow> bulk_answer \<times> bulk_transfer list" where
  "mem_bulk_op (GetBulk k) bs = (FoundBulk (mem_getBulkTransferById bs k), bs)"
| "mem_bulk_op (AddBulk b) bs = bulk_reply (mem_addBulkTransfer b bs) AddedBulk"
| "mem_bulk_op (UpdateBulk b) bs = bulk_reply (mem_updateBulkTransfer b bs) (\<lambda>_. DoneBulk)"

text \<open>It does not check whether an added bulk transfer is new.\<close>

fun mem_bulk_ok :: "bulk_op \<Rightarrow> bulk_store \<Rightarrow> bool" where
  "mem_bulk_ok (AddBulk b) m \<longleftrightarrow> m (bt_bulkTransferId b) = None"
| "mem_bulk_ok _ m \<longleftrightarrow> True"

interpretation memory_bulk: store_refinement bulk_store_op mem_bulk_op mem_getBulkTransferById "\<lambda>_. True" mem_bulk_ok
proof
  fix x and bs :: "bulk_transfer list"
  assume "mem_bulk_ok x (mem_getBulkTransferById bs)"
  then show "True \<and> bulk_store_op x (mem_getBulkTransferById bs) =
      (fst (mem_bulk_op x bs), mem_getBulkTransferById (snd (mem_bulk_op x bs)))"
  proof (cases x)
    case (AddBulk b)
    with \<open>mem_bulk_ok x (mem_getBulkTransferById bs)\<close> show ?thesis
      by (auto simp: mem_addBulkTransfer_def bulk_reply_def get_add fun_eq_iff split: option.split)
  next
    case (UpdateBulk b)
    then show ?thesis
      by (auto simp: mem_updateBulkTransfer_def bulk_reply_def get_assignFirstBulk fun_eq_iff)
  qed simp
qed

section \<open>What follows for the code\<close>

text \<open>C15: from the same contents on, a run of operations on bulk transfers that read back as they are and that
  adds only new ones is answered alike by \<open>MongoBulkTransfersRepo\<close>, over a collection that behaves as
  documented, and by the memory repository, both as a map from identifiers answers, and the two hold the
  same bulk transfers afterwards.\<close>

theorem bulk_repositories_agree:
  assumes "honest_bulk D docs" and "bulk_docs_ok (docs c)" and "docs c = mem_getBulkTransferById bs"
    and "along bulk_store_op (\<lambda>x m. mongo_bulk_ok x m \<and> mem_bulk_ok x m) xs (docs c)"
  shows "fst (run_ops (mongo_bulk_op D) xs c) = fst (run_ops bulk_store_op xs (docs c)) \<and>
     fst (run_ops mem_bulk_op xs bs) = fst (run_ops bulk_store_op xs (docs c)) \<and>
     docs (snd (run_ops (mongo_bulk_op D) xs c)) = mem_getBulkTransferById (snd (run_ops mem_bulk_op xs bs))"
proof -
  have "along bulk_store_op mongo_bulk_ok xs (docs c)" "along bulk_store_op mem_bulk_ok xs (mem_getBulkTransferById bs)"
    using assms(3,4) by (auto elim: along_mono)
  with mongo_bulk.run_simulates [of D docs c xs] memory_bulk.run_simulates [where s = bs and xs = xs] assms show ?thesis by simp
qed

end
