(* ===== verification/Redelivery.thy ===== *)
theory Redelivery
  imports Many_Commands
begin

text \<open>
  Kafka delivers a command at least once, so a batch can hold a command twice.  A repeated prepare finds
  the transfer of the first one in the cache and is ignored; a repeated fulfil is not: Accounts & Balances is
  asked to commit the transfer once more, under a new request identifier, and the transfer is announced twice.
\<close>

section \<open>Prepares\<close>

text \<open>A prepare whose transfer is already in the works, and is the command remembered for it.\<close>

definition in_works :: "command \<Rightarrow> 'w agg \<Rightarrow> bool" where
  "in_works c s \<longleftrightarrow> cmd_msgType c = COMMAND \<and>
     (\<exists>p r. cmd_body c = PrepareTransferCmd p \<and> \<not> truthy (prep_bulkTransferId p) \<and>
        map_of (transfersCache s) (Some (prep_transferId p)) = Some r \<and>
        transferState (theap s r) \<in> {RECEIVED, RESERVED} \<and>
        map_of (batchCommands s) (Some (prep_transferId p)) = Some c)"

lemma prepare_again:
  assumes "in_works c s"
  shows "processCommand E c s = (Inr (), s)"
proof -
  from assms obtain p r where c: "cmd_msgType c = COMMAND" "cmd_body c = PrepareTransferCmd p" "\<not> truthy (prep_bulkTransferId p)"
    and r: "map_of (transfersCache s) (Some (prep_transferId p)) = Some r" "transferState (theap s r) \<in> {RECEIVED, RESERVED}"
    and m: "map_of (batchCommands s) (Some (prep_transferId p)) = Some c"
    by (auto simp: in_works_def)
  have "prepareTransferStart E c p s = (Inr (), s)"
    using getTransfer_cached [OF r(1), of E] r(2)
    by (auto simp: prepareTransferStart_def Let_def tryElse_def prepareExisting_def getT_def run_simps)
  with c show ?thesis
    by (simp add: processCommand_def ensureValidMessage_def rememberCommand_def dispatchCommand_def run_steps
        update_same [OF m])
qed

lemma prepares_again:
  assumes "\<And>c. c \<in> set ds \<Longrightarrow> in_works c s"
  shows "runCommands E ds s = (Inr (), s)"
  using assms
proof (induction ds)
  case (Cons d ds)
  then have "processCommand E d s = (Inr (), s)" "cmd_msgType d = COMMAND"
    by (simp_all add: prepare_again in_works_def)
  with Cons show ?case by (simp add: runCommands_def andThen_def)
qed (simp add: runCommands_def ret_def)

lemma begun_in_works:
  assumes all: "begun_all E cs s s1" and s: "batchCommands s = []"
    and d: "distinct (map subject cs)"
    and cache: "\<And>c. c \<in> set cs \<Longrightarrow> map_of (transfersCache s) (Some (subject c)) = None"
    and c: "c \<in> set cs" "doable E dir c" "cmd_body c = PrepareTransferCmd p"
  shows "in_works c s1"
proof -
  from c(1) obtain i where i: "i < length cs" "cs ! i = c" by (auto simp: in_set_conv_nth)
  from all s have a: "transfersCache s1 = transfersCache s @ zip (map (Some \<circ> subject) cs) [tnext s..<tnext s + length cs]"
     "batchCommands s1 = zip (map (Some \<circ> subject) cs) cs"
    and b: "begins E c (theap s1 (tnext s + i))"
    using i by (auto simp: begun_all_def)
  have "map_of (batchCommands s1) (Some (subject c)) = Some c"
    "map_of (transfersCache s1) (Some (subject c)) = Some (tnext s + i)"
    using a cache [OF c(1)] i zip_subjects [OF d, of cs i] zip_subjects [OF d, of "[tnext s..<tnext s + length cs]" i]
    by (simp_all add: map_add_def)
  moreover have "transferState (theap s1 (tnext s + i)) = RECEIVED"
    using b c(3) by (auto simp: begins_def newTransferOf_def)
  ultimately show ?thesis
    using c(2,3) by (auto simp: in_works_def doable_def)
qed

text \<open>C12: prepares that a batch repeats change nothing: on a healthy platform, a batch of prepares of unknown
  transfers and fulfils of stored ones, followed by any number of its own prepares again, has the outcome,
  the requests, the events and the state of the batch without the repetitions.\<close>

theorem redelivered_prepares_ignored:
  assumes h: "healthy E dir" and dc: "\<And>c. c \<in> set cs \<Longrightarrow> doable E dir c" and d: "distinct (map subject cs)"
    and cache: "\<And>c. c \<in> set cs \<Longrightarrow> map_of (transfersCache s) (Some (subject c)) = None"
    and ds: "\<And>c. c \<in> set ds \<Longrightarrow> c \<in> set cs \<and> (\<exists>p. cmd_body c = PrepareTransferCmd p)"
  shows "processCommandBatch E (cs @ ds) s = processCommandBatch E cs s"
proof -
  let ?s = "resetBatch s"
  have s: "batchCommands ?s = []" "transfersCache ?s = transfersCache s" by (simp_all add: resetBatch_def)
  obtain s1 where run: "runCommands E cs ?s = (Inr (), s1)" and all: "begun_all E cs ?s s1"
    using runs_commands [OF h dc d, of ?s] s cache by auto
  have "in_works c s1" if "c \<in> set ds" for c
    using ds [OF that] dc begun_in_works [OF all s(1) d] cache s(2) by auto
  then have "runCommands E ds s1 = (Inr (), s1)" by (rule prepares_again)
  with run have "runCommands E (cs @ ds) ?s = runCommands E cs ?s"
    by (simp add: runCommands_append andThen_def)
  then show ?thesis by (simp add: processCommandBatch_def batchBody_def andThen_def)
qed

section \<open>Fulfils\<close>

text \<open>A fulfil whose transfer is already in the cache queues one more request to commit it.\<close>

lemma fulfil_runs:
  assumes "cmd_msgType c = COMMAND" and "cmd_body c = CommitTransferFulfilCmd p"
  shows "processCommand E c s = fulfilTransferStart E c p
     (s\<lparr>batchCommands := AList.update (Some (ful_transferId p)) c (batchCommands s)\<rparr>)"
  using assms by (simp add: processCommand_def ensureValidMessage_def rememberCommand_def dispatchCommand_def run_steps)

lemma fulfil_again:
  assumes h: "healthy E dir" and c: "cmd_msgType c = COMMAND" "cmd_body c = CommitTransferFulfilCmd p"
    and cached: "map_of (transfersCache s) (Some (ful_transferId p)) = Some r"
    and known: "map_of (batchCommands s) (Some (ful_transferId p)) = Some c"
    and checks: "checksOf dir (theap s r) = Inr a" and acc: "acceptable E c (theap s r)"
  obtains w v u where "processCommand E c s = (Inr (), s\<lparr>world := w,
      theap := (theap s)(r := (theap s r)\<lparr>transferOpaqueState := v\<rparr>),
      abBatchRequests := abBatchRequests s @ [commitRequest (theap s r) a u]\<rparr>)"
proof -
  obtain w v u where "andThen (mergeOpaqueState c r) (\<lambda>_. fulfilValidate E c p r) s = (Inr (), s\<lparr>world := w,
      theap := (theap s)(r := (theap s r)\<lparr>transferOpaqueState := v\<rparr>),
      abBatchRequests := abBatchRequests s @ [commitRequest (theap s r) a u]\<rparr>)"
    by (rule fulfil_found [OF healthy_up [OF h] checks acc])
  with getTransfer_cached [OF cached, of E] show thesis
    by (intro that [where w = w and v = v and u = u]) (simp add: fulfil_runs [OF c] update_same [OF known] fulfilTransferStart_def tryElse_def)
qed

text \<open>The first fulfil of a stored transfer.\<close>

lemma fulfil_first:
  assumes h: "healthy E dir" and c: "cmd_msgType c = COMMAND" "cmd_body c = CommitTransferFulfilCmd p"
    and repo: "\<And>w. fst (repo_getTransferById E (Some (ful_transferId p)) w) = Inr (Some t)"
    and checks: "checksOf dir t = Inr a" and acc: "acceptable E c t"
    and cache: "map_of (transfersCache s) (Some (ful_transferId p)) = None"
    and cmds: "map_of (batchCommands s) (Some (ful_transferId p)) = None"
  obtains w v u where "processCommand E c s =
     (Inr (), s\<lparr>world := w, theap := (theap s)(tnext s := t\<lparr>transferOpaqueState := v\<rparr>), tnext := Suc (tnext s),
            transfersCache := transfersCache s @ [(Some (ful_transferId p), tnext s)],
            batchCommands := batchCommands s @ [(Some (ful_transferId p), c)],
            abBatchRequests := abBatchRequests s @ [commitRequest t a u]\<rparr>)"
proof -
  let ?known = "s\<lparr>batchCommands := batchCommands s @ [(Some (ful_transferId p), c)]\<rparr>"
  have "map_of (transfersCache ?known) (Some (ful_transferId p)) = None" using cache by simp
  then obtain w v u where "fulfilTransferStart E c p ?known =
     (Inr (), ?known\<lparr>world := w, theap := (theap ?known)(tnext ?known := t\<lparr>transferOpaqueState := v\<rparr>), tnext := Suc (tnext ?known),
            transfersCache := AList.update (Some (ful_transferId p)) (tnext ?known) (transfersCache ?known),
            abBatchRequests := abBatchRequests ?known @ [commitRequest t a u]\<rparr>)"
    by (rule fulfil_start_healthy [OF healthy_up [OF h] _ repo checks acc, where s = ?known])
  with cache cmds show thesis
    by (intro that [where w = w and v = v and u = u]) (simp add: fulfil_runs [OF c] update_new)
qed

text \<open>The state after both: two requests, which differ in their identifiers only.\<close>

definition asked_twice :: "command \<Rightarrow> transfer \<Rightarrow> transfer_accounts \<Rightarrow> 'w agg \<Rightarrow> string \<Rightarrow> string \<Rightarrow> 'w agg \<Rightarrow> bool" where
  "asked_twice c t a s u1 u2 s' \<longleftrightarrow>
     (\<exists>v. theap s' (tnext s) = t\<lparr>transferOpaqueState := v\<rparr>) \<and>
     map_of (transfersCache s') (Some (subject c)) = Some (tnext s) \<and>
     map_of (batchCommands s') (Some (subject c)) = Some c \<and>
     abBatchRequests s' = abBatchRequests s @ [commitRequest t a u1, commitRequest t a u2] \<and>
     outputEvents s' = outputEvents s \<and> abCancelationBatchRequests s' = abCancelationBatchRequests s"

lemma commitRequest_same: "commitRequest (t\<lparr>transferOpaqueState := v\<rparr>) a u = commitRequest t a u"
  by (simp add: commitRequest_def)

lemma checksOf_same: "checksOf dir (t\<lparr>transferOpaqueState := v\<rparr>) = checksOf dir t"
  by (simp add: checksOf_def getTransferParticipantsAccounts_def cong: sum.case_cong)

lemma fulfil_twice:
  assumes h: "healthy E dir" and c: "cmd_msgType c = COMMAND" "cmd_body c = CommitTransferFulfilCmd p"
    and repo: "\<And>w. fst (repo_getTransferById E (Some (ful_transferId p)) w) = Inr (Some t)"
    and checks: "checksOf dir t = Inr a" and acc: "\<And>v. acceptable E c (t\<lparr>transferOpaqueState := v\<rparr>)"
    and cache: "map_of (transfersCache s) (Some (ful_transferId p)) = None"
    and cmds: "map_of (batchCommands s) (Some (ful_transferId p)) = None"
  obtains u1 u2 s' where "runCommands E [c, c] s = (Inr (), s')" and "asked_twice c t a s u1 u2 s'"
proof -
  have acc1: "acceptable E c t" using acc [of "transferOpaqueState t"] by simp
  obtain w v u1 s1 where one: "processCommand E c s = (Inr (), s1)"
    and s1: "s1 = s\<lparr>world := w, theap := (theap s)(tnext s := t\<lparr>transferOpaqueState := v\<rparr>), tnext := Suc (tnext s),
            transfersCache := transfersCache s @ [(Some (ful_transferId p), tnext s)],
            batchCommands := batchCommands s @ [(Some (ful_transferId p), c)],
            abBatchRequests := abBatchRequests s @ [commitRequest t a u1]\<rparr>"
    by (rule fulfil_first [OF h c repo checks acc1 cache cmds]) blast
  have t1: "theap s1 (tnext s) = t\<lparr>transferOpaqueState := v\<rparr>" by (simp add: s1)
  have cached: "map_of (transfersCache s1) (Some (ful_transferId p)) = Some (tnext s)"
    and known: "map_of (batchCommands s1) (Some (ful_transferId p)) = Some c"
    using cache cmds by (simp_all add: s1 map_add_def)
  have checks1: "checksOf dir (theap s1 (tnext s)) = Inr a" by (simp only: t1 checksOf_same checks)
  have acc2: "acceptable E c (theap s1 (tnext s))" by (simp only: t1 acc)
  obtain w' v' u2 s2 where two: "processCommand E c s1 = (Inr (), s2)"
    and s2: "s2 = s1\<lparr>world := w', theap := (theap s1)(tnext s := (theap s1 (tnext s))\<lparr>transferOpaqueState := v'\<rparr>),
      abBatchRequests := abBatchRequests s1 @ [commitRequest (theap s1 (tnext s)) a u2]\<rparr>"
    by (rule fulfil_again [OF h c cached known checks1 acc2]) blast
  have "asked_twice c t a s u1 u2 s2"
    using cached known c by (simp add: asked_twice_def s2 t1 commitRequest_same) (auto simp: s1)
  moreover have "runCommands E [c, c] s = (Inr (), s2)"
    using one two c by (simp add: runCommands_def andThen_def ret_def)
  ultimately show thesis by (rule that [rotated])
qed

lemma ready_same:
  assumes "answered_by c r e s s'" and "ready s c q r"
  shows "ready s' c q r"
proof -
  from assms(2) have "(\<exists>p. cmd_body c = PrepareTransferCmd p) \<or> (\<exists>p. cmd_body c = CommitTransferFulfilCmd p)"
    by (auto simp: ready_def)
  with assms show ?thesis
    by (elim disjE exE) (auto simp: ready_def answered_by_def ends_def)
qed

lemma two_responses:
  assumes d: "distinct (map req_requestId (abBatchRequests s))" and q: "ready s c q1 r" "ready s c q2 r"
    and g: "grants_all [q1, q2] rsps"
  shows "\<exists>s' s'' e1 e2. forEach rsps (processAccountsAndBalancesResponse E) s = (Inr (), s') \<and>
     answered_by c r e1 s s'' \<and> answered_by c r e2 s'' s'"
proof -
  from g obtain rsp1 rsp2 where rsps: "rsps = [rsp1, rsp2]"
    and r1: "rsp_requestId rsp1 = req_requestId q1" "rsp_requestType rsp1 = req_requestType q1" "rsp_success rsp1"
    and r2: "rsp_requestId rsp2 = req_requestId q2" "rsp_requestType rsp2 = req_requestType q2" "rsp_success rsp2"
    by (auto simp: grants_all_def list_all2_Cons1)
  obtain s1 e1 where one: "processAccountsAndBalancesResponse E rsp1 s = (Inr (), s1)" "answered_by c r e1 s s1"
    using response_answered [OF d q(1) r1] by blast
  have "distinct (map req_requestId (abBatchRequests s1))"
    using one(2) d by (auto simp: answered_by_def)
  with ready_same [OF one(2) q(2)] obtain s2 e2 where two: "processAccountsAndBalancesResponse E rsp2 s1 = (Inr (), s2)" "answered_by c r e2 s1 s2"
    using response_answered [OF _ _ r2, of s1 c r E] by blast
  from one two show ?thesis by (auto simp: rsps andThen_def ret_def)
qed


end
