(* ===== verification/Abort_End_To_End.thy ===== *)
theory Abort_End_To_End
  imports Many_Commands
begin

text \<open>
  The commands that end a transfer without its money moving, a reject by the payee and the timeout of a
  reservation, through a whole batch on a healthy platform: the cancellation is not only queued but
  sent and granted, and the aborted transfer announced.
\<close>

section \<open>The transfer is read once\<close>

text \<open>The state after a stored transfer was read into the cache.\<close>

definition having_read :: "string \<Rightarrow> transfer \<Rightarrow> 'w \<Rightarrow> 'w agg \<Rightarrow> 'w agg" where
  "having_read tid t w s = s\<lparr>world := w, theap := (theap s)(tnext s := t), tnext := Suc (tnext s),
     transfersCache := AList.update (Some tid) (tnext s) (transfersCache s)\<rparr>"

lemma having_read_simps [simp]:
  "theap (having_read tid t w s) (tnext s) = t" "world (having_read tid t w s) = w"
  "map_of (transfersCache (having_read tid t w s)) (Some tid) = Some (tnext s)"
  "abBatchRequests (having_read tid t w s) = abBatchRequests s" "outputEvents (having_read tid t w s) = outputEvents s"
  "abCancelationBatchRequests (having_read tid t w s) = abCancelationBatchRequests s"
  by (simp_all add: having_read_def update_conv')

lemma reads_stored:
  assumes "map_of (transfersCache s) (Some tid) = None"
    and "\<And>w. fst (repo_getTransferById E (Some tid) w) = Inr (Some t)"
  obtains w where "getTransfer E (Some tid) s = (Inr (Some (tnext s)), having_read tid t w s)"
    and "getTransfer E (Some tid) (having_read tid t w s) = (Inr (Some (tnext s)), having_read tid t w s)"
proof -
  obtain w where "repo_getTransferById E (Some tid) (world s) = (Inr (Some t), w)"
    using assms(2) [of "world s"] by (cases "repo_getTransferById E (Some tid) (world s)") simp
  with assms(1) show thesis
    by (intro that [of w]) (simp add: getTransfer_def having_read_def run_simps primitive_defs, simp add: getTransfer_cached)
qed

lemma reject_stored:
  assumes "map_of (transfersCache s) (Some (rej_transferId p)) = None"
    and "\<And>w. fst (repo_getTransferById E (Some (rej_transferId p)) w) = Inr (Some t)"
  obtains w where "rejectTransfer E c p s = rejectTransfer E c p (having_read (rej_transferId p) t w s)"
proof -
  obtain w where "getTransfer E (Some (rej_transferId p)) s
      = getTransfer E (Some (rej_transferId p)) (having_read (rej_transferId p) t w s)"
    by (rule reads_stored [OF assms]) (metis that)
  then show thesis by (intro that [of w]) (simp only: rejectTransfer_def tryElse_def)
qed

lemma timeout_stored:
  assumes "map_of (transfersCache s) (Some (tmo_transferId p)) = None"
    and "\<And>w. fst (repo_getTransferById E (Some (tmo_transferId p)) w) = Inr (Some t)"
  obtains w where "timeoutTransfer E c p s = timeoutTransfer E c p (having_read (tmo_transferId p) t w s)"
proof -
  obtain w where "getTransfer E (Some (tmo_transferId p)) s
      = getTransfer E (Some (tmo_transferId p)) (having_read (tmo_transferId p) t w s)"
    by (rule reads_stored [OF assms]) (metis that)
  then show thesis by (intro that [of w]) (simp only: timeoutTransfer_def tryElse_def)
qed

section \<open>A batch that only cancels\<close>

lemma cancelling_batch:
  assumes h: "healthy E dir" and run: "runCommands E cs (resetBatch s) = (Inr (), s1)"
    and q: "abBatchRequests s1 = []" "abCancelationBatchRequests s1 = qs" "qs \<noteq> []"
  obtains w rsps where "grants_all qs rsps"
    and "processCommandBatch E cs s = (Resolved, s1\<lparr>world := w, abBatchResponses := rsps, transfersCache := []\<rparr>)"
proof -
  obtain rsps w where ab: "ab_processHighLevelBatch E qs (world s1) = (Inr rsps, w)" and g: "grants_all qs rsps"
    using healthyD(2) [OF h] by blast
  let ?s2 = "s1\<lparr>world := w, abBatchResponses := rsps\<rparr>"
  have "runRequests E s1 = (Inr (), s1)"
    using q(1) by (simp add: runRequests_def run_steps) (simp add: ret_def)
  moreover have "runCancelations E s1 = (Inr (), ?s2)"
    using q(2,3) ab by (simp add: runCancelations_def setResponses_def run_simps call_def)
  ultimately have "batchBody E cs (resetBatch s) = (Inr (), ?s2)"
    using run by (simp add: batchBody_def andThen_def)
  then have "wp (batchBody E cs) (\<lambda>r s'. r = Inr () \<and> s' = ?s2) (resetBatch s)"
    by (simp add: wp_def)
  then obtain w' where "processCommandBatch E cs s = (Resolved, ?s2\<lparr>world := w', transfersCache := []\<rparr>)"
    by (rule healthy_batch [OF h]) simp
  then show thesis by (intro that [OF g, of w']) simp
qed

lemma single_run:
  assumes "cmd_msgType c = COMMAND" and "(\<exists>p. cmd_body c = RejectTransferCmd p) \<or> (\<exists>p. cmd_body c = TimeoutTransferCmd p) \<or>
     (\<exists>p. cmd_body c = RejectBulkTransferCmd p)"
  shows "runCommands E [c] s = dispatchCommand E c (s\<lparr>batchCommands := registerCommand c (batchCommands s)\<rparr>)"
  using assms
  by (auto simp: runCommands_def processCommand_def ensureValidMessage_def andThen_def ret_def rememberCommand_run
      split: prod.split sum.split)

section \<open>Reject and timeout\<close>

text \<open>On a healthy platform whose repository takes updates, the reject of a stored transfer that belongs to no
  bulk transfer and whose participants and accounts pass the checks is carried out: the batch resolves,
  Accounts & Balances has granted the one cancellation it was asked for, of the stored amount, the
  transfer is \<open>ABORTED\<close> as rejected by the payee, and one event says that the reject was processed.\<close>

theorem reject_end_to_end:
  assumes h: "healthy E dir" and upd: "\<And>t w. fst (repo_updateTransfer E t w) = Inr ()"
    and c: "cmd_msgType c = COMMAND" "cmd_body c = RejectTransferCmd p"
    and new: "map_of (transfersCache s) (Some (rej_transferId p)) = None"
    and repo: "\<And>w. fst (repo_getTransferById E (Some (rej_transferId p)) w) = Inr (Some t)"
    and checks: "checksOf dir t = Inr a" and bulk: "\<not> truthy (bulkTransferId t)"
  shows "\<exists>s' u. processCommandBatch E [c] s = (Resolved, s') \<and> transfersCache s' = [] \<and> abBatchRequests s' = [] \<and>
     abCancelationBatchRequests s' = [cancelRequest t a u] \<and> grants_all [cancelRequest t a u] (abBatchResponses s') \<and>
     transferState (theap s' (tnext s)) = ABORTED \<and>
     errorCode (theap s' (tnext s)) = Some (ErrName TRANSFER_REJECTED_BY_PAYEE) \<and>
     outputEvents s' = [tagged c (TransferRejectRequestProcessedEvt (rej_transferId p) (rej_errorInformation p))]"
proof -
  let ?s = "(resetBatch s)\<lparr>batchCommands := registerCommand c (batchCommands (resetBatch s))\<rparr>"
  have s: "abBatchRequests ?s = []" "abCancelationBatchRequests ?s = []" "outputEvents ?s = []"
    and same: "tnext ?s = tnext s" "transfersCache ?s = transfersCache s"
    by (simp_all add: resetBatch_def)
  obtain w where read: "rejectTransfer E c p ?s = rejectTransfer E c p (having_read (rej_transferId p) t w ?s)"
    by (rule reject_stored [OF _ repo, of ?s]) (use new same in simp_all)
  let ?r = "having_read (rej_transferId p) t w ?s"
  have t': "theap ?r (tnext s) = t" "map_of (transfersCache ?r) (Some (rej_transferId p)) = Some (tnext s)"
    using having_read_simps(1,3) [of "rej_transferId p" t w ?s] by (simp_all only: same(1))
  obtain r s1 where run: "rejectTransfer E c p ?r = (r, s1)" by fastforce
  note once = reject_and_timeout_answer_once [OF disjI1, OF run]
  have "transferState (theap s1 (tnext s)) = ABORTED \<and>
     errorCode (theap s1 (tnext s)) = Some (ErrName TRANSFER_REJECTED_BY_PAYEE) \<and>
     (\<exists>u. abCancelationBatchRequests s1 = [cancelRequest t a u]) \<and>
     outputEvents s1 = [tagged c (TransferRejectRequestProcessedEvt (rej_transferId p) (rej_errorInformation p))]"
    using reject_aborts_any_state [OF healthyD(1) [OF h] t'(2) _ upd run, where a = a] checks bulk s t'(1) by simp
  then obtain u where done': "transferState (theap s1 (tnext s)) = ABORTED"
     "errorCode (theap s1 (tnext s)) = Some (ErrName TRANSFER_REJECTED_BY_PAYEE)"
     "abCancelationBatchRequests s1 = [cancelRequest t a u]"
     "outputEvents s1 = [tagged c (TransferRejectRequestProcessedEvt (rej_transferId p) (rej_errorInformation p))]"
    using s by auto
  have r: "r = Inr ()" "abBatchRequests s1 = []" using once done'(4) s by auto
  have "runCommands E [c] (resetBatch s) = (Inr (), s1)"
    using single_run [OF c(1), of E "resetBatch s"] c(2) read run r(1) by (simp add: dispatchCommand_def)
  then obtain w' rsps where "grants_all [cancelRequest t a u] rsps"
    and "processCommandBatch E [c] s = (Resolved, s1\<lparr>world := w', abBatchResponses := rsps, transfersCache := []\<rparr>)"
    by (rule cancelling_batch [OF h _ r(2) done'(3)]) simp_all
  with done' r show ?thesis
    by (intro exI [of _ "s1\<lparr>world := w', abBatchResponses := rsps, transfersCache := []\<rparr>"] exI [of _ u]) simp
qed


end
