(* ===== verification/Bulk_Reject_End_To_End.thy ===== *)
theory Bulk_Reject_End_To_End
  imports Bulk_Items Abort_End_To_End
begin

text \<open>
  The reject of a bulk transfer through a whole batch on a healthy platform: every item is read,
  aborted and its cancellation queued, the cancellations are granted in one call, and one event answers
  for the whole bulk transfer.
\<close>

section \<open>One item\<close>

text \<open>\<open>t\<close> as a reject leaves it.\<close>

definition rejected_at :: "int \<Rightarrow> transfer \<Rightarrow> transfer" where
  "rejected_at n t = t\<lparr>updatedAt := n, transferState := ABORTED, errorCode := Some (ErrName TRANSFER_REJECTED_BY_PAYEE)\<rparr>"

lemma reject_cached_item:
  assumes "stable_directory E dir" and "map_of (transfersCache s) (Some (rej_transferId p)) = Some r"
    and "theap s r = t" and "checksOf dir t = Inr a" and "\<And>t w. fst (repo_updateTransfer E t w) = Inr ()"
    and "truthy (bulkTransferId t)"
  shows "\<exists>u n w. rejectTransfer E msg p s = (Inr (), s\<lparr>
     abCancelationBatchRequests := abCancelationBatchRequests s @ [cancelRequest t a u],
     theap := (theap s)(r := rejected_at n t), world := w\<rparr>)"
proof -
  have stable: "\<exists>w'. getParticipantsInfo E (payerFspId t) (payeeFspId t) (s\<lparr>world := w\<rparr>)
      = (participantsOf dir (payerFspId t) (payeeFspId t), s\<lparr>world := w'\<rparr>)" for w
    using getParticipantsInfo_stable [OF assms(1), of "payerFspId t" "payeeFspId t" "s\<lparr>world := w\<rparr>"] by simp
  from assms(4) obtain ps where ps: "participantsOf dir (payerFspId t) (payeeFspId t) = Inr ps"
    and a: "getTransferParticipantsAccounts ps t = Inr a"
    by (auto simp: checksOf_def split: sum.splits)
  obtain w1 where w1: "getParticipantsInfo E (payerFspId t) (payeeFspId t) s = (Inr ps, s\<lparr>world := w1\<rparr>)"
    using stable [of "world s"] ps by auto
  obtain w2 where w2: "getParticipantsInfo E (payerFspId t) (payeeFspId t) (s\<lparr>world := w1\<rparr>) = (Inr ps, s\<lparr>world := w2\<rparr>)"
    using stable [of w1] ps by auto
  have upd: "x = Inr ()" if "repo_updateTransfer E t w = (x, w')" for t w x w'
    using assms(5) [of t w] that by simp
  have "wp (rejectTransfer E msg p) (\<lambda>res s'. \<exists>u n w. res = Inr () \<and>
     s' = s\<lparr>abCancelationBatchRequests := abCancelationBatchRequests s @ [cancelRequest t a u],
        theap := (theap s)(r := rejected_at n t), world := w\<rparr>) s"
    using assms(2,3,6) a
    by (auto dest!: upd simp: rejectTransfer_def rejectCancel_def rejectUpdate_def cancelTransfer_def cancelTransferBody_def
        wp_def run_simps primitive_defs getTransfer_cached w1 w2 lift_sum_def pushCancelation_def rejected_at_def
        split: prod.splits sum.splits) blast
  then show ?thesis by (auto simp: wp_def split: prod.splits)
qed

definition rejectable :: "'w env \<Rightarrow> (string \<Rightarrow> participant option) \<Rightarrow> transfer \<Rightarrow> bool" where
  "rejectable E dir t \<longleftrightarrow> (\<forall>w. fst (repo_getTransferById E (Some (transferId t)) w) = Inr (Some t)) \<and>
     (\<exists>a. checksOf dir t = Inr a) \<and> truthy (bulkTransferId t)"

definition cancels :: "(string \<Rightarrow> participant option) \<Rightarrow> transfer \<Rightarrow> ab_request \<Rightarrow> bool" where
  "cancels dir t q \<longleftrightarrow> (\<exists>a u. checksOf dir t = Inr a \<and> q = cancelRequest t a u)"

definition rejectItem :: "'w env \<Rightarrow> transfer \<Rightarrow> ('w, unit) act" where
  "rejectItem E t = rejectTransfer E (itemCommand (RejectTransferCmd (itemReject t))) (itemReject t)"

lemma reject_item:
  assumes h: "stable_directory E dir" and upd: "\<And>t w. fst (repo_updateTransfer E t w) = Inr ()"
    and t: "rejectable E dir t" and new: "map_of (transfersCache s) (Some (transferId t)) = None"
  obtains n w q where "cancels dir t q"
    and "rejectItem E t s = (Inr (), s\<lparr>world := w, theap := (theap s)(tnext s := rejected_at n t), tnext := Suc (tnext s),
       transfersCache := AList.update (Some (transferId t)) (tnext s) (transfersCache s),
       abCancelationBatchRequests := abCancelationBatchRequests s @ [q]\<rparr>)"
proof -
  let ?p = "itemReject t" and ?c = "itemCommand (RejectTransferCmd (itemReject t))"
  have id: "rej_transferId ?p = transferId t" by (simp add: itemReject_def)
  from t obtain a where a: "checksOf dir t = Inr a" and b: "truthy (bulkTransferId t)"
    and repo: "\<And>w. fst (repo_getTransferById E (Some (transferId t)) w) = Inr (Some t)"
    by (auto simp: rejectable_def)
  obtain w where read: "rejectTransfer E ?c ?p s = rejectTransfer E ?c ?p (having_read (transferId t) t w s)"
    using reject_stored [of s ?p E t ?c] new repo id by auto
  have cached: "map_of (transfersCache (having_read (transferId t) t w s)) (Some (rej_transferId ?p)) = Some (tnext s)"
    using having_read_simps(3) [of "transferId t" t w s] id by simp
  let ?r = "having_read (transferId t) t w s"
  from reject_cached_item [OF h cached having_read_simps(1) a upd b, of ?c] obtain u n w' where
    run: "rejectTransfer E ?c ?p ?r = (Inr (), ?r\<lparr>
       abCancelationBatchRequests := abCancelationBatchRequests ?r @ [cancelRequest t a u],
       theap := (theap ?r)(tnext s := rejected_at n t), world := w'\<rparr>)" (is "_ = (_, ?s1)")
    by blast
  have "?s1 = s\<lparr>world := w', theap := (theap s)(tnext s := rejected_at n t), tnext := Suc (tnext s),
       transfersCache := AList.update (Some (transferId t)) (tnext s) (transfersCache s),
       abCancelationBatchRequests := abCancelationBatchRequests s @ [cancelRequest t a u]\<rparr>"
    by (rule agg.equality) (simp_all add: having_read_def)
  with read run a show thesis
    by (intro that [where q = "cancelRequest t a u" and w = w' and n = n]) (auto simp: cancels_def rejectItem_def)
qed

section \<open>All items\<close>

definition rejected_all :: "(string \<Rightarrow> participant option) \<Rightarrow> transfer list \<Rightarrow> 'w agg \<Rightarrow> 'w agg \<Rightarrow> bool" where
  "rejected_all dir ts s s' \<longleftrightarrow> tnext s' = tnext s + length ts \<and>
     (\<forall>i < length ts. \<exists>n. theap s' (tnext s + i) = rejected_at n (ts ! i)) \<and>
     (\<forall>r < tnext s. theap s' r = theap s r) \<and>
     (\<exists>qs. list_all2 (cancels dir) ts qs \<and> abCancelationBatchRequests s' = abCancelationBatchRequests s @ qs) \<and>
     abBatchRequests s' = abBatchRequests s \<and> outputEvents s' = outputEvents s \<and> bheap s' = bheap s"

lemma rejects_items:
  assumes h: "stable_directory E dir" and upd: "\<And>t w. fst (repo_updateTransfer E t w) = Inr ()"
  shows "\<lbrakk>\<And>t. t \<in> set ts \<Longrightarrow> rejectable E dir t \<and> map_of (transfersCache s) (Some (transferId t)) = None;
     distinct (map transferId ts)\<rbrakk> \<Longrightarrow> \<exists>s'. forEach ts (rejectItem E) s = (Inr (), s') \<and> rejected_all dir ts s s'"
proof (induction ts arbitrary: s)
  case Nil
  show ?case by (simp add: ret_def rejected_all_def)
next
  case (Cons t ts)
  obtain n w q where q: "cancels dir t q"
    and run: "rejectItem E t s = (Inr (), s\<lparr>world := w, theap := (theap s)(tnext s := rejected_at n t), tnext := Suc (tnext s),
       transfersCache := AList.update (Some (transferId t)) (tnext s) (transfersCache s),
       abCancelationBatchRequests := abCancelationBatchRequests s @ [q]\<rparr>)" (is "_ = (_, ?s1)")
    by (rule reject_item [OF h upd, of t s]) (use Cons.prems(1) in auto)
  have "transferId t' \<noteq> transferId t" if "t' \<in> set ts" for t'
    using Cons.prems(2) that by (auto simp: image_iff)
  then have "\<exists>s'. forEach ts (rejectItem E) ?s1 = (Inr (), s') \<and> rejected_all dir ts ?s1 s'"
    using Cons.prems by (intro Cons.IH) (simp_all add: update_conv')
  then obtain s' where run': "forEach ts (rejectItem E) ?s1 = (Inr (), s')" and all: "rejected_all dir ts ?s1 s'"
    by blast
  from all obtain qs where "list_all2 (cancels dir) ts qs" "abCancelationBatchRequests s' = abCancelationBatchRequests ?s1 @ qs"
    by (auto simp: rejected_all_def)
  then have "\<exists>qs. list_all2 (cancels dir) (t # ts) qs \<and> abCancelationBatchRequests s' = abCancelationBatchRequests s @ qs"
    using q by (intro exI [of _ "q # qs"]) simp
  moreover have "\<exists>n. theap s' (tnext s + i) = rejected_at n ((t # ts) ! i)" if "i < length (t # ts)" for i
    using that all by (cases i) (auto simp: rejected_all_def)
  ultimately have "rejected_all dir (t # ts) s s'"
    using all by (auto simp: rejected_all_def)
  with run run' show ?case by (auto simp: andThen_def)
qed

section \<open>The batch\<close>


end
