(* ===== verification/Pipeline_Witnesses.thy ===== *)
theory Pipeline_Witnesses
  imports Run_Witnesses Pipeline Bulk_End_To_End Bulk_Fulfil_End_To_End Store Bulk_Store
    Redelivery Abort_End_To_End Bulk_Reject_End_To_End
begin

text \<open>
  The theorems on whole batches, on the two handlers in a row, on bulk prepares and bulk fulfils and on the
  specification of the repositories, applied to the sample platform: its clock is also its source of identifiers, so they
  never repeat.
\<close>

section \<open>Identifiers\<close>

definition sampleUsed :: "sample_world \<Rightarrow> string set" where
  "sampleUsed w = decimal ` {..<sw_clock w}"

lemma decimal_inject: "decimal m = decimal n \<longleftrightarrow> m = n"
  by (metis decimal_digits)

lemma sampleUsed_simps [simp]:
  "decimal (sw_clock w) \<notin> sampleUsed w"
  "sampleUsed (w\<lparr>sw_clock := Suc (sw_clock w)\<rparr>) = insert (decimal (sw_clock w)) (sampleUsed w)"
  "sampleUsed (w\<lparr>sw_docs := d\<rparr>) = sampleUsed w"
proof -
  show "decimal (sw_clock w) \<notin> sampleUsed w" by (auto simp: sampleUsed_def decimal_inject)
  show "sampleUsed (w\<lparr>sw_clock := Suc (sw_clock w)\<rparr>) = insert (decimal (sw_clock w)) (sampleUsed w)"
    by (simp add: sampleUsed_def lessThan_Suc)
  show "sampleUsed (w\<lparr>sw_docs := d\<rparr>) = sampleUsed w" by (simp add: sampleUsed_def)
qed

lemma sample_fresh: "fresh_ids (sampleEnv dir) sampleUsed" and stored_fresh: "fresh_ids (storedEnv t) sampleUsed"
  by (auto simp: fresh_ids_def grows_def storedEnv_def sampleEnv_def)

lemma batch_requests_distinct_witness:
  "distinct (map req_requestId (abBatchRequests (snd (runCommands E0 [prepareMsg, bulkMsg] (resetBatch (emptyState 1))))))"
  using batch_requests_distinct [OF sample_fresh surjective_pairing] by blast

section \<open>A batch and two requests\<close>

text \<open>The transfer \<open>t1\<close> is stored as reserved, \<open>t2\<close> is new.\<close>

abbreviation midwayEnv :: "sample_world env" where
  "midwayEnv \<equiv> storedEnv (sampleTransfer RESERVED)"

definition secondPrepare :: prepare_payload where
  "secondPrepare = samplePrepare\<lparr>prep_transferId := ''t2''\<rparr>"

definition secondMsg :: command where
  "secondMsg = sampleMsg (PrepareTransferCmd secondPrepare)"

lemma new_checks: "checksOf sampleDirectory (newTransferOf c secondPrepare h m n) = Inr sampleAccountsOf"
  using sample_checks [of RECEIVED]
  by (simp add: checksOf_def sample_directory_checks getTransferParticipantsAccounts_def newTransferOf_def
      samplePrepare_def secondPrepare_def)

lemma midway_doable: "doable midwayEnv sampleDirectory fulfilMsg" "doable midwayEnv sampleDirectory secondMsg"
proof -
  have "acceptable midwayEnv fulfilMsg (sampleTransfer RESERVED)"
    by (simp add: acceptable_def sampleMsg_def)
  moreover have "cmd_body fulfilMsg = CommitTransferFulfilCmd sampleFulfil" "cmd_msgType fulfilMsg = COMMAND"
    by (simp_all add: sampleMsg_def)
  moreover have "repo_getTransferById midwayEnv (Some ''t1'') w = (Inr (Some (sampleTransfer RESERVED)), w)" for w
    by (simp add: storedEnv_def)
  moreover have "ful_transferId sampleFulfil = ''t1''" by (simp add: sampleFulfil_def)
  ultimately show "doable midwayEnv sampleDirectory fulfilMsg"
    using sample_checks [of RESERVED] unfolding doable_def
    by (simp only: command_body.case) (intro conjI refl exI [of _ "sampleTransfer RESERVED"] exI [of _ sampleAccountsOf]; simp)
  have "cmd_body secondMsg = PrepareTransferCmd secondPrepare" "cmd_msgType secondMsg = COMMAND"
    by (simp_all add: secondMsg_def sampleMsg_def)
  moreover have "repo_getTransferById midwayEnv (Some ''t2'') w = (Inr None, w)" for w
    by (simp add: storedEnv_def)
  moreover have "prep_transferId secondPrepare = ''t2''" "prep_bulkTransferId secondPrepare = None"
    by (simp_all add: secondPrepare_def samplePrepare_def)
  ultimately show "doable midwayEnv sampleDirectory secondMsg"
    using new_checks unfolding doable_def by simp
qed

lemma midway_subjects: "subject fulfilMsg = ''t1''" "subject secondMsg = ''t2''"
  by (simp_all add: subject_def secondMsg_def sampleMsg_def secondPrepare_def samplePrepare_def sampleFulfil_def)

lemma emptyState_simps [simp]: "transfersCache (emptyState k) = []" "tnext (emptyState k) = 0"
  by (simp_all add: emptyState_def initAgg_def)

lemma batch_end_to_end_witness:
  "\<exists>s'. processCommandBatch midwayEnv [fulfilMsg, secondMsg] (emptyState 1) = (Resolved, s') \<and>
     transferState (theap s' 0) = COMMITTED \<and> transferState (theap s' 1) = RESERVED"
proof -
  let ?cs = "[fulfilMsg, secondMsg]"
  have "\<exists>s'. processCommandBatch midwayEnv ?cs (emptyState 1) = (Resolved, s') \<and> transfersCache s' = [] \<and>
     tnext s' = tnext (emptyState 1) + length ?cs \<and> length (outputEvents s') = length ?cs \<and>
     (\<forall>i < length ?cs. carried_out midwayEnv (?cs ! i) (theap s' (tnext (emptyState 1) + i)) (outputEvents s' ! i))"
  proof (rule batch_end_to_end [OF stored_healthy stored_fresh])
    show "distinct (map subject ?cs)" by (simp add: midway_subjects)
    fix c assume "c \<in> set ?cs"
    then show "doable midwayEnv sampleDirectory c" using midway_doable by auto
  qed simp
  then obtain s' where run: "processCommandBatch midwayEnv ?cs (emptyState 1) = (Resolved, s')"
    and done': "\<And>i. i < 2 \<Longrightarrow> carried_out midwayEnv (?cs ! i) (theap s' i) (outputEvents s' ! i)"
    by auto
  from done' [of 0] done' [of 1] have "transferState (theap s' 0) = COMMITTED" "transferState (theap s' 1) = RESERVED"
    by (auto simp: carried_out_def secondMsg_def sampleMsg_def)
  with run show ?thesis by blast
qed

definition secondRequest :: prepare_requested where
  "secondRequest =
     \<lparr>pr_transferId = ''t2'', pr_amount = ''10'', pr_currencyCode = ''USD'', pr_payerFsp = ''green'',
      pr_payeeFsp = ''blue'', pr_expiration = 100, pr_payerIdType = ''MSISDN'', pr_payeeIdType = ''MSISDN'',
      pr_transferType = ''DEPOSIT'', pr_extensions = []\<rparr>"

definition inboundOf :: "inbound_body \<Rightarrow> inbound" where
  "inboundOf b = \<lparr>in_msgType = DOMAIN_EVENT, in_body = b, in_protocolType = None, in_opaqueState = JNull\<rparr>"

abbreviation sampleRequests :: "inbound list" where
  "sampleRequests \<equiv> [inboundOf (TransferPrepareRequestedEvt secondRequest), inboundOf (TransferFulfilRequestedEvt sampleFulfil)]"

lemma sample_servable: "m \<in> set sampleRequests \<Longrightarrow> servable midwayEnv sampleDirectory m"
proof -
  have "commandOf (inboundOf (TransferPrepareRequestedEvt secondRequest)) = Some secondMsg"
    "commandOf (inboundOf (TransferFulfilRequestedEvt sampleFulfil)) = Some fulfilMsg"
    by (simp_all add: commandOf_def inboundOf_def getCmdFromEvent_def inboundCommand_def prepareEventToPrepareCommand_def
        prepareEventToFulfilCommand_def secondRequest_def secondMsg_def secondPrepare_def samplePrepare_def sampleMsg_def)
  moreover have "\<not> throws m" if "m \<in> set sampleRequests"
    using that by (auto simp: throws_def inboundOf_def getCmdFromEvent_def observeDurations_def)
  ultimately show "m \<in> set sampleRequests \<Longrightarrow> servable midwayEnv sampleDirectory m"
    using midway_doable by (auto simp: servable_def)
qed


section \<open>Commands delivered twice\<close>

lemma redelivered_prepares_ignored_witness:
  "processCommandBatch midwayEnv ([fulfilMsg, secondMsg] @ [secondMsg, secondMsg]) (emptyState 1) =
   processCommandBatch midwayEnv [fulfilMsg, secondMsg] (emptyState 1)"
proof (rule redelivered_prepares_ignored [OF stored_healthy])
  show "distinct (map subject [fulfilMsg, secondMsg])" by (simp add: midway_subjects)
  fix c
  show "c \<in> set [fulfilMsg, secondMsg] \<Longrightarrow> doable midwayEnv sampleDirectory c" using midway_doable by auto
  show "c \<in> set [secondMsg, secondMsg] \<Longrightarrow> c \<in> set [fulfilMsg, secondMsg] \<and> (\<exists>p. cmd_body c = PrepareTransferCmd p)"
    by (auto simp: secondMsg_def sampleMsg_def)
qed simp


section \<open>A reject and a timeout\<close>

lemma midway_reads:
  "tid = transferId t \<Longrightarrow> fst (repo_getTransferById (storedEnv t) (Some tid) w) = Inr (Some t)"
  "fst (repo_updateTransfer (storedEnv t) t' w) = Inr ()"
  by (simp_all add: storedEnv_def sampleEnv_def)

lemma reject_end_to_end_witness:
  "\<exists>s' q. processCommandBatch midwayEnv [rejectMsg] (emptyState 1) = (Resolved, s') \<and>
     transferState (theap s' 0) = ABORTED \<and> abCancelationBatchRequests s' = [q] \<and> req_transferAmount q = ''10''"
proof -
  have "cmd_msgType rejectMsg = COMMAND" "cmd_body rejectMsg = RejectTransferCmd sampleReject"
    "map_of (transfersCache (emptyState 1)) (Some (rej_transferId sampleReject)) = None"
    "rej_transferId sampleReject = transferId (sampleTransfer RESERVED)" "\<not> truthy (bulkTransferId (sampleTransfer RESERVED))"
    by (simp_all add: sampleMsg_def sampleReject_def sampleTransfer_def)
  from reject_end_to_end [OF stored_healthy midway_reads(2) this(1-3) midway_reads(1) [OF this(4)] sample_checks this(5)]
  show ?thesis by (auto simp: cancelRequest_def sampleTransfer_def)
qed

definition expiredTransfer :: transfer where
  "expiredTransfer = (sampleTransfer RESERVED)\<lparr>expirationTimestamp := -1\<rparr>"


section \<open>A bulk prepare\<close>

text \<open>A platform whose repository of bulk transfers has the one of the command.\<close>

definition bulkEnv :: "sample_world env" where
  "bulkEnv = freshEnv\<lparr>bulkRepo_getBulkTransferById := (\<lambda>_ w. (Inr (Some (newBulkOf bulkMsg sampleBulk 0)), w))\<rparr>"

lemma bulk_fresh: "fresh_ids bulkEnv sampleUsed"
  by (auto simp: fresh_ids_def grows_def bulkEnv_def freshEnv_def sampleEnv_def)

lemma bulk_healthy: "healthy bulkEnv sampleDirectory"
  using fresh_healthy by (simp add: healthy_def services_up_def stable_directory_def bulkEnv_def)

lemma bulk_item_doable:
  assumes "it \<in> set (bprep_individualTransfers sampleBulk)"
  shows "item_doable bulkEnv sampleDirectory sampleBulk it"
proof -
  have "checksOf sampleDirectory (newTransferOf c (itemPrepare sampleBulk it) h m n) = Inr sampleAccountsOf" for c h m n
    using sample_checks [of RECEIVED] assms
    by (simp add: checksOf_def sample_directory_checks getTransferParticipantsAccounts_def newTransferOf_def
        itemPrepare_def sampleBulk_def)
  then show ?thesis by (simp add: item_doable_def Let_def bulkEnv_def freshEnv_def)
qed

lemma bulk_prepare_end_to_end_witness:
  "\<exists>s'. processCommandBatch bulkEnv [bulkMsg] (emptyState 1) = (Resolved, s') \<and>
     transferState (theap s' 0) = RESERVED \<and> bt_status (bheap s' 0) = BULK_PENDING"
proof -
  have "bulkTransfersCache (emptyState 1) = []" "bnext (emptyState 1) = 0"
    by (simp_all add: emptyState_def initAgg_def)
  moreover have "\<exists>x w'. bulkRepo_addBulkTransfer bulkEnv b w = (Inr (Inr x), w')" for b w
    by (simp add: bulkEnv_def freshEnv_def sampleEnv_def)
  moreover have "bprep_individualTransfers sampleBulk \<noteq> []" "bprep_bulkTransferId sampleBulk \<noteq> []"
    "distinct (map it_transferId (bprep_individualTransfers sampleBulk))"
    by (simp_all add: sampleBulk_def)
  moreover have "fst (bulkRepo_getBulkTransferById bulkEnv i w) = Inr (Some (newBulkOf bulkMsg sampleBulk 0))" for i w
    by (simp add: bulkEnv_def)
  ultimately obtain s' where "processCommandBatch bulkEnv [bulkMsg] (emptyState 1) = (Resolved, s')"
    and "\<And>i. i < length (bprep_individualTransfers sampleBulk) \<Longrightarrow>
       item_reserved sampleBulk (bprep_individualTransfers sampleBulk ! i) (theap s' i)"
    and "bt_status (bheap s' 0) = BULK_PENDING"
    using bulk_prepare_end_to_end [OF bulk_healthy bulk_fresh _ _ _ refl _ _ bulk_item_doable, of bulkMsg 0 "emptyState 1"]
    by (auto simp: sampleMsg_def)
  moreover from this(2) [of 0] have "transferState (theap s' 0) = RESERVED"
    by (simp add: item_reserved_def sampleBulk_def)
  ultimately show ?thesis by blast
qed

section \<open>A bulk fulfil\<close>

text \<open>A platform with a bulk transfer of two items, and a reserved transfer for each.\<close>

definition sampleResult :: "string \<Rightarrow> individual_result" where
  "sampleResult tid = \<lparr>ir_transferId = tid, ir_fulfilment = None, ir_extensions = [], ir_errorInformation = None\<rparr>"

definition twoItems :: prepare_bulk_payload where
  "twoItems = sampleBulk\<lparr>bprep_individualTransfers :=
     concat (replicate 2 (bprep_individualTransfers sampleBulk))\<rparr>"

definition twoResults :: fulfil_bulk_payload where
  "twoResults = \<lparr>bful_bulkTransferId = ''b1'', bful_completedTimestamp = 50, bful_bulkTransferState = ''COMPLETED'',
     bful_individualTransferResults = [sampleResult ''t1'', sampleResult ''t2''], bful_extensions = []\<rparr>"

abbreviation twoResultsMsg :: command where
  "twoResultsMsg \<equiv> sampleMsg (CommitBulkTransferFulfilCmd twoResults)"

abbreviation itemOf :: "string \<Rightarrow> transfer" where
  "itemOf tid \<equiv> (sampleTransfer RESERVED)\<lparr>transferId := tid, bulkTransferId := Some ''b1''\<rparr>"

definition itemsEnv :: "sample_world env" where
  "itemsEnv = E0\<lparr>repo_getTransferById := (\<lambda>tid w. (Inr (map_option itemOf tid), w)),
     bulkRepo_getBulkTransferById := (\<lambda>_ w. (Inr (Some (newBulkOf bulkMsg twoItems 0)), w))\<rparr>"

lemma items_fresh: "fresh_ids itemsEnv sampleUsed"
  by (auto simp: fresh_ids_def grows_def itemsEnv_def sampleEnv_def)

lemma items_healthy: "healthy itemsEnv sampleDirectory"
  using fresh_healthy by (simp add: healthy_def services_up_def stable_directory_def itemsEnv_def freshEnv_def)

lemma items_doable: "fulfil_doable itemsEnv sampleDirectory ''b1'' (sampleResult tid)"
proof -
  have "checksOf sampleDirectory (itemOf tid) = Inr sampleAccountsOf"
    using sample_checks [of RESERVED]
    by (simp add: checksOf_def sample_directory_checks getTransferParticipantsAccounts_def sampleTransfer_def)
  then show ?thesis
    by (auto simp: fulfil_doable_def stored_item_def itemsEnv_def sampleResult_def)
qed


section \<open>A bulk reject\<close>

definition sampleBulkReject :: reject_bulk_payload where
  "sampleBulkReject = \<lparr>brej_bulkTransferId = ''b1'', brej_errorInformation = None\<rparr>"

definition listedEnv :: "sample_world env" where
  "listedEnv = itemsEnv\<lparr>repo_getTransfersByBulkId := (\<lambda>_ w. (Inr [itemOf ''t1'', itemOf ''t2''], w))\<rparr>"

lemma listed_healthy: "healthy listedEnv sampleDirectory"
  using items_healthy by (simp add: healthy_def services_up_def stable_directory_def listedEnv_def)


section \<open>The repositories\<close>

lemma get_upsert: "mem_getTransferById (upsert t ts) = (mem_getTransferById ts)(transferId t \<mapsto> t)"
  by (induction ts) (auto simp: mem_getTransferById_def fun_eq_iff)

lemma get_fold_upsert: "mem_getTransferById (fold upsert new ts) = put_all new (mem_getTransferById ts)"
  by (induction new arbitrary: ts) (simp_all add: put_all_def get_upsert)

lemma get_filter: "mem_getTransferById (filter (\<lambda>t. transferId t \<noteq> k) ts) = (mem_getTransferById ts)(k := None)"
  by (induction ts) (auto simp: mem_getTransferById_def fun_eq_iff)

abbreviation sampleDocs :: "sample_world \<Rightarrow> store" where
  "sampleDocs w \<equiv> mem_getTransferById (sw_docs w)"

lemma sample_honest: "honest sampleCollection sampleDocs"
  unfolding honest_def
  by (intro conjI sample_counts)
     (auto simp: sampleCollection_def get_upsert get_fold_upsert get_filter get_add fun_eq_iff split: option.split)

abbreviation sampleOps :: "repo_op list" where
  "sampleOps \<equiv> [AddTransfer (sampleTransfer RECEIVED), UpdateTransfer (sampleTransfer COMMITTED), GetTransfer ''t1'',
     RemoveTransfer ''t1'']"

lemma sample_ops_ok: "along store_op (\<lambda>x m. mongo_ok x m \<and> mem_ok x m) sampleOps (mem_getTransferById [])"
  by (simp add: readable_def mapToTransfer_def sampleTransfer_def mem_getTransferById_def)

abbreviation emptyWorld :: sample_world where "emptyWorld \<equiv> \<lparr>sw_clock = 0, sw_docs = []\<rparr>"

lemma mongo_refines_store_witness:
  "fst (run_ops (mongo_op sampleCollection) [AddTransfer (sampleTransfer RECEIVED), StoreTransfers [sampleTransfer RECEIVED]]
     emptyWorld) = [Added ''t1'', Failed]"
proof -
  have "docs_ok (sampleDocs emptyWorld)" by (simp add: docs_ok_def mem_getTransferById_def)
  from mongo_refines_store [OF sample_honest this, of "[AddTransfer (sampleTransfer RECEIVED), StoreTransfers [sampleTransfer RECEIVED]]"]
  show ?thesis
    by (auto simp: readable_def mapToTransfer_def sampleTransfer_def mem_getTransferById_def)
qed

lemma repositories_agree_witness:
  "fst (run_ops (mongo_op sampleCollection) sampleOps emptyWorld) = fst (run_ops mem_op sampleOps [])"
proof -
  have "docs_ok (sampleDocs emptyWorld)" by (simp add: docs_ok_def mem_getTransferById_def)
  from repositories_agree [OF sample_honest this, of "[]" sampleOps] sample_ops_ok show ?thesis by simp
qed

text \<open>A collection of bulk transfers, as a list.\<close>

definition listCollection :: "bulk_transfer list bulk_collection" where
  "listCollection =
     \<lparr>bcoll_findOne = (\<lambda>k bs. (Inr (case k of None \<Rightarrow> None | Some i \<Rightarrow> mem_getBulkTransferById bs i), bs)),
      bcoll_find = (\<lambda>bs. (Inr bs, bs)),
      bcoll_insertOne = (\<lambda>b bs. (Inr (), bs @ [b])),
      bcoll_updateOne = (\<lambda>_ b bs. (Inr (), assignFirstBulk b bs))\<rparr>"

lemma list_honest: "honest_bulk listCollection mem_getBulkTransferById"
  by (auto simp: honest_bulk_def listCollection_def get_add get_assignFirstBulk fun_eq_iff split: option.split)

abbreviation sampleBulkTransfer :: bulk_transfer where "sampleBulkTransfer \<equiv> newBulkOf bulkMsg sampleBulk 0"

lemma bulk_repositories_agree_witness:
  "let ops = [AddBulk sampleBulkTransfer, UpdateBulk (sampleBulkTransfer\<lparr>bt_status := BULK_PENDING\<rparr>), GetBulk ''b1''] in
   fst (run_ops (mongo_bulk_op listCollection) ops []) = fst (run_ops mem_bulk_op ops [])"
proof -
  have "bulk_docs_ok (mem_getBulkTransferById [])"
    by (simp add: bulk_docs_ok_def mem_getBulkTransferById_def)
  from bulk_repositories_agree [OF list_honest this refl, of
      "[AddBulk sampleBulkTransfer, UpdateBulk (sampleBulkTransfer\<lparr>bt_status := BULK_PENDING\<rparr>), GetBulk ''b1'']"]
  show ?thesis
    by (simp add: Let_def readable_bulk_def mapToBulkTransfer_def newBulkOf_def sampleBulk_def sampleMsg_def
        mem_getBulkTransferById_def)
qed

end
