(* ===== verification/Life_Cycle.thy ===== *)
theory Life_Cycle
  imports Abort_End_To_End Store Adapters
begin

text \<open>
  The aggregate and the MongoDB repository together: what a transfer is in the collection after each of the
  batches that concern it.  A prepare and a later fulfil take it from nothing to \<open>RESERVED\<close> and
  \<open>COMMITTED\<close>; a reject stores it twice, and the second time, in the flush, MongoDB reports no change.
  The collection behaves as documented (\<open>honest\<close> of \<open>Store\<close>).
\<close>

section \<open>A platform on a collection\<close>

definition leaves :: "('w \<Rightarrow> store) \<Rightarrow> ('w \<Rightarrow> 'r \<times> 'w) \<Rightarrow> bool" where
  "leaves docs m \<longleftrightarrow> (\<forall>w. docs (snd (m w)) = docs w)"

text \<open>The repository of transfers is MongoDB's, on a collection that behaves as documented; nothing but its
  writes changes the documents.\<close>

definition backed_by :: "'w env \<Rightarrow> 'w collection \<Rightarrow> ('w \<Rightarrow> store) \<Rightarrow> bool" where
  "backed_by E C docs \<longleftrightarrow> honest C docs \<and>
     repo_getTransferById E = mongo_getTransferById C \<and> repo_updateTransfer E = mongo_updateTransfer C \<and>
     repo_storeTransfers E = mongo_storeTransfers C \<and>
     leaves docs (dateNow E) \<and> leaves docs (randomUUID E) \<and>
     (\<forall>x. leaves docs (repo_getTransferById E x)) \<and>
     (\<forall>x. leaves docs (participants_getParticipantInfo E x)) \<and>
     (\<forall>a c c' x. leaves docs (settlements_getSettlementModelId E a c c' x)) \<and>
     (\<forall>i n x. leaves docs (scheduling_createSingleReminder E i n x)) \<and>
     (\<forall>x y. leaves docs (validator_validateFulfilment E x y)) \<and>
     (\<forall>qs. leaves docs (ab_processHighLevelBatch E qs)) \<and>
     (\<forall>es. leaves docs (producer_send E es))"

lemma leavesD: "leaves docs m \<Longrightarrow> docs (snd (m w)) = docs w"
  by (simp add: leaves_def)

lemma backed_byD:
  assumes "backed_by E C docs"
  shows "honest C docs" and "repo_getTransferById E = mongo_getTransferById C"
    and "repo_updateTransfer E = mongo_updateTransfer C" and "repo_storeTransfers E = mongo_storeTransfers C"
    and "docs (snd (ab_processHighLevelBatch E qs w)) = docs w" and "docs (snd (producer_send E es w)) = docs w"
  using assms unfolding backed_by_def leaves_def by blast+

lemma backed_leaves:
  assumes "backed_by E C docs"
  shows "leaves docs (dateNow E)" and "leaves docs (randomUUID E)" and "leaves docs (repo_getTransferById E tid)"
    and "leaves docs (participants_getParticipantInfo E i)" and "leaves docs (settlements_getSettlementModelId E a cur cur' x)"
    and "leaves docs (scheduling_createSingleReminder E i n p)" and "leaves docs (validator_validateFulfilment E v v')"
  using assms unfolding backed_by_def by blast+

text \<open>The documents are what they were, unless a cancellation was queued.\<close>

definition untouched :: "('w \<Rightarrow> store) \<Rightarrow> store \<Rightarrow> 'w agg \<Rightarrow> bool" where
  "untouched docs d s \<longleftrightarrow> docs (world s) = d \<or> abCancelationBatchRequests s \<noteq> []"

lemma untouched_call:
  assumes "leaves docs m"
  shows "keeps (untouched docs d) (call m)"
  using assms by (intro keepsI) (auto simp: wp_simps leaves_def untouched_def prod.case_eq_if)

lemma untouched_clock:
  "leaves docs (dateNow E) \<Longrightarrow> keeps (untouched docs d) (now E)"
  "leaves docs (randomUUID E) \<Longrightarrow> keeps (untouched docs d) (uuid E)"
  by (intro keepsI; auto simp: wp_simps leaves_def untouched_def prod.case_eq_if)+

lemma untouched_primitives:
  "keeps (untouched docs d) (getT r)" "keeps (untouched docs d) (lift_sum x)" "keeps (untouched docs d) (newTransfer t)"
  "keeps (untouched docs d) (modify (\<lambda>s. s\<lparr>transfersCache := f1 s\<rparr>))" "keeps (untouched docs d) (pushAbRequest q)"
  by (rule keepsI; cases x; simp add: wp_simps lift_sum_def untouched_def)+

lemma cancelling_primitives:
  "keeps (\<lambda>s. abCancelationBatchRequests s \<noteq> []) (now E)" "keeps (\<lambda>s. abCancelationBatchRequests s \<noteq> []) (getT r)"
  "keeps (\<lambda>s. abCancelationBatchRequests s \<noteq> []) (setT r f)" "keeps (\<lambda>s. abCancelationBatchRequests s \<noteq> []) (call m)"
  by (rule keepsI; simp add: wp_simps split: prod.split)+

lemma untouched_push:
  assumes "\<And>x. keeps (\<lambda>s. abCancelationBatchRequests s \<noteq> []) (k x)"
  shows "keeps (untouched docs d) (andThen (pushCancelation q) k)"
proof (rule keepsI)
  fix s
  have "wp (k ()) (\<lambda>_ s'. abCancelationBatchRequests s' \<noteq> [])
      (s\<lparr>abCancelationBatchRequests := abCancelationBatchRequests s @ [q]\<rparr>)"
    by (rule keepsD [OF assms]) simp
  then show "wp (andThen (pushCancelation q) k) (\<lambda>_ s'. untouched docs d s') s"
    by (simp add: wp_simps untouched_def) (erule wp_mono, simp)
qed

lemma untouched_cancel:
  assumes "backed_by E C docs"
  shows "keeps (untouched docs d) (cancelTransfer E tid code)"
  unfolding cancelTransfer_def cancelTransferBody_def getTransfer_def getParticipantsInfo_def
  by (rule untouched_push | rule keeps_intros cancelling_primitives untouched_primitives untouched_clock untouched_call
      backed_leaves [OF assms])+

interpretation kept: call_frame E "\<lambda>s. backed_by E C docs \<longrightarrow> untouched docs d s"
  for E :: "'w env" and C docs d
proof
  fix s s' :: "'w agg"
  assume "backed_by E C docs \<longrightarrow> untouched docs d s" and "world s' = world s"
    and "abCancelationBatchRequests s' = abCancelationBatchRequests s"
  then show "backed_by E C docs \<longrightarrow> untouched docs d s'" by (simp add: untouched_def)
qed (rule keeps_under; intro untouched_call untouched_clock untouched_cancel keeps_andThen untouched_primitives
     backed_leaves; assumption)+

section \<open>Reading and writing\<close>

text \<open>A read gives the document as \<open>_mapToTransfer\<close> leaves it.\<close>

lemma backed_read:
  assumes "backed_by E C docs"
  shows "fst (repo_getTransferById E (Some k) w) = Inr (map_option mapToTransfer (docs w k))"
proof -
  obtain w' where "coll_findOne C (Some k) w = (Inr (docs w k), w')"
    using honestD(2) [OF backed_byD(1) [OF assms]] by blast
  then show ?thesis
    by (simp add: backed_byD(2) [OF assms] mongo_getTransferById_def catchAs_def run_simps)
qed

lemma checksOf_cong:
  "\<lbrakk>payerFspId t = payerFspId t'; payeeFspId t = payeeFspId t'; currencyCode t = currencyCode t'\<rbrakk> \<Longrightarrow>
   checksOf dir t = checksOf dir t'"
  by (auto simp: checksOf_def getTransferParticipantsAccounts_def split: sum.split)

lemma mapToTransfer_simps [simp]:
  "transferId (mapToTransfer t) = transferId t" "bulkTransferId (mapToTransfer t) = bulkTransferId t"
  "transferState (mapToTransfer t) = transferState t" "checksOf dir (mapToTransfer t) = checksOf dir t"
  "terms (mapToTransfer t) = terms t"
  by (simp_all add: mapToTransfer_def terms_def cong: checksOf_cong)

lemma checksOf_reserved [simp]: "checksOf dir (reserved_at n t) = checksOf dir t"
  by (rule checksOf_cong) simp_all

lemma checksOf_new: "checksOf dir (newTransferOf c p hsh model n) = checksOf dir (newTransferOf c p [] [] 0)"
  by (rule checksOf_cong) (simp_all add: newTransferOf_def)

lemma acceptable_cong: "transferOpaqueState t = transferOpaqueState t' \<Longrightarrow> acceptable E c t = acceptable E c t'"
  by (simp add: acceptable_def)

section \<open>From the answer to the document\<close>

text \<open>The command \<open>c\<close> alone, from the point where its one request is queued: the answer ends its object, and the
  flush stores it in the place of a different document, or of none.\<close>

lemma answered_stored:
  assumes up: "services_up E dir" and b: "backed_by E C docs"
    and body: "batchBody E [c] (resetBatch s) = andThen (runRequests E) (\<lambda>_. runCancelations E) s1"
    and c: "(\<exists>p. cmd_body c = PrepareTransferCmd p \<and> \<not> truthy (prep_bulkTransferId p)) \<or> (\<exists>p. cmd_body c = CommitTransferFulfilCmd p)"
    and s1: "abBatchRequests s1 = [q]" "asks_for c q" "abCancelationBatchRequests s1 = []" "outputEvents s1 = []"
      "transfersCache s1 = [(Some (subject c), r)]" "map_of (batchCommands s1) (Some (subject c)) = Some c"
      "transferId (theap s1 r) = subject c" "\<not> truthy (bulkTransferId (theap s1 r))" "untouched docs d s1"
    and changed: "\<And>t'. ends c (theap s1 r) t' \<Longrightarrow> d (subject c) \<noteq> Some t'"
  obtains s' t' e where "processCommandBatch E [c] s = (Resolved, s')" and "transfersCache s' = []" and "tnext s' = tnext s1"
    and "ends c (theap s1 r) t'" and "docs (world s') = d(subject c \<mapsto> t')"
    and "outputEvents s' = [e]" and "announces c t' e"
proof -
  have q: "req_transferId q = subject c" using s1(2) by (simp add: asks_for_def)
  obtain w rsp where rsp: "rsp_success rsp" "rsp_requestType rsp = req_requestType q"
    and run: "runRequests E s1 = continueRequest E rsp q c (Some r) (s1\<lparr>world := w, abBatchResponses := [rsp]\<rparr>)"
    and ab: "ab_processHighLevelBatch E [q] (world s1) = (Inr [rsp], w)"
    by (rule single_request_world [OF up s1(1), of c r]) (use q s1(5,6) in simp_all)
  let ?s1 = "s1\<lparr>world := w, abBatchResponses := [rsp]\<rparr>"
  obtain s2 e where cont: "continueRequest E rsp q c (Some r) ?s1 = (Inr (), s2)" and ans: "answered_by c r e ?s1 s2"
    using continue_answered [OF c rsp s1(2), of ?s1 r E] s1(5,7,8) by auto
  then obtain t' w2 where t': "ends c (theap s1 r) t'" "announces c t' e"
    and s2: "s2 = ?s1\<lparr>world := w2, theap := (theap s1)(r := t'), outputEvents := [e]\<rparr>"
    by (auto simp: answered_by_def s1(4))
  have id: "transferId t' = subject c"
    using t'(1) s1(7) c by (auto simp: ends_def)
  have "docs w = docs (world s1)" using backed_byD(5) [OF b, of "[q]" "world s1"] ab by simp
  then have "untouched docs d ?s1" using s1(3,9) by (simp add: untouched_def)
  moreover have "keeps (untouched docs d) (continueRequest E rsp q c (Some r))"
    using c rsp(2) s1(2) kept.frame_continue [of E C docs d] b
    by (auto simp: continueRequest_def asks_for_def keeps_intros)
  ultimately have "untouched docs d s2"
    using cont by (blast intro: keeps_run)
  then have d: "docs (world s2) = d" using s2 s1(3) by (simp add: untouched_def)
  have "runCancelations E s2 = (Inr (), s2)"
    using s2 s1(3) by (intro no_cancelations) simp
  then have done': "batchBody E [c] (resetBatch s) = (Inr (), s2)"
    using body run cont by (simp add: andThen_def)
  have "fst (mongo_storeTransfers C [t'] (world s2)) = Inr ()"
    and put: "docs (snd (mongo_storeTransfers C [t'] (world s2))) = d(subject c \<mapsto> t')"
    using mongo_store [OF backed_byD(1) [OF b], of "[t']" "world s2"] changed [OF t'(1)] d id by (simp_all add: put_all_def)
  then obtain w3 where w3: "mongo_storeTransfers C [t'] (world s2) = (Inr (), w3)" "docs w3 = d(subject c \<mapsto> t')"
    by (cases "mongo_storeTransfers C [t'] (world s2)") simp
  obtain w4 where w4: "producer_send E (outputEvents s2) w3 = (Inr (), w4)"
    and batch: "processCommandBatch E [c] s = (Resolved, s2\<lparr>world := w4, transfersCache := []\<rparr>)"
    by (rule stored_batch [OF up done', of w3]) (use s2 s1(5) w3(1) backed_byD(4) [OF b] in simp_all)
  have "docs w4 = d(subject c \<mapsto> t')"
    using backed_byD(6) [OF b, of "outputEvents s2" w3] w3(2) w4 by simp
  with batch t' s2 show thesis by (intro that [OF batch]) simp_all
qed

section \<open>Prepare, then fulfil\<close>

lemma prepare_stored:
  assumes up: "services_up E dir" and b: "backed_by E C docs" and cache: "transfersCache s = []"
    and c: "cmd_msgType c = COMMAND" "cmd_body c = PrepareTransferCmd p" "\<not> truthy (prep_bulkTransferId p)"
    and new: "docs (world s) (prep_transferId p) = None" and checks: "checksOf dir (newTransferOf c p [] [] 0) = Inr a"
  obtains s' model m n k where "processCommandBatch E [c] s = (Resolved, s')" and "transfersCache s' = []"
    and "docs (world s') = (docs (world s))(prep_transferId p \<mapsto> reserved_at n (newTransferOf c p (prepareHash E p) model m))"
    and "outputEvents s' = [tagged c (TransferPreparedEvt (preparedPayload (cmd_body c)
       (reserved_at n (newTransferOf c p (prepareHash E p) model m)) k))]"
proof -
  let ?tid = "prep_transferId p" and ?d = "docs (world s)"
  let ?sb = "starts s ?tid c"
  have subject: "subject c = ?tid" using c(2) by simp
  obtain w model m ndc u where start: "prepareTransferStart E c p ?sb =
     (Inr (), ?sb\<lparr>world := w, theap := (theap ?sb)(tnext ?sb := newTransferOf c p (prepareHash E p) model m),
            tnext := Suc (tnext ?sb), transfersCache := AList.update (Some ?tid) (tnext ?sb) (transfersCache ?sb),
            abBatchRequests := abBatchRequests ?sb @ [reserveRequest (newTransferOf c p (prepareHash E p) model m) a ndc u]\<rparr>)"
    (is "_ = (_, ?s1)")
    by (rule prepare_start_healthy [OF up _ _ checks, of ?sb]) (use cache new backed_read [OF b] in simp_all)
  let ?t = "newTransferOf c p (prepareHash E p) model m" and ?q = "reserveRequest (newTransferOf c p (prepareHash E p) model m) a ndc u"
  define s1 where "s1 = ?s1"
  have s1: "abBatchRequests s1 = [?q]" "abCancelationBatchRequests s1 = []" "outputEvents s1 = []"
    "transfersCache s1 = [(Some (subject c), tnext s)]" "map_of (batchCommands s1) (Some (subject c)) = Some c"
    "theap s1 (tnext s) = ?t"
    using cache subject by (simp_all add: s1_def)
  have u1: "untouched docs ?d s1"
    using keeps_run [OF kept.frame_prepareTransferStart _ start, of C docs ?d] b by (simp add: untouched_def s1_def)
  have b1: "batchBody E [c] (resetBatch s) = andThen (runRequests E) (\<lambda>_. runCancelations E) s1"
    unfolding s1_def using c start by (intro single_command) (simp_all add: dispatchCommand_def)
  have a1: "asks_for c ?q" using c(2) by (simp add: asks_for_def reserveRequest_def)
  obtain s' t' e where "processCommandBatch E [c] s = (Resolved, s')" "transfersCache s' = []"
    "ends c ?t t'" "docs (world s') = ?d(?tid \<mapsto> t')" "outputEvents s' = [e]" "announces c t' e"
    by (rule answered_stored [OF up b b1 _ s1(1) a1 s1(2-5) _ _ u1, unfolded s1(6) subject])
       (use c new in auto)
  with c(2) show thesis by (auto simp: ends_def announces_def intro: that)
qed

lemma fulfil_stored:
  assumes up: "services_up E dir" and b: "backed_by E C docs" and cache: "transfersCache s = []"
    and c: "cmd_msgType c = COMMAND" "cmd_body c = CommitTransferFulfilCmd p"
    and known: "docs (world s) (ful_transferId p) = Some t" "transferId t = ful_transferId p"
    and t: "\<not> truthy (bulkTransferId t)" "transferState t \<noteq> COMMITTED"
    and checks: "checksOf dir t = Inr a" and acc: "acceptable E c (mapToTransfer t)"
  obtains s' v n k where "processCommandBatch E [c] s = (Resolved, s')" and "transfersCache s' = []"
    and "docs (world s') = (docs (world s))(ful_transferId p \<mapsto>
       committed_at n (ful_completedTimestamp p) ((mapToTransfer t)\<lparr>transferOpaqueState := v\<rparr>))"
    and "outputEvents s' = [tagged c (TransferFulfiledEvt (fulfiledPayload (cmd_body c)
       (committed_at n (ful_completedTimestamp p) ((mapToTransfer t)\<lparr>transferOpaqueState := v\<rparr>)) k))]"
proof -
  let ?tid = "ful_transferId p" and ?d = "docs (world s)"
  let ?sb = "starts s ?tid c"
  have subject: "subject c = ?tid" using c(2) by simp
  obtain w v u where start: "fulfilTransferStart E c p ?sb =
     (Inr (), ?sb\<lparr>world := w, theap := (theap ?sb)(tnext ?sb := (mapToTransfer t)\<lparr>transferOpaqueState := v\<rparr>),
            tnext := Suc (tnext ?sb), transfersCache := AList.update (Some ?tid) (tnext ?sb) (transfersCache ?sb),
            abBatchRequests := abBatchRequests ?sb @ [commitRequest (mapToTransfer t) a u]\<rparr>)" (is "_ = (_, ?s1)")
    by (rule fulfil_start_healthy [OF up _ _ _ acc, of ?sb]) (use cache known checks backed_read [OF b] in auto)
  let ?t = "(mapToTransfer t)\<lparr>transferOpaqueState := v\<rparr>" and ?q = "commitRequest (mapToTransfer t) a u"
  define s1 where "s1 = ?s1"
  have s1: "abBatchRequests s1 = [?q]" "abCancelationBatchRequests s1 = []" "outputEvents s1 = []"
    "transfersCache s1 = [(Some (subject c), tnext s)]" "map_of (batchCommands s1) (Some (subject c)) = Some c"
    "theap s1 (tnext s) = ?t"
    using cache subject by (simp_all add: s1_def)
  have u1: "untouched docs ?d s1"
    using keeps_run [OF kept.frame_fulfilTransferStart _ start, of C docs ?d] b by (simp add: untouched_def s1_def)
  have b1: "batchBody E [c] (resetBatch s) = andThen (runRequests E) (\<lambda>_. runCancelations E) s1"
    unfolding s1_def using c start by (intro single_command) (simp_all add: dispatchCommand_def)
  have a1: "asks_for c ?q" using c(2) known(2) by (simp add: asks_for_def commitRequest_def)
  have d1: "?d ?tid \<noteq> Some t'" if "ends c ?t t'" for t'
  proof -
    have "transferState t' = COMMITTED" using that c(2) by (auto simp: ends_def)
    with t(2) known(1) show ?thesis by auto
  qed
  obtain s' t' e where "processCommandBatch E [c] s = (Resolved, s')" "transfersCache s' = []"
    "ends c ?t t'" "docs (world s') = ?d(?tid \<mapsto> t')" "outputEvents s' = [e]" "announces c t' e"
    by (rule answered_stored [OF up b b1 _ s1(1) a1 s1(2-5) _ _ u1, unfolded s1(6) subject])
       (use c known t d1 in auto)
  with c(2) show thesis by (auto simp: ends_def announces_def intro: that)
qed

text \<open>C4: over MongoDB, a transfer lives through its two batches: with the services up, the prepare of a transfer
  the collection does not know and, in a later batch, its fulfil both resolve; after the first the
  collection holds it as \<open>RESERVED\<close> with the terms of the prepare, after the second as \<open>COMMITTED\<close> with the
  same terms and the completion time of the fulfil; nothing else in the collection has changed, and each
  batch has published the one event that announces the document it has stored.\<close>

theorem transfer_life_cycle:
  assumes up: "services_up E dir" and b: "backed_by E C docs" and cache: "transfersCache s = []"
    and c: "cmd_msgType c = COMMAND" "cmd_body c = PrepareTransferCmd p" "\<not> truthy (prep_bulkTransferId p)"
    and c': "cmd_msgType c' = COMMAND" "cmd_body c' = CommitTransferFulfilCmd p'" "ful_transferId p' = prep_transferId p"
    and new: "docs (world s) (prep_transferId p) = None" and checks: "checksOf dir (newTransferOf c p [] [] 0) = Inr a"
    and acc: "acceptable E c' (mapToTransfer (newTransferOf c p [] [] 0))"
  shows "\<exists>s1 s2 t1 t2 model m.
     processCommandBatch E [c] s = (Resolved, s1) \<and> docs (world s1) = (docs (world s))(prep_transferId p \<mapsto> t1) \<and>
     processCommandBatch E [c'] s1 = (Resolved, s2) \<and> docs (world s2) = (docs (world s))(prep_transferId p \<mapsto> t2) \<and>
     transferState t1 = RESERVED \<and> terms t1 = terms (newTransferOf c p (prepareHash E p) model m) \<and>
     transferState t2 = COMMITTED \<and> terms t2 = terms t1 \<and> completedTimestamp t2 = ful_completedTimestamp p' \<and>
     (\<exists>k. outputEvents s1 = [tagged c (TransferPreparedEvt (preparedPayload (cmd_body c) t1 k))]) \<and>
     (\<exists>k. outputEvents s2 = [tagged c' (TransferFulfiledEvt (fulfiledPayload (cmd_body c') t2 k))])"
proof -
  obtain s1 model m n k where one: "processCommandBatch E [c] s = (Resolved, s1)" "transfersCache s1 = []"
    "docs (world s1) = (docs (world s))(prep_transferId p \<mapsto> reserved_at n (newTransferOf c p (prepareHash E p) model m))"
    "outputEvents s1 = [tagged c (TransferPreparedEvt (preparedPayload (cmd_body c)
       (reserved_at n (newTransferOf c p (prepareHash E p) model m)) k))]"
    by (rule prepare_stored [OF up b cache c new checks])
  let ?t1 = "reserved_at n (newTransferOf c p (prepareHash E p) model m)"
  have ok: "acceptable E c' (mapToTransfer ?t1)"
    using acc by (rule acceptable_cong [THEN iffD1, rotated]) (simp add: mapToTransfer_def newTransferOf_def)
  have checks1: "checksOf dir ?t1 = Inr a" using checks checksOf_new [of dir c p "prepareHash E p" model m] by simp
  have stored: "docs (world s1) (ful_transferId p') = Some ?t1" "transferId ?t1 = ful_transferId p'"
    "\<not> truthy (bulkTransferId ?t1)" "transferState ?t1 \<noteq> COMMITTED"
    using one(3) c'(3) c(3) by simp_all
  obtain s2 v n' k' where two: "processCommandBatch E [c'] s1 = (Resolved, s2)"
    "docs (world s2) = (docs (world s1))(ful_transferId p' \<mapsto>
       committed_at n' (ful_completedTimestamp p') ((mapToTransfer ?t1)\<lparr>transferOpaqueState := v\<rparr>))"
    "outputEvents s2 = [tagged c' (TransferFulfiledEvt (fulfiledPayload (cmd_body c')
       (committed_at n' (ful_completedTimestamp p') ((mapToTransfer ?t1)\<lparr>transferOpaqueState := v\<rparr>)) k'))]"
    by (rule fulfil_stored [OF up b one(2) c'(1,2) stored checks1 ok])
  have "terms (committed_at n' x ((mapToTransfer ?t1)\<lparr>transferOpaqueState := v\<rparr>)) = terms ?t1" for x
    by (simp add: terms_def mapToTransfer_def)
  moreover have "terms ?t1 = terms (newTransferOf c p (prepareHash E p) model m)"
    by (simp add: terms_def)
  moreover define t2 where "t2 = committed_at n' (ful_completedTimestamp p') ((mapToTransfer ?t1)\<lparr>transferOpaqueState := v\<rparr>)"
  ultimately have t2: "transferState t2 = COMMITTED" "terms t2 = terms ?t1" "completedTimestamp t2 = ful_completedTimestamp p'"
    "terms ?t1 = terms (newTransferOf c p (prepareHash E p) model m)"
    by simp_all
  have "docs (world s2) = (docs (world s))(prep_transferId p \<mapsto> t2)"
    using two(2) one(3) c'(3) by (simp add: t2_def)
  with one two(1,3) t2 show ?thesis
    unfolding t2_def [symmetric]
    by (intro exI [of _ s1] exI [of _ s2] exI [of _ ?t1] exI [of _ t2] exI [of _ model] exI [of _ m]) auto
qed

section \<open>A reject is stored twice\<close>

lemma backed_update:
  assumes b: "backed_by E C docs"
    and known: "docs w (transferId t) = Some t0" "transferId t0 = transferId t" "transferId t \<noteq> []"
  obtains w' where "repo_updateTransfer E t w = (Inr (), w')" and "docs w' = (docs w)(transferId t \<mapsto> t)"
proof -
  obtain w1 where w1: "coll_findOne C (Some (transferId t)) w = (Inr (Some t0), w1)" "docs w1 = docs w"
    using honestD(2) [OF backed_byD(1) [OF b], of "transferId t" w] known(1) by auto
  then obtain w' where "coll_updateOne C (transferId t) t w1 = (Inr (), w')" "docs w' = (docs w1)(transferId t \<mapsto> t)"
    using honestD(4) [OF backed_byD(1) [OF b], of w1 t] known(1) by auto
  moreover have "t\<lparr>transferId := transferId t\<rparr> = t" by simp
  ultimately show thesis
    using w1 known
    by (intro that [of w']) (simp_all add: backed_byD(3) [OF b] mongo_updateTransfer_def mongo_getTransferById_def catchAs_def run_simps)
qed

lemma backed_checks:
  assumes up: "services_up E dir" and b: "backed_by E C docs" and ps: "participantsOf dir payer payee = Inr ps"
  obtains w where "getParticipantsInfo E payer payee s = (Inr ps, s\<lparr>world := w\<rparr>)" and "docs w = docs (world s)"
proof -
  obtain w where w: "getParticipantsInfo E payer payee s = (Inr ps, s\<lparr>world := w\<rparr>)"
    using getParticipantsInfo_stable [OF services_upD(1) [OF up], of payer payee s] ps by auto
  have "keeps (\<lambda>s. docs (world s) = d) (call (participants_getParticipantInfo E i))"
    "keeps (\<lambda>s. docs (world s) = d) (lift_sum x)" for d i x
    using leavesD [OF backed_leaves(4) [OF b]]
    by (intro keepsI; cases x; simp add: wp_simps lift_sum_def prod.case_eq_if)+
  then have "keeps (\<lambda>s. docs (world s) = d) (getParticipantsInfo E payer payee)" for d
    unfolding getParticipantsInfo_def by (intro keeps_intros)
  from keeps_run [OF this refl w] show thesis by (intro that [OF w]) simp
qed

lemma reject_backed:
  assumes up: "services_up E dir" and b: "backed_by E C docs" and cache: "transfersCache s = []"
    and known: "docs (world s) (rej_transferId p) = Some t" "transferId t = rej_transferId p" "rej_transferId p \<noteq> []"
    and checks: "checksOf dir t = Inr a"
  shows "wp (rejectTransfer E c p) (\<lambda>res s1. res = Inr () \<and> transfersCache s1 = [(Some (rej_transferId p), tnext s)] \<and>
     docs (world s1) = (docs (world s))(rej_transferId p \<mapsto> theap s1 (tnext s)) \<and>
     transferId (theap s1 (tnext s)) = rej_transferId p \<and> transferState (theap s1 (tnext s)) = ABORTED \<and>
     abBatchRequests s1 = abBatchRequests s \<and> unhandled s1 = unhandled s \<and>
     (\<exists>u. abCancelationBatchRequests s1 = abCancelationBatchRequests s @ [cancelRequest (mapToTransfer t) a u])) s"
proof -
  let ?tid = "rej_transferId p" and ?t = "mapToTransfer t" and ?r = "tnext s" and ?d = "docs (world s)"
  have "checksOf dir ?t = Inr a" using checks by simp
  then obtain ps where ps: "participantsOf dir (payerFspId ?t) (payeeFspId ?t) = Inr ps"
    and a: "getTransferParticipantsAccounts ps ?t = Inr a"
    by (auto simp only: checksOf_def split: sum.splits)
  obtain w1 where w1: "repo_getTransferById E (Some ?tid) (world s) = (Inr (Some ?t), w1)" and d1: "docs w1 = ?d"
    using backed_read [OF b, of ?tid "world s"] leavesD [OF backed_leaves(3) [OF b], of "Some ?tid" "world s"] known(1)
    by (cases "repo_getTransferById E (Some ?tid) (world s)") auto
  let ?sr = "s\<lparr>world := w1, theap := (theap s)(?r := ?t), tnext := Suc ?r, transfersCache := [(Some ?tid, ?r)]\<rparr>"
  have get: "getTransfer E (Some ?tid) s = (Inr (Some ?r), ?sr)"
    using cache w1 by (simp add: getTransfer_def run_simps primitive_defs)
  obtain w2 where w2: "getParticipantsInfo E (payerFspId ?t) (payeeFspId ?t) ?sr = (Inr ps, ?sr\<lparr>world := w2\<rparr>)" "docs w2 = ?d"
    by (rule backed_checks [OF up b ps, of ?sr]) (simp add: d1)
  obtain w3 where w3: "getParticipantsInfo E (payerFspId ?t) (payeeFspId ?t) (?sr\<lparr>world := w2\<rparr>) = (Inr ps, ?sr\<lparr>world := w3\<rparr>)"
    "docs w3 = ?d"
    by (rule backed_checks [OF up b ps, of "?sr\<lparr>world := w2\<rparr>"]) (simp add: w2(2))
  obtain u w4 where w4: "randomUUID E w3 = (u, w4)" by fastforce
  obtain n w5 where w5: "dateNow E w4 = (n, w5)" by fastforce
  have d5: "docs w5 = ?d"
    using leavesD [OF backed_leaves(1) [OF b], of w4] leavesD [OF backed_leaves(2) [OF b], of w3] w3(2) w4 w5 by simp
  let ?t1 = "?t\<lparr>updatedAt := n, transferState := ABORTED, errorCode := Some (ErrName TRANSFER_REJECTED_BY_PAYEE)\<rparr>"
  obtain w6 where w6: "repo_updateTransfer E ?t1 w5 = (Inr (), w6)" "docs w6 = ?d(?tid \<mapsto> ?t1)"
    by (rule backed_update [OF b, of w5 ?t1 t]) (use known d5 in simp_all)
  obtain n' w7 where w7: "dateNow E w6 = (n', w7)" by fastforce
  have d7: "docs w7 = ?d(?tid \<mapsto> ?t1)"
    using leavesD [OF backed_leaves(1) [OF b], of w6] w6(2) w7 by simp
  let ?t2 = "?t\<lparr>updatedAt := n', transferState := ABORTED, errorCode := Some (ErrName TRANSFER_REJECTED_BY_PAYEE)\<rparr>"
  obtain w8 where w8: "repo_updateTransfer E ?t2 w7 = (Inr (), w8)" "docs w8 = ?d(?tid \<mapsto> ?t2)"
    by (rule backed_update [OF b, of w7 ?t2 ?t1]) (use known d7 in simp_all)
  have cached: "getTransfer E (Some ?tid) (?sr\<lparr>world := w2\<rparr>) = (Inr (Some ?r), ?sr\<lparr>world := w2\<rparr>)"
    by (rule getTransfer_cached) simp
  have "cancelTransfer E (Some ?tid) TRANSFER_REJECTED_BY_PAYEE (?sr\<lparr>world := w2\<rparr>) = (Inr (), ?sr\<lparr>
      abCancelationBatchRequests := abCancelationBatchRequests s @ [cancelRequest ?t a u],
      theap := (theap s)(?r := ?t1), world := w6\<rparr>)"
    using cached w3(1) w4 w5 w6(1) a
    by (simp add: cancelTransfer_def cancelTransferBody_def run_simps primitive_defs lift_sum_def pushCancelation_def)
  then show ?thesis
    using get w2(1) w7 w8 known(2)
    by (simp add: wp_def rejectTransfer_def rejectCancel_def rejectUpdate_def run_simps primitive_defs emit_def) blast
qed

text \<open>C25: over MongoDB, where a write counts as modified only the documents it has changed, a batch with the reject of a
  stored transfer never settles, although everything goes well: the reservation is cancelled and the
  transfer is stored as \<open>ABORTED\<close> by \<open>updateTransfer\<close>, but the flush stores it again as it is, so
  \<open>storeTransfers\<close> throws in the \<open>finally\<close> block: the promise the handler waits for stays pending, the
  error is an unhandled rejection, and the event that should tell the payer is never published.  The law of
  the collection, \<open>counts_changes\<close>, is that of documents with the fields in the order of
  \<open>_mapToTransfer\<close>, as a transfer has that was read and stored before, for example by its fulfil.\<close>

theorem reject_never_settles:
  assumes up: "services_up E dir" and b: "backed_by E C docs" and cache: "transfersCache s = []"
    and c: "cmd_msgType c = COMMAND" "cmd_body c = RejectTransferCmd p"
    and known: "docs (world s) (rej_transferId p) = Some t" "transferId t = rej_transferId p" "rej_transferId p \<noteq> []"
    and checks: "checksOf dir t = Inr a"
  shows "\<exists>s' u t'. processCommandBatch E [c] s = (Pending, s') \<and>
     unhandled s' = unhandled s @ [OtherError ''UnableToBulkInsertTransfersError''] \<and>
     abCancelationBatchRequests s' = [cancelRequest (mapToTransfer t) a u] \<and>
     grants_all (abCancelationBatchRequests s') (abBatchResponses s') \<and>
     docs (world s') = (docs (world s))(rej_transferId p \<mapsto> t') \<and> transferState t' = ABORTED"
proof -
  let ?tid = "rej_transferId p"
  define sb where "sb = (resetBatch s)\<lparr>batchCommands := registerCommand c (batchCommands (resetBatch s))\<rparr>"
  have sb: "abBatchRequests sb = []" "abCancelationBatchRequests sb = []" "world sb = world s" "transfersCache sb = []"
    "unhandled sb = unhandled s"
    using cache by (simp_all add: sb_def resetBatch_def)
  obtain s1 u where run: "rejectTransfer E c p sb = (Inr (), s1)" and s1: "transfersCache s1 = [(Some ?tid, tnext sb)]"
      "docs (world s1) = (docs (world s))(?tid \<mapsto> theap s1 (tnext sb))" "transferId (theap s1 (tnext sb)) = ?tid"
      "transferState (theap s1 (tnext sb)) = ABORTED" "abBatchRequests s1 = []" "unhandled s1 = unhandled s"
      "abCancelationBatchRequests s1 = [cancelRequest (mapToTransfer t) a u]"
    using reject_backed [OF up b sb(4) _ known(2,3) checks, of c] known(1) sb
    by (cases "rejectTransfer E c p sb") (auto simp: wp_def)
  let ?q = "cancelRequest (mapToTransfer t) a u" and ?t = "theap s1 (tnext sb)"
  have run1: "runCommands E [c] (resetBatch s) = (Inr (), s1)"
    using single_run [OF c(1), of E "resetBatch s"] c(2) run by (simp add: dispatchCommand_def sb_def)
  obtain rsps w where ab: "ab_processHighLevelBatch E [?q] (world s1) = (Inr rsps, w)" and g: "grants_all [?q] rsps"
    using services_upD(4) [OF up] by blast
  have dw: "docs w = (docs (world s))(?tid \<mapsto> ?t)"
    using backed_byD(5) [OF b, of "[?q]" "world s1"] ab s1(2) by simp
  let ?s2 = "s1\<lparr>world := w, abBatchResponses := rsps\<rparr>"
  have "runRequests E s1 = (Inr (), s1)"
    using s1(5) by (simp add: runRequests_def run_steps) (simp add: ret_def)
  moreover have "runCancelations E s1 = (Inr (), ?s2)"
    using s1(7) ab by (simp add: runCancelations_def setResponses_def run_simps call_def)
  ultimately have body: "batchBody E [c] (resetBatch s) = (Inr (), ?s2)"
    using run1 by (simp add: batchBody_def andThen_def)
  have "fst (mongo_storeTransfers C [?t] w) = Inl (OtherError ''UnableToBulkInsertTransfersError'')"
    using storeTransfers_answer [OF honestD(1) [OF backed_byD(1) [OF b]], of "[?t]" w] dw s1(3) by simp
  moreover have "docs (snd (mongo_storeTransfers C [?t] w)) = (docs (world s))(?tid \<mapsto> ?t)"
    using mongo_store(2) [OF backed_byD(1) [OF b], of "[?t]" w] dw s1(3) by (simp add: put_all_def)
  ultimately obtain w' where store: "mongo_storeTransfers C [?t] w = (Inl (OtherError ''UnableToBulkInsertTransfersError''), w')"
    and dw': "docs w' = (docs (world s))(?tid \<mapsto> ?t)"
    by (cases "mongo_storeTransfers C [?t] w") simp
  have "batchFinally E ?s2 = (Inl (OtherError ''UnableToBulkInsertTransfersError''), ?s2\<lparr>world := w'\<rparr>)"
    using s1(1) store by (simp add: batchFinally_def flush_def run_simps call_def backed_byD(4) [OF b])
  then have "processCommandBatch E [c] s = (Pending, (?s2\<lparr>world := w'\<rparr>)\<lparr>unhandled := unhandled s @
      [OtherError ''UnableToBulkInsertTransfersError'']\<rparr>)"
    using body s1(6) by (simp add: processCommandBatch_def)
  with s1(4,7) g dw' show ?thesis by (intro exI [of _ "(?s2\<lparr>world := w'\<rparr>)\<lparr>unhandled := unhandled s @
      [OtherError ''UnableToBulkInsertTransfersError'']\<rparr>"] exI [of _ u] exI [of _ ?t]) simp
qed

end
