(* ===== verification/Life_Cycle_Witnesses.thy ===== *)
theory Life_Cycle_Witnesses
  imports Pipeline_Witnesses Life_Cycle
begin

text \<open>The theorems on the aggregate over MongoDB, applied to the sample platform with the sample collection.\<close>

definition backedEnv :: "sample_world env" where
  "backedEnv = E0\<lparr>repo_getTransferById := mongo_getTransferById sampleCollection,
     repo_updateTransfer := mongo_updateTransfer sampleCollection, repo_storeTransfers := mongo_storeTransfers sampleCollection\<rparr>"

lemma backed_sample: "backed_by backedEnv sampleCollection sampleDocs"
  unfolding backed_by_def
proof (intro conjI allI)
  show "honest sampleCollection sampleDocs" by (rule sample_honest)
  show "leaves sampleDocs (repo_getTransferById backedEnv x)" for x
    by (auto simp: leaves_def backedEnv_def mongo_getTransferById_def catchAs_def run_simps sampleCollection_def
        split: option.split)
qed (simp_all add: leaves_def backedEnv_def sampleEnv_def)

lemma backed_services: "services_up backedEnv sampleDirectory"
  using healthy_up [OF fresh_healthy] by (simp add: services_up_def stable_directory_def backedEnv_def freshEnv_def)

lemma sample_amount: "amount (newTransferOf c samplePrepare hsh model m) = ''10''"
  by (simp add: newTransferOf_def samplePrepare_def)

lemma transfer_life_cycle_witness:
  "\<exists>s1 s2 t. processCommandBatch backedEnv [prepareMsg] (emptyState 1) = (Resolved, s1) \<and>
     processCommandBatch backedEnv [fulfilMsg] s1 = (Resolved, s2) \<and>
     sampleDocs (world s2) ''t1'' = Some t \<and> transferState t = COMMITTED \<and> amount t = ''10''"
proof -
  have c: "cmd_msgType prepareMsg = COMMAND" "cmd_body prepareMsg = PrepareTransferCmd samplePrepare"
    "\<not> truthy (prep_bulkTransferId samplePrepare)"
    and c': "cmd_msgType fulfilMsg = COMMAND" "cmd_body fulfilMsg = CommitTransferFulfilCmd sampleFulfil"
      "ful_transferId sampleFulfil = prep_transferId samplePrepare"
    by (simp_all add: sampleMsg_def samplePrepare_def sampleFulfil_def)
  have new: "sampleDocs (world (emptyState 1)) (prep_transferId samplePrepare) = None"
    by (simp add: emptyState_def initAgg_def mem_getTransferById_def)
  have checks: "checksOf sampleDirectory (newTransferOf prepareMsg samplePrepare [] [] 0) = Inr sampleAccountsOf"
    using sample_checks [of RECEIVED] checksOf_cong [of "newTransferOf prepareMsg samplePrepare [] [] 0" "sampleTransfer RECEIVED"]
    by (simp add: newTransferOf_def samplePrepare_def sampleTransfer_def)
  have acc: "acceptable backedEnv fulfilMsg (mapToTransfer (newTransferOf prepareMsg samplePrepare [] [] 0))"
    by (simp add: acceptable_def sampleMsg_def)
  have cache: "transfersCache (emptyState 1) = []" by simp
  from transfer_life_cycle [OF backed_services backed_sample cache c c' new checks acc]
  obtain s1 s2 t1 t2 model m where "processCommandBatch backedEnv [prepareMsg] (emptyState 1) = (Resolved, s1)"
    "processCommandBatch backedEnv [fulfilMsg] s1 = (Resolved, s2)"
    "sampleDocs (world s2) = (sampleDocs (world (emptyState 1)))(prep_transferId samplePrepare \<mapsto> t2)"
    "transferState t2 = COMMITTED" and same: "terms t2 = terms t1"
    and t1: "terms t1 = terms (newTransferOf prepareMsg samplePrepare (prepareHash backedEnv samplePrepare) model m)"
    by blast
  moreover have "amount (terms t) = amount t" for t by (simp add: terms_def)
  then have "amount t2 = ''10''"
    using same t1 by (metis (full_types) sample_amount)
  moreover have "prep_transferId samplePrepare = ''t1''" by (simp add: samplePrepare_def)
  ultimately show ?thesis by auto
qed

lemma reject_never_settles_witness:
  "\<exists>s' t'. processCommandBatch backedEnv [rejectMsg] (initAgg \<lparr>sw_clock = 1, sw_docs = [sampleTransfer COMMITTED]\<rparr>) = (Pending, s') \<and>
     sampleDocs (world s') ''t1'' = Some t' \<and> transferState t' = ABORTED \<and> length (abCancelationBatchRequests s') = 1"
proof -
  let ?s = "initAgg \<lparr>sw_clock = 1, sw_docs = [sampleTransfer COMMITTED]\<rparr> :: sample_world agg"
  have c: "cmd_msgType rejectMsg = COMMAND" "cmd_body rejectMsg = RejectTransferCmd sampleReject"
    and known: "sampleDocs (world ?s) (rej_transferId sampleReject) = Some (sampleTransfer COMMITTED)"
      "transferId (sampleTransfer COMMITTED) = rej_transferId sampleReject" "rej_transferId sampleReject \<noteq> []"
    and cache: "transfersCache ?s = []" and id: "rej_transferId sampleReject = ''t1''"
    by (simp_all add: sampleMsg_def sampleReject_def sampleTransfer_def initAgg_def mem_getTransferById_def)
  from reject_never_settles [OF backed_services backed_sample cache c known sample_checks] id
  show ?thesis by fastforce
qed

end
