(* ===== verification/Config.thy ===== *)
theory Config
  imports Js_Values
begin

text \<open>
  The configuration that the three services read from the environment when they are loaded (the
  constants at the top of \<open>packages/command-handler-svc/src/service.ts\<close>,
  \<open>packages/event-handler-svc/src/service.ts\<close> and \<open>packages/transfers-api-svc/src/service.ts\<close>), and the
  options of the Kafka clients built from it.
\<close>

type_synonym environment = "string \<Rightarrow> string option"

datatype service = CommandHandlerSvc | EventHandlerSvc | TransfersApiSvc

section \<open>Settings\<close>

text \<open>\<open>process.env[name] || value\<close>\<close>

definition setting :: "environment \<Rightarrow> string \<Rightarrow> string \<Rightarrow> string" where
  "setting env name value = (if truthy (env name) then the (env name) else value)"

text \<open>\<open>(process.env[name] && parseInt(process.env[name])) || value\<close>\<close>

definition number_setting :: "environment \<Rightarrow> string \<Rightarrow> int \<Rightarrow> js_number" where
  "number_setting env name value =
     (if truthy (env name) \<and> number_truthy (Some (parseInt (the (env name)))) then parseInt (the (env name))
      else Num value)"

text \<open>\<open>toUpperCase\<close>, of the letters of ASCII.\<close>

definition upper :: "char \<Rightarrow> char" where
  "upper c = (let n = of_char c :: nat in if 97 \<le> n \<and> n \<le> 122 then char_of (n - 32) else c)"

definition PRODUCTION_MODE :: "environment \<Rightarrow> bool" where
  "PRODUCTION_MODE env \<longleftrightarrow> truthy (env ''PRODUCTION_MODE'')"

definition KAFKA_AUTH_ENABLED :: "environment \<Rightarrow> bool" where
  "KAFKA_AUTH_ENABLED env \<longleftrightarrow>
     truthy (env ''KAFKA_AUTH_ENABLED'') \<and> map upper (the (env ''KAFKA_AUTH_ENABLED'')) = ''TRUE''"

fun APP_NAME :: "service \<Rightarrow> string" where
  "APP_NAME CommandHandlerSvc = ''command-handler-svc''"
| "APP_NAME EventHandlerSvc = ''event-handler-svc''"
| "APP_NAME TransfersApiSvc = ''transfers-api-svc''"

fun SVC_CLIENT_ID :: "environment \<Rightarrow> service \<Rightarrow> string" where
  "SVC_CLIENT_ID env CommandHandlerSvc = setting env ''SVC_CLIENT_ID'' ''transfers-bc-command-handler-svc''"
| "SVC_CLIENT_ID env EventHandlerSvc = setting env ''SVC_CLIENT_ID'' ''transfers-bc-event-handler-svc''"
| "SVC_CLIENT_ID env TransfersApiSvc = setting env ''SVC_CLIENT_ID'' ''transfers-bc-api-svc''"

definition SERVICE_START_TIMEOUT_MS :: "environment \<Rightarrow> js_number" where
  "SERVICE_START_TIMEOUT_MS env = number_setting env ''SERVICE_START_TIMEOUT_MS'' 60000"

definition PARTICIPANTS_CACHE_TIMEOUT_MS :: "environment \<Rightarrow> js_number" where
  "PARTICIPANTS_CACHE_TIMEOUT_MS env = number_setting env ''PARTICIPANTS_CACHE_TIMEOUT_MS'' (30 * 1000)"

text \<open>The batches of the two handlers; the API consumes none.\<close>

fun CONSUMER_BATCH_SIZE :: "environment \<Rightarrow> service \<Rightarrow> js_number option" where
  "CONSUMER_BATCH_SIZE env CommandHandlerSvc = Some (number_setting env ''CONSUMER_BATCH_SIZE'' 100)"
| "CONSUMER_BATCH_SIZE env EventHandlerSvc = Some (number_setting env ''CONSUMER_BATCH_SIZE'' 50)"
| "CONSUMER_BATCH_SIZE env TransfersApiSvc = None"

fun CONSUMER_BATCH_TIMEOUT_MS :: "environment \<Rightarrow> service \<Rightarrow> js_number option" where
  "CONSUMER_BATCH_TIMEOUT_MS env CommandHandlerSvc = Some (number_setting env ''CONSUMER_BATCH_TIMEOUT_MS'' 100)"
| "CONSUMER_BATCH_TIMEOUT_MS env EventHandlerSvc = Some (number_setting env ''CONSUMER_BATCH_TIMEOUT_MS'' 50)"
| "CONSUMER_BATCH_TIMEOUT_MS env TransfersApiSvc = None"

section \<open>Kafka\<close>

record kafka_authentication =
  ka_protocol :: string
  ka_mechanism :: string
  ka_username :: string
  ka_password :: string

definition kafkaAuthentication :: "environment \<Rightarrow> kafka_authentication option" where
  "kafkaAuthentication env =
     (if KAFKA_AUTH_ENABLED env then
        Some \<lparr>ka_protocol = setting env ''KAFKA_AUTH_PROTOCOL'' ''sasl_plaintext'',
              ka_mechanism = setting env ''KAFKA_AUTH_MECHANISM'' ''plain'',
              ka_username = setting env ''KAFKA_AUTH_USERNAME'' ''user'',
              ka_password = setting env ''KAFKA_AUTH_PASSWORD'' ''password''\<rparr>
      else None)"

record kafka_producer_options =
  kp_brokerList :: string
  kp_clientId :: string
  kp_authentication :: "kafka_authentication option"

record kafka_consumer_options =
  kc_brokerList :: string
  kc_groupId :: string
  kc_batchSize :: "js_number option"
  kc_batchTimeoutMs :: "js_number option"
  kc_authentication :: "kafka_authentication option"

definition INSTANCE_NAME :: "service \<Rightarrow> string" where
  "INSTANCE_NAME svc = ''transfers-bc_'' @ APP_NAME svc"

text \<open>The instance identifier ends in a random UUID.\<close>

definition INSTANCE_ID :: "service \<Rightarrow> string \<Rightarrow> string" where
  "INSTANCE_ID svc uuid = INSTANCE_NAME svc @ ''__'' @ uuid"

definition KAFKA_URL :: "environment \<Rightarrow> string" where
  "KAFKA_URL env = setting env ''KAFKA_URL'' ''localhost:9092''"

definition kafkaProducerCommonOptions :: "environment \<Rightarrow> service \<Rightarrow> string \<Rightarrow> kafka_producer_options" where
  "kafkaProducerCommonOptions env svc uuid =
     \<lparr>kp_brokerList = KAFKA_URL env, kp_clientId = INSTANCE_ID svc uuid, kp_authentication = kafkaAuthentication env\<rparr>"

text \<open>The consumer of the commands or events: its group is shared by all the instances of the service.\<close>

definition kafkaConsumerOptions :: "environment \<Rightarrow> service \<Rightarrow> kafka_consumer_options" where
  "kafkaConsumerOptions env svc =
     \<lparr>kc_brokerList = KAFKA_URL env, kc_groupId = INSTANCE_NAME svc,
      kc_batchSize = CONSUMER_BATCH_SIZE env svc, kc_batchTimeoutMs = CONSUMER_BATCH_TIMEOUT_MS env svc,
      kc_authentication = kafkaAuthentication env\<rparr>"

text \<open>The consumers of the clients of the other services: a group of its own for every instance.\<close>

definition clientConsumerOptions :: "environment \<Rightarrow> service \<Rightarrow> string \<Rightarrow> string \<Rightarrow> kafka_consumer_options" where
  "clientConsumerOptions env svc uuid suffix =
     \<lparr>kc_brokerList = KAFKA_URL env, kc_groupId = INSTANCE_ID svc uuid @ suffix,
      kc_batchSize = None, kc_batchTimeoutMs = None, kc_authentication = kafkaAuthentication env\<rparr>"

section \<open>What the configuration guarantees\<close>

text \<open>A numeric setting is never \<open>NaN\<close>, infinite or \<open>0\<close>: a text that is not a number or is zero gives the
  default, any other integer, also a negative one, is taken as it is.\<close>

theorem number_setting_value:
  assumes "value \<noteq> 0"
  shows "number_setting env name value \<in> Num ` (- {0}) \<and>
     (env name = Some (int_string i) \<longrightarrow> number_setting env name value = Num (if i = 0 then value else i))"
proof -
  have "parseInt s \<in> Num ` (- {0})" if "number_truthy (Some (parseInt s))" for s
    using that parseInt_finite [of s] by (auto simp: number_truthy_def)
  then have "number_setting env name value \<in> Num ` (- {0})"
    using assms by (auto simp: number_setting_def)
  moreover have "int_string i \<noteq> []"
    using decimal_digits [of "nat i"] by (simp add: int_string_def)
  ultimately show ?thesis
    by (auto simp: number_setting_def parseInt_int_string number_truthy_def)
qed

text \<open>Every Kafka client of a service authenticates, with the same credentials, or none does: they do
  exactly when \<open>KAFKA_AUTH_ENABLED\<close> is the word \<open>true\<close> in letters of any case; and two instances of a
  service share the group of the commands but none of the groups of their clients.\<close>

theorem kafka_clients_agree:
  assumes "uuid \<noteq> uuid'"
  shows "kp_authentication (kafkaProducerCommonOptions env svc uuid) = kc_authentication (kafkaConsumerOptions env svc) \<and>
     kc_authentication (clientConsumerOptions env svc uuid suffix) = kc_authentication (kafkaConsumerOptions env svc) \<and>
     (kc_authentication (kafkaConsumerOptions env svc) \<noteq> None \<longleftrightarrow>
        map_option (map upper) (env ''KAFKA_AUTH_ENABLED'') = Some ''TRUE'') \<and>
     kc_groupId (clientConsumerOptions env svc uuid suffix) \<noteq> kc_groupId (clientConsumerOptions env svc uuid' suffix)"
  using assms
  by (cases "env ''KAFKA_AUTH_ENABLED''")
     (auto simp: kafkaProducerCommonOptions_def kafkaConsumerOptions_def clientConsumerOptions_def
        kafkaAuthentication_def KAFKA_AUTH_ENABLED_def INSTANCE_ID_def)

end
