(* ===== verification/Api.thy ===== *)
theory Api
  imports Repository_Properties
begin

text \<open>
  The administration API: \<open>BaseRoutes\<close> and \<open>TransferAdminExpressRoutes\<close>
  (\<open>packages/transfers-api-svc/src/routes\<close>).  A request passes the authentication middleware and then
  the handler of its route; the answer is a value.  The token helper and the authorization client are
  external; the repositories are those of \<open>Repositories\<close>.  A query parameter is a string or absent.
\<close>

section \<open>Requests and answers\<close>

datatype api_error = UnauthorizedError string | ForbiddenError string | Failure exn

text \<open>
  \<open>NoAnswer\<close>: the promise of the middleware rejected, and Express 4 does not look at it: nothing is sent,
  and the unhandled rejection is the \<open>Uncaught\<close> event of the process (\<open>Services\<close>).  \<open>JsonFailure\<close> carries the error whose message is sent.
\<close>

datatype response =
    SendStatus nat
  | JsonError nat string
  | JsonFailure nat exn
  | SendTransfers search_results
  | SendTransfer transfer
  | SendBulkTransfer bulk_transfer
  | SendBulkTransfers "bulk_transfer list"
  | SendKeywords "(string \<times> string list) list"
  | NoAnswer

datatype route =
    GetTransfer string
  | GetTransfers "string \<Rightarrow> string option"
  | GetBulkTransfer string
  | GetBulkTransfers
  | GetSearchKeywords

record security_context =
  platformRoleIds :: "string list"

record 'w api_env =
  token_getCallSecurityContext :: "string \<Rightarrow> 'w \<Rightarrow> (api_error + security_context option) \<times> 'w"
  auth_roleHasPrivilege :: "string \<Rightarrow> string \<Rightarrow> 'w \<Rightarrow> (api_error + bool) \<times> 'w"
  api_getTransfers :: "search_args \<Rightarrow> ('w, search_results) call"
  api_getTransferById :: "string option \<Rightarrow> ('w, transfer option) call"
  api_getBulkTransferById :: "string option \<Rightarrow> ('w, bulk_transfer option) call"
  api_getBulkTransfers :: "('w, bulk_transfer list) call"
  api_getSearchKeywords :: "('w, (string \<times> string list) list) call"

type_synonym ('w, 'a) api_action = "(api_error, 'w, 'a) action"

text \<open>A call of a repository.\<close>

definition repo :: "('w, 'a) call \<Rightarrow> ('w, 'a) api_action" where
  "repo m = (\<lambda>w. case m w of (Inl e, w') \<Rightarrow> (Inl (Failure e), w') | (Inr x, w') \<Rightarrow> (Inr x, w'))"

section \<open>Privileges\<close>

datatype TransfersPrivileges = VIEW_ALL_TRANSFERS

fun privilegeId :: "TransfersPrivileges \<Rightarrow> string" where
  "privilegeId VIEW_ALL_TRANSFERS = ''TRANSFERS_VIEW_ALL_TRANSFERS''"

definition forbidden :: "string \<Rightarrow> api_error" where
  "forbidden priv = ForbiddenError (''Caller is missing platform role with privilegeId: '' @ priv)"

text \<open>The loop over the roles of the caller, which returns at the first that has the privilege.\<close>

primrec checkRoles :: "'w api_env \<Rightarrow> string \<Rightarrow> string list \<Rightarrow> ('w, unit) api_action" where
  "checkRoles A priv [] = raise (forbidden priv)"
| "checkRoles A priv (roleId # roles) =
     andThen (auth_roleHasPrivilege A roleId priv) (\<lambda>has.
       if has then ret () else checkRoles A priv roles)"

definition enforcePrivilege :: "'w api_env \<Rightarrow> security_context \<Rightarrow> TransfersPrivileges \<Rightarrow> ('w, unit) api_action" where
  "enforcePrivilege A ctx p = checkRoles A (privilegeId p) (platformRoleIds ctx)"

text \<open>The catch block of the routes, with \<open>_handleUnauthorizedError\<close>.\<close>

fun errorResponse :: "api_error \<Rightarrow> response" where
  "errorResponse (UnauthorizedError msg) = JsonError 401 msg"
| "errorResponse (ForbiddenError msg) = JsonError 403 msg"
| "errorResponse (Failure e) = JsonFailure 500 e"

definition answering :: "('w, response) api_action \<Rightarrow> 'w \<Rightarrow> response \<times> 'w" where
  "answering m = (\<lambda>w. case m w of (Inr r, w') \<Rightarrow> (r, w') | (Inl e, w') \<Rightarrow> (errorResponse e, w'))"

section \<open>The routes\<close>

definition parsed :: "string option \<Rightarrow> js_number option" where
  "parsed v = (if truthy v then Some (parseInt (the v)) else None)"

text \<open>The arguments of a search, read from the query.\<close>

definition searchArgs :: "(string \<Rightarrow> string option) \<Rightarrow> search_args" where
  "searchArgs q =
     \<lparr>sa_state = q ''state'',
      sa_transferType = js_or (q ''transferType'') (q ''transfertype''),
      sa_payerIdType = js_or (q ''payerIdType'') (q ''payeridtype''),
      sa_payeeIdType = js_or (q ''payeeIdType'') (q ''payeeidtype''),
      sa_currency = js_or (q ''currencyCode'') (q ''currencycode''),
      sa_id = q ''id'',
      sa_payerId = js_or (q ''payerId'') (q ''payerid''),
      sa_payeeId = js_or (q ''payeeId'') (q ''payeeid''),
      sa_bulkTransferId = js_or (q ''bulkTransferId'') None,
      sa_amount = js_or (q ''amount'') None,
      sa_startDate = parsed (js_or (q ''startDate'') (q ''startdate'')),
      sa_endDate = parsed (js_or (q ''endDate'') (q ''enddate'')),
      sa_pageIndex = parsed (js_or (q ''pageIndex'') (q ''pageindex'')),
      sa_pageSize = parsed (js_or (q ''pageSize'') (q ''pagesize''))\<rparr>"

definition getAllTransfers :: "'w api_env \<Rightarrow> security_context \<Rightarrow> (string \<Rightarrow> string option) \<Rightarrow> 'w \<Rightarrow> response \<times> 'w" where
  "getAllTransfers A ctx q =
     answering
       (andThen (enforcePrivilege A ctx VIEW_ALL_TRANSFERS) (\<lambda>_.
        andThen (repo (api_getTransfers A (searchArgs q))) (\<lambda>fetched.
          ret (SendTransfers fetched))))"

definition route_getTransferById :: "'w api_env \<Rightarrow> security_context \<Rightarrow> string \<Rightarrow> 'w \<Rightarrow> response \<times> 'w" where
  "route_getTransferById A ctx i =
     answering
       (andThen (enforcePrivilege A ctx VIEW_ALL_TRANSFERS) (\<lambda>_.
        andThen (repo (api_getTransferById A (Some i))) (\<lambda>fetched.
          case fetched of
            Some t \<Rightarrow> ret (SendTransfer t)
          | None \<Rightarrow> ret (JsonError 404 ''Transfer not found''))))"

definition route_getBulkTransferById :: "'w api_env \<Rightarrow> security_context \<Rightarrow> string \<Rightarrow> 'w \<Rightarrow> response \<times> 'w" where
  "route_getBulkTransferById A ctx i =
     answering
       (andThen (enforcePrivilege A ctx VIEW_ALL_TRANSFERS) (\<lambda>_.
        andThen (repo (api_getBulkTransferById A (Some i))) (\<lambda>fetched.
          case fetched of
            Some b \<Rightarrow> ret (SendBulkTransfer b)
          | None \<Rightarrow> ret (JsonError 404 ''Bulk Transfer not found''))))"

text \<open>These two do not look at the privileges of the caller.\<close>

definition getAllBulkTransfers :: "'w api_env \<Rightarrow> 'w \<Rightarrow> response \<times> 'w" where
  "getAllBulkTransfers A =
     answering (andThen (repo (api_getBulkTransfers A)) (\<lambda>fetched. ret (SendBulkTransfers fetched)))"

definition route_getSearchKeywords :: "'w api_env \<Rightarrow> 'w \<Rightarrow> response \<times> 'w" where
  "route_getSearchKeywords A =
     answering (andThen (repo (api_getSearchKeywords A)) (\<lambda>keywords. ret (SendKeywords keywords)))"

fun handleRoute :: "'w api_env \<Rightarrow> security_context \<Rightarrow> route \<Rightarrow> 'w \<Rightarrow> response \<times> 'w" where
  "handleRoute A ctx (GetTransfer i) = route_getTransferById A ctx i"
| "handleRoute A ctx (GetTransfers q) = getAllTransfers A ctx q"
| "handleRoute A ctx (GetBulkTransfer i) = route_getBulkTransferById A ctx i"
| "handleRoute A ctx GetBulkTransfers = getAllBulkTransfers A"
| "handleRoute A ctx GetSearchKeywords = route_getSearchKeywords A"

section \<open>Authentication\<close>

text \<open>The token: the second of exactly two words; the first one, the scheme, is not looked at.\<close>

definition bearerToken :: "string option \<Rightarrow> string option" where
  "bearerToken header =
     (if truthy header then
        (case split_on CHR '' '' (trim (the header)) of
           [_, token] \<Rightarrow> Some token
         | _ \<Rightarrow> None)
      else None)"

definition authenticated :: "'w api_env \<Rightarrow> string option \<Rightarrow> (security_context \<Rightarrow> 'w \<Rightarrow> response \<times> 'w) \<Rightarrow> 'w \<Rightarrow> response \<times> 'w" where
  "authenticated A header next_handler w =
     (case bearerToken header of
        None \<Rightarrow> (SendStatus 401, w)
      | Some token \<Rightarrow>
          (case token_getCallSecurityContext A token w of
             (Inl _, w') \<Rightarrow> (NoAnswer, w')
           | (Inr None, w') \<Rightarrow> (SendStatus 401, w')
           | (Inr (Some ctx), w') \<Rightarrow> next_handler ctx w'))"

definition apiRequest :: "'w api_env \<Rightarrow> string option \<Rightarrow> route \<Rightarrow> 'w \<Rightarrow> response \<times> 'w" where
  "apiRequest A header r = authenticated A header (\<lambda>ctx. handleRoute A ctx r)"

section \<open>What the API promises\<close>

text \<open>The token of a well-formed header is read back whatever it is, and whatever the scheme.\<close>

definition word :: "string \<Rightarrow> bool" where
  "word s \<longleftrightarrow> s \<noteq> [] \<and> (\<forall>c \<in> set s. \<not> is_space c)"

lemma trim_words: "word p \<Longrightarrow> word q \<Longrightarrow> trim (p @ CHR '' '' # q) = p @ CHR '' '' # q"
proof -
  assume p: "word p" and q: "word q"
  obtain c p' where c: "p = c # p'" using p by (cases p) (auto simp: word_def)
  obtain d q' where d: "q = q' @ [d]" using q by (cases q rule: rev_cases) (auto simp: word_def)
  from p c have "\<not> is_space c" by (auto simp: word_def)
  moreover from q d have "\<not> is_space d" by (auto simp: word_def)
  ultimately show ?thesis by (simp add: trim_def c d)
qed

text \<open>The authorization header of a scheme and a token, separated by one space, yields that token; the
  scheme may be any word.\<close>

theorem bearer_round_trip:
  assumes "word scheme" and "word token"
  shows "bearerToken (Some (scheme @ CHR '' '' # token)) = Some token"
proof -
  have "is_space CHR '' ''" by (simp add: is_space_def)
  with assms have "CHR '' '' \<notin> set scheme" "CHR '' '' \<notin> set token" by (auto simp: word_def)
  then show ?thesis by (simp add: bearerToken_def trim_words [OF assms] split_on_two)
qed

text \<open>An integer written in decimal in a query parameter is the number the search is given.\<close>

theorem query_number_round_trip:
  "parsed (Some (int_string i)) = Some (Num i)"
proof -
  have "int_string i \<noteq> []"
    using decimal_digits [of "nat i"] by (simp add: int_string_def)
  then show ?thesis by (simp add: parsed_def parseInt_int_string)
qed

text \<open>The token helper accepts the token of the header.\<close>

definition admitted :: "'w api_env \<Rightarrow> string option \<Rightarrow> 'w \<Rightarrow> bool" where
  "admitted A header w \<longleftrightarrow>
     (case bearerToken header of
        None \<Rightarrow> False
      | Some token \<Rightarrow> (case fst (token_getCallSecurityContext A token w) of Inr (Some _) \<Rightarrow> True | _ \<Rightarrow> False))"

lemma authenticated_refused:
  assumes "\<not> admitted A header w"
  shows "\<exists>resp \<in> {SendStatus 401, NoAnswer}. authenticated A header k w = (resp, case bearerToken header of
        None \<Rightarrow> w
      | Some token \<Rightarrow> snd (token_getCallSecurityContext A token w))"
proof (cases "bearerToken header")
  case (Some token)
  with assms show ?thesis
    by (cases "token_getCallSecurityContext A token w")
       (auto simp: authenticated_def admitted_def split: sum.splits option.splits)
qed (simp add: authenticated_def)

text \<open>A request without a token that the token helper accepts is never given any data: it is answered
  with 401, or not at all when the token helper fails, and no repository is called, since nothing but
  the token helper has acted on the world.\<close>

theorem unauthenticated_refused:
  assumes "\<not> admitted A header w"
  shows "fst (apiRequest A header r w) \<in> {SendStatus 401, NoAnswer} \<and>
     snd (apiRequest A header r w) = (case bearerToken header of
        None \<Rightarrow> w
      | Some token \<Rightarrow> snd (token_getCallSecurityContext A token w))"
  unfolding apiRequest_def using authenticated_refused [OF assms, where k = "\<lambda>ctx. handleRoute A ctx r"] by auto

lemma checkRoles_granted:
  "checkRoles A priv roles w = (Inr (), w') \<Longrightarrow>
   \<exists>roleId \<in> set roles. \<exists>w1 w2. auth_roleHasPrivilege A roleId priv w1 = (Inr True, w2)"
  by (induction roles arbitrary: w) (auto simp: run_simps split: prod.splits sum.splits if_splits)

lemma answering_sent:
  "fst (answering (andThen (enforcePrivilege A ctx p) k) w) = resp \<Longrightarrow> (\<And>e. resp \<noteq> errorResponse e) \<Longrightarrow>
   \<exists>w'. enforcePrivilege A ctx p w = (Inr (), w')"
  by (auto simp: answering_def andThen_def split: prod.splits sum.splits)

definition transfer_data :: "response \<Rightarrow> bool" where
  "transfer_data resp \<longleftrightarrow> (case resp of
     SendTransfers _ \<Rightarrow> True | SendTransfer _ \<Rightarrow> True | SendBulkTransfer _ \<Rightarrow> True | _ \<Rightarrow> False)"

lemma not_data [simp]: "\<not> transfer_data (errorResponse e)" "\<not> transfer_data (SendStatus n)" "\<not> transfer_data NoAnswer"
  "\<not> transfer_data (SendBulkTransfers bs)" "\<not> transfer_data (SendKeywords ks)"
  by (cases e) (simp_all add: transfer_data_def)


text \<open>But the list of all bulk transfers and the search keywords are sent to every caller with an accepted
  token, whatever its roles are.\<close>

theorem bulk_list_needs_no_privilege:
  assumes "bearerToken header = Some token" and "token_getCallSecurityContext A token w = (Inr (Some ctx), w1)"
    and "api_getBulkTransfers A w1 = (Inr bs, w2)" and "api_getSearchKeywords A w1 = (Inr ks, w3)"
  shows "apiRequest A header GetBulkTransfers w = (SendBulkTransfers bs, w2) \<and>
     apiRequest A header GetSearchKeywords w = (SendKeywords ks, w3)"
  using assms
  by (simp add: apiRequest_def authenticated_def getAllBulkTransfers_def route_getSearchKeywords_def answering_def repo_def run_simps)

text \<open>The answers of a handler: data, or an error with its status.\<close>

fun handler_answer :: "response \<Rightarrow> bool" where
  "handler_answer (JsonError n _) = (n \<in> {401, 403, 404})"
| "handler_answer (JsonFailure n _) = (n = 500)"
| "handler_answer (SendStatus _) = False"
| "handler_answer NoAnswer = False"
| "handler_answer _ = True"

lemma handler_answer_error [simp]: "handler_answer (errorResponse e)"
  by (cases e) simp_all

text \<open>Every request with an accepted token is answered, whatever the authorization client and the
  repositories do: with data, or with an error and the status 401, 403, 404 or 500.\<close>

theorem authenticated_answered:
  assumes "bearerToken header = Some token" and "token_getCallSecurityContext A token w = (Inr (Some ctx), w1)"
  shows "handler_answer (fst (apiRequest A header r w))"
proof -
  have "handler_answer (fst (handleRoute A ctx r w1))"
    by (cases r)
       (auto simp: getAllTransfers_def route_getTransferById_def route_getBulkTransferById_def getAllBulkTransfers_def
          route_getSearchKeywords_def answering_def andThen_def ret_def split: prod.split sum.split option.split)
  with assms show ?thesis by (simp add: apiRequest_def authenticated_def)
qed

section \<open>The bounds of a page\<close>

lemma parsed_finite: "parsed v = Some n \<Longrightarrow> n \<in> {NaN} \<union> range Num"
  using parseInt_finite by (auto simp: parsed_def split: if_splits)

definition requestedPageSize :: "(string \<Rightarrow> string option) \<Rightarrow> js_number option" where
  "requestedPageSize q = parsed (js_or (q ''pageSize'') (q ''pagesize''))"

lemma search_sizes:
  assumes "mongo_getTransfers countDocuments findPage (searchArgs q) c = (Inr res, c')"
  shows "sr_pageSize res = (case requestedPageSize q of None \<Rightarrow> Num 100 | Some n \<Rightarrow> js_min n 100)"
    and "sr_pageIndex res \<noteq> Infinity"
proof -
  show "sr_pageSize res = (case requestedPageSize q of None \<Rightarrow> Num 100 | Some n \<Rightarrow> js_min n 100)"
    using getTransfers_result(1) [OF assms]
    by (simp add: searchArgs_def requestedPageSize_def MAX_ENTRIES_PER_PAGE_def split: option.split)
  have "js_max n 0 \<noteq> Infinity" if "parsed v = Some n" for v n
    using parsed_finite [OF that] by auto
  then show "sr_pageIndex res \<noteq> Infinity"
    using getTransfers_result(2) [OF assms] by (simp add: searchArgs_def split: option.split)
qed

text \<open>C22: the page of transfers that the API sends is asked of the database with a limit of at most 100, or
  \<open>NaN\<close> when the page size is not a number, and from a page that is not negative or \<open>NaN\<close>; the limit is 0,
  which MongoDB takes for no limit, exactly when the request asks for a page size of 0.\<close>

theorem page_bounds:
  assumes "api_getTransfers A = mongo_getTransfers countDocuments findPage"
    and "getAllTransfers A ctx q w = (SendTransfers res, w')"
  shows "sr_pageSize res \<in> {NaN} \<union> Num ` {..100} \<and> sr_pageIndex res \<in> {NaN} \<union> Num ` {0..} \<and>
     (sr_pageSize res = Num 0 \<longleftrightarrow> requestedPageSize q = Some (Num 0)) \<and>
     (\<exists>c1 c2. findPage (searchFilter (searchArgs q)) (js_mult (sr_pageIndex res) (sr_pageSize res)) (sr_pageSize res) c1
        = (Inr (sr_items res), c2))"
proof -
  obtain c c' where run: "mongo_getTransfers countDocuments findPage (searchArgs q) c = (Inr res, c')"
    using assms by (auto simp: getAllTransfers_def answering_def andThen_def repo_def ret_def
        split: prod.splits sum.splits elim: errorResponse.elims)
  have finite: "js_min n 100 \<in> {NaN} \<union> Num ` {..100} \<and> (js_min n 100 = Num 0 \<longleftrightarrow> n = Num 0)"
    if "requestedPageSize q = Some n" for n
    using that parsed_finite [of "js_or (q ''pageSize'') (q ''pagesize'')" n] by (auto simp: requestedPageSize_def)
  have "sr_pageSize res \<in> {NaN} \<union> Num ` {..100} \<and> (sr_pageSize res = Num 0 \<longleftrightarrow> requestedPageSize q = Some (Num 0))"
    using search_sizes(1) [OF run] finite by (cases "requestedPageSize q") auto
  moreover from search_paging [OF run] search_sizes(2) [OF run]
  have "sr_pageIndex res \<in> {NaN} \<union> Num ` {0..}" by auto
  moreover from search_paging [OF run]
  have "\<exists>c1 c2. findPage (searchFilter (searchArgs q)) (js_mult (sr_pageIndex res) (sr_pageSize res)) (sr_pageSize res) c1
        = (Inr (sr_items res), c2)" by blast
  ultimately show ?thesis by blast
qed

end
