(* ===== verification/Services.thy ===== *)
theory Services
  imports Config Api
begin

text \<open>
  The life of a service process: \<open>Service.start\<close>, \<open>Service.stop\<close> and the handlers of the process events
  in the \<open>service.ts\<close> of \<open>command-handler-svc\<close>, \<open>event-handler-svc\<close> and \<open>transfers-api-svc\<close>, with the
  call in \<open>index.ts\<close>.  Starting and stopping are sequences of awaited steps on components; each step may
  succeed, fail, or not end.  A signal starts a stop routine beside whatever is running, so the process
  is a step relation on its state.  Node 20 turns a rejected promise that nobody handles into an
  uncaught exception.
\<close>

section \<open>Components and steps\<close>

datatype component =
    Logger | ConfigClient | AuthorizationClient | AuditClient | MessageConsumer | MessageProducer
  | TransfersRepo | BulkTransfersRepo | ParticipantService | AccountsBalances | Metrics | Settlements
  | Scheduling | FspiopValidator | Aggregate | TokenHelper | Handler | ExpressServer

datatype operation = Init | Bootstrap | Fetch | Connect | Start | Listen

text \<open>An assignment to a static field of \<open>Service\<close>, an awaited call, and the look at the audit key.\<close>

datatype boot_step = Assign component | Perform component operation | CheckAuditKey

text \<open>\<open>if (!c) { create c; await its operations } this.c = c\<close>; \<open>given\<close> are the components passed to \<open>start\<close>.\<close>

definition provide :: "(component \<Rightarrow> bool) \<Rightarrow> component \<Rightarrow> operation list \<Rightarrow> boot_step list" where
  "provide given c ops = (if given c then [] else map (Perform c) ops) @ [Assign c]"

definition provideAudit :: "(component \<Rightarrow> bool) \<Rightarrow> boot_step list" where
  "provideAudit given = (if given AuditClient then [] else [CheckAuditKey, Perform AuditClient Init]) @ [Assign AuditClient]"

definition startCommandHandler :: "(component \<Rightarrow> bool) \<Rightarrow> boot_step list" where [simp]:
  "startCommandHandler given =
     provide given Logger [Init] @
     [Assign ConfigClient, Perform ConfigClient Init, Perform ConfigClient Bootstrap, Perform ConfigClient Fetch] @
     provide given AuthorizationClient [Bootstrap, Fetch, Init] @
     provideAudit given @
     provide given MessageConsumer [] @
     provide given MessageProducer [Connect] @
     provide given TransfersRepo [Init] @
     provide given BulkTransfersRepo [Init] @
     provide given ParticipantService [] @
     provide given AccountsBalances [Init] @
     provide given Metrics [] @
     provide given Settlements [Init] @
     provide given Scheduling [] @
     provide given FspiopValidator [] @
     provide given Aggregate [] @
     [Assign Handler, Perform Handler Start, Assign ExpressServer, Perform ExpressServer Listen]"

definition startEventHandler :: "(component \<Rightarrow> bool) \<Rightarrow> boot_step list" where [simp]:
  "startEventHandler given =
     provide given Logger [Init] @
     [Assign ConfigClient, Perform ConfigClient Init] @
     provideAudit given @
     provide given MessageConsumer [] @
     provide given MessageProducer [] @
     provide given Metrics [] @
     [Assign Handler, Perform Handler Start, Assign ExpressServer, Perform ExpressServer Listen]"

definition startApi :: "(component \<Rightarrow> bool) \<Rightarrow> boot_step list" where [simp]:
  "startApi given =
     provide given Logger [Init] @
     provideAudit given @
     provide given TransfersRepo [Init] @
     provide given BulkTransfersRepo [Init] @
     provide given AuthorizationClient [Fetch, Init] @
     [Assign TokenHelper, Perform TokenHelper Init] @
     provide given Metrics [] @
     [Assign ExpressServer, Perform ExpressServer Listen]"

fun startPlan :: "(component \<Rightarrow> bool) \<Rightarrow> service \<Rightarrow> boot_step list" where
  "startPlan given CommandHandlerSvc = startCommandHandler given"
| "startPlan given EventHandlerSvc = startEventHandler given"
| "startPlan given TransfersApiSvc = startApi given"

text \<open>The fields that \<open>stop\<close> looks at, in its order.\<close>

definition stopCommandHandler :: "component list" where [simp]:
  "stopCommandHandler =
     [ExpressServer, Handler, MessageConsumer, MessageProducer, ConfigClient, AuditClient, Logger]"

definition stopEventHandler :: "component list" where [simp]:
  "stopEventHandler =
     [ExpressServer, Handler, MessageConsumer, MessageProducer, ConfigClient, AuditClient, Logger]"

definition stopApi :: "component list" where [simp]:
  "stopApi = [ExpressServer, AuditClient, TransfersRepo, BulkTransfersRepo, Logger]"

fun stopPlan :: "service \<Rightarrow> component list" where
  "stopPlan CommandHandlerSvc = stopCommandHandler"
| "stopPlan EventHandlerSvc = stopEventHandler"
| "stopPlan TransfersApiSvc = stopApi"

section \<open>The process\<close>

text \<open>The code given to \<open>process.exit\<close> (the system keeps its last 8 bits), or \<open>process.abort\<close>.\<close>

datatype status = Running | Exited int | Aborted

text \<open>
  \<open>booting\<close>: what \<open>start\<close> has still to do; \<open>present\<close>: the assigned fields; \<open>opened\<close>: the components on
  which a call was completed; \<open>stops\<close>: what each running stop routine has still to look at; \<open>torn\<close>: the
  components torn down, in order.
\<close>

record process =
  status :: status
  booting :: "boot_step list"
  present :: "component set"
  opened :: "component set"
  stops :: "component list list"
  torn :: "component list"

record boot_env =
  be_service :: service
  be_injected :: "component \<Rightarrow> bool"
  be_production :: bool
  be_auditKeyExists :: bool

definition launch :: "boot_env \<Rightarrow> process" where
  "launch B = \<lparr>status = Running, booting = startPlan (be_injected B) (be_service B), present = {}, opened = {},
     stops = [], torn = []\<rparr>"

fun performed :: "boot_step \<Rightarrow> process \<Rightarrow> process" where
  "performed (Assign c) p = p\<lparr>present := insert c (present p)\<rparr>"
| "performed (Perform c _) p = p\<lparr>opened := insert c (opened p)\<rparr>"
| "performed CheckAuditKey p = p"

text \<open>Only an assignment cannot fail.\<close>

fun fallible :: "boot_step \<Rightarrow> bool" where
  "fallible (Assign _) = False"
| "fallible _ = True"

text \<open>What the conditions of \<open>stop\<close> say of a field; the logger is torn down only if it is a \<open>KafkaLogger\<close>,
  which one that was given to \<open>start\<close> is taken not to be.\<close>

definition tearable :: "boot_env \<Rightarrow> component set \<Rightarrow> component \<Rightarrow> bool" where
  "tearable B fs c \<longleftrightarrow> c \<in> fs \<and> (c = Logger \<longrightarrow> \<not> be_injected B Logger)"

text \<open>The timer of the signal handler: the command and event handlers abort, the API exits with 99.\<close>

fun graceEnd :: "service \<Rightarrow> status" where
  "graceEnd TransfersApiSvc = Exited 99"
| "graceEnd _ = Aborted"

datatype proc_event = Boot | BootFails | StartTimeout | Signal | Teardown | TeardownFails | StopReturns | GraceTimer | Uncaught

inductive proc_step :: "boot_env \<Rightarrow> proc_event \<Rightarrow> process \<Rightarrow> process \<Rightarrow> bool" for B where
  boot: "\<lbrakk>status p = Running; booting p = b # rest; b = CheckAuditKey \<longrightarrow> be_auditKeyExists B \<or> \<not> be_production B\<rbrakk>
    \<Longrightarrow> proc_step B Boot p (performed b (p\<lparr>booting := rest\<rparr>))"
| no_key: "\<lbrakk>status p = Running; booting p = CheckAuditKey # rest; \<not> be_auditKeyExists B; be_production B\<rbrakk>
    \<Longrightarrow> proc_step B Boot p (p\<lparr>status := Exited 9\<rparr>)"
| boot_fails: "\<lbrakk>status p = Running; booting p = b # rest; fallible b\<rbrakk>
    \<Longrightarrow> proc_step B BootFails p (p\<lparr>status := Exited 999\<rparr>)"
| start_timeout: "\<lbrakk>status p = Running; booting p \<noteq> []\<rbrakk>
    \<Longrightarrow> proc_step B StartTimeout p (p\<lparr>status := Exited 999\<rparr>)"
| signal: "status p = Running
    \<Longrightarrow> proc_step B Signal p (p\<lparr>stops := stops p @ [stopPlan (be_service B)]\<rparr>)"
| teardown: "\<lbrakk>status p = Running; stops p = xs @ (c # cs) # ys; tearable B (present p) c\<rbrakk>
    \<Longrightarrow> proc_step B Teardown p (p\<lparr>stops := xs @ cs # ys, torn := torn p @ [c]\<rparr>)"
| skip: "\<lbrakk>status p = Running; stops p = xs @ (c # cs) # ys; \<not> tearable B (present p) c\<rbrakk>
    \<Longrightarrow> proc_step B Teardown p (p\<lparr>stops := xs @ cs # ys\<rparr>)"
| teardown_fails: "\<lbrakk>status p = Running; stops p = xs @ (c # cs) # ys; tearable B (present p) c\<rbrakk>
    \<Longrightarrow> proc_step B TeardownFails p (p\<lparr>status := Exited 999\<rparr>)"
| stop_returns: "\<lbrakk>status p = Running; [] \<in> set (stops p)\<rbrakk>
    \<Longrightarrow> proc_step B StopReturns p (p\<lparr>status := Exited 0\<rparr>)"
| grace_timer: "\<lbrakk>status p = Running; stops p \<noteq> []\<rbrakk>
    \<Longrightarrow> proc_step B GraceTimer p (p\<lparr>status := graceEnd (be_service B)\<rparr>)"
| uncaught: "status p = Running
    \<Longrightarrow> proc_step B Uncaught p (p\<lparr>status := Exited 999\<rparr>)"

inductive runs :: "boot_env \<Rightarrow> process \<Rightarrow> proc_event list \<Rightarrow> process \<Rightarrow> bool" for B where
  runs_none: "runs B p [] p"
| runs_step: "\<lbrakk>runs B p evs q; proc_step B ev q r\<rbrakk> \<Longrightarrow> runs B p (evs @ [ev]) r"

lemma performed_simps [simp]:
  "stops (performed b p) = stops p" "status (performed b p) = status p" "torn (performed b p) = torn p"
  "booting (performed b p) = booting p"
  by (cases b; simp)+

lemma graceEnd_not [simp]: "graceEnd svc \<noteq> Exited 0" "graceEnd svc \<noteq> Exited 9" "graceEnd svc \<noteq> Exited 999"
  "graceEnd svc \<noteq> Running" "Exited 9 \<noteq> graceEnd svc" "Exited 999 \<noteq> graceEnd svc" "Running \<noteq> graceEnd svc"
  by (cases svc; simp)+

inductive_cases stepE: "proc_step B ev p q"
inductive_cases runsE: "runs B p evs q"

lemma step_running: "proc_step B ev p q \<Longrightarrow> status p = Running"
  by (auto elim: stepE)

lemma runs_running: "runs B p evs q \<Longrightarrow> status q = Running \<Longrightarrow> status p = Running"
  by (induction rule: runs.induct) (auto dest: step_running)

section \<open>Starting\<close>

text \<open>The steps of \<open>start\<close> that are done, and what they have left behind.\<close>

definition assigned :: "boot_step list \<Rightarrow> component set" where
  "assigned bs = {c. Assign c \<in> set bs}"

definition called :: "boot_step list \<Rightarrow> component set" where
  "called bs = {c. \<exists>op. Perform c op \<in> set bs}"

lemma assigned_simps [simp]:
  "assigned [] = {}" "assigned (xs @ ys) = assigned xs \<union> assigned ys"
  "assigned (Assign c # bs) = insert c (assigned bs)"
  "assigned (Perform c op # bs) = assigned bs" "assigned (CheckAuditKey # bs) = assigned bs"
  by (auto simp: assigned_def)

lemma called_simps [simp]:
  "called [] = {}" "called (xs @ ys) = called xs \<union> called ys"
  "called (Assign c # bs) = called bs"
  "called (Perform c op # bs) = insert c (called bs)" "called (CheckAuditKey # bs) = called bs"
  by (auto simp: called_def)

definition booted :: "boot_env \<Rightarrow> process \<Rightarrow> bool" where
  "booted B p \<longleftrightarrow> (\<exists>ready. startPlan (be_injected B) (be_service B) = ready @ booting p \<and>
     present p = assigned ready \<and> opened p = called ready \<and>
     (CheckAuditKey \<in> set ready \<longrightarrow> be_auditKeyExists B \<or> \<not> be_production B))"

lemma booted_launch: "booted B (launch B)"
  by (simp add: booted_def launch_def)

lemma booted_performed:
  assumes "booted B p" and "booting p = b # rest"
    and "b = CheckAuditKey \<Longrightarrow> be_auditKeyExists B \<or> \<not> be_production B"
  shows "booted B (performed b (p\<lparr>booting := rest\<rparr>))"
proof -
  obtain ready where "startPlan (be_injected B) (be_service B) = ready @ booting p"
    "present p = assigned ready" "opened p = called ready"
    "CheckAuditKey \<in> set ready \<longrightarrow> be_auditKeyExists B \<or> \<not> be_production B"
    using assms(1) unfolding booted_def by blast
  with assms(2,3) show ?thesis
    unfolding booted_def by (cases b) (auto intro!: exI [of _ "ready @ [b]"])
qed

lemma booted_frame:
  "booted B p \<Longrightarrow> booting q = booting p \<Longrightarrow> present q = present p \<Longrightarrow> opened q = opened p \<Longrightarrow> booted B q"
  by (simp add: booted_def)

lemma booted_step: "proc_step B ev p q \<Longrightarrow> booted B p \<Longrightarrow> booted B q"
proof (induction rule: proc_step.induct)
  case (boot p b rest)
  then show ?case by (intro booted_performed) auto
qed (rule booted_frame; simp)+

lemma booted_runs: "runs B p evs q \<Longrightarrow> booted B p \<Longrightarrow> booted B q"
  by (induction rule: runs.induct) (auto intro: booted_step)

text \<open>What the plan has before a step is done before the step is.\<close>

lemma prefix_before:
  assumes "plan = xs @ b # ys" and "plan = ready @ rest" and "b \<in> set ready" and "b \<notin> set xs"
  shows "set xs \<subseteq> set ready"
  using assms by (auto simp: append_eq_append_conv2 append_eq_Cons_conv)

lemma assigned_mono: "set xs \<subseteq> set ys \<Longrightarrow> assigned xs \<subseteq> assigned ys"
  by (auto simp: assigned_def)

lemma called_mono: "set xs \<subseteq> set ys \<Longrightarrow> called xs \<subseteq> called ys"
  by (auto simp: called_def)

lemma handler_after:
  assumes p: "booted B p" "Handler \<in> opened p"
    and plan: "startPlan (be_injected B) (be_service B) = before @ Perform Handler Start # [Assign ExpressServer, Perform ExpressServer Listen]"
    and before: "Handler \<notin> called before"
  shows "assigned before \<subseteq> present p" and "called before \<subseteq> opened p"
proof -
  obtain ready where ready: "startPlan (be_injected B) (be_service B) = ready @ booting p"
    "present p = assigned ready" "opened p = called ready"
    using p(1) unfolding booted_def by blast
  from p(2) ready(3) obtain op where op: "Perform Handler op \<in> set ready" by (auto simp: called_def)
  then have "Perform Handler op \<in> set (before @ Perform Handler Start # [Assign ExpressServer, Perform ExpressServer Listen])"
    unfolding plan [symmetric] ready(1) by simp
  with before have "op = Start" by (auto simp: called_def)
  with op have "Perform Handler Start \<in> set ready" by simp
  moreover have "Perform Handler Start \<notin> set before" using before by (auto simp: called_def)
  ultimately have "set before \<subseteq> set ready" by (rule prefix_before [OF plan ready(1)])
  then show "assigned before \<subseteq> present p" and "called before \<subseteq> opened p"
    using ready(2,3) assigned_mono called_mono by simp_all
qed

text \<open>The components that the command handler is built from, and those of them that have to be connected.\<close>

definition commandHandlerNeeds :: "component set" where
  "commandHandlerNeeds = {Logger, ConfigClient, AuthorizationClient, AuditClient, MessageConsumer, MessageProducer,
     TransfersRepo, BulkTransfersRepo, ParticipantService, AccountsBalances, Metrics, Settlements, Scheduling,
     FspiopValidator, Aggregate}"

definition connected :: "component set" where
  "connected = {Logger, AuthorizationClient, AuditClient, MessageProducer, TransfersRepo, BulkTransfersRepo,
     AccountsBalances, Settlements}"

text \<open>The command handler consumes no message before everything it works with is there: once the start
  of the handler has completed, all the components of the aggregate are assigned and each of them that
  was not given to \<open>start\<close> has been initialised, whatever else happened to the process.\<close>

theorem command_handler_starts_last:
  assumes "be_service B = CommandHandlerSvc" and "runs B (launch B) evs p" and "Handler \<in> opened p"
  shows "commandHandlerNeeds \<subseteq> present p \<and> {c \<in> connected. \<not> be_injected B c} \<subseteq> opened p"
proof -
  let ?g = "be_injected B"
  define before where "before = provide ?g Logger [Init] @
     [Assign ConfigClient, Perform ConfigClient Init, Perform ConfigClient Bootstrap, Perform ConfigClient Fetch] @
     provide ?g AuthorizationClient [Bootstrap, Fetch, Init] @ provideAudit ?g @ provide ?g MessageConsumer [] @
     provide ?g MessageProducer [Connect] @ provide ?g TransfersRepo [Init] @ provide ?g BulkTransfersRepo [Init] @
     provide ?g ParticipantService [] @ provide ?g AccountsBalances [Init] @ provide ?g Metrics [] @
     provide ?g Settlements [Init] @ provide ?g Scheduling [] @ provide ?g FspiopValidator [] @
     provide ?g Aggregate [] @ [Assign Handler]"
  have plan: "startPlan ?g (be_service B) =
      before @ Perform Handler Start # [Assign ExpressServer, Perform ExpressServer Listen]"
    by (simp add: before_def assms(1))
  have "Handler \<notin> called before"
    by (simp add: before_def provide_def provideAudit_def)
  moreover have "booted B p" by (rule booted_runs [OF assms(2) booted_launch])
  ultimately have p: "assigned before \<subseteq> present p" "called before \<subseteq> opened p"
    using handler_after [OF _ assms(3) plan] by simp_all
  moreover have "commandHandlerNeeds \<subseteq> assigned before"
    by (simp add: before_def provide_def provideAudit_def commandHandlerNeeds_def)
  moreover have "{c \<in> connected. \<not> ?g c} \<subseteq> called before"
    by (auto simp: before_def provide_def provideAudit_def connected_def)
  ultimately show ?thesis by blast
qed

lemma audit_key_planned: "\<not> be_injected B AuditClient \<Longrightarrow> CheckAuditKey \<in> set (startPlan (be_injected B) (be_service B))"
  by (cases "be_service B") (simp_all add: provideAudit_def)

text \<open>In production, a service that makes its own audit client never completes its start without the
  audit key: as long as it runs it is still starting, and its last step to do includes the check.\<close>

theorem production_needs_audit_key:
  assumes "be_production B" and "\<not> be_auditKeyExists B" and "\<not> be_injected B AuditClient"
    and "runs B (launch B) evs p"
  shows "CheckAuditKey \<in> set (booting p) \<and> ExpressServer \<notin> present p"
proof -
  obtain ready where ready: "startPlan (be_injected B) (be_service B) = ready @ booting p"
    "present p = assigned ready" "CheckAuditKey \<notin> set ready"
    using booted_runs [OF assms(4) booted_launch] assms(1,2) unfolding booted_def by blast
  with audit_key_planned [OF assms(3)] have key: "CheckAuditKey \<in> set (booting p)" by auto
  have "ExpressServer \<in> assigned ready \<Longrightarrow> CheckAuditKey \<in> set ready"
  proof -
    assume "ExpressServer \<in> assigned ready"
    then have E: "Assign ExpressServer \<in> set ready" by (simp add: assigned_def)
    let ?before = "butlast (butlast (startPlan (be_injected B) (be_service B)))"
    have plan: "startPlan (be_injected B) (be_service B) = ?before @ Assign ExpressServer # [Perform ExpressServer Listen]"
      and "Assign ExpressServer \<notin> set ?before" and "CheckAuditKey \<in> set ?before"
      using assms(3) by (cases "be_service B"; simp add: butlast_append provide_def provideAudit_def)+
    with prefix_before [OF plan ready(1) E] show ?thesis by auto
  qed
  with ready key show ?thesis by auto
qed

section \<open>Stopping\<close>

text \<open>A process that has started and was not told to stop.\<close>

definition serving :: "process \<Rightarrow> bool" where
  "serving p \<longleftrightarrow> status p = Running \<and> booting p = [] \<and> stops p = [] \<and> torn p = []"

text \<open>
  The state of the stop routines of a process that was serving: each has passed a part of its plan, and
  what it had to tear down there has been torn down.
\<close>

definition plan_of :: "boot_env \<Rightarrow> process \<Rightarrow> component list" where
  "plan_of B p = filter (tearable B (present p)) (stopPlan (be_service B))"

definition stopping :: "boot_env \<Rightarrow> process \<Rightarrow> process \<Rightarrow> bool" where
  "stopping B p0 p \<longleftrightarrow> booting p = [] \<and> present p = present p0 \<and> opened p = opened p0 \<and>
     set (torn p) \<subseteq> set (plan_of B p0) \<and>
     (\<forall>rest \<in> set (stops p). \<exists>passed. stopPlan (be_service B) = passed @ rest \<and>
        set (filter (tearable B (present p0)) passed) \<subseteq> set (torn p) \<and>
        (length (stops p) = 1 \<longrightarrow> torn p = filter (tearable B (present p0)) passed)) \<and>
     (stops p = [] \<longrightarrow> torn p = []) \<and> (status p = Exited 0 \<longrightarrow> [] \<in> set (stops p))"

lemma stopping_start: "serving p \<Longrightarrow> stopping B p p"
  by (simp add: serving_def stopping_def)

lemma stopping_ends: "stopping B p0 p \<Longrightarrow> x \<noteq> Exited 0 \<Longrightarrow> stopping B p0 (p\<lparr>status := x\<rparr>)"
  by (simp add: stopping_def)

lemma stopping_teardown:
  assumes p: "stopping B p0 p" "status p = Running" "stops p = xs @ (c # cs) # ys"
    and t: "ts = (if tearable B (present p) c then torn p @ [c] else torn p)"
  shows "stopping B p0 (p\<lparr>stops := xs @ cs # ys, torn := ts\<rparr>)"
proof -
  let ?T = "tearable B (present p0)" and ?plan = "stopPlan (be_service B)"
  have same: "present p = present p0" using p(1) by (simp add: stopping_def)
  from p(1,3) obtain passed where passed: "?plan = passed @ c # cs" "set (filter ?T passed) \<subseteq> set (torn p)"
    "length (stops p) = 1 \<longrightarrow> torn p = filter ?T passed"
    unfolding stopping_def by force
  have mono: "set (torn p) \<subseteq> set ts" by (auto simp: t)
  have c: "c \<in> set ?plan" using passed(1) by simp
  have "\<exists>passed'. ?plan = passed' @ rest \<and> set (filter ?T passed') \<subseteq> set ts \<and>
      (length (xs @ cs # ys) = 1 \<longrightarrow> ts = filter ?T passed')" if rest: "rest \<in> set (xs @ cs # ys)" for rest
  proof (cases "rest = cs")
    case True
    with passed mono show ?thesis
      by (intro exI [of _ "passed @ [c]"]) (auto simp: t same p(3))
  next
    case False
    with rest have "rest \<in> set (stops p)" by (auto simp: p(3))
    with p(1) obtain q where "?plan = q @ rest" "set (filter ?T q) \<subseteq> set (torn p)" unfolding stopping_def by blast
    moreover from False rest have "length (xs @ cs # ys) \<noteq> 1" by (cases xs; cases ys) auto
    ultimately show ?thesis using mono by blast
  qed
  with p(1,2) c same show ?thesis
    by (auto simp: stopping_def t plan_of_def)
qed

lemma stopping_step: "proc_step B ev p q \<Longrightarrow> stopping B p0 p \<Longrightarrow> stopping B p0 q"
proof (induction rule: proc_step.induct)
  case (signal p)
  let ?plan = "stopPlan (be_service B)"
  have "\<exists>passed. ?plan = passed @ rest \<and> set (filter (tearable B (present p0)) passed) \<subseteq> set (torn p) \<and>
      (length (stops p @ [?plan]) = 1 \<longrightarrow> torn p = filter (tearable B (present p0)) passed)"
    if "rest \<in> set (stops p @ [?plan])" for rest
  proof (cases "rest \<in> set (stops p)")
    case True
    with signal(2) obtain q where "?plan = q @ rest" "set (filter (tearable B (present p0)) q) \<subseteq> set (torn p)"
      unfolding stopping_def by blast
    moreover from True have "length (stops p @ [?plan]) \<noteq> 1" by auto
    ultimately show ?thesis by blast
  next
    case False
    with that signal(2) show ?thesis
      by (intro exI [of _ "[]"]) (simp add: stopping_def)
  qed
  with signal show ?case by (simp add: stopping_def)
next
  case (teardown p xs c cs ys)
  then show ?case by (intro stopping_teardown) auto
next
  case (skip p xs c cs ys)
  then have "stopping B p0 (p\<lparr>stops := xs @ cs # ys, torn := torn p\<rparr>)"
    by (intro stopping_teardown) auto
  then show ?case by simp
next
  case (stop_returns p)
  then show ?case by (simp add: stopping_def)
next
  case (grace_timer p)
  then show ?case by (intro stopping_ends) simp_all
qed (simp_all add: stopping_def)

lemma stopping_runs: "runs B p evs q \<Longrightarrow> serving p \<Longrightarrow> stopping B p q"
  by (induction rule: runs.induct) (auto intro: stopping_start stopping_step)

lemma runs_signals: "runs B p evs q \<Longrightarrow> length (stops q) = length (stops p) + length (filter ((=) Signal) evs)"
proof (induction rule: runs.induct)
  case (runs_step p evs q ev r)
  have "length (stops r) = length (stops q) + (if ev = Signal then 1 else 0)"
    using runs_step(2) by cases simp_all
  with runs_step show ?case by auto
qed simp

text \<open>A service that was serving exits with code 0 only after everything its stop routine is about has
  been torn down, and after a single signal in the order of the routine.\<close>

theorem clean_exit_tears_down:
  assumes "serving p" and "runs B p evs q" and "status q = Exited 0"
  shows "set (torn q) = set (plan_of B p) \<and>
     (length (filter ((=) Signal) evs) = 1 \<longrightarrow> torn q = plan_of B p)"
proof -
  have q: "stopping B p q" by (rule stopping_runs [OF assms(2,1)])
  with assms(3) have "[] \<in> set (stops q)" by (simp add: stopping_def)
  with q have "set (plan_of B p) \<subseteq> set (torn q)" and "length (stops q) = 1 \<Longrightarrow> torn q = plan_of B p"
    unfolding stopping_def plan_of_def by force+
  moreover have "length (stops q) = length (filter ((=) Signal) evs)"
    using runs_signals [OF assms(2)] assms(1) by (simp add: serving_def)
  ultimately show ?thesis using q by (auto simp: stopping_def)
qed

end
