(* ===== verification/Shutdown.thy ===== *)
theory Shutdown
  imports Services
begin

text \<open>
  More on the processes of \<open>Services\<close>: what a clean exit leaves open, how many steps a process can take,
  and what its exit status tells.
\<close>

section \<open>What a clean exit leaves open\<close>

lemma clean_exit_torn:
  assumes "serving p" and "runs B p evs q" and "status q = Exited 0"
  shows "set (torn q) = set (plan_of B p) \<and> opened q = opened p"
proof -
  have q: "stopping B p q" by (rule stopping_runs [OF assms(2,1)])
  with assms(3) have "[] \<in> set (stops q)" by (simp add: stopping_def)
  with q have "set (plan_of B p) \<subseteq> set (torn q)"
    unfolding stopping_def plan_of_def by force
  with q show ?thesis by (auto simp: stopping_def)
qed

lemma started_serving:
  assumes "runs B (launch B) evs p" and "serving p"
  shows "present p = assigned (startPlan (be_injected B) (be_service B))"
    and "opened p = called (startPlan (be_injected B) (be_service B))"
  using booted_runs [OF assms(1) booted_launch] assms(2) by (auto simp: booted_def serving_def)

text \<open>What the code opens and never closes.\<close>

fun neverReleased :: "service \<Rightarrow> component set" where
  "neverReleased CommandHandlerSvc =
     {AuthorizationClient, TransfersRepo, BulkTransfersRepo, AccountsBalances, Settlements}"
| "neverReleased EventHandlerSvc = {}"
| "neverReleased TransfersApiSvc = {AuthorizationClient, TokenHelper}"

text \<open>C34: a service that built all its components itself, started completely and then exited with code 0 has
  torn down everything it had opened, except these: the command handler leaves its two repositories, the
  authorization client and the adapters of accounts and of settlements open, the API the authorization
  client and the token helper.\<close>

theorem clean_exit_leaves_open:
  assumes "\<And>c. \<not> be_injected B c" and "runs B (launch B) evs p" and "serving p"
    and "runs B p evs' q" and "status q = Exited 0"
  shows "opened q - set (torn q) = neverReleased (be_service B)"
proof -
  have none: "be_injected B = (\<lambda>_. False)" using assms(1) by auto
  note p = started_serving [OF assms(2,3)]
  have "set (plan_of B p) = set (stopPlan (be_service B)) \<inter> present p"
    by (auto simp: plan_of_def tearable_def none)
  then have "opened q - set (torn q) =
      called (startPlan (\<lambda>_. False) (be_service B)) -
      set (stopPlan (be_service B)) \<inter> assigned (startPlan (\<lambda>_. False) (be_service B))"
    using clean_exit_torn [OF assms(3-5)] p by (simp add: none)
  then show ?thesis
    by (cases "be_service B") (auto simp: provide_def provideAudit_def)
qed

section \<open>A process can start and stop\<close>

lemma runs_Cons: "runs B q evs r \<Longrightarrow> proc_step B ev p q \<Longrightarrow> runs B p (ev # evs) r"
proof (induction rule: runs.induct)
  case (runs_none q)
  then show ?case using runs_step [OF runs.runs_none, of B ev p q] by simp
next
  case (runs_step q evs r ev' t)
  then show ?case using runs.runs_step [of B p "ev # evs" r ev' t] by simp
qed

text \<open>When every step succeeds, the start is completed.\<close>

lemma start_runs:
  assumes "status p = Running" and "be_auditKeyExists B \<or> \<not> be_production B"
  shows "\<exists>q. runs B p (replicate (length (booting p)) Boot) q \<and> status q = Running \<and> booting q = [] \<and>
     stops q = stops p \<and> torn q = torn p"
  using assms(1)
proof (induction "booting p" arbitrary: p)
  case Nil
  then show ?case by (intro exI [of _ p]) (auto intro: runs.runs_none)
next
  case (Cons b rest)
  let ?p = "performed b (p\<lparr>booting := rest\<rparr>)"
  have step: "proc_step B Boot p ?p"
    using Cons(2,3) assms(2) by (intro proc_step.boot) auto
  from Cons(1) [of ?p] Cons(3) obtain q where "runs B ?p (replicate (length rest) Boot) q" "status q = Running"
    "booting q = []" "stops q = stops p" "torn q = torn p"
    by auto
  with runs_Cons [OF this(1) step] show ?case by (auto simp: Cons(2) [symmetric])
qed

lemma start_serves:
  assumes "be_auditKeyExists B \<or> \<not> be_production B"
  obtains evs p where "runs B (launch B) evs p" and "serving p" and "Signal \<notin> set evs"
  using start_runs [of "launch B" B] assms that by (auto simp: launch_def serving_def)

text \<open>When no tear-down fails, a stop routine comes to the exit.\<close>

lemma stop_runs:
  assumes "status p = Running" and "stops p = [cs]"
  shows "\<exists>evs q. runs B p evs q \<and> status q = Exited 0 \<and> Signal \<notin> set evs"
  using assms
proof (induction cs arbitrary: p)
  case Nil
  then have "proc_step B StopReturns p (p\<lparr>status := Exited 0\<rparr>)" by (intro proc_step.stop_returns) auto
  from runs_Cons [OF runs.runs_none this] show ?case
    by (intro exI [of _ "[StopReturns]"] exI [of _ "p\<lparr>status := Exited 0\<rparr>"]) simp
next
  case (Cons c cs)
  obtain ts where step: "proc_step B Teardown p (p\<lparr>stops := [cs], torn := ts\<rparr>)"
  proof (cases "tearable B (present p) c")
    case True
    with Cons.prems that show thesis using proc_step.teardown [of p "[]" c cs "[]" B] by simp
  next
    case False
    with Cons.prems that [of "torn p"] show thesis using proc_step.skip [of p "[]" c cs "[]" B] by simp
  qed
  from Cons.IH [of "p\<lparr>stops := [cs], torn := ts\<rparr>"] Cons.prems obtain evs q
    where "runs B (p\<lparr>stops := [cs], torn := ts\<rparr>) evs q" "status q = Exited 0" "Signal \<notin> set evs"
    by auto
  with runs_Cons [OF this(1) step] show ?case by (intro exI [of _ "Teardown # evs"]) auto
qed

lemma signal_stops:
  assumes "serving p"
  obtains evs q where "runs B p (Signal # evs) q" and "status q = Exited 0" and "Signal \<notin> set evs"
proof -
  let ?p = "p\<lparr>stops := stops p @ [stopPlan (be_service B)]\<rparr>"
  have "proc_step B Signal p ?p" using assms by (intro proc_step.signal) (simp add: serving_def)
  moreover have "status ?p = Running" "stops ?p = [stopPlan (be_service B)]" using assms by (simp_all add: serving_def)
  ultimately show thesis using stop_runs [of ?p "stopPlan (be_service B)" B] runs_Cons that by metis
qed

section \<open>A process ends\<close>

text \<open>The steps that a process has left if no further signal reaches it.\<close>

definition remaining :: "process \<Rightarrow> nat" where
  "remaining p = (if status p = Running then 1 + length (booting p) + sum_list (map length (stops p)) else 0)"

definition signal_cost :: "boot_env \<Rightarrow> nat" where
  "signal_cost B = 1 + length (stopPlan (be_service B))"

lemma remaining_step:
  "proc_step B ev p q \<Longrightarrow> 1 + remaining q \<le> remaining p + (if ev = Signal then signal_cost B else 0)"
  by (induction rule: proc_step.induct) (auto simp: remaining_def signal_cost_def)

lemma remaining_runs:
  "runs B p evs q \<Longrightarrow> length evs + remaining q \<le> remaining p + length (filter ((=) Signal) evs) * signal_cost B"
proof (induction rule: runs.induct)
  case (runs_step p evs q ev r)
  then show ?case using remaining_step [OF runs_step(2)] by (auto split: if_splits)
qed simp

lemma stops_progress:
  assumes "status p = Running" and "stops p \<noteq> []"
  obtains ev q where "ev \<in> {Teardown, StopReturns}" and "proc_step B ev p q"
proof (cases "stops p")
  case (Cons s rest)
  show thesis
  proof (cases s)
    case Nil
    with Cons assms(1) show thesis by (intro that [of StopReturns]) (auto intro: proc_step.stop_returns)
  next
    case c: (Cons c cs)
    then have "stops p = [] @ (c # cs) # rest" using Cons by simp
    with assms(1) show thesis
      by (cases "tearable B (present p) c") (metis that proc_step.teardown proc_step.skip insertCI)+
  qed
qed (use assms in simp)


section \<open>What the exit status tells\<close>

lemma status_step:
  "proc_step B ev p q \<Longrightarrow> status q \<in> {Running, Exited 0, Exited 9, Exited 999, graceEnd (be_service B)} \<and>
     (status q \<in> {Exited 0, graceEnd (be_service B)} \<longrightarrow> stops p \<noteq> []) \<and>
     (status q = Exited 9 \<longrightarrow> be_production B \<and> \<not> be_auditKeyExists B \<and> CheckAuditKey \<in> set (booting p)) \<and>
     (status q = Exited 999 \<longrightarrow> ev \<in> {BootFails, StartTimeout, TeardownFails, Uncaught})"
  by (induction rule: proc_step.induct) (simp_all, auto)

lemma status_runs:
  assumes "runs B p evs q" and "status p = Running" and "status q \<noteq> Running"
  obtains evs' ev r where "evs = evs' @ [ev]" and "runs B p evs' r" and "proc_step B ev r q"
  using assms by cases auto

text \<open>The exit status of a process tells its end apart.  It is 0 or the status of the signal handler's
  timer (an abort; 99 for the API) only after a signal; 9 only in production with the audit key missing
  and no audit client given; otherwise 999, after a failure of the start or of a tear-down, a start that
  took too long, or an error that nobody caught.\<close>

theorem exit_status_meaning:
  assumes "runs B (launch B) evs p" and "status p \<noteq> Running"
  shows "status p \<in> {Exited 0, graceEnd (be_service B)} \<and> Signal \<in> set evs \<or>
     status p = Exited 9 \<and> be_production B \<and> \<not> be_auditKeyExists B \<and> \<not> be_injected B AuditClient \<or>
     status p = Exited 999 \<and> last evs \<in> {BootFails, StartTimeout, TeardownFails, Uncaught}"
proof -
  have "status (launch B) = Running" by (simp add: launch_def)
  then obtain evs' ev r where evs: "evs = evs' @ [ev]" and run: "runs B (launch B) evs' r"
    and step: "proc_step B ev r p"
    using assms by (auto elim: status_runs)
  have signal: "Signal \<in> set evs'" if "stops r \<noteq> []"
  proof -
    from that runs_signals [OF run] have "filter ((=) Signal) evs' \<noteq> []" by (auto simp: launch_def)
    then show ?thesis by (auto simp: filter_empty_conv)
  qed
  have given: "\<not> be_injected B AuditClient" if "CheckAuditKey \<in> set (booting r)"
  proof
    assume "be_injected B AuditClient"
    then have "CheckAuditKey \<notin> set (startPlan (be_injected B) (be_service B))"
      by (cases "be_service B") (auto simp: provide_def provideAudit_def)
    with booted_runs [OF run booted_launch] that show False by (auto simp: booted_def)
  qed
  show ?thesis
    using status_step [OF step] assms(2) signal given by (auto simp: evs)
qed

end
