(* ===== verification/Http.thy ===== *)
theory Http
  imports Api Config
begin

text \<open>
  The HTTP servers of the three services: \<open>setupExpress\<close> of their \<open>service.ts\<close>.  All of them answer
  \<open>GET /health\<close> and \<open>GET /metrics\<close>; the API mounts the administration routes behind these, and a last
  handler takes everything else.
\<close>

text \<open>A request by the route it matches: \<open>OtherRequest\<close> is one that matches none.\<close>

datatype http_request = GetHealth | GetMetrics | AdminRequest route | OtherRequest

text \<open>\<open>res.send(404)\<close> with a number sends that status in Express 4.\<close>

datatype http_answer = HealthOK | MetricsText string | Answer response

section \<open>The servers\<close>

text \<open>\<open>getMetricsForPrometheusScrapper\<close>; when it rejects nothing is answered.\<close>

definition sendMetrics :: "('w, string) call \<Rightarrow> 'w \<Rightarrow> http_answer \<times> 'w" where
  "sendMetrics metrics w =
     (case metrics w of (Inr txt, w') \<Rightarrow> (MetricsText txt, w') | (Inl _, w') \<Rightarrow> (Answer NoAnswer, w'))"

text \<open>The router of the API: its middleware comes first, also for a path that no route has.\<close>

definition adminRouter :: "'w api_env \<Rightarrow> string option \<Rightarrow> route option \<Rightarrow> 'w \<Rightarrow> response \<times> 'w" where
  "adminRouter A header r w =
     authenticated A header (\<lambda>ctx. case r of Some r' \<Rightarrow> handleRoute A ctx r' | None \<Rightarrow> Pair (SendStatus 404)) w"

fun serveHandler :: "('w, string) call \<Rightarrow> http_request \<Rightarrow> 'w \<Rightarrow> http_answer \<times> 'w" where
  "serveHandler metrics GetHealth w = (HealthOK, w)"
| "serveHandler metrics GetMetrics w = sendMetrics metrics w"
| "serveHandler metrics _ w = (Answer (SendStatus 404), w)"

fun serveApi :: "'w api_env \<Rightarrow> ('w, string) call \<Rightarrow> string option \<Rightarrow> http_request \<Rightarrow> 'w \<Rightarrow> http_answer \<times> 'w" where
  "serveApi A metrics header GetHealth w = (HealthOK, w)"
| "serveApi A metrics header GetMetrics w = sendMetrics metrics w"
| "serveApi A metrics header (AdminRequest r) w = apfst Answer (adminRouter A header (Some r) w)"
| "serveApi A metrics header OtherRequest w = apfst Answer (adminRouter A header None w)"

definition serveHttp :: "service \<Rightarrow> 'w api_env \<Rightarrow> ('w, string) call \<Rightarrow> string option \<Rightarrow> http_request \<Rightarrow> 'w \<Rightarrow> http_answer \<times> 'w" where
  "serveHttp svc A metrics header req w =
     (if svc = TransfersApiSvc then serveApi A metrics header req w else serveHandler metrics req w)"

section \<open>Who may ask\<close>


end
