(* ===== verification/Service_Witnesses.thy ===== *)
theory Service_Witnesses
  imports Shutdown Http
begin

text \<open>
  The theorems on the services, applied to a small API with one role and one token, and to processes that
  start and stop without a failure.
\<close>

section \<open>An API\<close>

text \<open>The token \<open>good\<close> belongs to a caller with the role \<open>admin\<close>, \<open>poor\<close> to one without roles.\<close>

definition sampleContext :: "string \<Rightarrow> security_context option" where
  "sampleContext token =
     (if token = ''good'' then Some \<lparr>platformRoleIds = [''admin'']\<rparr>
      else if token = ''poor'' then Some \<lparr>platformRoleIds = []\<rparr> else None)"

definition sampleApi :: "unit api_env" where
  "sampleApi =
     \<lparr>token_getCallSecurityContext = (\<lambda>token w. (Inr (sampleContext token), w)),
      auth_roleHasPrivilege = (\<lambda>roleId priv w. (Inr (roleId = ''admin''), w)),
      api_getTransfers = mongo_getTransfers (\<lambda>_ w. (Inr 0, w)) (\<lambda>_ _ _ w. (Inr [], w)),
      api_getTransferById = (\<lambda>_ w. (Inr None, w)),
      api_getBulkTransferById = (\<lambda>_ w. (Inr None, w)),
      api_getBulkTransfers = (\<lambda>w. (Inr [], w)),
      api_getSearchKeywords = (\<lambda>w. (Inr [], w))\<rparr>"

lemma word_samples: "word ''Bearer''" "word ''good''" "word ''poor''"
  by (simp_all add: word_def is_space_def)

lemma bearer_good: "bearerToken (Some ''Bearer good'') = Some ''good''"
  by code_simp

lemma bearer_poor: "bearerToken (Some ''Bearer poor'') = Some ''poor''"
  by code_simp


lemma authenticated_answered_witness:
  "handler_answer (fst (apiRequest sampleApi (Some ''Bearer poor'') (GetTransfer ''t1'') ()))"
  by (rule authenticated_answered [OF bearer_poor]) (simp add: sampleApi_def sampleContext_def)

lemma page_bounds_witness:
  "\<exists>res w'. getAllTransfers sampleApi \<lparr>platformRoleIds = [''admin'']\<rparr> [''pageSize'' \<mapsto> ''500''] () = (SendTransfers res, w') \<and>
     sr_pageSize res \<in> {NaN} \<union> Num ` {..100}"
proof -
  have api: "api_getTransfers sampleApi = mongo_getTransfers (\<lambda>_ w. (Inr 0, w)) (\<lambda>_ _ _ w. (Inr [], w))"
    by (simp add: sampleApi_def)
  have "\<exists>res w'. getAllTransfers sampleApi \<lparr>platformRoleIds = [''admin'']\<rparr> [''pageSize'' \<mapsto> ''500''] () = (SendTransfers res, w')"
    by (simp add: getAllTransfers_def answering_def enforcePrivilege_def sampleApi_def repo_def mongo_getTransfers_def
        catchAs_def run_simps Let_def)
  then obtain res w' where run: "getAllTransfers sampleApi \<lparr>platformRoleIds = [''admin'']\<rparr> [''pageSize'' \<mapsto> ''500''] () = (SendTransfers res, w')"
    by blast
  from page_bounds [OF api run] run show ?thesis by blast
qed


lemma bearer_round_trip_witness: "bearerToken (Some (''Bearer'' @ CHR '' '' # ''good'')) = Some ''good''"
  by (rule bearer_round_trip [OF word_samples(1,2)])

section \<open>Processes\<close>

text \<open>A service that is given nothing, in production and with its audit key.\<close>

definition sampleBoot :: "service \<Rightarrow> boot_env" where
  "sampleBoot svc = \<lparr>be_service = svc, be_injected = (\<lambda>_. False), be_production = True, be_auditKeyExists = True\<rparr>"

lemma sample_key: "be_auditKeyExists (sampleBoot svc) \<or> \<not> be_production (sampleBoot svc)"
  by (simp add: sampleBoot_def)

lemma command_handler_starts_last_witness:
  "\<exists>evs p. runs (sampleBoot CommandHandlerSvc) (launch (sampleBoot CommandHandlerSvc)) evs p \<and> Aggregate \<in> present p"
proof -
  let ?B = "sampleBoot CommandHandlerSvc"
  obtain evs p where run: "runs ?B (launch ?B) evs p" and p: "serving p"
    by (rule start_serves [OF sample_key])
  have "Handler \<in> opened p"
    using started_serving(2) [OF run p] by (simp add: sampleBoot_def provide_def)
  with command_handler_starts_last [OF _ run] have "Aggregate \<in> present p"
    by (simp add: sampleBoot_def commandHandlerNeeds_def)
  with run show ?thesis by blast
qed

lemma clean_exit_leaves_open_witness:
  "\<exists>p :: process. status p = Exited 0 \<and>
     opened p - set (torn p) = {AuthorizationClient, TransfersRepo, BulkTransfersRepo, AccountsBalances, Settlements}"
proof -
  let ?B = "sampleBoot CommandHandlerSvc"
  obtain evs p where run: "runs ?B (launch ?B) evs p" and p: "serving p"
    by (rule start_serves [OF sample_key])
  obtain evs' q where "runs ?B p (Signal # evs') q" and q: "status q = Exited 0"
    by (rule signal_stops [OF p])
  moreover have "\<not> be_injected ?B c" for c by (simp add: sampleBoot_def)
  ultimately have "opened q - set (torn q) = neverReleased (be_service ?B)"
    using clean_exit_leaves_open [OF _ run p] by blast
  with q show ?thesis
    by (intro exI [of _ q]) (simp add: sampleBoot_def)
qed


lemma exit_status_meaning_witness:
  "\<exists>evs p. runs (sampleBoot TransfersApiSvc) (launch (sampleBoot TransfersApiSvc)) evs p \<and> status p = Exited 999 \<and>
     last evs \<in> {BootFails, StartTimeout, TeardownFails, Uncaught}"
proof -
  let ?B = "sampleBoot TransfersApiSvc"
  let ?p = "(launch ?B)\<lparr>status := Exited 999\<rparr>"
  have "proc_step ?B Uncaught (launch ?B) ?p" by (intro proc_step.uncaught) (simp add: launch_def)
  then have run: "runs ?B (launch ?B) [Uncaught] ?p" by (rule runs_Cons [OF runs.runs_none])
  from exit_status_meaning [OF this] have "last [Uncaught] \<in> {BootFails, StartTimeout, TeardownFails, Uncaught}"
    by (simp add: sampleBoot_def)
  with run show ?thesis by (intro exI [of _ "[Uncaught]"] exI [of _ ?p]) simp
qed

end
