(* ===== verification/Mocks.thy ===== *)
theory Mocks
  imports Commit_Safety Adapters Api
begin

text \<open>
  The doubles of \<open>packages/shared-mocks-lib/src\<close>, on which the unit tests run the aggregate and the
  services: their answers are fixed, but for the repositories, which hold an array.  What can happen on
  them without the spies of a test is what can be said of the tests that use them as they are.
\<close>

section \<open>The services\<close>

text \<open>\<open>MemoryParticipantService\<close>: knows nobody.\<close>

definition mock_getParticipantInfo :: "string \<Rightarrow> ('w, participant option) call" where
  "mock_getParticipantInfo fspId = ret None"

definition mock_getParticipantsInfo :: "string list \<Rightarrow> ('w, participant list) call" where
  "mock_getParticipantsInfo fspIds = ret []"

definition mock_getSettlementModelId :: "string \<Rightarrow> string \<Rightarrow> string \<Rightarrow> extensions \<Rightarrow> ('w, string) call" where
  "mock_getSettlementModelId amt payerCurrency payeeCurrency exts = ret ''DEFAULT''"

text \<open>\<open>MemorySchedulingService\<close>: nothing is scheduled.\<close>

definition mock_createReminder :: "string \<Rightarrow> string \<Rightarrow> reminder_payload \<Rightarrow> ('w, unit) call" where
  "mock_createReminder i time payload = ret ()"

definition mock_createSingleReminder :: "string \<Rightarrow> int \<Rightarrow> reminder_payload \<Rightarrow> ('w, unit) call" where
  "mock_createSingleReminder i time payload = ret ()"

definition mock_getReminder :: "string \<Rightarrow> ('w, reminder_request option) call" where
  "mock_getReminder i = ret None"

definition mock_deleteReminder :: "string \<Rightarrow> ('w, unit) call" where
  "mock_deleteReminder i = ret ()"

definition mock_validateFulfilment :: "json \<Rightarrow> json \<Rightarrow> ('w, bool) call" where
  "mock_validateFulfilment opaque t = ret True"

definition mock_send :: "event_msg list \<Rightarrow> ('w, unit) call" where
  "mock_send events = ret ()"

text \<open>
  \<open>MemoryAccountsAndBalancesService\<close>: the responses to a batch are the requests themselves, cast to
  responses.  They have no \<open>success\<close>, which the aggregate reads as false, and no \<open>errorMessage\<close>.
\<close>

definition asResponse :: "ab_request \<Rightarrow> ab_response" where
  "asResponse q =
     \<lparr>rsp_requestType = req_requestType q, rsp_requestId = req_requestId q, rsp_success = False, rsp_errorMessage = None\<rparr>"

definition mock_processHighLevelBatch :: "ab_request list \<Rightarrow> ('w, ab_response list) call" where
  "mock_processHighLevelBatch reqs = ret (map asResponse reqs)"

definition mock_createAccount :: "string \<Rightarrow> string \<Rightarrow> string \<Rightarrow> string \<Rightarrow> ('w, string) call" where
  "mock_createAccount requestedId ownerId ty currency = ret ''accountId''"

definition mock_createJournalEntry ::
  "string \<Rightarrow> string \<Rightarrow> string \<Rightarrow> string \<Rightarrow> bool \<Rightarrow> string \<Rightarrow> string \<Rightarrow> ('w, string) call" where
  "mock_createJournalEntry requestedId ownerId currency amt pending debited credited = ret ''journalEntryId''"

text \<open>\<open>MemoryTokenHelper\<close> accepts no token; \<open>MemoryAuthorizationClient\<close> gives every role every privilege.\<close>

definition mock_getCallSecurityContext :: "string \<Rightarrow> 'w \<Rightarrow> (api_error + security_context option) \<times> 'w" where
  "mock_getCallSecurityContext token w = (Inr None, w)"

definition mock_roleHasPrivilege :: "string \<Rightarrow> string \<Rightarrow> 'w \<Rightarrow> (api_error + bool) \<times> 'w" where
  "mock_roleHasPrivilege roleId priv w = (Inr True, w)"

section \<open>The aggregate on the doubles\<close>

record mock_world =
  mw_clock :: nat
  mw_transfers :: "transfer list"
  mw_bulks :: "bulk_transfer list"

definition on_transfers :: "(transfer list \<Rightarrow> (exn + 'a) \<times> transfer list) \<Rightarrow> (mock_world, 'a) call" where
  "on_transfers m w = (case m (mw_transfers w) of (r, ts) \<Rightarrow> (r, w\<lparr>mw_transfers := ts\<rparr>))"

definition on_bulks :: "(bulk_transfer list \<Rightarrow> (exn + 'a) \<times> bulk_transfer list) \<Rightarrow> (mock_world, 'a) call" where
  "on_bulks m w = (case m (mw_bulks w) of (r, bs) \<Rightarrow> (r, w\<lparr>mw_bulks := bs\<rparr>))"

text \<open>Clock, identifiers, hashing and formatting are the platform's.\<close>

definition mockEnv ::
  "(mock_world \<Rightarrow> int \<times> mock_world) \<Rightarrow> (mock_world \<Rightarrow> string \<times> mock_world) \<Rightarrow> (rat \<Rightarrow> string) \<Rightarrow> (string \<Rightarrow> string) \<Rightarrow>
   mock_world env" where
  "mockEnv clock fresh number sha =
     \<lparr>dateNow = clock,
      randomUUID = fresh,
      numberToString = number,
      sha256_base64 = sha,
      repo_getTransferById = (\<lambda>tid w. (Inr (case tid of None \<Rightarrow> None | Some i \<Rightarrow> mem_getTransferById (mw_transfers w) i), w)),
      repo_updateTransfer = (\<lambda>t. on_transfers (mem_updateTransfer t)),
      repo_storeTransfers = (\<lambda>ts. on_transfers (mem_storeTransfers ts)),
      repo_getTransfersByBulkId = (\<lambda>b w. (Inr (mem_getTransfersByBulkId (mw_transfers w) b), w)),
      bulkRepo_addBulkTransfer = (\<lambda>b w. case on_bulks (mem_addBulkTransfer b) w of (r, w') \<Rightarrow> (Inr r, w')),
      bulkRepo_updateBulkTransfer = (\<lambda>b. on_bulks (mem_updateBulkTransfer b)),
      bulkRepo_getBulkTransferById = (\<lambda>b w. (Inr (case b of None \<Rightarrow> None | Some i \<Rightarrow> mem_getBulkTransferById (mw_bulks w) i), w)),
      participants_getParticipantInfo = mock_getParticipantInfo,
      settlements_getSettlementModelId = mock_getSettlementModelId,
      scheduling_createSingleReminder = mock_createSingleReminder,
      validator_validateFulfilment = mock_validateFulfilment,
      ab_processHighLevelBatch = mock_processHighLevelBatch,
      producer_send = mock_send\<rparr>"

lemma mock_repo: "repo_returns_requested (mockEnv clock fresh number sha)"
  by (auto simp: repo_returns_requested_def mockEnv_def dest: mem_key split: option.splits)

lemma mock_echoes: "echoes_type (mockEnv clock fresh number sha)"
  by (auto simp: echoes_type_def mockEnv_def mock_processHighLevelBatch_def ret_def asResponse_def)

lemma mock_answers_nothing: "\<not> answered (mockEnv clock fresh number sha) s rt tid"
  by (auto simp: answered_def mockEnv_def mock_processHighLevelBatch_def ret_def asResponse_def)

text \<open>On the doubles no batch grants anything: a transfer that is \<open>RESERVED\<close> or \<open>COMMITTED\<close> after it was so
  before, in the aggregate or in the repository.  A test that sees a reservation or a commit has put it
  there, or replaced the answer of Accounts & Balances.\<close>

theorem mocks_grant_nothing:
  assumes "coherent (mockEnv clock fresh number sha) s"
    and "s' = snd (processCommandBatch (mockEnv clock fresh number sha) cmds s)" and "r < tnext s'"
    and "granted rt (theap s' r)"
  shows "granted_before (mockEnv clock fresh number sha) s rt (transferId (theap s' r))"
  using granted_needs_command [OF mock_repo mock_echoes assms] mock_answers_nothing by (simp add: accepted_def)

text \<open>No participant is known, not even the hub, so no prepare passes the checks.\<close>

theorem mocks_know_nobody:
  "fst (getParticipantsInfo (mockEnv clock fresh number sha) payer payee s) = Inl HubNotFoundError"
  by (simp add: getParticipantsInfo_def checkHub_def checkParticipant_def mockEnv_def mock_getParticipantInfo_def
      run_simps call_def lift_sum_def)

section \<open>The API on the doubles\<close>

text \<open>Every request is refused with 401: the tests of the routes replace the token helper.\<close>

theorem mock_api_refuses:
  assumes "token_getCallSecurityContext A = mock_getCallSecurityContext"
  shows "apiRequest A header r w = (SendStatus 401, w)"
  using assms by (simp add: apiRequest_def authenticated_def mock_getCallSecurityContext_def split: option.split)

end
