(* ===== verification/Repo_Errors.thy ===== *)
theory Repo_Errors
  imports Repositories
begin

text \<open>
  The error classes of the repositories (\<open>packages/implementations-lib/src/errors.ts\<close>), and which of them
  each operation of \<open>MongoTransfersRepo\<close> and \<open>MongoBulkTransfersRepo\<close> can reject with: whatever the
  driver does, its own errors do not escape.
\<close>

section \<open>The classes\<close>

datatype repo_error =
    UnableToAddTransferError
  | UnableToGetTransferError
  | TransferAlreadyExistsError
  | UnableToUpdateTransferError
  | NoSuchTransferError
  | UnableToDeleteTransferError
  | UnableToCloseDatabaseConnectionError
  | UnableToInitTransferRegistryError
  | UnableToInitBulkTransferRegistryError
  | UnableToSearchTransfers
  | UnableToBulkInsertTransfersError
  | UnableToAddBulkTransferError
  | UnableToUpdateBulkTransferError
  | BulkTransferNotFoundError
  | UnableToGetBulkTransferError
  | BulkTransferAlreadyExistsError

text \<open>The name under which the model of the repositories raises a class.\<close>

fun className :: "repo_error \<Rightarrow> string" where
  "className UnableToAddTransferError = ''UnableToAddTransferError''"
| "className UnableToGetTransferError = ''UnableToGetTransferError''"
| "className TransferAlreadyExistsError = ''TransferAlreadyExistsError''"
| "className UnableToUpdateTransferError = ''UnableToUpdateTransferError''"
| "className NoSuchTransferError = ''NoSuchTransferError''"
| "className UnableToDeleteTransferError = ''UnableToDeleteTransferError''"
| "className UnableToCloseDatabaseConnectionError = ''UnableToCloseDatabaseConnectionError''"
| "className UnableToInitTransferRegistryError = ''UnableToInitTransferRegistryError''"
| "className UnableToInitBulkTransferRegistryError = ''UnableToInitBulkTransferRegistryError''"
| "className UnableToSearchTransfers = ''UnableToSearchTransfers''"
| "className UnableToBulkInsertTransfersError = ''UnableToBulkInsertTransfersError''"
| "className UnableToAddBulkTransferError = ''UnableToAddBulkTransferError''"
| "className UnableToUpdateBulkTransferError = ''UnableToUpdateBulkTransferError''"
| "className BulkTransferNotFoundError = ''BulkTransferNotFoundError''"
| "className UnableToGetBulkTransferError = ''UnableToGetBulkTransferError''"
| "className BulkTransferAlreadyExistsError = ''BulkTransferAlreadyExistsError''"

text \<open>\<open>super(message || default)\<close>, or \<open>super(message)\<close> for the classes without a default.\<close>

fun defaultMessage :: "repo_error \<Rightarrow> string" where
  "defaultMessage UnableToAddTransferError = ''Unable to add transfer''"
| "defaultMessage UnableToGetTransferError = ''Unable to get transfer''"
| "defaultMessage TransferAlreadyExistsError = ''Transfer already registered''"
| "defaultMessage UnableToUpdateTransferError = ''Unable to update transfer''"
| "defaultMessage NoSuchTransferError = ''No such transfer''"
| "defaultMessage UnableToDeleteTransferError = ''Unable to delete transfer''"
| "defaultMessage UnableToCloseDatabaseConnectionError = ''Unable to close database connection''"
| "defaultMessage UnableToInitTransferRegistryError = ''Unable to initialize transfer registry''"
| "defaultMessage _ = ''''"

definition errorMessage :: "repo_error \<Rightarrow> string option \<Rightarrow> string" where
  "errorMessage e msg = (if truthy msg then the msg else defaultMessage e)"

definition thrown :: "repo_error \<Rightarrow> exn" where
  "thrown e = OtherError (className e)"

lemma thrown_inject: "thrown e = thrown e' \<longleftrightarrow> e = e'"
  by (cases e; cases e') (simp_all add: thrown_def)

section \<open>Which operation throws what\<close>

definition throws_only :: "repo_error set \<Rightarrow> ('c, 'a) call \<Rightarrow> bool" where
  "throws_only es m \<longleftrightarrow> (\<forall>c e. fst (m c) = Inl e \<longrightarrow> e \<in> thrown ` es)"

lemma throws_catchAs: "className e = name \<Longrightarrow> e \<in> es \<Longrightarrow> throws_only es (catchAs name m)"
  by (auto simp: throws_only_def catchAs_def run_simps thrown_def split: prod.splits sum.splits)

lemma throws_andThen: "throws_only es m \<Longrightarrow> (\<And>x. throws_only es (k x)) \<Longrightarrow> throws_only es (andThen m k)"
  unfolding throws_only_def andThen_def
  by (auto split: prod.splits sum.splits) (metis fst_conv)+

lemma throws_ret: "throws_only es (ret x)"
  by (simp add: throws_only_def ret_def)

lemma throws_raise: "className e = name \<Longrightarrow> e \<in> es \<Longrightarrow> throws_only es (raise (OtherError name))"
  by (auto simp: throws_only_def raise_def thrown_def)

lemma throws_mono: "throws_only es m \<Longrightarrow> es \<subseteq> es' \<Longrightarrow> throws_only es' m"
  unfolding throws_only_def by blast

lemma throws_if: "throws_only es m \<Longrightarrow> throws_only es n \<Longrightarrow> throws_only es (if b then m else n)"
  by simp

lemma throws_option:
  "throws_only es m \<Longrightarrow> (\<And>x. throws_only es (k x)) \<Longrightarrow> throws_only es (case v of None \<Rightarrow> m | Some x \<Rightarrow> k x)"
  by (cases v) simp_all

lemmas throws_intros = throws_andThen throws_ret throws_if

lemma mongo_get_throws: "throws_only {UnableToGetTransferError} (mongo_getTransferById C tid)"
  unfolding mongo_getTransferById_def
  by (intro throws_intros throws_catchAs [of UnableToGetTransferError]) simp_all

lemma mongo_getBulk_throws: "throws_only {UnableToGetBulkTransferError} (mongo_getBulkTransferById D bid)"
  unfolding mongo_getBulkTransferById_def
  by (intro throws_intros throws_catchAs [of UnableToGetBulkTransferError]) simp_all

lemma mongo_add_throws:
  "throws_only {UnableToGetTransferError, TransferAlreadyExistsError, UnableToAddTransferError} (mongo_addTransfer C fresh t)"
  unfolding mongo_addTransfer_def Let_def
  by (intro throws_intros throws_catchAs [of UnableToGetTransferError] throws_catchAs [of UnableToAddTransferError]
      throws_raise [of TransferAlreadyExistsError]) simp_all

lemma mongo_update_throws:
  "throws_only {UnableToGetTransferError, NoSuchTransferError, UnableToUpdateTransferError} (mongo_updateTransfer C t)"
  unfolding mongo_updateTransfer_def
  by (intro throws_intros throws_mono [OF mongo_get_throws] throws_catchAs [of UnableToUpdateTransferError]
      throws_raise [of NoSuchTransferError] throws_option) simp_all

lemma mongo_remove_throws: "throws_only {UnableToDeleteTransferError, NoSuchTransferError} (mongo_removeTransfer C k)"
  unfolding mongo_removeTransfer_def
  by (intro throws_intros throws_catchAs [of UnableToDeleteTransferError] throws_raise [of NoSuchTransferError]) simp_all

lemma mongo_addBulk_throws:
  "throws_only {UnableToGetBulkTransferError, BulkTransferAlreadyExistsError, UnableToAddBulkTransferError} (mongo_addBulkTransfer D b)"
  unfolding mongo_addBulkTransfer_def
  by (intro throws_intros throws_catchAs [of UnableToGetBulkTransferError] throws_catchAs [of UnableToAddBulkTransferError]
      throws_raise [of BulkTransferAlreadyExistsError]) simp_all

lemma mongo_updateBulk_throws:
  "throws_only {UnableToGetBulkTransferError, BulkTransferNotFoundError, UnableToUpdateBulkTransferError} (mongo_updateBulkTransfer D b)"
  unfolding mongo_updateBulkTransfer_def
  by (intro throws_intros throws_mono [OF mongo_getBulk_throws] throws_catchAs [of UnableToUpdateBulkTransferError]
      throws_raise [of BulkTransferNotFoundError] throws_option) simp_all

text \<open>C40: whatever the driver does, an operation of the MongoDB repositories rejects only with the error classes
  of the repository that are its own: an error of the driver reaches the caller under none of its own
  classes, and the mismatch of counts in \<open>storeTransfers\<close> comes out as an insertion error.\<close>

theorem repository_errors:
  "throws_only {UnableToGetTransferError} (mongo_getTransferById C tid) \<and>
   throws_only {UnableToGetTransferError} (mongo_getTransfersByBulkId C bid) \<and>
   throws_only {UnableToGetTransferError, TransferAlreadyExistsError, UnableToAddTransferError} (mongo_addTransfer C fresh t) \<and>
   throws_only {UnableToGetTransferError, NoSuchTransferError, UnableToUpdateTransferError} (mongo_updateTransfer C t) \<and>
   throws_only {UnableToDeleteTransferError, NoSuchTransferError} (mongo_removeTransfer C k) \<and>
   throws_only {UnableToBulkInsertTransfersError} (mongo_storeTransfers C ts) \<and>
   throws_only {UnableToSearchTransfers} (mongo_getTransfers count page args) \<and>
   throws_only {} (mongo_getSearchKeywords aggregate) \<and>
   throws_only {UnableToGetBulkTransferError} (mongo_getBulkTransferById D b) \<and>
   throws_only {UnableToGetBulkTransferError} (mongo_getBulkTransfers D) \<and>
   throws_only {UnableToGetBulkTransferError, BulkTransferAlreadyExistsError, UnableToAddBulkTransferError} (mongo_addBulkTransfer D bt) \<and>
   throws_only {UnableToGetBulkTransferError, BulkTransferNotFoundError, UnableToUpdateBulkTransferError} (mongo_updateBulkTransfer D bt)"
proof (intro conjI mongo_get_throws mongo_add_throws mongo_update_throws mongo_remove_throws
    mongo_getBulk_throws mongo_addBulk_throws mongo_updateBulk_throws)
  show "throws_only {UnableToGetTransferError} (mongo_getTransfersByBulkId C bid)"
    unfolding mongo_getTransfersByBulkId_def
    by (intro throws_intros throws_catchAs [of UnableToGetTransferError]) simp_all
  show "throws_only {UnableToBulkInsertTransfersError} (mongo_storeTransfers C ts)"
    unfolding mongo_storeTransfers_def by (rule throws_catchAs [of UnableToBulkInsertTransfersError]) simp_all
  show "throws_only {UnableToSearchTransfers} (mongo_getTransfers count page args)"
    unfolding mongo_getTransfers_def Let_def by (rule throws_catchAs [of UnableToSearchTransfers]) simp_all
  show "throws_only {} (mongo_getSearchKeywords aggregate)"
    by (auto simp: throws_only_def mongo_getSearchKeywords_def run_simps split: prod.splits sum.splits)
  show "throws_only {UnableToGetBulkTransferError} (mongo_getBulkTransfers D)"
    unfolding mongo_getBulkTransfers_def
    by (intro throws_intros throws_catchAs [of UnableToGetBulkTransferError]) simp_all
qed

end
