(* ===== verification/Wait.thy ===== *)
theory Wait
  imports Agg_State
begin

text \<open>
  \<open>waitForExpect\<close> (\<open>packages/shared-mocks-lib/src/helpers/utils.ts\<close>), with which the integration tests wait
  for the effect of a command: an expectation is run again, every \<open>interval\<close> milliseconds, until it
  passes or has failed often enough.  The timers are not modelled, only the tries.
\<close>

section \<open>The loop\<close>

text \<open>\<open>if (interval < 1) interval = 1; const maxTries = Math.ceil(timeout / interval)\<close>\<close>

definition maxTries :: "int \<Rightarrow> int \<Rightarrow> int" where
  "maxTries timeout interval = \<lceil>rat_of_int timeout / rat_of_int (if interval < 1 then 1 else interval)\<rceil>"

text \<open>One try, and what follows its failure; the second component of the result counts the tries.\<close>

function runExpectation :: "('w, unit) call \<Rightarrow> int \<Rightarrow> int \<Rightarrow> 'w \<Rightarrow> ((exn + unit) \<times> int) \<times> 'w" where
  "runExpectation expectation limit tries w =
     (let tries' = tries + 1 in
      case expectation w of
        (Inr _, w') \<Rightarrow> ((Inr (), tries'), w')
      | (Inl e, w') \<Rightarrow>
          if tries' > limit then ((Inl e, tries'), w')
          else runExpectation expectation limit tries' w')"
  by pat_completeness auto

termination
  by (relation "measure (\<lambda>(_, limit, tries, _). nat (limit - tries))") auto

declare runExpectation.simps [simp del]

definition waitForExpect :: "('w, unit) call \<Rightarrow> int \<Rightarrow> int \<Rightarrow> 'w \<Rightarrow> ((exn + unit) \<times> int) \<times> 'w" where
  "waitForExpect expectation timeout interval w = runExpectation expectation (maxTries timeout interval) 0 w"

section \<open>How often it tries\<close>

text \<open>The worlds in which the expectation is run.\<close>

primrec world_after :: "('w, unit) call \<Rightarrow> nat \<Rightarrow> 'w \<Rightarrow> 'w" where
  "world_after m 0 w = w"
| "world_after m (Suc n) w = snd (m (world_after m n w))"

lemma world_after_shift: "world_after m n (snd (m w)) = snd (m (world_after m n w))"
  by (induction n) simp_all

lemma runExpectation_spec:
  "runExpectation m limit tries w = ((r, n), w') \<Longrightarrow>
   tries < n \<and> (tries \<le> limit \<longrightarrow> n \<le> limit + 1) \<and> (limit < tries \<longrightarrow> n = tries + 1) \<and>
   w' = world_after m (nat (n - tries)) w \<and>
   r = fst (m (world_after m (nat (n - tries) - 1) w)) \<and>
   (\<forall>k < nat (n - tries) - 1. \<exists>e. fst (m (world_after m k w)) = Inl e) \<and>
   (\<forall>e. r = Inl e \<longrightarrow> n > limit)"
proof (induction m limit tries w arbitrary: n r w' rule: runExpectation.induct)
  case (1 m limit tries w)
  obtain x w1 where x: "m w = (x, w1)" by fastforce
  show ?case
  proof (cases x)
    case (Inr u)
    with 1(2) x show ?thesis by (auto simp: runExpectation.simps [of m limit tries w])
  next
    case (Inl e)
    show ?thesis
    proof (cases "tries + 1 > limit")
      case True
      with 1(2) x Inl show ?thesis by (auto simp: runExpectation.simps [of m limit tries w] Let_def)
    next
      case False
      with 1(2) x Inl have rec: "runExpectation m limit (tries + 1) w1 = ((r, n), w')"
        by (simp add: runExpectation.simps [of m limit tries w] Let_def)
      from 1(1) [OF refl x [symmetric] Inl False rec] have ih: "tries + 1 < n" "n \<le> limit + 1"
        "w' = world_after m (nat (n - (tries + 1))) w1"
        "r = fst (m (world_after m (nat (n - (tries + 1)) - 1) w1))"
        "\<And>k. k < nat (n - (tries + 1)) - 1 \<Longrightarrow> \<exists>e. fst (m (world_after m k w1)) = Inl e"
        "\<forall>e. r = Inl e \<longrightarrow> n > limit"
        using False by auto
      have shift: "world_after m (Suc k) w = world_after m k w1" for k
        using x world_after_shift [of m k w] by simp
      obtain j where j: "nat (n - (tries + 1)) = Suc j" using ih(1) by (cases "nat (n - (tries + 1))") simp_all
      then have n: "nat (n - tries) = Suc (Suc j)" using ih(1) by simp
      have "\<exists>e. fst (m (world_after m k w)) = Inl e" if "k < nat (n - tries) - 1" for k
        using that ih(5) [of "k - 1"] x Inl j n shift [of "k - 1"] by (cases k) auto
      moreover have "w' = world_after m (Suc (Suc j)) w" "r = fst (m (world_after m (Suc j) w))"
        using ih(3,4) j shift [of j] shift [of "Suc j"] by simp_all
      ultimately show ?thesis using ih(1,2,6) n False by simp
    qed
  qed
qed

text \<open>Waiting ends after at least one try and, for a timeout that is not negative, at most one more than
  \<open>timeout / interval\<close>, rounded up; it succeeds exactly when one of these tries passes, at the first that
  does, and otherwise rejects with the error of the last one.\<close>

theorem wait_ends:
  assumes "0 \<le> timeout" and "waitForExpect m timeout interval w = ((r, n), w')"
  shows "1 \<le> n \<and> n \<le> maxTries timeout interval + 1 \<and> w' = world_after m (nat n) w \<and>
     r = fst (m (world_after m (nat n - 1) w)) \<and>
     (\<forall>k < nat n - 1. \<exists>e. fst (m (world_after m k w)) = Inl e) \<and>
     (r = Inr () \<longleftrightarrow> (\<exists>k \<le> nat (maxTries timeout interval). fst (m (world_after m k w)) = Inr ()))"
proof -
  let ?max = "maxTries timeout interval"
  have "0 \<le> rat_of_int timeout / rat_of_int (if interval < 1 then 1 else interval)"
    using assms(1) by (intro divide_nonneg_nonneg) simp_all
  then have max: "0 \<le> ?max" unfolding maxTries_def by simp
  note spec = runExpectation_spec [OF assms(2) [unfolded waitForExpect_def]]
  have n: "1 \<le> n" "n \<le> ?max + 1" using spec max by simp_all
  have "r = Inr () \<longleftrightarrow> (\<exists>k \<le> nat ?max. fst (m (world_after m k w)) = Inr ())"
  proof
    assume "r = Inr ()"
    with spec n show "\<exists>k \<le> nat ?max. fst (m (world_after m k w)) = Inr ()"
      by (intro exI [of _ "nat n - 1"]) auto
  next
    assume "\<exists>k \<le> nat ?max. fst (m (world_after m k w)) = Inr ()"
    then obtain k where k: "k \<le> nat ?max" "fst (m (world_after m k w)) = Inr ()" by blast
    show "r = Inr ()"
    proof (cases r)
      case (Inl e)
      with spec n max have "n = ?max + 1" by auto
      with k(1) max have "k < nat n - 1 \<or> k = nat n - 1" by auto
      with spec k(2) Inl show ?thesis by fastforce
    qed simp
  qed
  with spec n show ?thesis by simp
qed

end
