(* ===== verification/Fixtures.thy ===== *)
theory Fixtures
  imports Prepare Repository_Properties
begin

text \<open>
  The test data of \<open>packages/shared-mocks-lib/src/mocked_data.ts\<close> that the program could meet: transfers, the
  accounts of the three participants, the accounts a test expects to be chosen from them, and payloads.
  The theorems say that the data fit the code: the expected accounts are the ones the aggregate finds, and
  only the fixture without an error code survives a round trip through MongoDB.
\<close>

section \<open>Transfers\<close>

text \<open>\<open>loaded\<close> is the time at which the module is loaded.\<close>

definition mockedTransfer1 :: "int \<Rightarrow> transfer" where
  "mockedTransfer1 loaded =
     \<lparr>createdAt = loaded, updatedAt = loaded, transferId = ''1'', bulkTransferId = None,
      payeeFspId = ''payee'', payerFspId = ''payer'', amount = ''200'', currencyCode = ''EUR'',
      expirationTimestamp = loaded, transferState = COMMITTED, completedTimestamp = Some loaded,
      errorCode = Some (ErrName TRANSFER_EXPIRED), errorInformation = None, settlementModel = ''DEFAULT'',
      hash = ''randomhash'', payerIdType = ''MSISDN'', payeeIdType = ''IBAN'', transferType = ''DEPOSIT'',
      transferExtensions = [], transferProtocolType = Some ''FSPIOP_v1_1'', transferOpaqueState = JNull\<rparr>"

definition mockedTransfer2 :: "int \<Rightarrow> transfer" where
  "mockedTransfer2 loaded =
     \<lparr>createdAt = loaded, updatedAt = loaded, transferId = ''2'', bulkTransferId = None,
      payeeFspId = ''11'', payerFspId = ''2'', amount = ''300'', currencyCode = ''USD'',
      expirationTimestamp = loaded, transferState = RESERVED, completedTimestamp = Some loaded,
      errorCode = Some (ErrName TRANSFER_EXPIRED), errorInformation = None, settlementModel = ''DEFAULT'',
      hash = ''randomhash'', payerIdType = ''MSISDN'', payeeIdType = ''IBAN'', transferType = ''DEPOSIT'',
      transferExtensions = [], transferProtocolType = Some ''FSPIOP_v1_1'', transferOpaqueState = JNull\<rparr>"

definition mockedTransfer3 :: "int \<Rightarrow> transfer" where
  "mockedTransfer3 loaded =
     \<lparr>createdAt = loaded, updatedAt = loaded, transferId = ''3'', bulkTransferId = None,
      payeeFspId = ''12'', payerFspId = ''3'', amount = ''400'', currencyCode = ''USD'',
      expirationTimestamp = loaded, transferState = ABORTED, completedTimestamp = Some loaded,
      errorCode = Some (ErrName TRANSFER_EXPIRED), errorInformation = None, settlementModel = ''DEFAULT'',
      hash = ''randomhash'', payerIdType = ''MSISDN'', payeeIdType = ''IBAN'', transferType = ''DEPOSIT'',
      transferExtensions = [], transferProtocolType = Some ''FSPIOP_v1_1'', transferOpaqueState = JNull\<rparr>"

definition mockedTransfer4 :: "int \<Rightarrow> transfer" where
  "mockedTransfer4 loaded =
     \<lparr>createdAt = loaded, updatedAt = loaded, transferId = ''4'', bulkTransferId = None,
      payeeFspId = ''13'', payerFspId = ''4'', amount = ''1000'', currencyCode = ''EUR'',
      expirationTimestamp = loaded, transferState = COMMITTED, completedTimestamp = Some loaded,
      errorCode = Some (ErrName TRANSFER_EXPIRED), errorInformation = None, settlementModel = ''DEFAULT'',
      hash = ''randomhash'', payerIdType = ''MSISDN'', payeeIdType = ''IBAN'', transferType = ''DEPOSIT'',
      transferExtensions = [], transferProtocolType = Some ''FSPIOP_v1_1'', transferOpaqueState = JNull\<rparr>"

definition mockedTransfer5 :: "int \<Rightarrow> transfer" where
  "mockedTransfer5 loaded =
     \<lparr>createdAt = loaded, updatedAt = loaded, transferId = ''4'', bulkTransferId = None,
      payeeFspId = ''13'', payerFspId = ''4'', amount = ''1000'', currencyCode = ''EUR'',
      expirationTimestamp = loaded, transferState = COMMITTED, completedTimestamp = Some loaded,
      errorCode = None, errorInformation = None, settlementModel = ''DEFAULT'',
      hash = ''randomhash'', payerIdType = ''MSISDN'', payeeIdType = ''IBAN'', transferType = ''DEPOSIT'',
      transferExtensions = [], transferProtocolType = Some ''FSPIOP_v1_1'', transferOpaqueState = JNull\<rparr>"

definition mockedTransfers :: "int \<Rightarrow> transfer list" where
  "mockedTransfers loaded = [mockedTransfer1 loaded, mockedTransfer2 loaded, mockedTransfer3 loaded, mockedTransfer4 loaded]"

section \<open>Participants\<close>

text \<open>The accounts of the hub, the payer and the payee, with the fields the aggregate reads.\<close>

definition mockedHubAccounts :: "participant_account list" where
  "mockedHubAccounts =
     [\<lparr>acc_id = ''d68edf98-8164-4982-b866-57791a9ca616'', acc_type = ''HUB_MULTILATERAL_SETTLEMENT'', acc_currencyCode = ''EUR''\<rparr>,
      \<lparr>acc_id = ''a83318b7-59cb-4830-bc7a-302b1be8929c'', acc_type = ''HUB_RECONCILIATION'', acc_currencyCode = ''EUR''\<rparr>,
      \<lparr>acc_id = ''bfee2497-3a6d-4c93-be7f-1335f84b2ebc'', acc_type = ''HUB_MULTILATERAL_SETTLEMENT'', acc_currencyCode = ''USD''\<rparr>,
      \<lparr>acc_id = ''f371b8a5-1bd1-4b30-ace5-39ca67847c1b'', acc_type = ''HUB_RECONCILIATION'', acc_currencyCode = ''USD''\<rparr>,
      \<lparr>acc_id = ''fee64a85-1cd2-4d99-b0f0-0691a05c3016'', acc_type = ''HUB_MULTILATERAL_SETTLEMENT'', acc_currencyCode = ''MMK''\<rparr>,
      \<lparr>acc_id = ''42c79887-f15b-4f2a-b6f7-ed87decdbc6b'', acc_type = ''HUB_RECONCILIATION'', acc_currencyCode = ''MMK''\<rparr>]"

definition mockedPayerAccounts :: "participant_account list" where
  "mockedPayerAccounts =
     [\<lparr>acc_id = ''4494b1a3-70e3-4bbb-b3dc-df4aa265915a'', acc_type = ''POSITION'', acc_currencyCode = ''USD''\<rparr>,
      \<lparr>acc_id = ''9b760de4-a036-4480-88aa-bc9be9692b0f'', acc_type = ''SETTLEMENT'', acc_currencyCode = ''USD''\<rparr>]"

definition mockedPayeeAccounts :: "participant_account list" where
  "mockedPayeeAccounts =
     [\<lparr>acc_id = ''06ae867c-5086-49d5-9769-11b6380324fe'', acc_type = ''POSITION'', acc_currencyCode = ''USD''\<rparr>,
      \<lparr>acc_id = ''131d46b0-6c15-41f2-a140-cae3e3f03744'', acc_type = ''SETTLEMENT'', acc_currencyCode = ''USD''\<rparr>]"

definition mockedHubParticipant :: participant where
  "mockedHubParticipant =
     \<lparr>part_id = ''hub'', part_approved = True, part_isActive = True, part_participantAccounts = mockedHubAccounts,
      part_netDebitCaps = Some []\<rparr>"

definition mockedPayerParticipant :: participant where
  "mockedPayerParticipant =
     \<lparr>part_id = ''bluebank'', part_approved = True, part_isActive = True, part_participantAccounts = mockedPayerAccounts,
      part_netDebitCaps = Some []\<rparr>"

definition mockedPayeeParticipant :: participant where
  "mockedPayeeParticipant =
     \<lparr>part_id = ''greenbank'', part_approved = True, part_isActive = True, part_participantAccounts = mockedPayeeAccounts,
      part_netDebitCaps = Some []\<rparr>"

definition mockedParticipantTransferAccounts :: transfer_accounts where
  "mockedParticipantTransferAccounts =
     \<lparr>ta_hubAccount = \<lparr>acc_id = ''f371b8a5-1bd1-4b30-ace5-39ca67847c1b'', acc_type = ''HUB_RECONCILIATION'', acc_currencyCode = ''USD''\<rparr>,
      ta_payerPosAccount = \<lparr>acc_id = ''4494b1a3-70e3-4bbb-b3dc-df4aa265915a'', acc_type = ''POSITION'', acc_currencyCode = ''USD''\<rparr>,
      ta_payerLiqAccount = \<lparr>acc_id = ''9b760de4-a036-4480-88aa-bc9be9692b0f'', acc_type = ''SETTLEMENT'', acc_currencyCode = ''USD''\<rparr>,
      ta_payeePosAccount = \<lparr>acc_id = ''06ae867c-5086-49d5-9769-11b6380324fe'', acc_type = ''POSITION'', acc_currencyCode = ''USD''\<rparr>,
      ta_payeeLiqAccount = \<lparr>acc_id = ''131d46b0-6c15-41f2-a140-cae3e3f03744'', acc_type = ''SETTLEMENT'', acc_currencyCode = ''USD''\<rparr>\<rparr>"

section \<open>Payloads\<close>

definition mockedTransferPreparePayload :: prepare_payload where
  "mockedTransferPreparePayload =
     \<lparr>prep_bulkTransferId = None, prep_transferId = ''1234567890'', prep_amount = ''100.00'', prep_currencyCode = ''USD'',
      prep_payerFsp = ''examplePayerFSP'', prep_payeeFsp = ''examplePayeeFSP'', prep_expiration = 1621080000,
      prep_payerIdType = ''MSISDN'', prep_payeeIdType = ''MSISDN'', prep_transferType = ''exampleTransferType'',
      prep_extensions = [(''exampleKey1'', ''exampleValue1''), (''exampleKey2'', ''exampleValue2'')]\<rparr>"

definition mockedTransferQueryPayload :: query_payload where
  "mockedTransferQueryPayload =
     \<lparr>qry_transferId = ''1357924680'', qry_requesterFspId = ''bluebank'', qry_destinationFspId = ''greenbank''\<rparr>"

definition mockedBulkTransferQueryPayload :: query_bulk_payload where
  "mockedBulkTransferQueryPayload =
     \<lparr>bqry_bulkTransferId = ''1357924680'', bqry_requesterFspId = ''bluebank'', bqry_destinationFspId = ''greenbank''\<rparr>"

section \<open>The data and the code\<close>

lemma fixture_finds:
  "findAccount mockedHubParticipant HUB cur = find (\<lambda>a. acc_currencyCode a = cur)
     [mockedHubAccounts ! 1, mockedHubAccounts ! 3, mockedHubAccounts ! 5]"
  "findAccount mockedPayerParticipant POSITION cur = find (\<lambda>a. acc_currencyCode a = cur) [mockedPayerAccounts ! 0]"
  "findAccount mockedPayerParticipant SETTLEMENT cur = find (\<lambda>a. acc_currencyCode a = cur) [mockedPayerAccounts ! 1]"
  "findAccount mockedPayeeParticipant POSITION cur = find (\<lambda>a. acc_currencyCode a = cur) [mockedPayeeAccounts ! 0]"
  "findAccount mockedPayeeParticipant SETTLEMENT cur = find (\<lambda>a. acc_currencyCode a = cur) [mockedPayeeAccounts ! 1]"
  by (simp_all add: findAccount_def mockedHubParticipant_def mockedPayerParticipant_def mockedPayeeParticipant_def
      mockedHubAccounts_def mockedPayerAccounts_def mockedPayeeAccounts_def)

text \<open>For a transfer in dollars the aggregate finds among the accounts of the three fixtures those that the
  tests expect; in any other currency some account is missing, the hub's outside of euro and kyat.\<close>

theorem fixture_accounts:
  "getTransferParticipantsAccounts
     \<lparr>tp_hub = mockedHubParticipant, tp_payer = mockedPayerParticipant, tp_payee = mockedPayeeParticipant\<rparr> t =
   (if currencyCode t = ''USD'' then Inr mockedParticipantTransferAccounts
    else if currencyCode t \<in> {''EUR'', ''MMK''} then Inl PayerPositionAccountNotFoundError
    else Inl HubAccountNotFoundError)"
  by (simp add: getTransferParticipantsAccounts_def fixture_finds Let_def mockedParticipantTransferAccounts_def
      mockedHubAccounts_def mockedPayerAccounts_def mockedPayeeAccounts_def)

text \<open>Of the transfers only \<open>mockedTransfer5\<close>, which has no error code, is read from MongoDB as it was stored; two
  of them have the same identifier.\<close>

theorem fixtures_round_trip:
  "filter (\<lambda>t. mapToTransfer t = t) (mockedTransfers loaded @ [mockedTransfer5 loaded]) = [mockedTransfer5 loaded] \<and>
   transferId (mockedTransfer4 loaded) = transferId (mockedTransfer5 loaded) \<and> distinct (map transferId (mockedTransfers loaded))"
  by (simp add: mockedTransfers_def mapToTransfer_def mockedTransfer1_def mockedTransfer2_def mockedTransfer3_def
      mockedTransfer4_def mockedTransfer5_def)

end
