(* ===== verification/Connections.thy ===== *)
theory Connections
  imports Adapters Mocks
begin

text \<open>
  How the components get connected: \<open>start\<close> and \<open>stop\<close> of the two message handlers, the connection and the
  credentials of the Accounts & Balances and settlements adapters, and what the doubles and the Kafka
  helper of \<open>shared-mocks-lib\<close> keep.  Consumers, producers, login helpers and clients are third-party code,
  so their operations are parameters, over the world \<open>'w\<close>.
\<close>

section \<open>The message handlers\<close>

record 'w consumer_ops =
  co_setTopics :: "string list \<Rightarrow> 'w \<Rightarrow> 'w"
  co_setCallback :: "'w \<Rightarrow> 'w"
  co_connect :: "('w, unit) call"
  co_startAndWaitForRebalance :: "('w, unit) call"
  co_stop :: "('w, unit) call"
  co_disconnect :: "('w, unit) call"
  co_destroy :: "bool \<Rightarrow> ('w, unit) call"

record 'w producer_ops =
  po_connect :: "('w, unit) call"
  po_disconnect :: "('w, unit) call"
  po_destroy :: "('w, unit) call"

text \<open>\<open>TransfersBCTopics\<close>, of the platform's messages library.\<close>

record topics =
  DomainRequests :: string
  DomainEvents :: string
  TimeoutEvents :: string

definition doing :: "('w \<Rightarrow> 'w) \<Rightarrow> ('w, unit) call" where
  "doing f w = (Inr (), f w)"

definition commandHandler_start :: "topics \<Rightarrow> 'w consumer_ops \<Rightarrow> ('w, unit) call" where
  "commandHandler_start T C =
     andThen (doing (co_setTopics C [DomainRequests T])) (\<lambda>_.
     andThen (doing (co_setCallback C)) (\<lambda>_.
     andThen (co_connect C) (\<lambda>_.
     co_startAndWaitForRebalance C)))"

definition commandHandler_stop :: "'w consumer_ops \<Rightarrow> ('w, unit) call" where
  "commandHandler_stop C = co_stop C"

definition eventHandler_start :: "topics \<Rightarrow> 'w consumer_ops \<Rightarrow> 'w producer_ops \<Rightarrow> ('w, unit) call" where
  "eventHandler_start T C P =
     andThen (po_connect P) (\<lambda>_.
     andThen (doing (co_setTopics C [DomainRequests T, DomainEvents T, TimeoutEvents T])) (\<lambda>_.
     andThen (doing (co_setCallback C)) (\<lambda>_.
     andThen (co_connect C) (\<lambda>_.
     co_startAndWaitForRebalance C))))"

definition eventHandler_stop :: "'w consumer_ops \<Rightarrow> ('w, unit) call" where
  "eventHandler_stop C = co_stop C"

text \<open>The consumer of the helper \<open>KafkaConsumer\<close>, which the integration tests listen with.\<close>

definition kafkaConsumer_init :: "string list \<Rightarrow> 'w consumer_ops \<Rightarrow> 'w producer_ops \<Rightarrow> ('w, unit) call" where
  "kafkaConsumer_init ts C P =
     andThen (doing (co_setTopics C ts)) (\<lambda>_.
     andThen (doing (co_setCallback C)) (\<lambda>_.
     andThen (po_connect P) (\<lambda>_.
     andThen (co_connect C) (\<lambda>_.
     co_startAndWaitForRebalance C))))"

definition kafkaConsumer_destroy :: "'w consumer_ops \<Rightarrow> 'w producer_ops \<Rightarrow> ('w, unit) call" where
  "kafkaConsumer_destroy C P =
     andThen (po_disconnect P) (\<lambda>_.
     andThen (po_destroy P) (\<lambda>_.
     andThen (co_disconnect C) (\<lambda>_.
     co_destroy C True)))"

text \<open>
  A consumer that does not forget: \<open>subscribed\<close> and \<open>listening\<close> observe the topics and the presence of a
  callback, which connecting (of the consumer or of a producer) does not touch.
\<close>

definition keeps_subscription :: "('w \<Rightarrow> string list) \<Rightarrow> ('w \<Rightarrow> bool) \<Rightarrow> 'w consumer_ops \<Rightarrow> 'w producer_ops \<Rightarrow> bool" where
  "keeps_subscription subscribed listening C P \<longleftrightarrow>
     (\<forall>ts w. subscribed (co_setTopics C ts w) = ts \<and> listening (co_setTopics C ts w) = listening w) \<and>
     (\<forall>w. subscribed (co_setCallback C w) = subscribed w \<and> listening (co_setCallback C w)) \<and>
     (\<forall>w. subscribed (snd (co_connect C w)) = subscribed w \<and> listening (snd (co_connect C w)) = listening w) \<and>
     (\<forall>w. subscribed (snd (po_connect P w)) = subscribed w \<and> listening (snd (po_connect P w)) = listening w)"

text \<open>\<open>m\<close> resolves only through a consumer that it starts, connected, on \<open>ts\<close> and with a callback.\<close>

definition starts_on :: "('w \<Rightarrow> string list) \<Rightarrow> ('w \<Rightarrow> bool) \<Rightarrow> 'w consumer_ops \<Rightarrow> string list \<Rightarrow> ('w, unit) call \<Rightarrow> bool" where
  "starts_on subscribed listening C ts m \<longleftrightarrow>
     (\<forall>w w'. m w = (Inr (), w') \<longrightarrow>
        (\<exists>v u. co_connect C v = (Inr (), u) \<and> co_startAndWaitForRebalance C u = (Inr (), w') \<and>
           subscribed u = ts \<and> listening u))"

text \<open>The handlers and the test helper start their consumer only when it is subscribed and would call them back,
  so no message can be delivered into the void between the two.\<close>

theorem handlers_start_subscribed:
  assumes "keeps_subscription subscribed listening C P"
  shows "starts_on subscribed listening C [DomainRequests T] (commandHandler_start T C) \<and>
     starts_on subscribed listening C [DomainRequests T, DomainEvents T, TimeoutEvents T] (eventHandler_start T C P) \<and>
     starts_on subscribed listening C ts (kafkaConsumer_init ts C P)"
proof (intro conjI)
  note facts = assms [unfolded keeps_subscription_def]
  show "starts_on subscribed listening C [DomainRequests T] (commandHandler_start T C)"
    unfolding starts_on_def commandHandler_start_def
    by (auto simp: run_simps doing_def split: prod.splits sum.splits) (metis facts snd_conv)
  show "starts_on subscribed listening C [DomainRequests T, DomainEvents T, TimeoutEvents T] (eventHandler_start T C P)"
    unfolding starts_on_def eventHandler_start_def
    by (auto simp: run_simps doing_def split: prod.splits sum.splits) (metis facts snd_conv)
  show "starts_on subscribed listening C ts (kafkaConsumer_init ts C P)"
    unfolding starts_on_def kafkaConsumer_init_def
    by (auto simp: run_simps doing_def split: prod.splits sum.splits) (metis facts snd_conv)
qed

section \<open>The messages that the test helper has seen\<close>

datatype 'msg helper_op = Handler_op 'msg | AddEvent 'msg | ClearEvents

fun helper_events :: "'msg helper_op \<Rightarrow> 'msg list \<Rightarrow> 'msg list" where
  "helper_events (Handler_op msg) events = events @ [msg]"
| "helper_events (AddEvent msg) events = events @ [msg]"
| "helper_events ClearEvents events = []"

fun helper_msg :: "'msg helper_op \<Rightarrow> 'msg option" where
  "helper_msg (Handler_op msg) = Some msg"
| "helper_msg (AddEvent msg) = Some msg"
| "helper_msg ClearEvents = None"

lemma helper_events_unfold: "helper_events op es = (case helper_msg op of None \<Rightarrow> [] | Some m \<Rightarrow> es @ [m])"
  by (cases op) simp_all

text \<open>\<open>getEvents\<close> returns the messages since the last clearing, in the order in which they arrived.\<close>

theorem helper_keeps_order:
  "fold helper_events ops [] = map (the \<circ> helper_msg) (rev (takeWhile (\<lambda>op. op \<noteq> ClearEvents) (rev ops)))"
proof (induction ops rule: rev_induct)
  case (snoc op ops)
  show ?case by (cases op) (simp_all add: snoc.IH)
qed simp

section \<open>The connection of the adapters\<close>

text \<open>The client that \<open>init\<close> creates, and the login helper that was given to the constructor.\<close>

record 'w remote_client =
  rc_init :: "('w, unit) call"
  rc_destroy :: "('w, unit) call"

record 'w login_helper =
  lh_setToken :: "string \<Rightarrow> 'w \<Rightarrow> 'w"
  lh_setUserCredentials :: "string \<Rightarrow> string \<Rightarrow> string \<Rightarrow> 'w \<Rightarrow> 'w"
  lh_setAppCredentials :: "string \<Rightarrow> string \<Rightarrow> 'w \<Rightarrow> 'w"

text \<open>\<open>_client\<close> of the gRPC adapter: assigned before the connection is awaited, absent before \<open>init\<close>.\<close>

definition adapter_init ::
  "'w remote_client \<Rightarrow> ('w remote_client option \<times> 'w) \<Rightarrow> (exn + unit) \<times> ('w remote_client option \<times> 'w)" where
  "adapter_init R st = (case rc_init R (snd st) of (r, w) \<Rightarrow> (r, (Some R, w)))"

definition adapter_destroy ::
  "('w remote_client option \<times> 'w) \<Rightarrow> (exn + unit) \<times> ('w remote_client option \<times> 'w)" where
  "adapter_destroy st =
     (case fst st of
        None \<Rightarrow> (Inl TypeError, st)
      | Some R \<Rightarrow> (case rc_destroy R (snd st) of (r, w) \<Rightarrow> (r, (Some R, w))))"

definition adapter_setToken :: "'w login_helper \<Rightarrow> string \<Rightarrow> 'w \<Rightarrow> 'w" where
  "adapter_setToken H accessToken = lh_setToken H accessToken"

definition adapter_setUserCredentials :: "'w login_helper \<Rightarrow> string \<Rightarrow> string \<Rightarrow> string \<Rightarrow> 'w \<Rightarrow> 'w" where
  "adapter_setUserCredentials H client_id username password = lh_setUserCredentials H client_id username password"

definition adapter_setAppCredentials :: "'w login_helper \<Rightarrow> string \<Rightarrow> string \<Rightarrow> 'w \<Rightarrow> 'w" where
  "adapter_setAppCredentials H client_id client_secret = lh_setAppCredentials H client_id client_secret"

definition settlements_init :: "'w remote_client \<Rightarrow> ('w, unit) call" where
  "settlements_init R = rc_init R"

text \<open>A failed \<open>init\<close> leaves a client behind: the adapter can be destroyed after it, but not without one.\<close>

theorem adapter_destroyable:
  "fst (adapter_destroy (None, w)) = Inl TypeError \<and>
   fst (adapter_destroy (snd (adapter_init R (c, w)))) = fst (rc_destroy R (snd (rc_init R w)))"
  by (simp add: adapter_destroy_def adapter_init_def split: prod.split)

section \<open>What the doubles keep and answer\<close>

text \<open>The credentials of \<open>MemoryAccountsAndBalancesService\<close> and of \<open>MemoryAuthenticatedHttpRequesterMock\<close>,
  which has no token.\<close>

record mock_credentials =
  mc_access_token :: "string option"
  mc_client_id :: "string option"
  mc_client_secret :: "string option"
  mc_username :: "string option"
  mc_password :: "string option"

definition mock_no_credentials :: mock_credentials where
  "mock_no_credentials =
     \<lparr>mc_access_token = None, mc_client_id = None, mc_client_secret = None, mc_username = None, mc_password = None\<rparr>"

definition mock_setToken :: "string \<Rightarrow> mock_credentials \<Rightarrow> mock_credentials" where
  "mock_setToken tok c = c\<lparr>mc_access_token := Some tok\<rparr>"

definition mock_setAppCredentials :: "string \<Rightarrow> string \<Rightarrow> mock_credentials \<Rightarrow> mock_credentials" where
  "mock_setAppCredentials client_id client_secret c =
     c\<lparr>mc_client_id := Some client_id, mc_client_secret := Some client_secret\<rparr>"

definition mock_setUserCredentials :: "string \<Rightarrow> string \<Rightarrow> string \<Rightarrow> mock_credentials \<Rightarrow> mock_credentials" where
  "mock_setUserCredentials client_id username password c =
     c\<lparr>mc_client_id := Some client_id, mc_username := Some username, mc_password := Some password\<rparr>"

definition requester_setAppCredentials :: "string \<Rightarrow> string \<Rightarrow> mock_credentials \<Rightarrow> mock_credentials" where
  "requester_setAppCredentials client_id client_secret c =
     c\<lparr>mc_client_id := Some client_id, mc_client_secret := Some client_secret\<rparr>"

definition requester_setUserCredentials :: "string \<Rightarrow> string \<Rightarrow> string \<Rightarrow> mock_credentials \<Rightarrow> mock_credentials" where
  "requester_setUserCredentials client_id username password c =
     c\<lparr>mc_client_id := Some client_id, mc_username := Some username, mc_password := Some password\<rparr>"

text \<open>The two kinds of credentials share the client's identifier: setting one after the other keeps the
  secret of the first, under the identifier of the second.\<close>

theorem mock_credentials_mix:
  "mock_setUserCredentials i u p (mock_setAppCredentials j s c) =
     c\<lparr>mc_client_id := Some i, mc_client_secret := Some s, mc_username := Some u, mc_password := Some p\<rparr> \<and>
   mock_setAppCredentials j s (mock_setUserCredentials i u p c) =
     c\<lparr>mc_client_id := Some j, mc_client_secret := Some s, mc_username := Some u, mc_password := Some p\<rparr>"
  by (simp add: mock_setUserCredentials_def mock_setAppCredentials_def)

text \<open>The one account and the one journal entry of the double of Accounts & Balances.\<close>

record mock_account =
  ma_id :: "string option"
  ma_ownerId :: string
  ma_state :: string
  ma_type :: string
  ma_currencyCode :: string
  ma_postedDebitBalance :: "string option"
  ma_pendingDebitBalance :: "string option"
  ma_postedCreditBalance :: "string option"
  ma_pendingCreditBalance :: "string option"
  ma_balance :: "string option"
  ma_timestampLastJournalEntry :: "int option"

definition mock_getAccount :: "string \<Rightarrow> ('w, mock_account option) call" where
  "mock_getAccount accountId = ret (Some
     \<lparr>ma_id = None, ma_ownerId = [], ma_state = ''ACTIVE'', ma_type = ''FEE'', ma_currencyCode = [],
      ma_postedDebitBalance = None, ma_pendingDebitBalance = None, ma_postedCreditBalance = None,
      ma_pendingCreditBalance = None, ma_balance = None, ma_timestampLastJournalEntry = None\<rparr>)"

definition mock_getAccounts :: "string list \<Rightarrow> ('w, mock_account list) call" where
  "mock_getAccounts accountIds = ret
     [\<lparr>ma_id = None, ma_ownerId = [], ma_state = ''ACTIVE'', ma_type = ''FEE'', ma_currencyCode = [],
      ma_postedDebitBalance = None, ma_pendingDebitBalance = None, ma_postedCreditBalance = None,
      ma_pendingCreditBalance = None, ma_balance = None, ma_timestampLastJournalEntry = None\<rparr>]"

definition mock_getParticipantAccounts :: "string \<Rightarrow> ('w, mock_account list) call" where
  "mock_getParticipantAccounts participantId = ret
     [\<lparr>ma_id = None, ma_ownerId = [], ma_state = ''ACTIVE'', ma_type = ''FEE'', ma_currencyCode = [],
      ma_postedDebitBalance = None, ma_pendingDebitBalance = None, ma_postedCreditBalance = None,
      ma_pendingCreditBalance = None, ma_balance = None, ma_timestampLastJournalEntry = None\<rparr>]"

record mock_journal_entry =
  mj_id :: "string option"
  mj_ownerId :: "string option"
  mj_currencyCode :: string
  mj_amount :: string
  mj_pending :: bool
  mj_debitedAccountId :: string
  mj_creditedAccountId :: string
  mj_timestamp :: "int option"

definition mock_getJournalEntriesByAccountId :: "string \<Rightarrow> ('w, mock_journal_entry list) call" where
  "mock_getJournalEntriesByAccountId accountId = ret
     [\<lparr>mj_id = None, mj_ownerId = None, mj_currencyCode = [], mj_amount = [], mj_pending = False,
      mj_debitedAccountId = [], mj_creditedAccountId = [], mj_timestamp = None\<rparr>]"

text \<open>The double and the adapter disagree on an unknown account: the double always has one, and its journal
  has an entry where the adapter's, not written yet, has none.\<close>

theorem accounts_double_differs:
  "cl_getAccountsByIds K [i] w = (Inr [], w') \<Longrightarrow>
   fst (adapter_getAccount K i w) = Inr None \<and> (\<exists>a. fst (mock_getAccount i w) = Inr (Some a)) \<and>
   fst (adapter_getJournalEntriesByAccountId K i w) = Inr [] \<and>
   (\<exists>entry. fst (mock_getJournalEntriesByAccountId i w) = Inr [entry])"
  by (simp add: adapter_getAccount_def mock_getAccount_def adapter_getJournalEntriesByAccountId_def
      mock_getJournalEntriesByAccountId_def run_simps)

end
