(* ===== verification/Last_Commit.thy ===== *)
theory Last_Commit
  imports Agg_State Js_Values
begin

text \<open>
  The script of the build that looks for the commit of the last successful build of a branch
  (\<open>.circleci/getLastCommit.js\<close>): its arguments, the pages of pipelines it reads from the API of CircleCI,
  and the loop over the pages, which ends with the process.  The API is a parameter (\<open>ci\<close>); what the
  debug mode logs on its way is left out.
\<close>

section \<open>Arguments\<close>

text \<open>\<open>getArgs\<close> fills an object: a long argument has the text between its first two \<open>=\<close>, or \<open>true\<close>; assigning
  to \<open>__proto__\<close> a value that is no object has no effect.\<close>

datatype arg_value = Flag | Text string

type_synonym args = "string \<Rightarrow> arg_value option"

definition assign_arg :: "string \<Rightarrow> arg_value \<Rightarrow> args \<Rightarrow> args" where
  "assign_arg k v m = (if k = ''__proto__'' then m else m(k \<mapsto> v))"

definition long_arg :: "string \<Rightarrow> args \<Rightarrow> args" where
  "long_arg arg m =
     (case split_on CHR ''='' arg of
        [] \<Rightarrow> m
      | [flag] \<Rightarrow> assign_arg (drop 2 flag) Flag m
      | flag # value # _ \<Rightarrow> assign_arg (drop 2 flag) (Text value) m)"

definition read_arg :: "string \<Rightarrow> args \<Rightarrow> args" where
  "read_arg arg m =
     (if take 2 arg = ''--'' then long_arg arg m
      else if take 1 arg = ''-'' then fold (\<lambda>flag. assign_arg [flag] Flag) (drop 1 arg) m
      else m)"

definition getArgs :: "string list \<Rightarrow> args" where
  "getArgs argv = fold read_arg argv (\<lambda>_. None)"

record ci_config =
  cfg_debug :: bool
  cfg_branch :: string
  cfg_projectslug :: string
  cfg_authorization :: string

definition slugPrefix :: string where "slugPrefix = ''gh/mojaloop/''"

text \<open>\<open>!args.user.length > 1\<close> compares a truth value with 1 and is never true, so one character is enough.\<close>

definition text_arg :: "string \<Rightarrow> args \<Rightarrow> string + string" where
  "text_arg k m = (case m k of Some (Text s) \<Rightarrow> if s = '''' then Inl k else Inr s | _ \<Rightarrow> Inl k)"

text \<open>An argument that is missing ends the process with status 1, and so does the \<open>TypeError\<close> after an argument
  called \<open>hasOwnProperty\<close>.  The base64 encoding is a parameter.\<close>

definition processArgs :: "(string \<Rightarrow> string) \<Rightarrow> string list \<Rightarrow> string + ci_config" where
  "processArgs base64 argv =
     (let args = getArgs argv in
      if args ''hasOwnProperty'' \<noteq> None then Inl ''hasOwnProperty'' else
      (case text_arg ''user'' args of Inl e \<Rightarrow> Inl e | Inr user \<Rightarrow>
      (case text_arg ''repo'' args of Inl e \<Rightarrow> Inl e | Inr repo \<Rightarrow>
      (case text_arg ''branch'' args of Inl e \<Rightarrow> Inl e | Inr branch \<Rightarrow>
         Inr \<lparr>cfg_debug = args ''debug'' \<noteq> None, cfg_branch = branch, cfg_projectslug = slugPrefix @ repo,
              cfg_authorization = ''Basic '' @ base64 (user @ '':'')\<rparr>))))"

section \<open>The API\<close>

record workflow =
  wf_name :: string
  wf_status :: string

record vcs =
  vcs_branch :: "string option"
  vcs_revision :: string

record ci_pipeline =
  pl_id :: string
  pl_state :: string
  pl_vcs :: "vcs option"

record pipelines_page =
  page_items :: "ci_pipeline list option"
  page_next :: "string option"

text \<open>The answers to a request for pipelines and to one for workflows, by URL and authorization; \<open>None\<close> is a
  body that is null, and an answer may lack its \<open>items\<close>.\<close>

record 'w ci =
  ci_pipelines :: "string \<Rightarrow> string \<Rightarrow> ('w, pipelines_page option) call"
  ci_workflows :: "string \<Rightarrow> string \<Rightarrow> ('w, workflow list option option) call"

definition pipelinesUrl :: "ci_config \<Rightarrow> string option \<Rightarrow> string" where
  "pipelinesUrl cfg tok =
     ''https://circleci.com/api/v2/project/'' @ cfg_projectslug cfg @ ''/pipeline/'' @
     (case tok of Some t \<Rightarrow> if t = '''' then '''' else ''?page-token='' @ t | None \<Rightarrow> '''')"

definition workflowsUrl :: "string \<Rightarrow> string" where
  "workflowsUrl pipelineId = ''https://circleci.com/api/v2/pipeline/'' @ pipelineId @ ''/workflow''"

text \<open>The result includes what the global \<open>pipelinesNextPageToken\<close> is set to.\<close>

definition getPipelines :: "'w ci \<Rightarrow> ci_config \<Rightarrow> string option \<Rightarrow> ('w, ci_pipeline list \<times> string option) call" where
  "getPipelines A cfg tok =
     andThen (ci_pipelines A (pipelinesUrl cfg tok) (cfg_authorization cfg)) (\<lambda>resp.
       case resp of
         None \<Rightarrow> raise (OtherError ''Invalid or empty response from getPipelines()'')
       | Some page \<Rightarrow>
           (case page_items page of
              None \<Rightarrow> raise (OtherError ''Invalid or empty response from getPipelines()'')
            | Some items \<Rightarrow> ret (items, page_next page)))"

definition getPipelineWorkflows :: "'w ci \<Rightarrow> ci_config \<Rightarrow> string \<Rightarrow> ('w, workflow list option) call" where
  "getPipelineWorkflows A cfg pipelineId =
     andThen (ci_workflows A (workflowsUrl pipelineId) (cfg_authorization cfg)) (\<lambda>resp.
       case resp of
         None \<Rightarrow> raise (OtherError ''Invalid or empty response from getPipelineWorkflows()'')
       | Some None \<Rightarrow> raise (OtherError ''Invalid or empty response from getPipelineWorkflows()'')
       | Some (Some items) \<Rightarrow> ret (if items = [] then None else Some items))"

section \<open>The loop\<close>

definition failedWorkflow :: "workflow \<Rightarrow> bool" where
  "failedWorkflow flow \<longleftrightarrow> wf_status flow \<noteq> ''success'' \<and> wf_status flow \<noteq> ''not_run''"

text \<open>The pipelines of a page: the revision of the first one that counts as successful ends the search.\<close>

fun searchPage :: "'w ci \<Rightarrow> ci_config \<Rightarrow> ci_pipeline list \<Rightarrow> ('w, string option) call" where
  "searchPage A cfg [] = ret None"
| "searchPage A cfg (p # ps) =
     (if pl_state p = ''errored'' then searchPage A cfg ps
      else case pl_vcs p of
        None \<Rightarrow> searchPage A cfg ps
      | Some v \<Rightarrow>
          if vcs_branch v \<noteq> Some (cfg_branch cfg) then searchPage A cfg ps
          else andThen (getPipelineWorkflows A cfg (pl_id p)) (\<lambda>found.
            let workflowList = (case found of None \<Rightarrow> [] | Some wfs \<Rightarrow> wfs) in
            if list_ex failedWorkflow workflowList then searchPage A cfg ps
            else ret (Some (vcs_revision v))))"

datatype search = Next string | Over "string option" | Broken exn

definition searchNext :: "'w ci \<Rightarrow> ci_config \<Rightarrow> string option \<Rightarrow> 'w \<Rightarrow> search \<times> 'w" where
  "searchNext A cfg tok w =
     (case andThen (getPipelines A cfg tok) (\<lambda>(items, next).
             andThen (searchPage A cfg items) (\<lambda>found. ret (found, next))) w of
        (Inl e, w') \<Rightarrow> (Broken e, w')
      | (Inr (Some revision, _), w') \<Rightarrow> (Over (Some revision), w')
      | (Inr (None, next), w') \<Rightarrow> (case next of Some t \<Rightarrow> if t = '''' then Over None else Next t | None \<Rightarrow> Over None, w'))"

definition next_token :: "search \<Rightarrow> string option" where
  "next_token r = (case r of Next t \<Rightarrow> Some t | _ \<Rightarrow> None)"

text \<open>\<open>while (true)\<close>; a loop that never ends is \<open>None\<close>.\<close>

partial_function (option) startLoop :: "'w ci \<Rightarrow> ci_config \<Rightarrow> string option \<Rightarrow> 'w \<Rightarrow> (search \<times> 'w) option" where
  "startLoop A cfg tok w =
     (let r = searchNext A cfg tok w in
      if next_token (fst r) = None then Some r else startLoop A cfg (next_token (fst r)) (snd r))"

text \<open>The whole process: its exit status and the line it prints.\<close>

definition report :: "ci_config \<Rightarrow> search \<Rightarrow> int \<times> string option" where
  "report cfg r =
     (case r of
        Over (Some revision) \<Rightarrow>
          (0, Some (if cfg_debug cfg then ''Last successful build commit sha is: '' @ revision else revision))
      | Over None \<Rightarrow> (0, if cfg_debug cfg then Some ''No more pipeline executions found, giving up.'' else None)
      | _ \<Rightarrow> (99, None))"

definition lastCommit :: "'w ci \<Rightarrow> (string \<Rightarrow> string) \<Rightarrow> string list \<Rightarrow> 'w \<Rightarrow> ((int \<times> string option) \<times> 'w) option" where
  "lastCommit A base64 argv w =
     (case processArgs base64 argv of
        Inl _ \<Rightarrow> Some ((1, None), w)
      | Inr cfg \<Rightarrow> map_option (apfst (report cfg)) (startLoop A cfg None w))"

section \<open>What the search finds\<close>

text \<open>Reference: a pipeline counts as successful when it is of the branch, was not refused, and none of its
  workflows failed; \<open>wfs\<close> gives the workflows of a pipeline.\<close>

definition successful :: "ci_config \<Rightarrow> (string \<Rightarrow> workflow list) \<Rightarrow> ci_pipeline \<Rightarrow> bool" where
  "successful cfg wfs p \<longleftrightarrow> pl_state p \<noteq> ''errored'' \<and> map_option vcs_branch (pl_vcs p) = Some (Some (cfg_branch cfg)) \<and>
     (\<forall>flow \<in> set (wfs (pl_id p)). wf_status flow \<in> {''success'', ''not_run''})"

definition revision :: "ci_pipeline \<Rightarrow> string" where
  "revision p = (case pl_vcs p of Some v \<Rightarrow> vcs_revision v | None \<Rightarrow> '''')"

text \<open>An API that always answers, with the pages \<open>pg\<close> and the workflows \<open>wfs\<close>.\<close>

definition serves :: "'w ci \<Rightarrow> (string \<Rightarrow> pipelines_page) \<Rightarrow> (string \<Rightarrow> workflow list) \<Rightarrow> bool" where
  "serves A pg wfs \<longleftrightarrow>
     (\<forall>url auth w. fst (ci_pipelines A url auth w) = Inr (Some (pg url))) \<and>
     (\<forall>i auth w. fst (ci_workflows A (workflowsUrl i) auth w) = Inr (Some (Some (wfs i))))"

text \<open>The pages from a token on, to the last.\<close>

fun pages_from :: "(string \<Rightarrow> pipelines_page) \<Rightarrow> ci_config \<Rightarrow> string option \<Rightarrow> ci_pipeline list list \<Rightarrow> bool" where
  "pages_from pg cfg tok [] \<longleftrightarrow> False"
| "pages_from pg cfg tok [items] \<longleftrightarrow>
     page_items (pg (pipelinesUrl cfg tok)) = Some items \<and> \<not> truthy (page_next (pg (pipelinesUrl cfg tok)))"
| "pages_from pg cfg tok (items # rest) \<longleftrightarrow>
     page_items (pg (pipelinesUrl cfg tok)) = Some items \<and> truthy (page_next (pg (pipelinesUrl cfg tok))) \<and>
     pages_from pg cfg (page_next (pg (pipelinesUrl cfg tok))) rest"

lemma searchPage_finds:
  assumes "serves A pg wfs"
  obtains w' where "searchPage A cfg ps w = (Inr (map_option revision (find (successful cfg wfs) ps)), w')"
proof -
  have "\<exists>w'. searchPage A cfg ps w = (Inr (map_option revision (find (successful cfg wfs) ps)), w')"
  proof (induction ps arbitrary: w)
    case (Cons p ps)
    obtain w1 where w1: "ci_workflows A (workflowsUrl (pl_id p)) (cfg_authorization cfg) w = (Inr (Some (Some (wfs (pl_id p)))), w1)"
      using assms unfolding serves_def by (metis prod.collapse)
    show ?case
      using Cons.IH [of w] Cons.IH [of w1] w1
      by (cases "pl_vcs p")
         (auto simp: getPipelineWorkflows_def run_simps successful_def revision_def list_ex_iff failedWorkflow_def Let_def)
  qed (simp add: ret_def)
  then show thesis using that by blast
qed

lemma searchNext_finds:
  assumes s: "serves A pg wfs" and items: "page_items (pg (pipelinesUrl cfg tok)) = Some items"
  obtains w' where "searchNext A cfg tok w =
    (case find (successful cfg wfs) items of
       Some p \<Rightarrow> Over (Some (revision p))
     | None \<Rightarrow> (if truthy (page_next (pg (pipelinesUrl cfg tok)))
         then Next (the (page_next (pg (pipelinesUrl cfg tok)))) else Over None), w')"
proof -
  obtain w1 where w1: "ci_pipelines A (pipelinesUrl cfg tok) (cfg_authorization cfg) w = (Inr (Some (pg (pipelinesUrl cfg tok))), w1)"
    using s unfolding serves_def by (metis prod.collapse)
  obtain w2 where "searchPage A cfg items w1 = (Inr (map_option revision (find (successful cfg wfs) items)), w2)"
    by (rule searchPage_finds [OF s])
  with w1 items show thesis
    by (intro that [of w2]) (auto simp: searchNext_def getPipelines_def run_simps split: option.split)
qed

lemma loop_finds:
  assumes s: "serves A pg wfs"
  shows "pages_from pg cfg tok pages \<Longrightarrow>
    \<exists>w'. startLoop A cfg tok w = Some (Over (map_option revision (find (successful cfg wfs) (concat pages))), w')"
proof (induction pages arbitrary: tok w)
  case (Cons items rest)
  have items: "page_items (pg (pipelinesUrl cfg tok)) = Some items"
    using Cons.prems by (cases rest) simp_all
  obtain w1 where step: "searchNext A cfg tok w =
    (case find (successful cfg wfs) items of
       Some p \<Rightarrow> Over (Some (revision p))
     | None \<Rightarrow> (if truthy (page_next (pg (pipelinesUrl cfg tok)))
         then Next (the (page_next (pg (pipelinesUrl cfg tok)))) else Over None), w1)"
    by (rule searchNext_finds [OF s items])
  have app: "find P (xs @ ys) = (case find P xs of None \<Rightarrow> find P ys | Some x \<Rightarrow> Some x)" for P and xs ys :: "ci_pipeline list"
    by (induction xs) simp_all
  show ?case
  proof (cases "find (successful cfg wfs) items")
    case (Some p)
    with step show ?thesis by (simp add: startLoop.simps [of A cfg tok] next_token_def app)
  next
    case None
    show ?thesis
    proof (cases rest)
      case Nil
      with Cons.prems None step show ?thesis by (simp add: startLoop.simps [of A cfg tok] next_token_def)
    next
      case (Cons items' rest')
      with Cons.prems obtain t where t: "page_next (pg (pipelinesUrl cfg tok)) = Some t" "t \<noteq> []"
        and more: "pages_from pg cfg (Some t) rest"
        by (cases "page_next (pg (pipelinesUrl cfg tok))") simp_all
      then show ?thesis
        using Cons.IH [OF more, of w1] None step
        by (simp add: startLoop.simps [of A cfg tok] next_token_def app Let_def)
    qed
  qed
qed simp

text \<open>The script finds what it looks for: with valid arguments and an API that always answers, whose pages come to
  an end, it ends with status 0 and prints the revision of the first pipeline, in the order of the pages,
  that is of the branch, was not refused and has no workflow that failed, or nothing if there is none;
  a pipeline without any workflow counts as successful.\<close>

theorem last_commit_first_successful:
  assumes "processArgs base64 argv = Inr cfg" and "\<not> cfg_debug cfg" and "serves A pg wfs" and "pages_from pg cfg None pages"
  shows "\<exists>w'. lastCommit A base64 argv w = Some ((0, map_option revision (find (successful cfg wfs) (concat pages))), w') \<and>
     (\<forall>p. wfs (pl_id p) = [] \<longrightarrow> successful cfg wfs p =
        (pl_state p \<noteq> ''errored'' \<and> map_option vcs_branch (pl_vcs p) = Some (Some (cfg_branch cfg))))"
proof -
  obtain w' where "startLoop A cfg None w = Some (Over (map_option revision (find (successful cfg wfs) (concat pages))), w')"
    using loop_finds [OF assms(3,4)] by blast
  with assms(1,2) show ?thesis
    by (cases "find (successful cfg wfs) (concat pages)") (auto simp: lastCommit_def report_def successful_def)
qed

text \<open>Whether the loop over the pages ends is up to the API: when the pages of a set of tokens hold no successful
  pipeline and each names a next token of the set, the loop from one of them never ends.\<close>

theorem loop_over_pages_never_ends:
  assumes s: "serves A pg wfs"
    and pages: "\<And>tok. tok \<in> T \<Longrightarrow> \<exists>items t. page_items (pg (pipelinesUrl cfg tok)) = Some items \<and>
       find (successful cfg wfs) items = None \<and> page_next (pg (pipelinesUrl cfg tok)) = Some t \<and> t \<noteq> '''' \<and> Some t \<in> T"
    and tok: "tok \<in> T"
  shows "startLoop A cfg tok w = None"
proof -
  have "A' = A \<and> cfg' = cfg \<longrightarrow> tok \<notin> T" if "startLoop A' cfg' tok w = Some y" for A' :: "'a ci" and cfg' tok w y
  proof (rule startLoop.raw_induct [OF _ that], intro impI notI)
    fix f :: "'a ci \<Rightarrow> ci_config \<Rightarrow> string option \<Rightarrow> 'a \<Rightarrow> (search \<times> 'a) option" and A' cfg' tok w y
    assume IH: "\<And>A' cfg' tok w y. f A' cfg' tok w = Some y \<Longrightarrow> A' = A \<and> cfg' = cfg \<longrightarrow> tok \<notin> T"
      and step: "(let r = searchNext A' cfg' tok w in if next_token (fst r) = None then Some r else f A' cfg' (next_token (fst r)) (snd r)) = Some y"
      and same: "A' = A \<and> cfg' = cfg" and "tok \<in> T"
    obtain items t where page: "page_items (pg (pipelinesUrl cfg tok)) = Some items" "find (successful cfg wfs) items = None"
      "page_next (pg (pipelinesUrl cfg tok)) = Some t" "t \<noteq> []" "Some t \<in> T"
      using pages [OF \<open>tok \<in> T\<close>] by blast
    obtain w' where "searchNext A cfg tok w = (Next t, w')"
      using searchNext_finds [OF s page(1), of w] page(2-4) by auto
    with step same IH [of A cfg "Some t" w' y] page(5) show False by (simp add: next_token_def)
  qed
  with tok show ?thesis by (cases "startLoop A cfg tok w") auto
qed

section \<open>The arguments\<close>

text \<open>What follows a second \<open>=\<close> is lost.\<close>

lemma long_arg_value:
  assumes "CHR ''='' \<notin> set k" and "CHR ''='' \<notin> set v"
  shows "long_arg (''--'' @ k @ ''='' @ v) m = assign_arg k (Text v) m"
    and "long_arg (''--'' @ k @ ''='' @ v @ ''='' @ rest) m = assign_arg k (Text v) m"
  using assms split_on_part [of "CHR ''=''" "''--'' @ k" v] split_on_part [of "CHR ''=''" "''--'' @ k" "v @ ''='' @ rest"]
    split_on_part [of "CHR ''=''" v rest]
  by (auto simp: long_arg_def split_on_none split: list.split)

lemma processArgs_plain:
  assumes "CHR ''='' \<notin> set u \<union> set r \<union> set b" and "u \<noteq> ''''" "r \<noteq> ''''" "b \<noteq> ''''"
  shows "processArgs base64 [''--user='' @ u, ''--repo='' @ r, ''--branch='' @ b] =
     Inr \<lparr>cfg_debug = False, cfg_branch = b, cfg_projectslug = slugPrefix @ r, cfg_authorization = ''Basic '' @ base64 (u @ '':'')\<rparr>"
proof -
  have "read_arg (''--user='' @ u) m = m(''user'' \<mapsto> Text u)" "read_arg (''--repo='' @ r) m = m(''repo'' \<mapsto> Text r)"
    "read_arg (''--branch='' @ b) m = m(''branch'' \<mapsto> Text b)" for m
    using long_arg_value(1) [of "''user''" u m] long_arg_value(1) [of "''repo''" r m] long_arg_value(1) [of "''branch''" b m] assms(1)
    by (simp_all add: read_arg_def assign_arg_def)
  then show ?thesis using assms(2-4) by (simp add: processArgs_def getArgs_def text_arg_def Let_def)
qed

end
