(* ===== verification/Load_Scripts.thy ===== *)
theory Load_Scripts
  imports Agg_State Config
begin

text \<open>
  The two scripts for load tests (\<open>scripts/sender.js\<close>, \<open>scripts/fulfilResponder.js\<close>): one sends batches of
  requested prepares, the other answers prepared transfers with requested fulfils and measures how long
  the transfers took.  Kafka is behind the operations of a parameter (\<open>broker\<close>), whose worlds also hold
  the clock and the source of identifiers.
\<close>

section \<open>sender.js\<close>

record prepare_sent =
  ps_transferId :: string
  ps_payeeFsp :: string
  ps_payerFsp :: string
  ps_amount :: string
  ps_currencyCode :: string
  ps_ilpPacket :: string
  ps_condition :: string
  ps_expiration :: int
  ps_extensionList :: "(string \<times> string) list"
  ps_requesterFspId :: string
  ps_destinationFspId :: "string option"
  ps_prepareSendTimestamp :: int
  ps_msgKey :: string

record fulfil_sent =
  fs_transferId :: string
  fs_transferState :: string
  fs_fulfilment :: string
  fs_completedTimestamp :: int
  fs_extensionList :: "(string \<times> string) list option"
  fs_headers :: "(string \<times> string option) list option"
  fs_prepareSendTimestamp :: "int option"
  fs_committedSendTimestamp :: int

record 'w broker =
  br_now :: "'w \<Rightarrow> int \<times> 'w"
  br_uuid :: "'w \<Rightarrow> string \<times> 'w"
  br_sendPrepares :: "prepare_sent list \<Rightarrow> ('w, unit) call"
  br_sendFulfils :: "fulfil_sent list \<Rightarrow> ('w, unit) call"

definition sender_KAFKA_URL :: "environment \<Rightarrow> string" where
  "sender_KAFKA_URL env = setting env ''KAFKA_URL'' ''localhost:9092''"

definition MESSAGE_COUNT :: nat where "MESSAGE_COUNT = 1"
definition BATCH_SIZE :: nat where "BATCH_SIZE = 1"

definition newPrepareEvt :: "int \<Rightarrow> string \<Rightarrow> prepare_sent" where
  "newPrepareEvt n u =
     \<lparr>ps_transferId = u, ps_payeeFsp = ''bluebank'', ps_payerFsp = ''greenbank'', ps_amount = ''2'',
      ps_currencyCode = ''EUR'', ps_ilpPacket = '''', ps_condition = '''', ps_expiration = n + 5 * 60 * 1000,
      ps_extensionList = [], ps_requesterFspId = ''greenbank'', ps_destinationFspId = None,
      ps_prepareSendTimestamp = n, ps_msgKey = u\<rparr>"

primrec prepareEvts :: "'w broker \<Rightarrow> int \<Rightarrow> nat \<Rightarrow> 'w \<Rightarrow> prepare_sent list \<times> 'w" where
  "prepareEvts B n 0 w = ([], w)"
| "prepareEvts B n (Suc k) w =
     (case br_uuid B w of (u, w1) \<Rightarrow> case prepareEvts B n k w1 of (evts, w2) \<Rightarrow> (newPrepareEvt n u # evts, w2))"

definition sendNewPrepareEvt :: "'w broker \<Rightarrow> nat \<Rightarrow> ('w, unit) call" where
  "sendNewPrepareEvt B batchSize w =
     (case br_now B w of (n, w1) \<Rightarrow> case prepareEvts B n batchSize w1 of (toSend, w2) \<Rightarrow> br_sendPrepares B toSend w2)"

text \<open>
  \<open>send\<close>, which schedules itself again until \<open>sent\<close> has passed \<open>MESSAGE_COUNT\<close>, or for ever if that is 0;
  then \<open>process.exit()\<close> is called, before its result is given to \<open>setTimeout\<close>.  A rejection is nowhere
  caught and ends the process with status 999.  The result is the status and the number of messages sent.
\<close>

partial_function (option) send :: "'w broker \<Rightarrow> nat \<Rightarrow> nat \<Rightarrow> nat \<Rightarrow> 'w \<Rightarrow> ((int \<times> nat) \<times> 'w) option" where
  "send B count batchSize sent w =
     (let r = sendNewPrepareEvt B batchSize w; sent' = sent + batchSize in
      if isl (fst r) then Some ((999, sent), snd r)
      else if count = 0 \<or> sent' \<le> count then send B count batchSize sent' (snd r)
      else Some ((0, sent'), snd r))"

text \<open>The sender always sends a batch too many: it stops at the first multiple of the batch size that is
  greater than the number of messages it is to send.\<close>

lemma sends:
  assumes ok: "\<And>evts w. fst (br_sendPrepares B evts w) = Inr ()" and "0 < count" "0 < batchSize"
  shows "k * batchSize \<le> count \<Longrightarrow>
    \<exists>w'. send B count batchSize (k * batchSize) w = Some ((0, (count div batchSize + 1) * batchSize), w')"
proof (induction "count - k * batchSize" arbitrary: k w rule: less_induct)
  case less
  have sent: "fst (sendNewPrepareEvt B batchSize w) = Inr ()"
    by (simp add: sendNewPrepareEvt_def ok split: prod.split)
  let ?w = "snd (sendNewPrepareEvt B batchSize w)"
  show ?case
  proof (cases "Suc k * batchSize \<le> count")
    case True
    then have "count - Suc k * batchSize < count - k * batchSize" using assms(3) by simp
    from less.hyps [OF this True, of ?w] True sent show ?thesis
      by (simp add: send.simps [of B count batchSize "k * batchSize"] Let_def add.commute)
  next
    case False
    then have "count div batchSize = k"
      using less.prems by (intro div_nat_eqI) (simp_all add: algebra_simps)
    with False sent assms(2) show ?thesis
      by (simp add: send.simps [of B count batchSize "k * batchSize"] Let_def add.commute)
  qed
qed

theorem sender_sends_too_many:
  assumes "\<And>evts w. fst (br_sendPrepares B evts w) = Inr ()" and "0 < count" and "0 < batchSize"
  shows "\<exists>n w'. send B count batchSize 0 w = Some ((0, n), w') \<and> count < n \<and> n \<le> count + batchSize"
proof -
  obtain w' where "send B count batchSize 0 w = Some ((0, (count div batchSize + 1) * batchSize), w')"
    using sends [OF assms, of 0 w] by auto
  moreover have "count < (count div batchSize + 1) * batchSize"
    using assms(3) dividend_less_div_times [of batchSize count] by (simp add: add.commute mult.commute)
  moreover have "(count div batchSize + 1) * batchSize \<le> count + batchSize"
    using div_times_less_eq_dividend [of count batchSize] by simp
  ultimately show ?thesis by blast
qed

section \<open>fulfilResponder.js\<close>

text \<open>The settings; in single mode, which any text turns on, the consumer has no batches.\<close>

definition responder_KAFKA_URL :: "environment \<Rightarrow> string" where
  "responder_KAFKA_URL env = setting env ''KAFKA_URL'' ''192.168.1.94:9092''"

definition SINGLE_MODE :: "environment \<Rightarrow> bool" where
  "SINGLE_MODE env \<longleftrightarrow> truthy (env ''SINGLE_MODE'')"

definition responderConsumerOptions :: "environment \<Rightarrow> kafka_consumer_options" where
  "responderConsumerOptions env =
     \<lparr>kc_brokerList = responder_KAFKA_URL env,
      kc_groupId = ''transfs_perftest2_fulfilResponder'',
      kc_batchSize = (if SINGLE_MODE env then None else Some (number_setting env ''CONSUMER_BATCH_SIZE'' 200)),
      kc_batchTimeoutMs = (if SINGLE_MODE env then None else Some (number_setting env ''CONSUMER_BATCH_TIMEOUT_MS'' 50)),
      kc_authentication = None\<rparr>"

text \<open>A message: its name, its transfer, and its \<open>fspiopOpaqueState\<close>, which may be missing or lack the time of
  the prepare.\<close>

record message =
  msg_name :: string
  msg_transferId :: string
  msg_opaqueState :: "int option option"

record 'w responder =
  rs_world :: 'w
  received :: nat
  eventsToPublish :: "fulfil_sent list"
  overallMaxDuration :: int
  batchMaxDuration :: int
  batchTotalDuration :: int
  batchProcessed :: nat

type_synonym ('w, 'a) responding = "(exn, 'w responder, 'a) action"

definition reads_now :: "'w broker \<Rightarrow> ('w, int) responding" where
  "reads_now B s = (case br_now B (rs_world s) of (n, w) \<Rightarrow> (Inr n, s\<lparr>rs_world := w\<rparr>))"

definition sendFulfils :: "'w broker \<Rightarrow> fulfil_sent list \<Rightarrow> ('w, unit) responding" where
  "sendFulfils B evts s = (case br_sendFulfils B evts (rs_world s) of (r, w) \<Rightarrow> (r, s\<lparr>rs_world := w\<rparr>))"

text \<open>The headers are those of the new event, which has none yet.\<close>

definition respond :: "'w broker \<Rightarrow> bool \<Rightarrow> message \<Rightarrow> int \<Rightarrow> ('w, unit) responding" where
  "respond B single m n =
     andThen (reads_now B) (\<lambda>completed.
       case msg_opaqueState m of
         None \<Rightarrow> raise TypeError
       | Some ts \<Rightarrow>
           let evt = \<lparr>fs_transferId = msg_transferId m, fs_transferState = ''COMMITTED'', fs_fulfilment = ''abc'',
                      fs_completedTimestamp = completed, fs_extensionList = None, fs_headers = None,
                      fs_prepareSendTimestamp = ts, fs_committedSendTimestamp = n\<rparr> in
           if single then sendFulfils B [evt]
           else modify (\<lambda>s. s\<lparr>eventsToPublish := eventsToPublish s @ [evt], batchProcessed := batchProcessed s + 1\<rparr>))"

text \<open>The log line of the single mode names a variable that does not exist.\<close>

definition measure_duration :: "'w broker \<Rightarrow> bool \<Rightarrow> message \<Rightarrow> ('w, unit) responding" where
  "measure_duration B single m =
     andThen (reads_now B) (\<lambda>n.
       case msg_opaqueState m of
         Some (Some ts) \<Rightarrow>
           if ts = 0 then ret ()
           else andThen (modify (\<lambda>s. s\<lparr>received := received s + 1,
                  batchMaxDuration := max (batchMaxDuration s) (n - ts),
                  batchTotalDuration := batchTotalDuration s + (n - ts)\<rparr>)) (\<lambda>_.
             if single then raise (OtherError ''ReferenceError'')
             else modify (\<lambda>s. s\<lparr>batchProcessed := batchProcessed s + 1\<rparr>))
       | _ \<Rightarrow> ret ())"

definition responderHandler :: "'w broker \<Rightarrow> bool \<Rightarrow> message \<Rightarrow> ('w, unit) responding" where
  "responderHandler B single m =
     andThen (reads_now B) (\<lambda>n.
       if msg_name m = ''TransferPreparedEvt'' then respond B single m n
       else if msg_name m = ''TransferFulfiledEvt'' then measure_duration B single m
       else ret ())"

definition responderBatchHandler :: "'w broker \<Rightarrow> bool \<Rightarrow> message list \<Rightarrow> ('w, unit) responding" where
  "responderBatchHandler B single messages =
     andThen (modify (\<lambda>s. s\<lparr>batchProcessed := 0, batchTotalDuration := 0, batchMaxDuration := 0, eventsToPublish := []\<rparr>)) (\<lambda>_.
     andThen (forEach messages (responderHandler B single)) (\<lambda>_.
     andThen (modify (\<lambda>s. s\<lparr>overallMaxDuration := max (overallMaxDuration s) (batchMaxDuration s)\<rparr>)) (\<lambda>_.
     andThen (reads eventsToPublish) (sendFulfils B))))"

text \<open>What a batch publishes, as a reference: one fulfil for each prepared transfer, in their order.\<close>

definition ids_to_answer :: "message list \<Rightarrow> string list" where
  "ids_to_answer messages = map msg_transferId (filter (\<lambda>m. msg_name m = ''TransferPreparedEvt'') messages)"

definition measured :: "message \<Rightarrow> bool" where
  "measured m \<longleftrightarrow> msg_name m = ''TransferFulfiledEvt'' \<and> (\<exists>ts. msg_opaqueState m = Some (Some ts) \<and> ts \<noteq> 0)"

definition answerable :: "message \<Rightarrow> bool" where
  "answerable m \<longleftrightarrow> (msg_name m = ''TransferPreparedEvt'' \<longrightarrow> msg_opaqueState m \<noteq> None)"

lemma handler_answers:
  assumes "answerable m"
  shows "wp (responderHandler B False m) (\<lambda>r s'. r = Inr () \<and>
     map fs_transferId (eventsToPublish s') = map fs_transferId (eventsToPublish s) @ ids_to_answer [m] \<and>
     received s' = received s + length (filter measured [m]) \<and>
     batchProcessed s' = batchProcessed s + length (filter measured [m]) + length (ids_to_answer [m])) s"
  using assms
  by (auto simp: responderHandler_def respond_def measure_duration_def reads_now_def wp_def run_simps answerable_def
      ids_to_answer_def measured_def Let_def split: prod.split option.split)

lemma batch_answers:
  assumes "\<And>m. m \<in> set ms \<Longrightarrow> answerable m"
  shows "wp (forEach ms (responderHandler B False)) (\<lambda>r s'. r = Inr () \<and>
     map fs_transferId (eventsToPublish s') = map fs_transferId (eventsToPublish s) @ ids_to_answer ms \<and>
     received s' = received s + length (filter measured ms) \<and>
     batchProcessed s' = batchProcessed s + length (filter measured ms) + length (ids_to_answer ms)) s"
  using assms
proof (induction ms arbitrary: s)
  case Nil
  show ?case by (simp add: wp_def ret_def ids_to_answer_def)
next
  case (Cons m ms)
  show ?case
    unfolding forEach.simps
    by (rule wp_andThen_I [OF handler_answers [of m B s]], use Cons.prems in simp, simp,
        rule wp_mono [OF Cons.IH], use Cons.prems in simp, auto simp: ids_to_answer_def)
qed

text \<open>A batch without a missing opaque state is answered: with one requested fulfil for each prepared transfer, in
  one call of the producer, and every fulfilled transfer whose prepare has a time is measured.\<close>

theorem responder_answers_batch:
  assumes "\<And>m. m \<in> set ms \<Longrightarrow> answerable m"
  shows "\<exists>evts s1. responderBatchHandler B False ms s = sendFulfils B evts s1 \<and> map fs_transferId evts = ids_to_answer ms \<and>
     received s1 = received s + length (filter measured ms) \<and>
     batchProcessed s1 = length (filter measured ms) + length (ids_to_answer ms)"
proof -
  let ?s = "s\<lparr>batchProcessed := 0, batchTotalDuration := 0, batchMaxDuration := 0, eventsToPublish := []\<rparr>"
  obtain s1 where run: "forEach ms (responderHandler B False) ?s = (Inr (), s1)"
    and s1: "map fs_transferId (eventsToPublish s1) = ids_to_answer ms" "received s1 = received s + length (filter measured ms)"
      "batchProcessed s1 = length (filter measured ms) + length (ids_to_answer ms)"
    using batch_answers [OF assms, of ms B ?s] by (cases "forEach ms (responderHandler B False) ?s") (auto simp: wp_def)
  from run s1 show ?thesis
    by (intro exI [of _ "eventsToPublish s1"]
        exI [of _ "s1\<lparr>overallMaxDuration := max (overallMaxDuration s1) (batchMaxDuration s1)\<rparr>"])
       (simp add: responderBatchHandler_def run_simps)
qed

text \<open>One prepared transfer without an opaque state, and the batch is rejected with none of its fulfils sent: the
  broker has only been asked for the time.\<close>

theorem responder_rejects_batch:
  assumes "m \<in> set ms" and "\<not> answerable m" and clock: "\<And>w. P w \<Longrightarrow> P (snd (br_now B w))" and "P (rs_world s)"
  shows "fst (responderBatchHandler B False ms s) = Inl TypeError \<and> P (rs_world (snd (responderBatchHandler B False ms s)))"
proof -
  have one: "wp (responderHandler B False m) (\<lambda>r s'. r = (if answerable m then Inr () else Inl TypeError) \<and>
     P (rs_world s')) s" if "P (rs_world s)" for m s
  proof -
    obtain n w1 where w1: "br_now B (rs_world s) = (n, w1)" by fastforce
    obtain n2 w2 where w2: "br_now B w1 = (n2, w2)" by fastforce
    have "P w1" "P w2" using clock [OF that] clock [of w1] w1 w2 by simp_all
    with w1 w2 show ?thesis
      by (auto simp: responderHandler_def respond_def measure_duration_def reads_now_def wp_def run_simps answerable_def
          Let_def split: option.split)
  qed
  have "P (rs_world s) \<Longrightarrow> m \<in> set ms \<Longrightarrow>
     wp (forEach ms (responderHandler B False)) (\<lambda>r s'. r = Inl TypeError \<and> P (rs_world s')) s" for s
  proof (induction ms arbitrary: s)
    case (Cons m' ms)
    show ?case
      unfolding forEach.simps
      by (rule wp_andThen_I [OF one [OF Cons.prems(1), of m']])
         (use Cons.IH Cons.prems(2) assms(2) in \<open>auto split: if_splits\<close>)
  qed simp
  from this [OF _ assms(1), of "s\<lparr>batchProcessed := 0, batchTotalDuration := 0, batchMaxDuration := 0, eventsToPublish := []\<rparr>"] assms(4)
  show ?thesis by (auto simp: responderBatchHandler_def run_simps wp_def split: prod.splits)
qed

end
