(* ===== verification/Spec2Isabelle.thy ===== *)
theory Spec2Isabelle
  imports Life_Cycle_Witnesses Service_Witnesses Mocks Repo_Errors Wiring Wait Fixtures
    Connections Last_Commit Load_Scripts
begin

text \<open>
  Verification of the transfers bounded context of Mojaloop (\<open>transfers-bc\<close>).

  \<^bold>\<open>The program.\<close>  Events of the payment scheme reach the event handler
  (\<open>packages/event-handler-svc/src/handler.ts\<close>), which turns them into commands.  The command handler
  (\<open>packages/command-handler-svc/src/handler.ts\<close>) gives batches of commands to \<open>TransfersAggregate\<close>
  (\<open>packages/domain-lib/src/aggregate.ts\<close>).  A batch has three phases: every command runs its \<open>start\<close>
  handler, which validates it and may queue a request to Accounts & Balances; the requests are sent in
  one call and each response runs a \<open>continue\<close> handler; queued cancellations are sent.  At the end the
  cached transfers are stored and the output events published.  The aggregate reaches everything else
  through interfaces (\<open>domain-lib/src/interfaces/infrastructure.ts\<close>), implemented by MongoDB
  repositories and client adapters in \<open>packages/implementations-lib\<close>.

  \<^bold>\<open>The model.\<close>  Every handler is an action: a function from the state to a result and a new state, the
  result being an error (\<open>Inl\<close>, a thrown exception or a rejected promise) or a value (\<open>Inr\<close>).
  \<^item> \<open>Prelude\<close>: actions, their weakest preconditions, preservation of an invariant, and the contract of a
    keyed map, interpreted on the association lists that stand for a JavaScript \<open>Map\<close> (insertion order).
  \<^item> \<open>Json\<close>: JSON values, \<open>deepMerge\<close> of \<open>utils.ts\<close>, the \<open>JSON.stringify\<close> of flat objects.
  \<^item> \<open>Types\<close>: enums, errors, entities, commands, events, participants, requests and responses.
  \<^item> \<open>Agg_State\<close>: the fields of \<open>TransfersAggregate\<close>.  A transfer is an object: the caches hold references
    into a store, so that a handler changes a cached transfer in place, as the code does.  \<open>env\<close> collects
    the operations of the interfaces; they run on an abstract world \<open>'w\<close>.  \<open>_getTransfer\<close>, \<open>_flush\<close>.
  \<^item> \<open>Participants\<close>: \<open>_getParticipantsInfo\<close>, \<open>_getTransferParticipantsAccounts\<close> and the error tables.
  \<^item> \<open>Prepare\<close>, \<open>Fulfil\<close>, \<open>Reject_Query\<close>, \<open>Bulk\<close>: the handlers; \<open>Batch\<close>: \<open>processCommandBatch\<close>, with what
    becomes of the promise it returns.
  \<^item> \<open>Js_Values\<close>: JavaScript numbers with \<open>NaN\<close> and the infinities, \<open>parseInt\<close>, \<open>trim\<close>, \<open>split\<close>.
  \<^item> \<open>Repositories\<close>: the MongoDB and memory repositories; \<open>Adapters\<close>: the external adapters and the
    aggregate as it is deployed; \<open>Handlers\<close>: the two services' batch callbacks.
  \<^item> \<open>Api\<close>: the administration routes (\<open>transfers-api-svc/src/routes\<close>) with their authentication and
    privileges; \<open>Http\<close>: the HTTP servers of the three services.
  \<^item> \<open>Config\<close>: the settings the services read from their environment; \<open>Services\<close>: the start, the stop and the
    signal handling of their processes, as a step relation.
    \<open>Wiring\<close>: the constants, databases, credentials and ports that the services hand to their components.
  \<^item> \<open>Connections\<close>: \<open>start\<close> and \<open>stop\<close> of the message handlers, the connection and the credentials of the
    adapters, the accounts and credentials of the doubles.
  \<^item> \<open>Repo_Errors\<close>: the error classes of \<open>implementations-lib/src/errors.ts\<close>.
  \<^item> \<open>Mocks\<close>: the doubles of \<open>shared-mocks-lib\<close> on which the unit tests run, and the aggregate on them;
    \<open>Fixtures\<close>: its test data; \<open>Wait\<close>: \<open>waitForExpect\<close>, the loop of the integration tests.
  \<^item> \<open>Last_Commit\<close>: the script of the build that finds the last successful commit (\<open>.circleci/getLastCommit.js\<close>);
    \<open>Load_Scripts\<close>: the sender and the responder of the load tests (\<open>scripts\<close>).  CircleCI and Kafka are parameters.

  \<^bold>\<open>What is proved.\<close>
  \<^item> The gate: a transfer passes the checks only with a hub, payer and payee that exist, are approved
    and active, and with the five accounts; otherwise the first violation is reported.
  \<^item> Each handler's answer on every branch (\<open>Prepare\<close>, \<open>Fulfil\<close>, \<open>Reject_Query\<close>): how many events and
    requests it adds, with which contents, and how the transfer changes.
  \<^item> Invariants of whole batches (\<open>Invariants\<close>), through the locale \<open>agg_invariant\<close>, which reduces an
    invariant of the aggregate to a few laws on object updates: the cache stays keyed by the
    identifiers of its objects, the agreed terms of a transfer never change, the start phase only ever
    aborts, no transfer goes back to \<open>RECEIVED\<close>.
  \<^item> The batch itself (\<open>Batch_Properties\<close>, \<open>Frames\<close>): skipped and invalid messages, the outcome of the
    promise, which command a response is continued with, and the items that a bulk transfer counts.
  \<^item> Nothing is granted unasked (\<open>Commit_Safety\<close>, \<open>History\<close>): over every history of batches, a transfer is
    reserved or committed only if a command asked for it and Accounts & Balances agreed in the call of
    that batch; terms never change; a handler that lives on has completed all its batches, and which
    redelivered commands end it.
  \<^item> On a healthy platform a prepare and a fulfil are carried out to the end (\<open>End_To_End\<close>), and so are all
    the commands of a batch about different transfers (\<open>Many_Commands\<close>), the requests that reach the
    event handler and pass through both services (\<open>Pipeline\<close>), a bulk prepare (\<open>Bulk_End_To_End\<close>) and a bulk
    fulfil (\<open>Bulk_Fulfil_End_To_End\<close>).  The last two are instances of one scheme, the locale of \<open>Bulk_Items\<close>.
    A reject, the timeout of a reservation (\<open>Abort_End_To_End\<close>) and a bulk reject (\<open>Bulk_Reject_End_To_End\<close>) are
    cancelled to the end.
    These rest on \<open>Request_Ids\<close>: no two requests of a batch share an identifier, so every response finds
    its request.
  \<^item> \<open>Life_Cycle\<close>: the aggregate over MongoDB, a prepare and the fulfil of a later batch, document by document, and
    a reject, whose second write of the same transfer fails.  \<open>World_Frames\<close> has the frame for it, the locale
    \<open>call_frame\<close>, of which \<open>Request_Ids\<close> is the other interpretation.
  \<^item> \<open>Redelivery\<close>: of the commands that a batch holds twice, the prepares are ignored and the fulfils carried
    out twice.
  \<^item> Repositories and adapters: paging, round trip through MongoDB, when storing fails, what these do to the
    deployed aggregate, and which error classes an operation can reject with (\<open>Repo_Errors\<close>).
  \<^item> \<open>Store\<close>: an abstract store of transfers, with its operations and answers; the locale \<open>store_refinement\<close>
    states what a repository owes to such a store.  MongoDB's and the memory repository are interpretations, so
    runs of either refine the store, and, where neither departs from it, agree.  \<open>Bulk_Store\<close> is the same for
    the two repositories of bulk transfers.
  \<^item> The API: who gets data, that every authenticated request is answered, and the bounds of a page.
  \<^item> The processes (\<open>Services\<close>, \<open>Shutdown\<close>): the order of a start, what a clean exit has released, that a
    process told to stop ends, and what its exit status tells.
  \<^item> \<open>Merge\<close>: the value and the failures of \<open>deepMerge\<close>.
  \<^item> The scripts: what the search for the last commit finds and when it never ends, how many messages the sender
    sends, which batches the responder answers.
  The witnesses (\<open>Samples\<close>, \<open>Witnesses\<close>, \<open>Run_Witnesses\<close>, \<open>Pipeline_Witnesses\<close>, \<open>Life_Cycle_Witnesses\<close>, \<open>Service_Witnesses\<close>) apply the theorems on small concrete
  platforms.

  \<^bold>\<open>Bounds.\<close>  Every loop of the services is structural, so there is no fuel; the loops of the scripts may not end
  (\<open>partial_function\<close>), and the theorems say when they do; \<open>deepMerge\<close> recurses on
  the size of the source object, \<open>waitForExpect\<close> on the number of tries left.  A process may be signalled any number of times; the bound on its
  steps counts the signals.  Time values are \<open>int\<close>, invalid dates included (\<open>date_getTime\<close>).

  \<^bold>\<open>Outside the model.\<close>  Logging and metrics; the doubles that do nothing; the signal handlers of the scripts; SHA-256, UUIDs, clocks, number formatting, the database driver, Kafka, Express' routing,
  the token helper, the authorization client and the remote services, which are parameters.  Commands
  are those of the nine classes, an unknown name, or a missing payload: a payload of the wrong shape
  for its class is not modelled; query parameters are strings or absent, not repeated.  Two limits of
  \<open>deepMerge\<close>: subtrees shared between the source and the target after a merge are copies here, and
  arrays are merged by index without their \<open>length\<close> property being a key.

  \<^bold>\<open>What is left.\<close>  The queries to the end; batches with different commands for one transfer.
\<close>

section \<open>A prepare and its fulfil in one batch\<close>

definition prepared_without_payload :: "event \<Rightarrow> bool" where
  "prepared_without_payload ev \<longleftrightarrow>
     (case ev of
        TransferPreparedEvt p \<Rightarrow> pe_payerFsp p = None \<and> pe_payeeFsp p = None \<and> pe_amount p = None \<and>
          pe_currencyCode p = None
      | _ \<Rightarrow> False)"

text \<open>A prepare and the fulfil of the same transfer in one batch both succeed, and the transfer is stored
  as committed; but the event that announces the prepared transfer names neither the parties nor the
  amount, since the answer to the reservation was continued with the fulfil command.\<close>

theorem same_batch_prepared_without_payload:
  "(case processCommandBatch (sampleEnv sampleDirectory)
       [sampleMsg (PrepareTransferCmd samplePrepare), sampleMsg (CommitTransferFulfilCmd sampleFulfil)]
       (emptyState 10) of
     (out, s') \<Rightarrow> (out, map transferState (sw_docs (world s')),
       map (prepared_without_payload \<circ> evt_body) (outputEvents s')))
   = (Resolved, [COMMITTED], [True, False])"
  by code_simp

end
